(* ===== verification/Hos_Prelude.thy ===== *)
theory Hos_Prelude
  imports Main "HOL-Library.Word"
begin

text \<open>
  Shared vocabulary of the development: the machine integers and their saturating and
  checked operations, account identifiers and public keys, the host environment of a NEAR
  receipt, the functions of third-party packages that the contracts call (collected in the
  record \<open>host\<close> and passed as a parameter to every definition that uses one), the outcome
  of a contract call, iterable sets, and the rule by which a failed call leaves the state
  unchanged. The locales \<open>iterable_set\<close>, \<open>invariant_step\<close> and \<open>monotone_step\<close> are the
  interfaces that the component theories interpret on their own definitions.
\<close>

named_theorems sat_simps \<open>natural-number readings of the saturating word operations\<close>
named_theorems contract_simps \<open>unfolding rules for guards and outcomes of contract calls\<close>

section \<open>Machine integers\<close>

type_synonym u8 = "8 word"
type_synonym u16 = "16 word"
type_synonym u32 = "32 word"
type_synonym u64 = "64 word"
type_synonym u128 = "128 word"
type_synonym byte = "8 word"

text \<open>Rust's \<open>saturating_add\<close>, \<open>saturating_sub\<close>, \<open>saturating_mul\<close> and the checked
  operations that the release profile's \<open>overflow-checks = true\<close> turns into panics.\<close>

definition sat_add :: "'a::len word \<Rightarrow> 'a word \<Rightarrow> 'a word" where
  "sat_add a b = (if unat a + unat b < 2 ^ LENGTH('a) then a + b else - 1)"

definition sat_sub :: "'a::len word \<Rightarrow> 'a word \<Rightarrow> 'a word" where
  "sat_sub a b = (if a < b then 0 else a - b)"

definition sat_mul :: "'a::len word \<Rightarrow> 'a word \<Rightarrow> 'a word" where
  "sat_mul a b = (if unat a * unat b < 2 ^ LENGTH('a) then a * b else - 1)"

definition checked_add :: "'a::len word \<Rightarrow> 'a word \<Rightarrow> 'a word option" where
  "checked_add a b = (if unat a + unat b < 2 ^ LENGTH('a) then Some (a + b) else None)"

definition checked_mul :: "'a::len word \<Rightarrow> 'a word \<Rightarrow> 'a word option" where
  "checked_mul a b = (if unat a * unat b < 2 ^ LENGTH('a) then Some (a * b) else None)"

lemma unat_max_word: "unat (- 1 :: 'a::len word) = 2 ^ LENGTH('a) - 1"
  by (simp add: unsigned_minus_1_eq_mask mask_eq_exp_minus_1)

lemma unat_of_nat_small:
  "n < 2 ^ LENGTH('a) \<Longrightarrow> unat (word_of_nat n :: 'a::len word) = n"
  by (simp add: unat_of_nat)

lemma unat_le_max: "unat w \<le> 2 ^ LENGTH('a) - 1" for w :: "'a::len word"
proof -
  have "unat w < 2 ^ LENGTH('a)" by (rule unsigned_less)
  then show ?thesis by linarith
qed

lemma unat_sat_add [sat_simps]:
  "unat (sat_add a b) = min (unat a + unat b) (2 ^ LENGTH('a) - 1)"
  for a b :: "'a::len word"
  by (auto simp: sat_add_def unat_max_word unat_word_ariths min_def)

lemma unat_sat_add_exact:
  "unat a + unat b < 2 ^ LENGTH('a) \<Longrightarrow> unat (sat_add a b) = unat a + unat b"
  for a b :: "'a::len word"
  by (simp add: unat_sat_add)

lemma unat_sat_sub [sat_simps]: "unat (sat_sub a b) = unat a - unat b"
  for a b :: "'a::len word"
proof (cases "a < b")
  case True
  then show ?thesis by (simp add: sat_sub_def word_less_nat_alt)
next
  case False
  then have "b \<le> a" by simp
  with False show ?thesis by (simp add: sat_sub_def unat_sub)
qed

lemma unat_sat_mul [sat_simps]:
  "unat (sat_mul a b) = min (unat a * unat b) (2 ^ LENGTH('a) - 1)"
  for a b :: "'a::len word"
proof (cases "unat a * unat b < 2 ^ LENGTH('a)")
  case True
  then show ?thesis by (simp add: sat_mul_def unat_word_ariths)
next
  case False
  then show ?thesis by (simp add: sat_mul_def unat_max_word min_absorb2 del: mult_is_0)
qed

lemma sat_add_ge: "a \<le> sat_add a b" for a b :: "'a::len word"
  using unat_le_max [of a] by (simp add: word_le_nat_alt unat_sat_add)

lemma sat_add_mono: "a \<le> a' \<Longrightarrow> sat_add a b \<le> sat_add a' b" for a b :: "'a::len word"
  by (simp add: word_le_nat_alt unat_sat_add)

lemma checked_add_Some:
  "checked_add a b = Some c \<Longrightarrow> unat c = unat a + unat b"
  by (auto simp: checked_add_def unat_word_ariths split: if_splits)

lemma checked_mul_Some:
  "checked_mul a b = Some c \<Longrightarrow> unat c = unat a * unat b"
  by (auto simp: checked_mul_def unat_word_ariths split: if_splits)

section \<open>Accounts, keys and JSON values\<close>

text \<open>Strings are byte strings, so \<open>length\<close> is Rust's \<open>len\<close>.\<close>

type_synonym AccountId = string

datatype CurveType = ED25519 | SECP256K1

datatype PublicKey = PublicKey (as_bytes: "byte list")

datatype json =
    JNull
  | JBool bool
  | JNum nat
  | JStr string
  | JArr "json list"
  | JObj "(string \<times> json) list"

definition str_bytes :: "string \<Rightarrow> byte list" where
  "str_bytes s = map of_char s"

lemma length_str_bytes [simp]: "length (str_bytes s) = length s"
  by (simp add: str_bytes_def)

lemma of_char_byte_inject [simp]: "(of_char c :: byte) = of_char d \<longleftrightarrow> c = d"
proof
  assume eq: "(of_char c :: byte) = of_char d"
  have b: "(of_char e :: nat) < 256" for e :: char
    by (rule nat_of_char_less_256)
  from eq have "unat (of_nat (of_char c) :: byte) = unat (of_nat (of_char d) :: byte)"
    by (simp add: of_nat_of_char)
  then have "(of_char c :: nat) mod 256 = of_char d mod 256"
    by (simp add: unat_of_nat)
  with b [of c] b [of d] have "(of_char c :: nat) = of_char d" by simp
  then show "c = d" by simp
qed simp

lemma str_bytes_inject [simp]: "str_bytes s = str_bytes t \<longleftrightarrow> s = t"
  unfolding str_bytes_def by (rule inj_map_eq_map) (auto intro: injI)

text \<open>Decimal text, the printed and the JSON form of integers.\<close>

fun nat_to_string :: "nat \<Rightarrow> string" where
  "nat_to_string n = (if n < 10 then [char_of (48 + n)]
     else nat_to_string (n div 10) @ [char_of (48 + n mod 10)])"

declare nat_to_string.simps [simp del]

text \<open>Rust's \<open>strip_prefix\<close> and \<open>strip_suffix\<close> on strings.\<close>

fun strip_prefix :: "'a list \<Rightarrow> 'a list \<Rightarrow> 'a list option" where
  "strip_prefix [] s = Some s"
| "strip_prefix (p # ps) [] = None"
| "strip_prefix (p # ps) (c # s) = (if p = c then strip_prefix ps s else None)"

definition strip_suffix :: "'a list \<Rightarrow> 'a list \<Rightarrow> 'a list option" where
  "strip_suffix p s = map_option rev (strip_prefix (rev p) (rev s))"

lemma strip_prefix_Some: "strip_prefix p s = Some r \<longleftrightarrow> s = p @ r"
  by (induction p s rule: strip_prefix.induct) auto

lemma strip_suffix_Some: "strip_suffix p s = Some r \<longleftrightarrow> s = r @ p"
proof -
  have "strip_suffix p s = Some r \<longleftrightarrow> rev s = rev p @ rev r"
    by (force simp: strip_suffix_def strip_prefix_Some)
  also have "\<dots> \<longleftrightarrow> s = r @ p"
    by (metis rev_append rev_rev_ident)
  finally show ?thesis .
qed

section \<open>The host and third-party functions\<close>

text \<open>
  Code the contracts call that is not part of the repository. Nothing is assumed of these
  functions except where a statement names a hypothesis: the curve and the text form of a
  \<open>PublicKey\<close> and the account-id parser (near-sdk), \<open>env::sha256\<close> and
  \<open>env::ed25519_verify\<close> (the host), the weak-key test of \<open>ed25519_dalek\<close>
  (\<open>None\<close> when the bytes are no curve point), the ed25519 key parser and printer of
  \<open>defuse_wallet\<close>, its \<open>Sha256<Ed25519>\<close> verifier, and \<open>serde_json\<close>'s printer and its
  parser of \<open>U128\<close>.
\<close>

record host =
  curve_type :: "PublicKey \<Rightarrow> CurveType"
  key_to_string :: "PublicKey \<Rightarrow> string"
  valid_account_id :: "string \<Rightarrow> bool"
  sha256 :: "byte list \<Rightarrow> byte list"
  ed25519_verify :: "byte list \<Rightarrow> byte list \<Rightarrow> byte list \<Rightarrow> bool"
  dalek_is_weak :: "byte list \<Rightarrow> bool option"
  ed25519_from_str :: "string \<Rightarrow> byte list option"
  ed25519_to_string :: "byte list \<Rightarrow> string"
  sha256_ed25519_verify :: "byte list \<Rightarrow> byte list \<Rightarrow> string \<Rightarrow> bool"
  json_to_string :: "json \<Rightarrow> string"
  parse_u128 :: "byte list \<Rightarrow> u128 option"

text \<open>What a receipt sees of the chain (\<open>env::*\<close>). \<open>block_timestamp\<close> is in nanoseconds.\<close>

record ctx =
  current_account_id :: AccountId
  predecessor_account_id :: AccountId
  attached_deposit :: u128
  block_timestamp :: u64
  account_balance :: u128
  storage_byte_cost :: u128
  storage_usage :: u64

text \<open>The result of a promise as a callback reads it: a value, or a failure. \<open>TooLong\<close> is
  the error of \<open>promise_result_checked\<close> for an oversized result.\<close>

datatype PromiseError = Failed | TooLong

type_synonym 'a promise_result = "PromiseError + 'a"

abbreviation is_ok :: "'e + 'a \<Rightarrow> bool" where
  "is_ok r \<equiv> \<not> isl r"

section \<open>Outcomes of contract calls\<close>

text \<open>
  A call either fails with an error, in which case the runtime discards every change it
  made, or returns the new state, the events it emitted and its value. \<open>commit\<close> is the
  state after the receipt and \<open>run_calls\<close> the state after a sequence of receipts.
\<close>

type_synonym ('e, 's, 'ev, 'r) outcome = "'e + 's \<times> 'ev list \<times> 'r"

definition commit :: "('e, 's, 'ev, 'r) outcome \<Rightarrow> 's \<Rightarrow> 's" where
  "commit r s = (case r of Inl _ \<Rightarrow> s | Inr (s', _, _) \<Rightarrow> s')"

primrec run_calls :: "('c \<Rightarrow> 's \<Rightarrow> ('e, 's, 'ev, 'r) outcome) \<Rightarrow> 'c list \<Rightarrow> 's \<Rightarrow> 's" where
  "run_calls exec [] s = s"
| "run_calls exec (c # cs) s = run_calls exec cs (commit (exec c s) s)"

definition map_reply :: "('r \<Rightarrow> 'q) \<Rightarrow> ('e, 's, 'ev, 'r) outcome \<Rightarrow> ('e, 's, 'ev, 'q) outcome" where
  "map_reply f r = (case r of Inl e \<Rightarrow> Inl e | Inr (s, evs, v) \<Rightarrow> Inr (s, evs, f v))"

lemma commit_simps [simp, contract_simps]:
  "commit (Inl e) s = s"
  "commit (Inr (s', evs, v)) s = s'"
  by (simp_all add: commit_def)

lemma map_reply_simps [simp, contract_simps]:
  "map_reply f (Inl e) = Inl e"
  "map_reply f (Inr (s, evs, v)) = Inr (s, evs, f v)"
  by (simp_all add: map_reply_def)

lemma map_reply_Inr [simp, contract_simps]:
  "map_reply f r = Inr (s, evs, q) \<longleftrightarrow> (\<exists>v. r = Inr (s, evs, v) \<and> q = f v)"
  by (auto simp: map_reply_def split: sum.splits)

text \<open>Rust's \<open>?\<close> operator on results, \<open>ok_or\<close> and an early return on a failed condition.\<close>

definition try_in :: "'e + 'a \<Rightarrow> ('a \<Rightarrow> 'e + 'b) \<Rightarrow> 'e + 'b" where
  "try_in r f = (case r of Inl e \<Rightarrow> Inl e | Inr x \<Rightarrow> f x)"

definition ok_or :: "'e \<Rightarrow> 'a option \<Rightarrow> 'e + 'a" where
  "ok_or e x = (case x of None \<Rightarrow> Inl e | Some y \<Rightarrow> Inr y)"

definition check :: "bool \<Rightarrow> 'e \<Rightarrow> 'e + unit" where
  "check b e = (if b then Inr () else Inl e)"

lemma try_in_simps [simp, contract_simps]:
  "try_in (Inl e) f = Inl e" "try_in (Inr x) f = f x"
  by (simp_all add: try_in_def)

lemma try_in_Inr [simp, contract_simps]: "try_in r f = Inr y \<longleftrightarrow> (\<exists>x. r = Inr x \<and> f x = Inr y)"
  by (simp add: try_in_def split: sum.splits)

lemma ok_or_simps [simp, contract_simps]:
  "ok_or e (Some x) = Inr x" "ok_or e None = Inl e" "ok_or e y = Inr x \<longleftrightarrow> y = Some x"
  by (simp_all add: ok_or_def split: option.splits)

lemma check_simps [simp, contract_simps]:
  "check b e = Inr u \<longleftrightarrow> b" "check True e = Inr ()" "check False e = Inl e"
  by (simp_all add: check_def)

text \<open>The checks that near-sdk generates around a method: a call without \<open>#[payable]\<close> refuses a
  deposit, a \<open>#[private]\<close> method accepts calls from the contract itself only.\<close>

definition non_payable :: "'e \<Rightarrow> ctx \<Rightarrow> ('e, 's, 'ev, 'r) outcome \<Rightarrow> ('e, 's, 'ev, 'r) outcome" where
  "non_payable e c r = (if attached_deposit c \<noteq> 0 then Inl e else r)"

definition private_only :: "'e \<Rightarrow> ctx \<Rightarrow> ('e, 's, 'ev, 'r) outcome \<Rightarrow> ('e, 's, 'ev, 'r) outcome" where
  "private_only e c r = (if predecessor_account_id c \<noteq> current_account_id c then Inl e else r)"

lemma non_payable_Inr [simp, contract_simps]:
  "non_payable e c r = Inr x \<longleftrightarrow> attached_deposit c = 0 \<and> r = Inr x"
  by (simp add: non_payable_def)

lemma private_only_Inr [simp, contract_simps]:
  "private_only e c r = Inr x \<longleftrightarrow> predecessor_account_id c = current_account_id c \<and> r = Inr x"
  by (simp add: private_only_def)

lemma run_calls_append: "run_calls exec (cs @ ds) s = run_calls exec ds (run_calls exec cs s)"
  by (induction cs arbitrary: s) auto

text \<open>The two contracts a call interface can offer its clients: a property every successful
  call keeps, and a quantity no successful call lets fall.\<close>

locale invariant_step =
  fixes exec :: "'c \<Rightarrow> 's \<Rightarrow> ('e, 's, 'ev, 'r) outcome"
    and allowed :: "'c \<Rightarrow> bool"
    and inv :: "'s \<Rightarrow> bool"
  assumes exec_inv: "inv s \<Longrightarrow> allowed c \<Longrightarrow> exec c s = Inr (s', evs, v) \<Longrightarrow> inv s'"
begin

lemma commit_inv: "inv s \<Longrightarrow> allowed c \<Longrightarrow> inv (commit (exec c s) s)"
  by (cases "exec c s") (auto simp: commit_def dest: exec_inv split: sum.splits)

lemma run_inv: "inv s \<Longrightarrow> list_all allowed cs \<Longrightarrow> inv (run_calls exec cs s)"
  by (induction cs arbitrary: s) (auto intro: commit_inv)

end

locale monotone_step =
  fixes exec :: "'c \<Rightarrow> 's \<Rightarrow> ('e, 's, 'ev, 'r) outcome"
    and level :: "'s \<Rightarrow> 'o::preorder"
  assumes exec_mono: "exec c s = Inr (s', evs, v) \<Longrightarrow> level s \<le> level s'"
begin

lemma commit_mono: "level s \<le> level (commit (exec c s) s)"
  by (cases "exec c s") (auto simp: commit_def dest: exec_mono split: sum.splits)

lemma run_mono: "level s \<le> level (run_calls exec cs s)"
  by (induction cs arbitrary: s) (auto intro: order_trans [OF commit_mono])

end

section \<open>Iterable sets\<close>

text \<open>
  \<open>near_sdk::store::IterableSet\<close> is a vector without repetitions: \<open>insert\<close> appends, \<open>remove\<close>
  is a \<open>swap_remove\<close> (the last element takes the place of the removed one), \<open>len\<close> is the length.
  Clients may rely on the laws of the locale \<open>iterable_set\<close> only, which leave the order of
  iteration open.
\<close>

definition iset_insert :: "'a \<Rightarrow> 'a list \<Rightarrow> 'a list" where
  "iset_insert x xs = (if x \<in> set xs then xs else xs @ [x])"

definition iset_remove :: "'a \<Rightarrow> 'a list \<Rightarrow> 'a list" where
  "iset_remove x xs =
     (if x \<in> set xs then butlast (xs[length (takeWhile (\<lambda>y. y \<noteq> x) xs) := last xs]) else xs)"

lemma iset_remove_split:
  assumes "x \<notin> set us"
  shows "iset_remove x (us @ x # vs) = us @ (if vs = [] then [] else last vs # butlast vs)"
proof -
  have "takeWhile (\<lambda>y. y \<noteq> x) (us @ x # vs) = us"
    using assms by (induction us) auto
  then show ?thesis by (simp add: iset_remove_def butlast_append)
qed

lemma iset_remove_laws:
  assumes "distinct xs"
  shows "distinct (iset_remove x xs) \<and> set (iset_remove x xs) = set xs - {x}"
proof (cases "x \<in> set xs")
  case True
  then obtain us vs where xs: "xs = us @ x # vs" "x \<notin> set us" by (meson split_list_first)
  with assms show ?thesis by (cases vs rule: rev_cases) (auto simp: iset_remove_split)
qed (use assms in \<open>simp add: iset_remove_def\<close>)

locale iterable_set =
  fixes elems :: "'s \<Rightarrow> 'a list"
    and ins :: "'a \<Rightarrow> 's \<Rightarrow> 's"
    and rem :: "'a \<Rightarrow> 's \<Rightarrow> 's"
  assumes set_ins: "set (elems (ins x s)) = insert x (set (elems s))"
    and set_rem: "distinct (elems s) \<Longrightarrow> set (elems (rem x s)) = set (elems s) - {x}"
    and distinct_ins: "distinct (elems s) \<Longrightarrow> distinct (elems (ins x s))"
    and distinct_rem: "distinct (elems s) \<Longrightarrow> distinct (elems (rem x s))"
begin

lemma nonempty_ins: "elems (ins x s) \<noteq> []"
  using set_ins [of x s] by auto

lemma nonempty_rem:
  assumes "distinct (elems s)" and "1 < length (elems s)"
  shows "elems (rem x s) \<noteq> []"
proof
  assume "elems (rem x s) = []"
  then have "set (elems s) \<subseteq> {x}" using set_rem [OF assms(1), of x] by auto
  then have "card (set (elems s)) \<le> 1"
    by (metis card.empty card_insert_le_m1 card_mono finite.emptyI finite_insert
        is_singletonI is_singleton_altdef order_refl zero_le)
  with assms show False by (simp add: distinct_card)
qed

lemma length_ins:
  assumes "distinct (elems s)"
  shows "length (elems (ins x s)) \<le> Suc (length (elems s))"
proof -
  have "length (elems (ins x s)) = card (insert x (set (elems s)))"
    using distinct_card [OF distinct_ins [OF assms, of x]] by (simp add: set_ins)
  also have "\<dots> \<le> Suc (card (set (elems s)))" by (simp add: card_insert_le_m1 card_insert_if)
  finally show ?thesis using assms by (simp add: distinct_card)
qed

lemma length_rem:
  assumes "distinct (elems s)"
  shows "length (elems (rem x s)) \<le> length (elems s)"
proof -
  have "card (set (elems s) - {x}) \<le> card (set (elems s))" by (rule card_mono) auto
  then show ?thesis
    using assms distinct_card [OF assms] distinct_card [OF distinct_rem [OF assms, of x]]
    by (simp add: set_rem)
qed

end

interpretation iset: iterable_set "\<lambda>xs. xs" iset_insert iset_remove
  by unfold_locales (auto simp: iset_insert_def iset_remove_laws)

declare iset.set_ins [simp] iset.set_rem [simp]

lemmas iset_keeps = iset.distinct_ins iset.distinct_rem iset.nonempty_ins iset.nonempty_rem

text \<open>Three contracts keep such a set of admins behind the same two calls. The locale states
  what those calls promise; every contract interprets it on its own definitions.\<close>

definition admins_ok :: "AccountId list \<Rightarrow> bool" where
  "admins_ok xs \<longleftrightarrow> distinct xs \<and> xs \<noteq> []"

locale admin_registry =
  fixes admins :: "'s \<Rightarrow> AccountId list"
    and add :: "ctx \<Rightarrow> AccountId \<Rightarrow> 's \<Rightarrow> ('e, 's, 'ev, 'r) outcome"
    and remove :: "ctx \<Rightarrow> AccountId \<Rightarrow> 's \<Rightarrow> ('e, 's, 'ev, 'r) outcome"
  assumes add_ok: "add c a s = Inr (s', evs, v) \<Longrightarrow>
      predecessor_account_id c \<in> set (admins s) \<and> admins s' = iset_insert a (admins s)"
    and remove_ok: "remove c a s = Inr (s', evs, v) \<Longrightarrow>
      predecessor_account_id c \<in> set (admins s) \<and> 1 < length (admins s) \<and>
      admins s' = iset_remove a (admins s)"
begin

lemma add_keeps: "admins_ok (admins s) \<Longrightarrow> add c a s = Inr (s', evs, v) \<Longrightarrow> admins_ok (admins s')"
  using add_ok [of c a s s' evs v]
  by (simp add: admins_ok_def iset.distinct_ins iset.nonempty_ins)

lemma remove_keeps: "admins_ok (admins s) \<Longrightarrow> remove c a s = Inr (s', evs, v) \<Longrightarrow> admins_ok (admins s')"
  using remove_ok [of c a s s' evs v]
  by (simp add: admins_ok_def iset.distinct_rem iset.nonempty_rem)

lemma outsider_add:
  "predecessor_account_id c \<notin> set (admins s) \<Longrightarrow> \<exists>e. add c a s = Inl e"
  using add_ok [of c a s] by (cases "add c a s") auto

lemma outsider_remove:
  "predecessor_account_id c \<notin> set (admins s) \<Longrightarrow> \<exists>e. remove c a s = Inl e"
  using remove_ok [of c a s] by (cases "remove c a s") auto

end

section \<open>Maps\<close>

abbreviation get_or :: "'v \<Rightarrow> ('k \<rightharpoonup> 'v) \<Rightarrow> 'k \<Rightarrow> 'v" where
  "get_or d m k \<equiv> (case m k of None \<Rightarrow> d | Some v \<Rightarrow> v)"

text \<open>The sum of the amounts in a map, for the books of a contract that keeps balances.\<close>

definition map_total :: "('k \<rightharpoonup> 'a::len word) \<Rightarrow> nat" where
  "map_total m = (\<Sum>k\<in>dom m. unat (the (m k)))"

lemma map_total_member:
  assumes "finite (dom m)"
  shows "unat (get_or 0 m k) \<le> map_total m"
proof (cases "m k")
  case (Some n)
  then have "k \<in> dom m" by auto
  with assms have "unat (the (m k)) \<le> map_total m"
    unfolding map_total_def by (intro member_le_sum) auto
  with Some show ?thesis by simp
qed simp

lemma map_total_upd:
  assumes "finite (dom m)"
  shows "map_total (m(k := v)) + unat (get_or 0 m k) =
    map_total m + (case v of None \<Rightarrow> 0 | Some n \<Rightarrow> unat n)"
proof -
  let ?rest = "\<Sum>x\<in>dom m - {k}. unat (the (m x))"
  have "map_total m = unat (get_or 0 m k) + ?rest"
    using assms sum.remove [of "dom m" k "\<lambda>x. unat (the (m x))"]
    by (cases "m k") (auto simp: map_total_def domIff)
  moreover have "map_total (m(k := v)) = (case v of None \<Rightarrow> 0 | Some n \<Rightarrow> unat n) + ?rest"
  proof (cases v)
    case None
    then have "dom (m(k := v)) = dom m - {k}" by (auto split: if_splits)
    with None show ?thesis unfolding map_total_def by (auto intro!: sum.cong)
  next
    case (Some n)
    then have "dom (m(k := v)) = insert k (dom m - {k})" by (auto split: if_splits)
    then have "map_total (m(k := v)) =
        unat (the ((m(k := v)) k)) + (\<Sum>x\<in>dom m - {k}. unat (the ((m(k := v)) x)))"
      unfolding map_total_def using assms by (simp add: sum.insert_remove)
    also have "(\<Sum>x\<in>dom m - {k}. unat (the ((m(k := v)) x))) = ?rest"
      by (rule sum.cong) auto
    finally show ?thesis by (simp only: Some fun_upd_same option.sel option.case)
  qed
  ultimately show ?thesis by simp
qed

end
