(* ===== verification/Codec.thy ===== *)
theory Codec
  imports Hos_Prelude
begin

text \<open>
  Byte encodings that decode themselves. \<open>le_bytes\<close> is Rust's \<open>to_le_bytes\<close>; the locale
  \<open>self_delimiting\<close> is the interface between an encoder and whatever is concatenated after
  it: a decoder that recovers the value and the remaining bytes. It yields injectivity of
  the encoder under concatenation, and closes encoders under counted sequences. The
  interpretations cover little-endian words, byte blocks of a fixed width and the
  length-prefixed strings that the transaction builders write.
\<close>

section \<open>Little-endian words\<close>

primrec le_bytes :: "nat \<Rightarrow> 'a::len word \<Rightarrow> byte list" where
  "le_bytes 0 w = []"
| "le_bytes (Suc n) w = ucast w # le_bytes n (drop_bit 8 w)"

primrec of_le :: "byte list \<Rightarrow> nat" where
  "of_le [] = 0"
| "of_le (b # bs) = unat b + 256 * of_le bs"

lemma length_le_bytes [simp]: "length (le_bytes n w) = n"
  by (induction n arbitrary: w) auto

lemma unat_low_byte: "unat (ucast w :: byte) = unat w mod 256" for w :: "'a::len word"
  by (simp add: unsigned_ucast_eq take_bit_eq_mod)

lemma unat_drop_byte: "unat (drop_bit 8 w) = unat w div 256" for w :: "'a::len word"
  by (simp only: unsigned_drop_bit_eq) (simp add: drop_bit_eq_div take_bit_eq_mod)

lemma of_le_le_bytes: "of_le (le_bytes n w) = unat w mod 256 ^ n"
proof (induction n arbitrary: w)
  case 0
  show ?case by simp
next
  case (Suc n)
  have "of_le (le_bytes (Suc n) w) = unat w mod 256 + 256 * (unat w div 256 mod 256 ^ n)"
    by (simp add: Suc.IH unat_low_byte unat_drop_byte)
  also have "\<dots> = unat w mod (256 * 256 ^ n)"
    by (simp add: mod_mult2_eq)
  finally show ?case by simp
qed

section \<open>Self-delimiting encoders\<close>

primrec dec_many :: "(byte list \<Rightarrow> ('a \<times> byte list) option) \<Rightarrow> nat \<Rightarrow> byte list
    \<Rightarrow> ('a list \<times> byte list) option" where
  "dec_many dec 0 bs = Some ([], bs)"
| "dec_many dec (Suc n) bs =
     (case dec bs of None \<Rightarrow> None
      | Some (x, r) \<Rightarrow> map_option (\<lambda>(xs, r'). (x # xs, r')) (dec_many dec n r))"

definition dec_word :: "nat \<Rightarrow> byte list \<Rightarrow> ('a::len word \<times> byte list) option" where
  "dec_word n bs = (if length bs < n then None
     else Some (word_of_nat (of_le (take n bs)), drop n bs))"

definition enc_seq :: "('a \<Rightarrow> byte list) \<Rightarrow> 'a list \<Rightarrow> byte list" where
  "enc_seq enc xs = le_bytes 4 (word_of_nat (length xs) :: u32) @ concat (map enc xs)"

definition dec_seq :: "(byte list \<Rightarrow> ('a \<times> byte list) option) \<Rightarrow> byte list
    \<Rightarrow> ('a list \<times> byte list) option" where
  "dec_seq dec bs = (case dec_word 4 bs of None \<Rightarrow> None
     | Some (n, r) \<Rightarrow> dec_many dec (unat (n :: u32)) r)"

lemma dec_word_le_bytes:
  "LENGTH('a) = 8 * n \<Longrightarrow> dec_word n (le_bytes n w @ r) = Some (w, r)" for w :: "'a::len word"
proof -
  assume "LENGTH('a) = 8 * n"
  then have "(256::nat) ^ n = 2 ^ LENGTH('a)" by (simp add: power_mult)
  then have "of_le (le_bytes n w) = unat w" by (simp add: of_le_le_bytes)
  then show ?thesis by (simp add: dec_word_def)
qed

locale self_delimiting =
  fixes enc :: "'a \<Rightarrow> byte list"
    and dec :: "byte list \<Rightarrow> ('a \<times> byte list) option"
    and ok :: "'a \<Rightarrow> bool"
  assumes dec_enc: "ok x \<Longrightarrow> dec (enc x @ r) = Some (x, r)"
begin

lemma enc_append_inject:
  "ok x \<Longrightarrow> ok y \<Longrightarrow> enc x @ r = enc y @ q \<longleftrightarrow> x = y \<and> r = q"
  by (metis dec_enc option.inject prod.inject)

lemma enc_inject: "ok x \<Longrightarrow> ok y \<Longrightarrow> enc x = enc y \<longleftrightarrow> x = y"
  using enc_append_inject [of x y "[]" "[]"] by simp

lemma dec_many_concat:
  "list_all ok xs \<Longrightarrow> dec_many dec (length xs) (concat (map enc xs) @ r) = Some (xs, r)"
  by (induction xs) (auto simp: dec_enc)

lemma seq: "self_delimiting (enc_seq enc) (dec_seq dec)
    (\<lambda>xs. list_all ok xs \<and> length xs < 2 ^ 32)"
proof (unfold_locales, elim conjE)
  fix xs r assume "list_all ok xs" and "length xs < 2 ^ 32"
  then show "dec_seq dec (enc_seq enc xs @ r) = Some (xs, r)"
    by (simp add: dec_seq_def enc_seq_def dec_word_le_bytes dec_many_concat
        unat_of_nat_small)
qed

end

interpretation u32: self_delimiting "le_bytes 4 :: u32 \<Rightarrow> _" "dec_word 4" "\<lambda>_. True"
  by unfold_locales (simp add: dec_word_le_bytes)

interpretation u64: self_delimiting "le_bytes 8 :: u64 \<Rightarrow> _" "dec_word 8" "\<lambda>_. True"
  by unfold_locales (simp add: dec_word_le_bytes)

interpretation u128: self_delimiting "le_bytes 16 :: u128 \<Rightarrow> _" "dec_word 16" "\<lambda>_. True"
  by unfold_locales (simp add: dec_word_le_bytes)

text \<open>A block of bytes of a width both sides know.\<close>

definition dec_raw :: "nat \<Rightarrow> byte list \<Rightarrow> (byte list \<times> byte list) option" where
  "dec_raw n bs = (if length bs < n then None else Some (take n bs, drop n bs))"

interpretation raw: self_delimiting "\<lambda>b. b" "dec_raw n" "\<lambda>b. length b = n" for n
  by unfold_locales (simp add: dec_raw_def)

text \<open>A length-prefixed block, the borsh layout of a string or a byte vector.\<close>

definition enc_block :: "byte list \<Rightarrow> byte list" where
  "enc_block bs = le_bytes 4 (word_of_nat (length bs) :: u32) @ bs"

definition dec_block :: "byte list \<Rightarrow> (byte list \<times> byte list) option" where
  "dec_block bs = (case dec_word 4 bs of None \<Rightarrow> None
     | Some (n, r) \<Rightarrow> dec_raw (unat (n :: u32)) r)"

interpretation block: self_delimiting enc_block dec_block "\<lambda>b. length b < 2 ^ 32"
  by unfold_locales
    (simp add: dec_block_def enc_block_def dec_word_le_bytes dec_raw_def unat_of_nat_small)

lemma enc_block_nonempty [simp]: "enc_block b \<noteq> []"
  using length_le_bytes [of 4 "word_of_nat (length b) :: u32"]
  by (auto simp: enc_block_def simp del: length_le_bytes)

lemmas dec_encs = u32.dec_enc u64.dec_enc u128.dec_enc raw.dec_enc block.dec_enc

end
