(* ===== verification/Hos_Common.thy ===== *)
theory Hos_Common
  imports Codec
begin

text \<open>
  The crate \<open>hos-common\<close> (\<open>src/crates/hos-common/src/lib.rs\<close> and \<open>tx.rs\<close>): key checks, the
  outcome of a mint, the transaction actions a renter may request and the hand-written borsh
  transaction builder. A decoder for NEAR transactions with these actions is the reference
  against which the builder is proved: it recovers signer, key, nonce, receiver, block hash
  and action list. The hexadecimal printer is paired with the \<open>from_hex\<close> of the sandbox
  signer \<open>dev-contracts/test-mpc\<close>.
\<close>

unbundle bit_operations_syntax

section \<open>Keys and mint outcomes (lib.rs)\<close>

definition FT_STORAGE_DEPOSIT_YOCTO :: u128 where
  "FT_STORAGE_DEPOSIT_YOCTO = 1250000000000000000000"

definition is_ed25519 :: "host \<Rightarrow> PublicKey \<Rightarrow> bool" where
  "is_ed25519 h key \<longleftrightarrow> curve_type h key = ED25519"

definition ed25519_base58 :: "host \<Rightarrow> PublicKey \<Rightarrow> string option" where
  "ed25519_base58 h key =
     (if \<not> is_ed25519 h key then None else strip_prefix ''ed25519:'' (key_to_string h key))"

text \<open>The panic carries the constant \<open>NOT_ED25519\<close>, which each contract's error type names.\<close>

definition ed25519_base58_or_panic :: "host \<Rightarrow> 'e \<Rightarrow> PublicKey \<Rightarrow> 'e + string" where
  "ed25519_base58_or_panic h not_ed25519 key =
     (case ed25519_base58 h key of Some s \<Rightarrow> Inr s | None \<Rightarrow> Inl not_ed25519)"

datatype MintOutcome = CreationFailed | Active | SignerPending

text \<open>Documented behaviour of near-sdk keys: an ed25519 key is the tag byte 0 and 32 bytes of
  key data, and its text form starts with the curve's name.\<close>

definition key_laws :: "host \<Rightarrow> bool" where
  "key_laws h \<longleftrightarrow> (\<forall>k. is_ed25519 h k \<longrightarrow>
     (\<exists>d. as_bytes k = 0 # d \<and> length d = 32) \<and>
     (\<exists>s. key_to_string h k = ''ed25519:'' @ s))"

lemma key_laws_length: "key_laws h \<Longrightarrow> is_ed25519 h k \<Longrightarrow> length (as_bytes k) = 33"
  by (auto simp: key_laws_def)

lemma ed25519_base58_Some:
  "ed25519_base58 h k = Some s \<longleftrightarrow> is_ed25519 h k \<and> key_to_string h k = ''ed25519:'' @ s"
  by (simp add: ed25519_base58_def strip_prefix_Some del: strip_prefix.simps)

lemma ed25519_base58_total:
  "key_laws h \<Longrightarrow> is_ed25519 h k \<Longrightarrow> \<exists>s. ed25519_base58 h k = Some s"
  unfolding key_laws_def ed25519_base58_Some by blast

section \<open>Transactions (tx.rs)\<close>

definition ACTION_FUNCTION_CALL :: u8 where "ACTION_FUNCTION_CALL = 2"
definition ACTION_TRANSFER :: u8 where "ACTION_TRANSFER = 3"
definition HEX :: string where "HEX = ''0123456789abcdef''"

datatype TxAction =
    FunctionCall string "byte list" u64 u128 \<comment> \<open>method_name, args, gas, deposit\<close>
  | Transfer u128 \<comment> \<open>deposit\<close>

definition mpc_path :: "AccountId \<Rightarrow> string" where
  "mpc_path account = ''hos-tla/'' @ account"

definition write_bytes :: "byte list \<Rightarrow> byte list \<Rightarrow> byte list" where
  "write_bytes b bytes = (b @ le_bytes 4 (word_of_nat (length bytes) :: u32)) @ bytes"

definition write_str :: "byte list \<Rightarrow> string \<Rightarrow> byte list" where
  "write_str b s = write_bytes b (str_bytes s)"

definition write_header :: "byte list \<Rightarrow> AccountId \<Rightarrow> PublicKey \<Rightarrow> u64 \<Rightarrow> AccountId
    \<Rightarrow> byte list \<Rightarrow> nat \<Rightarrow> byte list" where
  "write_header b signer public_key nonce receiver block_hash action_count =
     (let b = write_str b signer;
          b = b @ as_bytes public_key;
          b = b @ le_bytes 8 nonce;
          b = write_str b receiver;
          b = b @ block_hash
      in b @ le_bytes 4 (word_of_nat action_count :: u32))"

fun write_action :: "byte list \<Rightarrow> TxAction \<Rightarrow> byte list" where
  "write_action b (FunctionCall method_name args gas deposit) =
     (let b = b @ [ACTION_FUNCTION_CALL];
          b = write_str b method_name;
          b = write_bytes b args;
          b = b @ le_bytes 8 gas
      in b @ le_bytes 16 deposit)"
| "write_action b (Transfer deposit) =
     (let b = b @ [ACTION_TRANSFER] in b @ le_bytes 16 deposit)"

definition build_transaction :: "AccountId \<Rightarrow> PublicKey \<Rightarrow> u64 \<Rightarrow> AccountId \<Rightarrow> byte list
    \<Rightarrow> TxAction list \<Rightarrow> byte list" where
  "build_transaction signer public_key nonce receiver block_hash actions =
     foldl write_action
       (write_header [] signer public_key nonce receiver block_hash (length actions)) actions"

definition hex_digits :: "byte \<Rightarrow> string" where
  "hex_digits b = [HEX ! unat (drop_bit 4 b), HEX ! unat (b AND 15)]"

primrec to_hex :: "byte list \<Rightarrow> string" where
  "to_hex [] = []"
| "to_hex (b # bs) = hex_digits b @ to_hex bs"

text \<open>\<open>from_hex\<close> and \<open>nibble\<close> of \<open>dev-contracts/test-mpc\<close>; \<open>None\<close> is the panic.\<close>

definition nibble :: "char \<Rightarrow> u8 option" where
  "nibble ch = (let c = of_char ch :: u8 in
     if of_char (CHR ''0'') \<le> c \<and> c \<le> of_char (CHR ''9'') then Some (c - of_char (CHR ''0''))
     else if of_char (CHR ''a'') \<le> c \<and> c \<le> of_char (CHR ''f'') then Some (c - of_char (CHR ''a'') + 10)
     else if of_char (CHR ''A'') \<le> c \<and> c \<le> of_char (CHR ''F'') then Some (c - of_char (CHR ''A'') + 10)
     else None)"

fun from_hex :: "string \<Rightarrow> byte list option" where
  "from_hex [] = Some []"
| "from_hex [c] = None"
| "from_hex (c # d # s) =
     (case (nibble c, nibble d, from_hex s) of
        (Some hi, Some lo, Some bs) \<Rightarrow> Some ((push_bit 4 hi OR lo) # bs)
      | _ \<Rightarrow> None)"

section \<open>The builder against a decoder\<close>

definition action_bytes :: "TxAction \<Rightarrow> byte list" where
  "action_bytes a = (case a of
     FunctionCall m xs g d \<Rightarrow>
       [2] @ enc_block (str_bytes m) @ enc_block xs @ le_bytes 8 g @ le_bytes 16 d
   | Transfer d \<Rightarrow> [3] @ le_bytes 16 d)"

definition action_fits :: "TxAction \<Rightarrow> bool" where
  "action_fits a = (case a of
     FunctionCall m xs g d \<Rightarrow> length m < 2 ^ 32 \<and> length xs < 2 ^ 32 | Transfer d \<Rightarrow> True)"

definition bytes_str :: "byte list \<Rightarrow> string" where
  "bytes_str bs = map (\<lambda>b. char_of (unat b)) bs"

lemma char_of_byte [simp]: "char_of (unat (of_char c :: byte)) = c"
proof -
  have "unat (of_nat (of_char c) :: byte) = of_char c"
    by (simp add: unat_of_nat)
  then show ?thesis by (simp add: of_nat_of_char)
qed

lemma bytes_str_str_bytes [simp]: "bytes_str (str_bytes s) = s"
  by (simp add: bytes_str_def str_bytes_def comp_def)

definition dec_action :: "byte list \<Rightarrow> (TxAction \<times> byte list) option" where
  "dec_action bs = (case bs of
     [] \<Rightarrow> None
   | t # bs \<Rightarrow>
       if t = 2 then
         Option.bind (dec_block bs) (\<lambda>(m, bs). Option.bind (dec_block bs) (\<lambda>(xs, bs).
         Option.bind (dec_word 8 bs) (\<lambda>(g, bs). Option.bind (dec_word 16 bs) (\<lambda>(d, bs).
         Some (FunctionCall (bytes_str m) xs g d, bs)))))
       else if t = 3 then
         Option.bind (dec_word 16 bs) (\<lambda>(d, bs). Some (Transfer d, bs))
       else None)"

definition dec_transaction :: "nat \<Rightarrow> byte list
    \<Rightarrow> ((AccountId \<times> byte list \<times> u64 \<times> AccountId \<times> byte list \<times> TxAction list) \<times> byte list) option" where
  "dec_transaction keylen bs =
     Option.bind (dec_block bs) (\<lambda>(signer, bs).
     Option.bind (dec_raw keylen bs) (\<lambda>(key, bs).
     Option.bind (dec_word 8 bs) (\<lambda>(nonce, bs).
     Option.bind (dec_block bs) (\<lambda>(receiver, bs).
     Option.bind (dec_raw 32 bs) (\<lambda>(hash, bs).
     Option.bind (dec_seq dec_action bs) (\<lambda>(actions, bs).
     Some ((bytes_str signer, key, nonce, bytes_str receiver, hash, actions), bs)))))))"

lemma write_bytes_eq: "write_bytes b bytes = b @ enc_block bytes"
  by (simp add: write_bytes_def enc_block_def)

lemma write_str_eq: "write_str b s = b @ enc_block (str_bytes s)"
  by (simp add: write_str_def write_bytes_eq)

lemma write_action_eq: "write_action b a = b @ action_bytes a"
  by (cases a) (simp_all add: write_bytes_eq write_str_eq action_bytes_def
      ACTION_FUNCTION_CALL_def ACTION_TRANSFER_def Let_def)

lemma foldl_write_action: "foldl write_action b as = b @ concat (map action_bytes as)"
  by (induction as arbitrary: b) (simp_all add: write_action_eq)

lemma build_transaction_eq:
  "build_transaction signer key nonce receiver hash actions =
     enc_block (str_bytes signer) @ as_bytes key @ le_bytes 8 nonce
     @ enc_block (str_bytes receiver) @ hash @ enc_seq action_bytes actions"
  by (simp add: build_transaction_def foldl_write_action write_header_def write_str_eq
      enc_seq_def Let_def)

interpretation action: self_delimiting action_bytes dec_action action_fits
proof unfold_locales
  fix a r assume "action_fits a"
  then show "dec_action (action_bytes a @ r) = Some (a, r)"
    by (cases a) (simp_all add: dec_action_def action_bytes_def action_fits_def dec_encs)
qed

interpretation actions: self_delimiting "enc_seq action_bytes" "dec_seq dec_action"
    "\<lambda>xs. list_all action_fits xs \<and> length xs < 2 ^ 32"
  by (rule action.seq)

lemma dec_build_transaction:
  assumes "length signer < 2 ^ 32" "length receiver < 2 ^ 32" "length hash = 32"
    and "length (as_bytes key) = keylen"
    and "list_all action_fits actions" "length actions < 2 ^ 32"
  shows "dec_transaction keylen (build_transaction signer key nonce receiver hash actions @ r)
    = Some ((signer, as_bytes key, nonce, receiver, hash, actions), r)"
  using assms by (simp add: build_transaction_eq dec_transaction_def dec_encs actions.dec_enc)

section \<open>Hexadecimal text\<close>

lemma nibble_HEX: "n < 16 \<Longrightarrow> nibble (HEX ! n) = Some (word_of_nat n)"
proof -
  assume "n < 16"
  then have "n \<in> set [0..<16]" by simp
  moreover have "list_all (\<lambda>n. nibble (HEX ! n) = Some (word_of_nat n)) [0..<16]"
    by code_simp
  ultimately show ?thesis by (simp only: list_all_iff)
qed

lemma byte_nibbles: "push_bit 4 (drop_bit 4 b) OR (b AND 15) = b" for b :: byte
proof -
  have "push_bit 4 (drop_bit 4 b) OR (b AND mask 4) = b"
    by (rule bit_eqI)
      (auto simp: bit_or_iff bit_and_iff bit_push_bit_iff bit_drop_bit_eq bit_mask_iff)
  moreover have "(mask 4 :: byte) = 15" by (simp add: mask_eq_exp_minus_1)
  ultimately show ?thesis by simp
qed

lemma from_hex_digits: "from_hex (hex_digits b @ s) = map_option ((#) b) (from_hex s)"
proof -
  have hi: "unat (drop_bit 4 b) < 16"
    by (simp only: unsigned_drop_bit_eq) (use unsigned_less [of b] in \<open>simp add: drop_bit_eq_div take_bit_eq_mod\<close>)
  have lo: "unat (b AND 15) < 16"
    using word_and_le1 [of b 15] by (simp add: word_le_nat_alt)
  show ?thesis
    using byte_nibbles [of b]
    by (cases "from_hex s") (simp_all add: hex_digits_def nibble_HEX [OF hi] nibble_HEX [OF lo])
qed

lemma from_hex_to_hex: "from_hex (to_hex bs) = Some bs"
  by (induction bs) (simp_all add: from_hex_digits)

lemma length_to_hex: "length (to_hex bs) = 2 * length bs"
  by (induction bs) (simp_all add: hex_digits_def)

section \<open>Properties\<close>

text \<open>C37: The transaction builder loses nothing. The decoder recovers signer, key, nonce,
  receiver, block hash and the exact list of actions from the bytes \<open>build_transaction\<close>
  writes, whatever follows them, for every ed25519 key and every component whose length fits
  the 32-bit length fields.\<close>

theorem build_transaction_roundtrip:
  assumes "key_laws h" and "is_ed25519 h key"
    and "length signer < 2 ^ 32" and "length receiver < 2 ^ 32" and "length hash = 32"
    and "list_all action_fits actions" and "length actions < 2 ^ 32"
  shows "dec_transaction 33 (build_transaction signer key nonce receiver hash actions @ rest)
    = Some ((signer, as_bytes key, nonce, receiver, hash, actions), rest)"
  using assms by (simp add: dec_build_transaction key_laws_length)

text \<open>Hexadecimal round trip. \<open>from_hex\<close>, with which the sandbox signer reads a payload,
  recovers the bytes that \<open>to_hex\<close> printed, and the text has two digits per byte.\<close>

theorem hex_roundtrip: "from_hex (to_hex bs) = Some bs \<and> length (to_hex bs) = 2 * length bs"
  by (simp add: from_hex_to_hex length_to_hex)

text \<open>The three golden vectors of \<open>near-api-js\<close>: a transfer, a function call and a
  transaction with two actions have exactly the canonical bytes.\<close>

definition golden_key :: PublicKey where
  "golden_key = PublicKey (the (from_hex
     ''00baa81b168f3b4d0c1af89664de30fa8d6754349847e0bba1020bf5ea43ff75fb''))"

theorem build_transaction_golden:
  "to_hex (build_transaction ''alice.beta.hostla.testnet'' golden_key 42 ''bob.testnet''
     (replicate 32 0) [Transfer 123456789]) =
   ''19000000616c6963652e626574612e686f73746c612e746573746e657400baa81b168f3b4d0c1af89664de30fa8d6754349847e0bba1020bf5ea43ff75fb2a000000000000000b000000626f622e746573746e65740000000000000000000000000000000000000000000000000000000000000000010000000315cd5b07000000000000000000000000''
   \<and> to_hex (build_transaction ''alice.beta.hostla.testnet'' golden_key 42 ''registry.hostla.testnet''
     (replicate 32 0) [FunctionCall ''list_sub_account'' (map of_char [CHR 0x7B, CHR 0x22, CHR ''x'', CHR 0x22, CHR '':'', CHR ''1'', CHR 0x7D]) 300000000000000 1]) =
   ''19000000616c6963652e626574612e686f73746c612e746573746e657400baa81b168f3b4d0c1af89664de30fa8d6754349847e0bba1020bf5ea43ff75fb2a000000000000001700000072656769737472792e686f73746c612e746573746e657400000000000000000000000000000000000000000000000000000000000000000100000002100000006c6973745f7375625f6163636f756e74070000007b2278223a317d00c06e31d910010001000000000000000000000000000000''
   \<and> to_hex (build_transaction ''alice.beta.hostla.testnet'' golden_key 42 ''bob.testnet''
     (replicate 32 0) [Transfer 1, FunctionCall ''ping'' [] 5000000000000 0]) =
   ''19000000616c6963652e626574612e686f73746c612e746573746e657400baa81b168f3b4d0c1af89664de30fa8d6754349847e0bba1020bf5ea43ff75fb2a000000000000000b000000626f622e746573746e65740000000000000000000000000000000000000000000000000000000000000000020000000301000000000000000000000000000000020400000070696e6700000000005039278c04000000000000000000000000000000000000''"
  by code_simp

end
