(* ===== verification/Near_Calls.thy ===== *)
theory Near_Calls
  imports Hos_Common
begin

text \<open>
  Cross-contract calls. A contract call returns a promise: a tree of remote calls, native
  account actions, joint promises and callbacks on the calling contract, with the static gas
  each part is given in Tgas. The type parameter is the contract's own type of callbacks.
  The remote calls are the methods of the \<open>ext_contract\<close> traits (\<open>interfaces.rs\<close> of the
  registry, the traits of \<open>hos-extension\<close> and \<open>tla-manager\<close>); a call whose arguments the
  source builds with \<open>json!\<close> keeps them as a JSON object.
\<close>

datatype remote_call =
    JsonCall string json
  | FtBalanceOf AccountId
  | StorageDeposit "AccountId option" "bool option"
  | SignerOf AccountId
  | InstallSigner AccountId string PublicKey
  | SwapOwner AccountId string "string option"
  | AuthoritySignTx AccountId AccountId "TxAction list" u64 "byte list"
  | OnWalletTransferred AccountId
  | SweepFt AccountId AccountId AccountId u64 "byte list"
  | ForceTransfer AccountId PublicKey "PublicKey option"
  | CreateSubAccount string PublicKey
  | RetryInstall AccountId PublicKey

datatype account_action = CreateAccount | TransferNear u128 | AddFullAccessKey PublicKey

datatype 'cb promise =
    CallP AccountId remote_call u128 nat \<comment> \<open>receiver, call, attached deposit, static gas\<close>
  | BatchP AccountId "account_action list"
  | AndP "'cb promise" "'cb promise"
  | ThenP "'cb promise" 'cb nat \<comment> \<open>callback on the current account and its static gas\<close>

datatype ('cb, 'v) promise_or_value = PromiseR "'cb promise" | ValueR 'v

text \<open>The gas a promise reserves up front, and the calls it makes.\<close>

primrec static_gas :: "'cb promise \<Rightarrow> nat" where
  "static_gas (CallP r m d g) = g"
| "static_gas (BatchP r as) = 0"
| "static_gas (AndP p q) = static_gas p + static_gas q"
| "static_gas (ThenP p cb g) = static_gas p + g"

primrec calls_of :: "'cb promise \<Rightarrow> (AccountId \<times> remote_call \<times> u128) list" where
  "calls_of (CallP r m d g) = [(r, m, d)]"
| "calls_of (BatchP r as) = []"
| "calls_of (AndP p q) = calls_of p @ calls_of q"
| "calls_of (ThenP p cb g) = calls_of p"

primrec callbacks_of :: "'cb promise \<Rightarrow> 'cb list" where
  "callbacks_of (CallP r m d g) = []"
| "callbacks_of (BatchP r as) = []"
| "callbacks_of (AndP p q) = callbacks_of p @ callbacks_of q"
| "callbacks_of (ThenP p cb g) = callbacks_of p @ [cb]"

end
