(* ===== verification/Registry_Types.thy ===== *)
theory Registry_Types
  imports Near_Calls
begin

text \<open>
  Data, fees and the token-balance gate of the contract \<open>tla-registry\<close>
  (\<open>src/contracts/tla-registry/src\<close>: \<open>types.rs\<close>, \<open>error.rs\<close>, \<open>events.rs\<close>, \<open>fees.rs\<close>,
  \<open>asset_gate.rs\<close>). Fields carry the prefixes \<open>te_\<close> (TLA), \<open>sa_\<close> (sub-account), \<open>li_\<close> (listing),
  \<open>ao_\<close> (accepted offer), \<open>pe_\<close> (parked name), \<open>fc_\<close> (fees); events the prefix \<open>G_\<close>; statuses the
  prefixes \<open>St\<close> and \<open>Lc\<close>.
\<close>

section \<open>Errors and events\<close>

datatype NameInvalidReason = LengthOutOfBounds | DisallowedCharacter | EdgeSeparator

datatype rg_error =
    OnlyAdmin | OnlyPaymentAuthority | OnlyLicensee | OnlyOwner | Paused | NoPendingRefund
  | TlaNotFound | TlaAlreadyRegistered | TlaNotInRegisteredState | TlaNotActive | TlaNotSuspended
  | TlaNotAcceptingRentals | TlaPastGracePeriod | BusinessTlaRequiresLicensee
  | BusinessTlaMissingLicensee | WrongActivationEndpoint | SubAccountNotFound | SubAccountNameTaken
  | SubAccountPastGracePeriod | SubAccountNotReclaimable | SignerNotPending
  | MainWalletEqualsSubAccount | InvalidSubAccountId | InvalidName NameInvalidReason
  | InsufficientPayment | InsufficientRevenue | WithdrawalAmountZero | TokenNotInAllowlist
  | AllowlistFull | AllRentTiersZero | CreationDepositZero | CannotRemoveLastAdmin
  | SubAccountIsMother | MotherIsReclaimable | MotherNotSet | MaxBusinessSubsReached
  | NoRetractionScheduled | RetractionAlreadyScheduled | RetractionAlreadyElapsed
  | RetractionPending | NotBusinessTla | RequiresOneYocto | InsufficientContractBalance | NotListed
  | SaleInProgress | ReclaimInProgress | SubAccountTlaMismatch | SubAccountNotSellable
  | BusinessSubNotResellable | PriceNotMet | InvalidPrice | NoAcceptedOffer
  | InvalidCommissionRate | NotEd25519
  | ParkedKeyNotEd25519 | GracePeriodTooShort | ExtensionIsSigner | WiringPointsAtRegistry
  | RgPrivate | RgNoDeposit

datatype rg_event =
    G_TlaRegistered AccountId string string "AccountId option"
  | G_TlaActivated AccountId u64 u128
  | G_TlaSuspended AccountId string AccountId
  | G_TlaUnsuspended AccountId string AccountId
  | G_TlaRenewed AccountId u64 u128
  | G_ContractPaused AccountId
  | G_ContractUnpaused AccountId
  | G_FeeConfigUpdated AccountId
  | G_AdminAdded string AccountId AccountId
  | G_AdminRemoved string AccountId AccountId
  | G_PaymentAuthorityAdded AccountId AccountId
  | G_PaymentAuthorityRemoved AccountId AccountId
  | G_WithdrawalQueued u128 AccountId
  | G_FtAllowlistAdded string AccountId AccountId
  | G_FtAllowlistRemoved string AccountId AccountId
  | G_ParkedSignerUpdated PublicKey AccountId
  | G_BusinessSubCapSet AccountId string AccountId
  | G_SubAccountRented string AccountId AccountId u128 u64
  | G_SubAccountReRented string AccountId AccountId u128 u64
  | G_SubAccountRenewed string u64 u128
  | G_MainWalletUpdated string AccountId
  | G_RefundPending AccountId u128 string
  | G_SubAccountListed string u128 AccountId
  | G_SubAccountUnlisted string AccountId
  | G_ListingRejected string AccountId string
  | G_OfferAccepted string AccountId u128 AccountId
  | G_OfferRejected string AccountId AccountId string
  | G_OfferRevoked string AccountId
  | G_SubAccountSold string AccountId AccountId AccountId u128 u128 u128
  | G_SubAccountSaleFailed string AccountId
  | G_SubAccountSaleBlocked string string string
  | G_SubAccountReclaimed string AccountId AccountId
  | G_ReclaimFinalizeBlocked string string string
  | G_MotherSet AccountId AccountId string
  | G_MotherCleared AccountId AccountId AccountId
  | G_SubAccountRetractionScheduled string u64 AccountId
  | G_SubAccountRetractionCanceled string AccountId
  | G_SubAccountSignerPending string AccountId
  | G_SignerInstalled string
  | G_SettlingCleared string AccountId
  | G_ReclaimPendingCleared string AccountId

section \<open>Data (types.rs)\<close>

definition ONE_NEAR :: u128 where "ONE_NEAR = 1000000000000000000000000"
definition ONE_YEAR_NS :: u64 where "ONE_YEAR_NS = 365 * 24 * 60 * 60 * 1000000000"

datatype TlaType = Business | Open

datatype TlaStatus = StRegistered | StActive | StSuspended

datatype PremiumCategory = Legendary | Premium | Standard | Community

fun multiplier :: "PremiumCategory \<Rightarrow> u128 \<times> u128" where
  "multiplier Legendary = (5, 1)"
| "multiplier Premium = (3, 1)"
| "multiplier Standard = (3, 2)"
| "multiplier Community = (0, 1)"

record TlaEntry =
  te_tla_type :: TlaType
  te_status :: TlaStatus
  te_licensee :: "AccountId option"
  te_premium_category :: PremiumCategory
  te_activated_at :: u64
  te_expires_at :: u64

record SubAccountEntry =
  sa_owner :: AccountId
  sa_tla_id :: AccountId
  sa_main_wallet :: AccountId
  sa_rented_at :: u64
  sa_expires_at :: u64
  sa_retraction_at :: "u64 option"

record Listing =
  li_price :: u128
  li_settling :: bool
  li_owner_key :: PublicKey

record ParkedEntry =
  pe_tla_id :: AccountId
  pe_parked_at :: u64

record AcceptedOffer =
  ao_buyer :: AccountId
  ao_price :: u128
  ao_settling :: bool
  ao_owner_key :: PublicKey

record FeeConfig =
  fc_tla_allocation_fee :: u128
  fc_rent_tier_5 :: u128
  fc_rent_tier_8 :: u128
  fc_rent_tier_10 :: u128
  fc_rent_tier_12plus :: u128
  fc_sub_fee_per_account :: u128
  fc_account_creation_deposit :: u128
  fc_business_max_subs :: u32
  fc_retraction_notice_ns :: u64
  fc_resale_commission_bps :: u16

datatype LifecycleStatus = LcRegistered | LcActive | LcGrace | LcReclaimable | LcSuspended

definition time_lifecycle :: "ctx \<Rightarrow> u64 \<Rightarrow> u64 \<Rightarrow> LifecycleStatus" where
  "time_lifecycle c expires_at grace_period_ns =
     (let now = block_timestamp c;
          grace_end = sat_add expires_at grace_period_ns
      in if now < expires_at then LcActive
         else if now < grace_end then LcGrace
         else LcReclaimable)"

definition tla_lifecycle :: "ctx \<Rightarrow> TlaEntry \<Rightarrow> u64 \<Rightarrow> LifecycleStatus" where
  "tla_lifecycle c entry grace_period_ns = (case te_status entry of
     StRegistered \<Rightarrow> LcRegistered
   | StSuspended \<Rightarrow> LcSuspended
   | StActive \<Rightarrow> time_lifecycle c (te_expires_at entry) grace_period_ns)"

definition is_accepting_rentals :: "ctx \<Rightarrow> TlaEntry \<Rightarrow> bool" where
  "is_accepting_rentals c entry \<longleftrightarrow> te_status entry = StActive \<and> block_timestamp c < te_expires_at entry"

definition sub_lifecycle :: "ctx \<Rightarrow> SubAccountEntry \<Rightarrow> u64 \<Rightarrow> LifecycleStatus" where
  "sub_lifecycle c sub grace_period_ns = time_lifecycle c (sa_expires_at sub) grace_period_ns"

definition name_char :: "char \<Rightarrow> bool" where
  "name_char ch \<longleftrightarrow> (let b = of_char ch :: u8 in
     of_char (CHR ''a'') \<le> b \<and> b \<le> of_char (CHR ''z'') \<or>
     of_char (CHR ''0'') \<le> b \<and> b \<le> of_char (CHR ''9'') \<or> ch = CHR ''-'' \<or> ch = CHR ''_'')"

definition validate_name :: "string \<Rightarrow> rg_error + unit" where
  "validate_name name =
     (if name = [] \<or> length name > 60 then Inl (InvalidName LengthOutOfBounds)
      else if \<not> list_all name_char name then Inl (InvalidName DisallowedCharacter)
      else if hd name = CHR ''-'' \<or> hd name = CHR ''_'' \<or> last name = CHR ''-'' \<or> last name = CHR ''_''
      then Inl (InvalidName EdgeSeparator)
      else Inr ())"

definition sub_account_key :: "AccountId \<Rightarrow> string \<Rightarrow> string" where
  "sub_account_key tla_id name = name @ ''.'' @ tla_id"

definition total_name_length :: "AccountId \<Rightarrow> string \<Rightarrow> u8" where
  "total_name_length tla_id name = word_of_nat (length name + 1 + length tla_id)"

section \<open>Fees (fees.rs)\<close>

definition base_rent :: "u8 \<Rightarrow> FeeConfig \<Rightarrow> u128" where
  "base_rent total_len config =
     (if total_len \<le> 5 then fc_rent_tier_5 config
      else if total_len \<le> 8 then fc_rent_tier_8 config
      else if total_len \<le> 10 then fc_rent_tier_10 config
      else fc_rent_tier_12plus config)"

definition sub_account_rent :: "u8 \<Rightarrow> PremiumCategory \<Rightarrow> FeeConfig \<Rightarrow> u128" where
  "sub_account_rent total_len premium config =
     (let base = base_rent total_len config
      in case multiplier premium of (num, den) \<Rightarrow> sat_mul base num div den)"

definition split_resale :: "u128 \<Rightarrow> u16 \<Rightarrow> u128 \<times> u128" where
  "split_resale price commission_bps =
     (let commission = min (sat_mul price (ucast commission_bps) div 10000) price
      in (commission, sat_sub price commission))"

definition calculate_rent :: "TlaEntry \<Rightarrow> AccountId \<Rightarrow> string \<Rightarrow> FeeConfig \<Rightarrow> u128" where
  "calculate_rent tla tla_id name config = (case te_tla_type tla of
     Business \<Rightarrow> fc_sub_fee_per_account config
   | Open \<Rightarrow>
       let total_len = total_name_length tla_id name
       in sub_account_rent total_len (te_premium_category tla) config)"

definition default_fee_config :: FeeConfig where
  "default_fee_config = \<lparr>
     fc_tla_allocation_fee = 1000 * ONE_NEAR,
     fc_rent_tier_5 = 50 * ONE_NEAR,
     fc_rent_tier_8 = 20 * ONE_NEAR,
     fc_rent_tier_10 = 10 * ONE_NEAR,
     fc_rent_tier_12plus = 5 * ONE_NEAR,
     fc_sub_fee_per_account = ONE_NEAR div 2,
     fc_account_creation_deposit = ONE_NEAR div 100,
     fc_business_max_subs = 1000,
     fc_retraction_notice_ns = 7 * 24 * 60 * 60 * 1000000000,
     fc_resale_commission_bps = 0\<rparr>"

section \<open>The token-balance gate (asset\_gate.rs)\<close>

definition GAS_PER_FT_BALANCE :: nat where "GAS_PER_FT_BALANCE = 5"

datatype BalanceGate = Clear | Blocked string string

text \<open>The joint promise over the allowlist; the loop of the source is the left fold.\<close>

definition ft_balance_query :: "AccountId \<Rightarrow> AccountId \<Rightarrow> 'cb promise" where
  "ft_balance_query ft sub_account = CallP ft (FtBalanceOf sub_account) 0 GAS_PER_FT_BALANCE"

definition ft_balance_fanout :: "AccountId list \<Rightarrow> AccountId \<Rightarrow> 'cb promise option" where
  "ft_balance_fanout allowlist sub_account = (case allowlist of
     [] \<Rightarrow> None
   | first # rest \<Rightarrow> Some (foldl (\<lambda>chain ft. AndP chain (ft_balance_query ft sub_account))
       (ft_balance_query first sub_account) rest))"

text \<open>A callback sees the list of promise results, raw bytes or an error. \<open>promise_result_checked\<close>
  of near-sdk turns a result of more than the given number of bytes into \<open>TooLong\<close>.\<close>

definition FT_BALANCE_MAX_LEN :: nat where
  "FT_BALANCE_MAX_LEN = 256"

definition promise_result_checked :: "nat \<Rightarrow> byte list promise_result \<Rightarrow> byte list promise_result" where
  "promise_result_checked max_len result = (case result of
     Inr bytes \<Rightarrow> if max_len < length bytes then Inl TooLong else Inr bytes
   | Inl e \<Rightarrow> Inl e)"

definition block_reason :: "host \<Rightarrow> byte list promise_result \<Rightarrow> string option" where
  "block_reason h result = (case promise_result_checked FT_BALANCE_MAX_LEN result of
     Inr bytes \<Rightarrow>
       (case parse_u128 h bytes of
          Some balance \<Rightarrow> if balance > 0 then Some (nat_to_string (unat balance)) else None
        | None \<Rightarrow> Some ''balance_unverifiable'')
   | Inl Failed \<Rightarrow> Some ''balance_query_failed''
   | Inl TooLong \<Rightarrow> Some ''balance_query_unverifiable'')"

primrec first_blocked :: "host \<Rightarrow> (AccountId \<times> byte list promise_result) list \<Rightarrow> BalanceGate" where
  "first_blocked h [] = Clear"
| "first_blocked h (x # xs) = (case block_reason h (snd x) of
     Some reason \<Rightarrow> Blocked (fst x) reason
   | None \<Rightarrow> first_blocked h xs)"

definition ft_balances_clear :: "host \<Rightarrow> byte list promise_result list \<Rightarrow> AccountId list \<Rightarrow> BalanceGate" where
  "ft_balances_clear h results allowlist =
     (if length results \<noteq> length allowlist then Blocked [] ''result_count_mismatch''
      else first_blocked h (zip allowlist results))"

end
