(* ===== verification/Registry_Core.thy ===== *)
theory Registry_Core
  imports Registry_Types "HOL-Library.AList"
begin

text \<open>
  State and administration of \<open>tla-registry\<close> (\<open>src/contracts/tla-registry/src\<close>: \<open>lib.rs\<close>,
  \<open>admin.rs\<close>, \<open>mother.rs\<close>, \<open>business.rs\<close>). The contract record has the prefix \<open>rg_\<close>. The
  iterable map of TLAs is an association list in insertion order, the lookup maps are partial
  functions. A helper of the source that changes the state and emits events returns both.
\<close>

section \<open>State (lib.rs)\<close>

record TlaRegistry =
  rg_tlas :: "(AccountId \<times> TlaEntry) list"
  rg_sub_accounts :: "string \<rightharpoonup> SubAccountEntry"
  rg_admins :: "AccountId list"
  rg_fee_config :: FeeConfig
  rg_total_revenue :: u128
  rg_sub_account_count :: u64
  rg_paused :: bool
  rg_version :: u8
  rg_pending_refunds :: "AccountId \<rightharpoonup> u128"
  rg_total_pending_refunds :: u128
  rg_ft_allowlist :: "AccountId list"
  rg_mothers :: "AccountId \<rightharpoonup> AccountId"
  rg_mother_use_count :: "AccountId \<rightharpoonup> u32"
  rg_business_sub_count :: "AccountId \<rightharpoonup> u32"
  rg_business_sub_cap_override :: "AccountId \<rightharpoonup> u32"
  rg_listings :: "string \<rightharpoonup> Listing"
  rg_accepted_offers :: "string \<rightharpoonup> AcceptedOffer"
  rg_parked_names :: "string \<rightharpoonup> ParkedEntry"
  rg_signer_pending :: "string \<rightharpoonup> PublicKey"
  rg_reclaim_pending :: "string \<rightharpoonup> bool"
  rg_payment_authorities :: "AccountId list"
  rg_hos_extension :: AccountId
  rg_active_signer :: AccountId
  rg_parked_signer_pubkey :: PublicKey
  rg_grace_period_ns :: u64

record PendingReRent =
  prr_tla_id :: AccountId
  prr_name :: string
  prr_payer :: AccountId
  prr_owner_key :: PublicKey
  prr_rent :: u128
  prr_attached :: u128
  prr_sub_account :: AccountId

record PendingBuy =
  pb_tla_id :: AccountId
  pb_name :: string
  pb_buyer :: AccountId
  pb_new_owner_key :: PublicKey
  pb_price :: u128
  pb_deposit :: u128
  pb_owner_key :: PublicKey
  pb_sub_account :: AccountId

datatype rg_callback =
    OnClaimRefundSettled AccountId u128
  | OnSubAccountCreated AccountId string AccountId PublicKey u128 u128
  | OnSubAccountCreatedPaid AccountId string AccountId PublicKey u128 u128
  | OnSubAccountReRented AccountId string AccountId u128 u128
  | OnRetrySignerSettled string
  | OnReRentBalancesChecked PendingReRent "AccountId list"
  | OnListingVerified AccountId string u128 PublicKey AccountId
  | OnOfferVerified AccountId string AccountId u128 PublicKey AccountId
  | OnSubAccountSold AccountId string AccountId u128 u128
  | OnSubAccountSoldPaid AccountId string AccountId AccountId u128
  | OnBuyBalancesChecked PendingBuy "AccountId list"
  | OnBuyPaidBalancesChecked PendingBuy "AccountId list" AccountId
  | OnBalancesChecked AccountId string AccountId "AccountId list"
  | OnReclaimFinalized AccountId string AccountId

type_synonym rg_promise = "rg_callback promise"
type_synonym 'r rg_outcome = "(rg_error, TlaRegistry, rg_event, 'r) outcome"

definition RG_CONTRACT_VERSION :: u8 where "RG_CONTRACT_VERSION = 1"
definition MIN_GRACE_PERIOD_NS :: u64 where "MIN_GRACE_PERIOD_NS = 24 * 60 * 60 * 1000000000"
definition GAS_FOR_CLAIM_REFUND_CB :: nat where "GAS_FOR_CLAIM_REFUND_CB = 10"

definition tla_of :: "TlaRegistry \<Rightarrow> AccountId \<Rightarrow> TlaEntry option" where
  "tla_of s tla_id = map_of (rg_tlas s) tla_id"

definition tla_insert :: "AccountId \<Rightarrow> TlaEntry \<Rightarrow> TlaRegistry \<Rightarrow> TlaRegistry" where
  "tla_insert tla_id entry s = s\<lparr>rg_tlas := AList.update tla_id entry (rg_tlas s)\<rparr>"

section \<open>Guards and money helpers (lib.rs)\<close>

definition assert_admin :: "ctx \<Rightarrow> TlaRegistry \<Rightarrow> rg_error + unit" where
  "assert_admin c s = check (predecessor_account_id c \<in> set (rg_admins s)) OnlyAdmin"

definition assert_payment_authority :: "ctx \<Rightarrow> TlaRegistry \<Rightarrow> rg_error + AccountId" where
  "assert_payment_authority c s =
     (let caller = predecessor_account_id c
      in if caller \<notin> set (rg_payment_authorities s) then Inl OnlyPaymentAuthority else Inr caller)"

definition assert_not_paused :: "TlaRegistry \<Rightarrow> rg_error + unit" where
  "assert_not_paused s = check (\<not> rg_paused s) Paused"

definition assert_one_yocto :: "ctx \<Rightarrow> rg_error + unit" where
  "assert_one_yocto c = check (attached_deposit c = 1) RequiresOneYocto"

definition add_pending_refund :: "AccountId \<Rightarrow> u128 \<Rightarrow> TlaRegistry \<Rightarrow> TlaRegistry" where
  "add_pending_refund account amount s =
     (let existing = get_or 0 (rg_pending_refunds s) account
      in s\<lparr>rg_pending_refunds := (rg_pending_refunds s)(account \<mapsto> sat_add existing amount),
           rg_total_pending_refunds := sat_add (rg_total_pending_refunds s) amount\<rparr>)"

definition refund_excess :: "AccountId \<Rightarrow> u128 \<Rightarrow> u128 \<Rightarrow> TlaRegistry \<Rightarrow> TlaRegistry" where
  "refund_excess payer attached charged s =
     (let excess = sat_sub attached charged
      in if excess > 0 then add_pending_refund payer excess s else s)"

definition available_balance :: "ctx \<Rightarrow> u128" where
  "available_balance c =
     (let total = account_balance c;
          reserve = sat_mul (storage_byte_cost c) (ucast (storage_usage c))
      in sat_sub total reserve)"

section \<open>Calls of lib.rs\<close>

definition rg_new :: "host \<Rightarrow> ctx \<Rightarrow> AccountId \<Rightarrow> AccountId \<Rightarrow> AccountId \<Rightarrow> PublicKey \<Rightarrow> u64
    \<Rightarrow> rg_error + TlaRegistry" where
  "rg_new h c admin hos_extension active_signer parked_signer_pubkey grace_period_ns =
     (if \<not> is_ed25519 h parked_signer_pubkey then Inl ParkedKeyNotEd25519
      else if \<not> grace_period_ns \<ge> MIN_GRACE_PERIOD_NS then Inl GracePeriodTooShort
      else if \<not> hos_extension \<noteq> active_signer then Inl ExtensionIsSigner
      else if \<not> (hos_extension \<noteq> current_account_id c \<and> active_signer \<noteq> current_account_id c)
      then Inl WiringPointsAtRegistry
      else Inr \<lparr>rg_tlas = [], rg_sub_accounts = Map.empty, rg_admins = iset_insert admin [],
        rg_fee_config = default_fee_config, rg_total_revenue = 0, rg_sub_account_count = 0,
        rg_paused = False, rg_version = RG_CONTRACT_VERSION, rg_pending_refunds = Map.empty,
        rg_total_pending_refunds = 0, rg_ft_allowlist = [], rg_mothers = Map.empty,
        rg_mother_use_count = Map.empty, rg_business_sub_count = Map.empty,
        rg_business_sub_cap_override = Map.empty, rg_listings = Map.empty,
        rg_accepted_offers = Map.empty, rg_parked_names = Map.empty, rg_signer_pending = Map.empty,
        rg_reclaim_pending = Map.empty, rg_payment_authorities = [],
        rg_hos_extension = hos_extension, rg_active_signer = active_signer,
        rg_parked_signer_pubkey = parked_signer_pubkey, rg_grace_period_ns = grace_period_ns\<rparr>)"

definition rg_pause :: "ctx \<Rightarrow> TlaRegistry \<Rightarrow> unit rg_outcome" where
  "rg_pause c s = try_in (assert_admin c s) (\<lambda>_.
     Inr (s\<lparr>rg_paused := True\<rparr>, [G_ContractPaused (predecessor_account_id c)], ()))"

definition rg_unpause :: "ctx \<Rightarrow> TlaRegistry \<Rightarrow> unit rg_outcome" where
  "rg_unpause c s = try_in (assert_admin c s) (\<lambda>_.
     Inr (s\<lparr>rg_paused := False\<rparr>, [G_ContractUnpaused (predecessor_account_id c)], ()))"

definition claim_refund :: "ctx \<Rightarrow> TlaRegistry \<Rightarrow> rg_promise rg_outcome" where
  "claim_refund c s =
     (let caller = predecessor_account_id c;
          amount = get_or 0 (rg_pending_refunds s) caller
      in if amount = 0 then Inl NoPendingRefund
         else if amount > available_balance c then Inl InsufficientContractBalance
         else Inr (s\<lparr>rg_pending_refunds := (rg_pending_refunds s)(caller := None),
                rg_total_pending_refunds := sat_sub (rg_total_pending_refunds s) amount\<rparr>, [],
              ThenP (BatchP caller [TransferNear amount])
                (OnClaimRefundSettled caller amount) GAS_FOR_CLAIM_REFUND_CB))"

definition on_claim_refund_settled :: "AccountId \<Rightarrow> u128 \<Rightarrow> bool \<Rightarrow> TlaRegistry \<Rightarrow> unit rg_outcome" where
  "on_claim_refund_settled caller amount promise_success s =
     (if promise_success then Inr (s, [], ())
      else Inr (add_pending_refund caller amount s,
             [G_RefundPending caller amount ''transfer_failed''], ()))"

definition rg_get_version :: "TlaRegistry \<Rightarrow> u8" where "rg_get_version s = rg_version s"
definition rg_is_paused :: "TlaRegistry \<Rightarrow> bool" where "rg_is_paused s = rg_paused s"
definition get_pending_refund :: "TlaRegistry \<Rightarrow> AccountId \<Rightarrow> u128" where
  "get_pending_refund s account_id = get_or 0 (rg_pending_refunds s) account_id"
definition get_total_pending_refunds :: "TlaRegistry \<Rightarrow> u128" where
  "get_total_pending_refunds s = rg_total_pending_refunds s"

section \<open>Sales in progress (the helpers of marketplace.rs that other parts use)\<close>

definition assert_sale_idle :: "string \<Rightarrow> TlaRegistry \<Rightarrow> rg_error + unit" where
  "assert_sale_idle key s =
     (case rg_listings s key of
        Some listing \<Rightarrow> if li_settling listing then Inl SaleInProgress
          else (case rg_accepted_offers s key of
                  Some offer \<Rightarrow> if ao_settling offer then Inl SaleInProgress else Inr ()
                | None \<Rightarrow> Inr ())
      | None \<Rightarrow> (case rg_accepted_offers s key of
                  Some offer \<Rightarrow> if ao_settling offer then Inl SaleInProgress else Inr ()
                | None \<Rightarrow> Inr ()))"

definition clear_settling :: "string \<Rightarrow> TlaRegistry \<Rightarrow> TlaRegistry" where
  "clear_settling key s =
     (let s = (case rg_listings s key of
            Some listing \<Rightarrow> s\<lparr>rg_listings := (rg_listings s)(key \<mapsto> listing\<lparr>li_settling := False\<rparr>)\<rparr>
          | None \<Rightarrow> s)
      in case rg_accepted_offers s key of
           Some offer \<Rightarrow> s\<lparr>rg_accepted_offers := (rg_accepted_offers s)(key \<mapsto> offer\<lparr>ao_settling := False\<rparr>)\<rparr>
         | None \<Rightarrow> s)"

section \<open>Administration (admin.rs)\<close>

definition MAX_ALLOWLIST_SIZE :: nat where "MAX_ALLOWLIST_SIZE = 16"

fun tla_type_str :: "TlaType \<Rightarrow> string" where
  "tla_type_str Business = ''business''"
| "tla_type_str Open = ''open''"

fun premium_str :: "PremiumCategory \<Rightarrow> string" where
  "premium_str Legendary = ''legendary''"
| "premium_str Premium = ''premium''"
| "premium_str Standard = ''standard''"
| "premium_str Community = ''community''"

definition register_tla :: "ctx \<Rightarrow> AccountId \<Rightarrow> TlaType \<Rightarrow> PremiumCategory \<Rightarrow> AccountId option
    \<Rightarrow> TlaRegistry \<Rightarrow> unit rg_outcome" where
  "register_tla c tla_id tla_type premium_category licensee s =
     try_in (assert_admin c s) (\<lambda>_.
     if tla_of s tla_id \<noteq> None then Inl TlaAlreadyRegistered
     else if tla_type = Business \<and> licensee = None then Inl BusinessTlaRequiresLicensee
     else
       let entry = \<lparr>te_tla_type = tla_type, te_status = StRegistered, te_licensee = licensee,
             te_premium_category = premium_category, te_activated_at = 0, te_expires_at = 0\<rparr>
       in Inr (tla_insert tla_id entry s,
            [G_TlaRegistered tla_id (tla_type_str tla_type) (premium_str premium_category) licensee], ()))"

definition suspend_tla :: "ctx \<Rightarrow> AccountId \<Rightarrow> TlaRegistry \<Rightarrow> unit rg_outcome" where
  "suspend_tla c tla_id s =
     try_in (assert_admin c s) (\<lambda>_.
     try_in (ok_or TlaNotFound (tla_of s tla_id)) (\<lambda>entry.
     if te_status entry = StRegistered then Inl TlaNotActive
     else Inr (tla_insert tla_id (entry\<lparr>te_status := StSuspended\<rparr>) s,
            [G_TlaSuspended tla_id ''suspended'' (predecessor_account_id c)], ())))"

definition unsuspend_tla :: "ctx \<Rightarrow> AccountId \<Rightarrow> TlaRegistry \<Rightarrow> unit rg_outcome" where
  "unsuspend_tla c tla_id s =
     try_in (assert_admin c s) (\<lambda>_.
     try_in (ok_or TlaNotFound (tla_of s tla_id)) (\<lambda>entry.
     if te_status entry \<noteq> StSuspended then Inl TlaNotSuspended
     else if te_tla_type entry = Business \<and> te_licensee entry = None then Inl BusinessTlaMissingLicensee
     else Inr (tla_insert tla_id (entry\<lparr>te_status := StActive\<rparr>) s,
            [G_TlaUnsuspended tla_id ''unsuspended'' (predecessor_account_id c)], ())))"

definition rg_add_admin :: "ctx \<Rightarrow> AccountId \<Rightarrow> TlaRegistry \<Rightarrow> unit rg_outcome" where
  "rg_add_admin c account_id s =
     try_in (assert_admin c s) (\<lambda>_.
     if account_id \<in> set (rg_admins s) then Inr (s, [], ())
     else Inr (s\<lparr>rg_admins := iset_insert account_id (rg_admins s)\<rparr>,
            [G_AdminAdded ''added'' account_id (predecessor_account_id c)], ()))"

definition rg_remove_admin :: "ctx \<Rightarrow> AccountId \<Rightarrow> TlaRegistry \<Rightarrow> unit rg_outcome" where
  "rg_remove_admin c account_id s =
     try_in (assert_admin c s) (\<lambda>_.
     if length (rg_admins s) \<le> 1 then Inl CannotRemoveLastAdmin
     else Inr (s\<lparr>rg_admins := iset_remove account_id (rg_admins s)\<rparr>,
            [G_AdminRemoved ''removed'' account_id (predecessor_account_id c)], ()))"

definition add_payment_authority :: "ctx \<Rightarrow> AccountId \<Rightarrow> TlaRegistry \<Rightarrow> unit rg_outcome" where
  "add_payment_authority c account_id s =
     try_in (assert_admin c s) (\<lambda>_.
     if account_id \<in> set (rg_payment_authorities s) then Inr (s, [], ())
     else Inr (s\<lparr>rg_payment_authorities := iset_insert account_id (rg_payment_authorities s)\<rparr>,
            [G_PaymentAuthorityAdded account_id (predecessor_account_id c)], ()))"

definition remove_payment_authority :: "ctx \<Rightarrow> AccountId \<Rightarrow> TlaRegistry \<Rightarrow> unit rg_outcome" where
  "remove_payment_authority c account_id s =
     try_in (assert_admin c s) (\<lambda>_.
     if account_id \<notin> set (rg_payment_authorities s) then Inr (s, [], ())
     else Inr (s\<lparr>rg_payment_authorities := iset_remove account_id (rg_payment_authorities s)\<rparr>,
            [G_PaymentAuthorityRemoved account_id (predecessor_account_id c)], ()))"

definition update_fee_config :: "ctx \<Rightarrow> FeeConfig \<Rightarrow> TlaRegistry \<Rightarrow> unit rg_outcome" where
  "update_fee_config c conf s =
     try_in (assert_admin c s) (\<lambda>_.
     if fc_rent_tier_5 conf = 0 \<and> fc_rent_tier_8 conf = 0 \<and> fc_rent_tier_10 conf = 0
        \<and> fc_rent_tier_12plus conf = 0 then Inl AllRentTiersZero
     else if fc_account_creation_deposit conf = 0 then Inl CreationDepositZero
     else if fc_resale_commission_bps conf > 10000 then Inl InvalidCommissionRate
     else Inr (s\<lparr>rg_fee_config := conf\<rparr>, [G_FeeConfigUpdated (predecessor_account_id c)], ()))"

definition set_parked_signer_pubkey :: "host \<Rightarrow> ctx \<Rightarrow> PublicKey \<Rightarrow> TlaRegistry \<Rightarrow> unit rg_outcome" where
  "set_parked_signer_pubkey h c pubkey s =
     try_in (assert_admin c s) (\<lambda>_.
     if \<not> is_ed25519 h pubkey then Inl NotEd25519
     else Inr (s\<lparr>rg_parked_signer_pubkey := pubkey\<rparr>,
            [G_ParkedSignerUpdated pubkey (predecessor_account_id c)], ()))"

definition withdraw :: "ctx \<Rightarrow> u128 \<Rightarrow> AccountId \<Rightarrow> TlaRegistry \<Rightarrow> unit rg_outcome" where
  "withdraw c amount recipient s =
     try_in (assert_admin c s) (\<lambda>_.
     if amount = 0 then Inl WithdrawalAmountZero
     else if amount > rg_total_revenue s then Inl InsufficientRevenue
     else if sat_add (rg_total_pending_refunds s) amount > available_balance c
     then Inl InsufficientContractBalance
     else Inr (add_pending_refund recipient amount
            (s\<lparr>rg_total_revenue := sat_sub (rg_total_revenue s) amount\<rparr>),
          [G_WithdrawalQueued amount recipient], ()))"

definition add_ft_allowlist :: "ctx \<Rightarrow> AccountId \<Rightarrow> TlaRegistry \<Rightarrow> unit rg_outcome" where
  "add_ft_allowlist c token s =
     try_in (assert_admin c s) (\<lambda>_.
     if token \<in> set (rg_ft_allowlist s) then Inr (s, [], ())
     else if length (rg_ft_allowlist s) \<ge> MAX_ALLOWLIST_SIZE then Inl AllowlistFull
     else Inr (s\<lparr>rg_ft_allowlist := iset_insert token (rg_ft_allowlist s)\<rparr>,
            [G_FtAllowlistAdded ''ft'' token (predecessor_account_id c)], ()))"

definition remove_ft_allowlist :: "ctx \<Rightarrow> AccountId \<Rightarrow> TlaRegistry \<Rightarrow> unit rg_outcome" where
  "remove_ft_allowlist c token s =
     try_in (assert_admin c s) (\<lambda>_.
     if token \<notin> set (rg_ft_allowlist s) then Inr (s, [], ())
     else Inr (s\<lparr>rg_ft_allowlist := iset_remove token (rg_ft_allowlist s)\<rparr>,
            [G_FtAllowlistRemoved ''ft'' token (predecessor_account_id c)], ()))"

definition activate_open_tla :: "ctx \<Rightarrow> AccountId \<Rightarrow> TlaRegistry \<Rightarrow> unit rg_outcome" where
  "activate_open_tla c tla_id s =
     try_in (assert_admin c s) (\<lambda>_.
     try_in (ok_or TlaNotFound (tla_of s tla_id)) (\<lambda>entry.
     if te_status entry \<noteq> StRegistered then Inl TlaNotInRegisteredState
     else if te_tla_type entry \<noteq> Open then Inl WrongActivationEndpoint
     else
       let now = block_timestamp c;
           expires_at = sat_add now ONE_YEAR_NS
       in Inr (tla_insert tla_id (entry\<lparr>te_status := StActive, te_activated_at := now,
                 te_expires_at := expires_at\<rparr>) s,
            [G_TlaActivated tla_id expires_at 0], ())))"

definition admin_clear_settling :: "ctx \<Rightarrow> AccountId \<Rightarrow> string \<Rightarrow> TlaRegistry \<Rightarrow> unit rg_outcome" where
  "admin_clear_settling c tla_id name s =
     try_in (assert_admin c s) (\<lambda>_.
       let key = sub_account_key tla_id name
       in Inr (clear_settling key s, [G_SettlingCleared key (predecessor_account_id c)], ()))"

definition admin_clear_reclaim_pending :: "ctx \<Rightarrow> AccountId \<Rightarrow> string \<Rightarrow> TlaRegistry \<Rightarrow> unit rg_outcome" where
  "admin_clear_reclaim_pending c tla_id name s =
     try_in (assert_admin c s) (\<lambda>_.
       let key = sub_account_key tla_id name
       in Inr (s\<lparr>rg_reclaim_pending := (rg_reclaim_pending s)(key := None)\<rparr>,
            [G_ReclaimPendingCleared key (predecessor_account_id c)], ()))"

section \<open>Mothers (mother.rs)\<close>

definition effective_sub_lifecycle :: "ctx \<Rightarrow> SubAccountEntry \<Rightarrow> TlaEntry \<Rightarrow> u64 \<Rightarrow> u64 \<Rightarrow> LifecycleStatus" where
  "effective_sub_lifecycle c sub tla retraction_notice_ns grace_period_ns =
     (if tla_lifecycle c tla grace_period_ns = LcReclaimable then LcReclaimable
      else (case sa_retraction_at sub of
              Some retraction_at \<Rightarrow>
                if block_timestamp c \<ge> sat_add retraction_at retraction_notice_ns then LcReclaimable
                else sub_lifecycle c sub grace_period_ns
            | None \<Rightarrow> sub_lifecycle c sub grace_period_ns))"

definition increment_mother_use :: "AccountId \<Rightarrow> TlaRegistry \<Rightarrow> TlaRegistry" where
  "increment_mother_use account s =
     (let next = sat_add (get_or 0 (rg_mother_use_count s) account) 1
      in s\<lparr>rg_mother_use_count := (rg_mother_use_count s)(account \<mapsto> next)\<rparr>)"

definition decrement_mother_use :: "AccountId \<Rightarrow> TlaRegistry \<Rightarrow> TlaRegistry" where
  "decrement_mother_use account s =
     (let next = sat_sub (get_or 0 (rg_mother_use_count s) account) 1
      in if next = 0 then s\<lparr>rg_mother_use_count := (rg_mother_use_count s)(account := None)\<rparr>
         else s\<lparr>rg_mother_use_count := (rg_mother_use_count s)(account \<mapsto> next)\<rparr>)"

definition ensure_mother_default :: "AccountId \<Rightarrow> TlaRegistry \<Rightarrow> TlaRegistry \<times> rg_event list" where
  "ensure_mother_default user s =
     (if rg_mothers s user \<noteq> None then (s, [])
      else
        let s = s\<lparr>rg_mothers := (rg_mothers s)(user \<mapsto> user)\<rparr>;
            s = (if rg_sub_accounts s user \<noteq> None then increment_mother_use user s else s)
        in (s, [G_MotherSet user user ''default'']))"

definition set_mother_internal :: "ctx \<Rightarrow> AccountId \<Rightarrow> AccountId \<Rightarrow> string \<Rightarrow> TlaRegistry \<Rightarrow> unit rg_outcome" where
  "set_mother_internal c user new_mother source s =
     (let key = new_mother;
          retraction_notice_ns = fc_retraction_notice_ns (rg_fee_config s);
          grace_period_ns = rg_grace_period_ns s;
          new_mother_is_managed = (rg_sub_accounts s key \<noteq> None);
          replace_mother = (\<lambda>s.
            let s = s\<lparr>rg_mothers := (rg_mothers s)(user \<mapsto> new_mother)\<rparr>;
                s = (if new_mother_is_managed then increment_mother_use new_mother s else s)
            in Inr (s, [G_MotherSet user new_mother source], ()))
      in try_in (case rg_sub_accounts s key of
           Some sub \<Rightarrow>
             if sa_owner sub \<noteq> user then Inl OnlyOwner
             else try_in (ok_or TlaNotFound (tla_of s (sa_tla_id sub))) (\<lambda>tla.
               if effective_sub_lifecycle c sub tla retraction_notice_ns grace_period_ns = LcReclaimable
               then Inl MotherIsReclaimable else Inr ())
         | None \<Rightarrow> Inr ()) (\<lambda>_.
         case rg_mothers s user of
           Some old_mother \<Rightarrow>
             if old_mother = new_mother then Inr (s, [], ())
             else if rg_sub_accounts s old_mother \<noteq> None
             then replace_mother (decrement_mother_use old_mother s)
             else replace_mother s
         | None \<Rightarrow> replace_mother s))"

definition set_mother :: "ctx \<Rightarrow> AccountId \<Rightarrow> TlaRegistry \<Rightarrow> unit rg_outcome" where
  "set_mother c new_mother s =
     try_in (assert_one_yocto c) (\<lambda>_.
     try_in (assert_not_paused s) (\<lambda>_.
     if rg_sub_accounts s new_mother = None then Inl SubAccountNotFound
     else set_mother_internal c (predecessor_account_id c) new_mother ''explicit'' s))"

definition get_mother :: "TlaRegistry \<Rightarrow> AccountId \<Rightarrow> AccountId option" where
  "get_mother s user = rg_mothers s user"

definition is_mother :: "TlaRegistry \<Rightarrow> AccountId \<Rightarrow> bool" where
  "is_mother s account \<longleftrightarrow> get_or 0 (rg_mother_use_count s) account > 0"

definition get_mother_use_count :: "TlaRegistry \<Rightarrow> AccountId \<Rightarrow> u32" where
  "get_mother_use_count s account = get_or 0 (rg_mother_use_count s) account"

definition admin_clear_mother :: "ctx \<Rightarrow> AccountId \<Rightarrow> TlaRegistry \<Rightarrow> unit rg_outcome" where
  "admin_clear_mother c user s =
     try_in (assert_admin c s) (\<lambda>_.
     try_in (ok_or MotherNotSet (rg_mothers s user)) (\<lambda>previous.
       let s = s\<lparr>rg_mothers := (rg_mothers s)(user := None)\<rparr>;
           s = (if rg_sub_accounts s previous \<noteq> None then decrement_mother_use previous s else s)
       in Inr (s, [G_MotherCleared user previous (predecessor_account_id c)], ())))"

section \<open>Business TLAs (business.rs)\<close>

definition schedule_retraction :: "ctx \<Rightarrow> AccountId \<Rightarrow> string \<Rightarrow> TlaRegistry \<Rightarrow> unit rg_outcome" where
  "schedule_retraction c tla_id name s =
     try_in (assert_one_yocto c) (\<lambda>_.
     try_in (assert_not_paused s) (\<lambda>_.
       let key = sub_account_key tla_id name;
           caller = predecessor_account_id c;
           now = block_timestamp c
       in try_in (ok_or TlaNotFound (tla_of s tla_id)) (\<lambda>tla.
          if te_tla_type tla \<noteq> Business then Inl NotBusinessTla
          else try_in (ok_or SubAccountNotFound (rg_sub_accounts s key)) (\<lambda>sub.
            if caller \<noteq> sa_owner sub then Inl OnlyOwner
            else if sa_retraction_at sub \<noteq> None then Inl RetractionAlreadyScheduled
            else Inr (s\<lparr>rg_sub_accounts := (rg_sub_accounts s)(key \<mapsto> sub\<lparr>sa_retraction_at := Some now\<rparr>)\<rparr>,
                   [G_SubAccountRetractionScheduled key now caller], ())))))"

definition cancel_retraction :: "ctx \<Rightarrow> AccountId \<Rightarrow> string \<Rightarrow> TlaRegistry \<Rightarrow> unit rg_outcome" where
  "cancel_retraction c tla_id name s =
     try_in (assert_one_yocto c) (\<lambda>_.
     try_in (assert_not_paused s) (\<lambda>_.
       let key = sub_account_key tla_id name;
           caller = predecessor_account_id c;
           retraction_notice_ns = fc_retraction_notice_ns (rg_fee_config s);
           now = block_timestamp c
       in try_in (ok_or SubAccountNotFound (rg_sub_accounts s key)) (\<lambda>sub.
          if caller \<noteq> sa_owner sub then Inl OnlyOwner
          else try_in (ok_or NoRetractionScheduled (sa_retraction_at sub)) (\<lambda>retraction_at.
            if now \<ge> sat_add retraction_at retraction_notice_ns then Inl RetractionAlreadyElapsed
            else Inr (s\<lparr>rg_sub_accounts := (rg_sub_accounts s)(key \<mapsto> sub\<lparr>sa_retraction_at := None\<rparr>)\<rparr>,
                   [G_SubAccountRetractionCanceled key caller], ())))))"

definition effective_business_cap :: "TlaRegistry \<Rightarrow> AccountId \<Rightarrow> u32" where
  "effective_business_cap s tla_id =
     get_or (fc_business_max_subs (rg_fee_config s)) (rg_business_sub_cap_override s) tla_id"

definition get_business_sub_count :: "TlaRegistry \<Rightarrow> AccountId \<Rightarrow> u32" where
  "get_business_sub_count s tla_id = get_or 0 (rg_business_sub_count s) tla_id"

definition get_business_sub_cap :: "TlaRegistry \<Rightarrow> AccountId \<Rightarrow> u32" where
  "get_business_sub_cap s tla_id = effective_business_cap s tla_id"

definition set_business_sub_cap :: "ctx \<Rightarrow> AccountId \<Rightarrow> u32 option \<Rightarrow> TlaRegistry \<Rightarrow> unit rg_outcome" where
  "set_business_sub_cap c tla_id cap s =
     try_in (assert_admin c s) (\<lambda>_.
     try_in (ok_or TlaNotFound (tla_of s tla_id)) (\<lambda>tla.
     if te_tla_type tla \<noteq> Business then Inl NotBusinessTla
     else
       let cap_str = (case cap of Some value \<Rightarrow> nat_to_string (unat value) | None \<Rightarrow> ''default'')
       in Inr (s\<lparr>rg_business_sub_cap_override := (rg_business_sub_cap_override s)(tla_id := cap)\<rparr>,
            [G_BusinessSubCapSet tla_id cap_str (predecessor_account_id c)], ())))"

record BusinessRenewalCostView =
  brc_tla_id :: AccountId
  brc_tla_rent_yocto :: u128
  brc_per_sub_yocto :: u128
  brc_sub_count :: u32
  brc_total_yocto :: u128

definition get_business_renewal_cost :: "TlaRegistry \<Rightarrow> AccountId \<Rightarrow> rg_error + BusinessRenewalCostView" where
  "get_business_renewal_cost s tla_id =
     try_in (ok_or TlaNotFound (tla_of s tla_id)) (\<lambda>tla.
     if te_tla_type tla \<noteq> Business then Inl NotBusinessTla
     else
       let tla_len = word_of_nat (length tla_id) :: u8;
           tla_rent = base_rent tla_len (rg_fee_config s);
           per_sub = fc_sub_fee_per_account (rg_fee_config s);
           cnt = get_or 0 (rg_business_sub_count s) tla_id;
           total = tla_rent
       in Inr \<lparr>brc_tla_id = tla_id, brc_tla_rent_yocto = tla_rent, brc_per_sub_yocto = per_sub,
            brc_sub_count = cnt, brc_total_yocto = total\<rparr>)"

definition get_retraction_at :: "TlaRegistry \<Rightarrow> AccountId \<Rightarrow> string \<Rightarrow> u64 option" where
  "get_retraction_at s tla_id name =
     Option.bind (rg_sub_accounts s (sub_account_key tla_id name)) sa_retraction_at"

definition business_count_check_and_bump :: "AccountId \<Rightarrow> TlaRegistry \<Rightarrow> rg_error + TlaRegistry" where
  "business_count_check_and_bump tla_id s =
     (let cap = effective_business_cap s tla_id;
          cnt = get_or 0 (rg_business_sub_count s) tla_id
      in if cnt \<ge> cap then Inl MaxBusinessSubsReached
         else Inr (s\<lparr>rg_business_sub_count := (rg_business_sub_count s)(tla_id \<mapsto> sat_add cnt 1)\<rparr>))"

definition business_count_decrement :: "AccountId \<Rightarrow> TlaRegistry \<Rightarrow> TlaRegistry" where
  "business_count_decrement tla_id s =
     (let cnt = get_or 0 (rg_business_sub_count s) tla_id
      in if cnt = 0 then s
         else
           let next = sat_sub cnt 1
           in if next = 0 then s\<lparr>rg_business_sub_count := (rg_business_sub_count s)(tla_id := None)\<rparr>
              else s\<lparr>rg_business_sub_count := (rg_business_sub_count s)(tla_id \<mapsto> next)\<rparr>)"

definition business_count_decrement_if_business :: "AccountId \<Rightarrow> TlaRegistry \<Rightarrow> TlaRegistry" where
  "business_count_decrement_if_business tla_id s =
     (let is_business = (case tla_of s tla_id of Some t \<Rightarrow> te_tla_type t = Business | None \<Rightarrow> False)
      in if is_business then business_count_decrement tla_id s else s)"

end
