(* ===== verification/Registry_Rental.thy ===== *)
theory Registry_Rental
  imports Registry_Core
begin

text \<open>
  Renting, renewing and the read-only views of \<open>tla-registry\<close>
  (\<open>src/contracts/tla-registry/src\<close>: \<open>rental.rs\<close>, \<open>callbacks.rs\<close>, \<open>views.rs\<close>). A callback gets
  the result of the promise it was attached to as an argument: a decoded value for
  \<open>callback_result\<close>, a truth value for \<open>is_promise_success\<close>, the raw results for the balance
  gate.
\<close>

definition GAS_FOR_CREATE :: nat where "GAS_FOR_CREATE = 90"
definition GAS_FOR_CALLBACK :: nat where "GAS_FOR_CALLBACK = 15"
definition GAS_FOR_RERENT_FORCE :: nat where "GAS_FOR_RERENT_FORCE = 45"
definition GAS_FOR_RETRY_INSTALL :: nat where "GAS_FOR_RETRY_INSTALL = 30"
definition GAS_FOR_RERENT_BALANCES_CB :: nat where "GAS_FOR_RERENT_BALANCES_CB = 85"

section \<open>TLAs\<close>

definition activate_tla :: "ctx \<Rightarrow> AccountId \<Rightarrow> TlaRegistry \<Rightarrow> unit rg_outcome" where
  "activate_tla c tla_id s =
     try_in (assert_not_paused s) (\<lambda>_.
       let caller = predecessor_account_id c;
           tla_len = word_of_nat (length tla_id) :: u8;
           rent = base_rent tla_len (rg_fee_config s);
           required = sat_add (fc_tla_allocation_fee (rg_fee_config s)) rent;
           attached_yocto = attached_deposit c
       in if attached_yocto < required then Inl InsufficientPayment
          else try_in (ok_or TlaNotFound (tla_of s tla_id)) (\<lambda>entry.
            if te_status entry \<noteq> StRegistered then Inl TlaNotInRegisteredState
            else if te_tla_type entry \<noteq> Business then Inl WrongActivationEndpoint
            else try_in (ok_or BusinessTlaMissingLicensee (te_licensee entry)) (\<lambda>licensee.
              if caller \<noteq> licensee then Inl OnlyLicensee
              else
                let now = block_timestamp c;
                    new_expires_at = sat_add now ONE_YEAR_NS;
                    s = tla_insert tla_id (entry\<lparr>te_status := StActive, te_activated_at := now,
                          te_expires_at := new_expires_at\<rparr>) s;
                    s = s\<lparr>rg_total_revenue := sat_add (rg_total_revenue s) required\<rparr>
                in Inr (refund_excess caller attached_yocto required s,
                     [G_TlaActivated tla_id new_expires_at required], ()))))"

definition renew_tla :: "ctx \<Rightarrow> AccountId \<Rightarrow> TlaRegistry \<Rightarrow> unit rg_outcome" where
  "renew_tla c tla_id s =
     try_in (assert_not_paused s) (\<lambda>_.
       let caller = predecessor_account_id c;
           tla_len = word_of_nat (length tla_id) :: u8;
           rent = base_rent tla_len (rg_fee_config s);
           now = block_timestamp c
       in try_in (ok_or TlaNotFound (tla_of s tla_id)) (\<lambda>entry.
          if te_status entry \<noteq> StActive then Inl TlaNotActive
          else if now \<ge> sat_add (te_expires_at entry) (rg_grace_period_ns s) then Inl TlaPastGracePeriod
          else
            let is_business = (te_tla_type entry = Business)
            in try_in (if is_business
                 then try_in (ok_or BusinessTlaMissingLicensee (te_licensee entry)) (\<lambda>licensee.
                        if caller \<noteq> licensee then Inl OnlyLicensee else Inr ())
                 else assert_admin c s) (\<lambda>_.
               if attached_deposit c < rent then Inl InsufficientPayment
               else
                 let base = max now (te_expires_at entry);
                     new_expires_at = sat_add base ONE_YEAR_NS;
                     s = tla_insert tla_id (entry\<lparr>te_expires_at := new_expires_at\<rparr>) s;
                     s = s\<lparr>rg_total_revenue := sat_add (rg_total_revenue s) rent\<rparr>
                 in Inr (refund_excess caller (attached_deposit c) rent s,
                      [G_TlaRenewed tla_id new_expires_at rent], ()))))"

section \<open>Sub-accounts\<close>

text \<open>The block of \<open>rent_sub_account\<close> and \<open>rent_sub_account_paid\<close> that reads the TLA entry: the
  rent, and whether the TLA is a business one. The party is the caller, or the main wallet for
  a paid rental.\<close>

definition rental_terms :: "ctx \<Rightarrow> AccountId \<Rightarrow> string \<Rightarrow> AccountId \<Rightarrow> TlaRegistry
    \<Rightarrow> rg_error + u128 \<times> bool" where
  "rental_terms c tla_id name party s =
     try_in (ok_or TlaNotFound (tla_of s tla_id)) (\<lambda>entry.
     if \<not> is_accepting_rentals c entry then Inl TlaNotAcceptingRentals
     else
       let is_business = (te_tla_type entry = Business);
           rent = calculate_rent entry tla_id name (rg_fee_config s)
       in if is_business
          then try_in (ok_or BusinessTlaMissingLicensee (te_licensee entry)) (\<lambda>licensee.
                 if party \<noteq> licensee then Inl OnlyLicensee else Inr (rent, is_business))
          else Inr (rent, is_business))"

definition new_sub_entry :: "ctx \<Rightarrow> AccountId \<Rightarrow> AccountId \<Rightarrow> AccountId \<Rightarrow> SubAccountEntry" where
  "new_sub_entry c own tla_id main_wallet =
     (let now = block_timestamp c
      in \<lparr>sa_owner = own, sa_tla_id = tla_id, sa_main_wallet = main_wallet, sa_rented_at = now,
          sa_expires_at = sat_add now ONE_YEAR_NS, sa_retraction_at = None\<rparr>)"

definition re_rent_transfer :: "AccountId \<Rightarrow> PendingReRent \<Rightarrow> rg_promise" where
  "re_rent_transfer hos_extension pend =
     ThenP (CallP hos_extension (ForceTransfer (prr_sub_account pend) (prr_owner_key pend) None) 0
              GAS_FOR_RERENT_FORCE)
       (OnSubAccountReRented (prr_tla_id pend) (prr_name pend) (prr_payer pend)
          (prr_rent pend) (prr_attached pend))
       GAS_FOR_CALLBACK"

definition rent_sub_account :: "host \<Rightarrow> ctx \<Rightarrow> AccountId \<Rightarrow> string \<Rightarrow> PublicKey \<Rightarrow> AccountId
    \<Rightarrow> TlaRegistry \<Rightarrow> rg_promise rg_outcome" where
  "rent_sub_account h c tla_id name owner_key main_wallet s =
     try_in (assert_not_paused s) (\<lambda>_.
     try_in (validate_name name) (\<lambda>_.
       let key = sub_account_key tla_id name
       in if rg_sub_accounts s key \<noteq> None then Inl SubAccountNameTaken
          else if main_wallet = key then Inl MainWalletEqualsSubAccount
          else
            let is_re_rent = (rg_parked_names s key \<noteq> None);
                caller = predecessor_account_id c
            in try_in (rental_terms c tla_id name caller s) (\<lambda>(rent, is_business).
               let total = (if is_re_rent then rent
                     else sat_add rent (fc_account_creation_deposit (rg_fee_config s)));
                   attached = attached_deposit c
               in if attached < total then Inl InsufficientPayment
                  else (case ensure_mother_default caller s of (s, evs) \<Rightarrow>
                    try_in (if is_business then business_count_check_and_bump tla_id s else Inr s) (\<lambda>s.
                      let s = s\<lparr>rg_sub_accounts := (rg_sub_accounts s)(key \<mapsto>
                            new_sub_entry c caller tla_id main_wallet)\<rparr>
                      in if is_re_rent
                         then
                           if \<not> valid_account_id h key then Inl InvalidSubAccountId
                           else
                             let pend = \<lparr>prr_tla_id = tla_id, prr_name = name, prr_payer = caller,
                                   prr_owner_key = owner_key, prr_rent = rent, prr_attached = attached,
                                   prr_sub_account = key\<rparr>;
                                 allowlist = rg_ft_allowlist s
                             in (case ft_balance_fanout allowlist key of
                                   None \<Rightarrow> Inr (s, evs, re_rent_transfer (rg_hos_extension s) pend)
                                 | Some chain \<Rightarrow> Inr (s, evs,
                                     ThenP chain (OnReRentBalancesChecked pend allowlist)
                                       GAS_FOR_RERENT_BALANCES_CB))
                         else
                           let creation_deposit = fc_account_creation_deposit (rg_fee_config s)
                           in Inr (s, evs,
                                ThenP (CallP tla_id (CreateSubAccount name owner_key) creation_deposit
                                         GAS_FOR_CREATE)
                                  (OnSubAccountCreated tla_id name caller owner_key rent attached)
                                  GAS_FOR_CALLBACK))))))"

definition rent_sub_account_paid :: "host \<Rightarrow> ctx \<Rightarrow> AccountId \<Rightarrow> string \<Rightarrow> PublicKey \<Rightarrow> AccountId
    \<Rightarrow> TlaRegistry \<Rightarrow> rg_promise rg_outcome" where
  "rent_sub_account_paid h c tla_id name owner_key main_wallet s =
     try_in (assert_not_paused s) (\<lambda>_.
     try_in (assert_payment_authority c s) (\<lambda>payer.
     try_in (validate_name name) (\<lambda>_.
     if \<not> is_ed25519 h owner_key then Inl NotEd25519
     else
       let key = sub_account_key tla_id name
       in if rg_sub_accounts s key \<noteq> None \<or> rg_parked_names s key \<noteq> None then Inl SubAccountNameTaken
          else if main_wallet = key then Inl MainWalletEqualsSubAccount
          else try_in (rental_terms c tla_id name main_wallet s) (\<lambda>(rent, is_business).
            let creation_deposit = fc_account_creation_deposit (rg_fee_config s);
                attached = attached_deposit c
            in if attached < creation_deposit then Inl InsufficientPayment
               else (case ensure_mother_default payer s of (s, evs) \<Rightarrow>
                 try_in (if is_business then business_count_check_and_bump tla_id s else Inr s) (\<lambda>s.
                   let s = s\<lparr>rg_sub_accounts := (rg_sub_accounts s)(key \<mapsto>
                         new_sub_entry c payer tla_id main_wallet)\<rparr>
                   in Inr (s, evs,
                        ThenP (CallP tla_id (CreateSubAccount name owner_key) creation_deposit
                                 GAS_FOR_CREATE)
                          (OnSubAccountCreatedPaid tla_id name payer owner_key rent attached)
                          GAS_FOR_CALLBACK)))))))"

definition set_main_wallet :: "ctx \<Rightarrow> AccountId \<Rightarrow> string \<Rightarrow> AccountId \<Rightarrow> TlaRegistry \<Rightarrow> unit rg_outcome" where
  "set_main_wallet c tla_id name new_wallet s =
     try_in (assert_one_yocto c) (\<lambda>_.
     try_in (assert_not_paused s) (\<lambda>_.
       let key = sub_account_key tla_id name
       in try_in (assert_sale_idle key s) (\<lambda>_.
          if new_wallet = key then Inl MainWalletEqualsSubAccount
          else try_in (ok_or SubAccountNotFound (rg_sub_accounts s key)) (\<lambda>sub.
            if predecessor_account_id c \<noteq> sa_owner sub then Inl OnlyOwner
            else Inr (s\<lparr>rg_sub_accounts := (rg_sub_accounts s)(key \<mapsto> sub\<lparr>sa_main_wallet := new_wallet\<rparr>)\<rparr>,
                   [G_MainWalletUpdated key new_wallet], ())))))"

definition renew_sub_account :: "ctx \<Rightarrow> AccountId \<Rightarrow> string \<Rightarrow> TlaRegistry \<Rightarrow> unit rg_outcome" where
  "renew_sub_account c tla_id name s =
     try_in (assert_not_paused s) (\<lambda>_.
       let key = sub_account_key tla_id name;
           caller = predecessor_account_id c;
           now = block_timestamp c
       in try_in (ok_or SubAccountNotFound (rg_sub_accounts s key)) (\<lambda>sub.
          if now \<ge> sat_add (sa_expires_at sub) (rg_grace_period_ns s) then Inl SubAccountPastGracePeriod
          else if caller \<noteq> sa_owner sub then Inl OnlyOwner
          else if sa_retraction_at sub \<noteq> None then Inl RetractionPending
          else try_in (ok_or TlaNotFound (tla_of s tla_id)) (\<lambda>tla.
            if tla_lifecycle c tla (rg_grace_period_ns s) = LcReclaimable then Inl TlaPastGracePeriod
            else
              let rent = calculate_rent tla tla_id name (rg_fee_config s)
              in if attached_deposit c < rent then Inl InsufficientPayment
                 else
                   let base = max now (sa_expires_at sub);
                       new_expires_at = sat_add base ONE_YEAR_NS;
                       s = s\<lparr>rg_sub_accounts := (rg_sub_accounts s)(key \<mapsto>
                             sub\<lparr>sa_expires_at := new_expires_at\<rparr>)\<rparr>;
                       s = s\<lparr>rg_total_revenue := sat_add (rg_total_revenue s) rent\<rparr>
                   in Inr (refund_excess caller (attached_deposit c) rent s,
                        [G_SubAccountRenewed key new_expires_at rent], ()))))"

definition retry_signer_install :: "host \<Rightarrow> ctx \<Rightarrow> AccountId \<Rightarrow> string \<Rightarrow> TlaRegistry
    \<Rightarrow> rg_promise rg_outcome" where
  "retry_signer_install h c tla_id name s =
     try_in (assert_not_paused s) (\<lambda>_.
       let key = sub_account_key tla_id name
       in try_in (ok_or SignerNotPending (rg_signer_pending s key)) (\<lambda>owner_key.
          try_in (ok_or SubAccountNotFound (rg_sub_accounts s key)) (\<lambda>sub.
          if predecessor_account_id c \<noteq> sa_owner sub then Inl OnlyOwner
          else if \<not> valid_account_id h key then Inl InvalidSubAccountId
          else Inr (s, [], ThenP (CallP tla_id (RetryInstall key owner_key) 0 GAS_FOR_RETRY_INSTALL)
                 (OnRetrySignerSettled key) GAS_FOR_CALLBACK))))"

definition on_retry_signer_settled :: "string \<Rightarrow> bool \<Rightarrow> TlaRegistry \<Rightarrow> unit rg_outcome" where
  "on_retry_signer_settled key promise_success s =
     (if \<not> promise_success then Inr (s, [], ())
      else Inr (s\<lparr>rg_signer_pending := (rg_signer_pending s)(key := None)\<rparr>, [G_SignerInstalled key], ()))"

section \<open>Settlement of rentals (callbacks.rs)\<close>

definition settle_failed_mint :: "string \<Rightarrow> AccountId \<Rightarrow> AccountId \<Rightarrow> u128 \<Rightarrow> string \<Rightarrow> TlaRegistry
    \<Rightarrow> TlaRegistry \<times> rg_event list" where
  "settle_failed_mint key tla_id payer attached reason s =
     (let s = s\<lparr>rg_sub_accounts := (rg_sub_accounts s)(key := None)\<rparr>;
          s = business_count_decrement_if_business tla_id s;
          s = add_pending_refund payer attached s
      in (s, [G_RefundPending payer attached reason]))"

definition record_rental :: "string \<Rightarrow> AccountId \<Rightarrow> u128 \<Rightarrow> u128 \<Rightarrow> TlaRegistry
    \<Rightarrow> rg_error + TlaRegistry \<times> u64" where
  "record_rental key payer rent_yocto attached_yocto s =
     (let s = s\<lparr>rg_sub_account_count := sat_add (rg_sub_account_count s) 1\<rparr>;
          s = s\<lparr>rg_total_revenue := sat_add (rg_total_revenue s) rent_yocto\<rparr>;
          charged = sat_add rent_yocto (fc_account_creation_deposit (rg_fee_config s));
          s = refund_excess payer attached_yocto charged s
      in case rg_sub_accounts s key of
           Some sub \<Rightarrow> Inr (s, sa_expires_at sub)
         | None \<Rightarrow> Inl SubAccountNotFound)"

definition record_paid_rental :: "string \<Rightarrow> AccountId \<Rightarrow> u128 \<Rightarrow> TlaRegistry
    \<Rightarrow> rg_error + TlaRegistry \<times> u64" where
  "record_paid_rental key payer attached_yocto s =
     (let s = s\<lparr>rg_sub_account_count := sat_add (rg_sub_account_count s) 1\<rparr>;
          s = refund_excess payer attached_yocto (fc_account_creation_deposit (rg_fee_config s)) s
      in case rg_sub_accounts s key of
           Some sub \<Rightarrow> Inr (s, sa_expires_at sub)
         | None \<Rightarrow> Inl SubAccountNotFound)"

definition on_sub_account_created :: "AccountId \<Rightarrow> string \<Rightarrow> AccountId \<Rightarrow> PublicKey \<Rightarrow> u128 \<Rightarrow> u128
    \<Rightarrow> MintOutcome promise_result \<Rightarrow> TlaRegistry \<Rightarrow> unit rg_outcome" where
  "on_sub_account_created tla_id name payer owner_key rent_yocto attached_yocto result s =
     (let key = sub_account_key tla_id name;
          failed = (case settle_failed_mint key tla_id payer attached_yocto
                           ''sub-account creation failed'' s of (s, evs) \<Rightarrow> Inr (s, evs, ()))
      in case result of
           Inr Active \<Rightarrow> try_in (record_rental key payer rent_yocto attached_yocto s) (\<lambda>(s, expires_at).
             Inr (s, [G_SubAccountRented key tla_id payer rent_yocto expires_at], ()))
         | Inr SignerPending \<Rightarrow>
             try_in (record_rental key payer rent_yocto attached_yocto s) (\<lambda>(s, expires_at).
             Inr (s\<lparr>rg_signer_pending := (rg_signer_pending s)(key \<mapsto> owner_key)\<rparr>,
               [G_SubAccountRented key tla_id payer rent_yocto expires_at,
                G_SubAccountSignerPending key payer], ()))
         | Inr CreationFailed \<Rightarrow> failed
         | Inl _ \<Rightarrow> failed)"

definition on_sub_account_created_paid :: "AccountId \<Rightarrow> string \<Rightarrow> AccountId \<Rightarrow> PublicKey \<Rightarrow> u128 \<Rightarrow> u128
    \<Rightarrow> MintOutcome promise_result \<Rightarrow> TlaRegistry \<Rightarrow> unit rg_outcome" where
  "on_sub_account_created_paid tla_id name payer owner_key rent_yocto attached_yocto result s =
     (let key = sub_account_key tla_id name;
          failed = (case settle_failed_mint key tla_id payer attached_yocto
                           ''paid sub-account creation failed'' s of (s, evs) \<Rightarrow> Inr (s, evs, ()))
      in case result of
           Inr Active \<Rightarrow> try_in (record_paid_rental key payer attached_yocto s) (\<lambda>(s, expires_at).
             Inr (s, [G_SubAccountRented key tla_id payer rent_yocto expires_at], ()))
         | Inr SignerPending \<Rightarrow>
             try_in (record_paid_rental key payer attached_yocto s) (\<lambda>(s, expires_at).
             Inr (s\<lparr>rg_signer_pending := (rg_signer_pending s)(key \<mapsto> owner_key)\<rparr>,
               [G_SubAccountRented key tla_id payer rent_yocto expires_at,
                G_SubAccountSignerPending key payer], ()))
         | Inr CreationFailed \<Rightarrow> failed
         | Inl _ \<Rightarrow> failed)"

definition on_sub_account_re_rented :: "AccountId \<Rightarrow> string \<Rightarrow> AccountId \<Rightarrow> u128 \<Rightarrow> u128 \<Rightarrow> bool
    \<Rightarrow> TlaRegistry \<Rightarrow> unit rg_outcome" where
  "on_sub_account_re_rented tla_id name payer rent_yocto attached_yocto promise_success s =
     (let key = sub_account_key tla_id name
      in if \<not> promise_success
         then (case settle_failed_mint key tla_id payer attached_yocto ''sub-account re-rent failed'' s of
                 (s, evs) \<Rightarrow> Inr (s, evs, ()))
         else
           let s = s\<lparr>rg_parked_names := (rg_parked_names s)(key := None)\<rparr>;
               s = s\<lparr>rg_sub_account_count := sat_add (rg_sub_account_count s) 1\<rparr>;
               s = s\<lparr>rg_total_revenue := sat_add (rg_total_revenue s) rent_yocto\<rparr>;
               s = refund_excess payer attached_yocto rent_yocto s
           in case rg_sub_accounts s key of
                None \<Rightarrow> Inr (s, [], ())
              | Some sub \<Rightarrow>
                  Inr (s, [G_SubAccountReRented key tla_id payer rent_yocto (sa_expires_at sub)], ()))"

definition on_re_rent_balances_checked :: "host \<Rightarrow> byte list promise_result list \<Rightarrow> PendingReRent
    \<Rightarrow> AccountId list \<Rightarrow> TlaRegistry \<Rightarrow> (rg_callback, unit) promise_or_value rg_outcome" where
  "on_re_rent_balances_checked h results pend allowlist s =
     (let key = sub_account_key (prr_tla_id pend) (prr_name pend)
      in case ft_balances_clear h results allowlist of
           Blocked token reason \<Rightarrow>
             (case settle_failed_mint key (prr_tla_id pend) (prr_payer pend) (prr_attached pend)
                     ''re-rent blocked by asset gate'' s of (s, evs) \<Rightarrow>
                Inr (s, evs @ [G_SubAccountSaleBlocked key token reason], ValueR ()))
         | Clear \<Rightarrow> Inr (s, [], PromiseR (re_rent_transfer (rg_hos_extension s) pend)))"

section \<open>Views (views.rs)\<close>

record TlaView =
  tv_tla_id :: AccountId
  tv_tla_type :: TlaType
  tv_lifecycle :: LifecycleStatus
  tv_licensee :: "AccountId option"
  tv_premium_category :: PremiumCategory
  tv_activated_at :: u128
  tv_expires_at :: u128
  tv_annual_rent :: u128

record SubAccountView =
  sv_full_name :: string
  sv_owner :: AccountId
  sv_tla_id :: AccountId
  sv_main_wallet :: AccountId
  sv_lifecycle :: LifecycleStatus
  sv_rented_at :: u128
  sv_expires_at :: u128
  sv_annual_rent :: u128

record ParkedSubAccountView =
  pv_full_name :: string
  pv_tla_id :: AccountId
  pv_parked_at :: u128

record RentPriceView =
  rp_rent_yocto :: u128
  rp_creation_deposit_yocto :: u128
  rp_total_yocto :: u128

record RegistryStats =
  rs_tla_count :: u64
  rs_sub_account_count :: u64
  rs_total_revenue_yocto :: u128
  rs_total_pending_refunds_yocto :: u128

definition to_tla_view :: "ctx \<Rightarrow> AccountId \<Rightarrow> TlaEntry \<Rightarrow> FeeConfig \<Rightarrow> u64 \<Rightarrow> TlaView" where
  "to_tla_view c tla_id entry config grace_period_ns =
     (let tla_len = word_of_nat (length tla_id) :: u8;
          rent = base_rent tla_len config
      in \<lparr>tv_tla_id = tla_id, tv_tla_type = te_tla_type entry,
          tv_lifecycle = tla_lifecycle c entry grace_period_ns, tv_licensee = te_licensee entry,
          tv_premium_category = te_premium_category entry,
          tv_activated_at = ucast (te_activated_at entry), tv_expires_at = ucast (te_expires_at entry),
          tv_annual_rent = rent\<rparr>)"

definition to_sub_view :: "ctx \<Rightarrow> string \<Rightarrow> SubAccountEntry \<Rightarrow> TlaEntry \<Rightarrow> AccountId \<Rightarrow> string
    \<Rightarrow> FeeConfig \<Rightarrow> u64 \<Rightarrow> SubAccountView" where
  "to_sub_view c key entry tla tla_id name config grace_period_ns =
     (let rent = calculate_rent tla tla_id name config
      in \<lparr>sv_full_name = key, sv_owner = sa_owner entry, sv_tla_id = sa_tla_id entry,
          sv_main_wallet = sa_main_wallet entry, sv_lifecycle = sub_lifecycle c entry grace_period_ns,
          sv_rented_at = ucast (sa_rented_at entry), sv_expires_at = ucast (sa_expires_at entry),
          sv_annual_rent = rent\<rparr>)"

definition get_tla :: "ctx \<Rightarrow> TlaRegistry \<Rightarrow> AccountId \<Rightarrow> TlaView option" where
  "get_tla c s tla_id = map_option (\<lambda>e. to_tla_view c tla_id e (rg_fee_config s) (rg_grace_period_ns s))
     (tla_of s tla_id)"

definition get_sub_account :: "ctx \<Rightarrow> TlaRegistry \<Rightarrow> AccountId \<Rightarrow> string \<Rightarrow> SubAccountView option" where
  "get_sub_account c s tla_id name =
     (let key = sub_account_key tla_id name
      in Option.bind (rg_sub_accounts s key) (\<lambda>sub. Option.bind (tla_of s tla_id) (\<lambda>tla.
           Some (to_sub_view c key sub tla tla_id name (rg_fee_config s) (rg_grace_period_ns s)))))"

definition get_parked_sub_account :: "TlaRegistry \<Rightarrow> AccountId \<Rightarrow> string \<Rightarrow> ParkedSubAccountView option" where
  "get_parked_sub_account s tla_id name =
     (let key = sub_account_key tla_id name
      in map_option (\<lambda>p. \<lparr>pv_full_name = key, pv_tla_id = pe_tla_id p,
           pv_parked_at = ucast (pe_parked_at p)\<rparr>) (rg_parked_names s key))"

definition is_name_re_rentable :: "TlaRegistry \<Rightarrow> AccountId \<Rightarrow> string \<Rightarrow> bool" where
  "is_name_re_rentable s tla_id name \<longleftrightarrow> rg_parked_names s (sub_account_key tla_id name) \<noteq> None"

definition is_reclaim_in_progress :: "TlaRegistry \<Rightarrow> AccountId \<Rightarrow> string \<Rightarrow> bool" where
  "is_reclaim_in_progress s tla_id name \<longleftrightarrow> rg_reclaim_pending s (sub_account_key tla_id name) \<noteq> None"

definition get_hos_extension :: "TlaRegistry \<Rightarrow> AccountId" where "get_hos_extension s = rg_hos_extension s"
definition rg_get_active_signer :: "TlaRegistry \<Rightarrow> AccountId" where
  "rg_get_active_signer s = rg_active_signer s"
definition get_parked_signer_pubkey :: "TlaRegistry \<Rightarrow> PublicKey" where
  "get_parked_signer_pubkey s = rg_parked_signer_pubkey s"
definition get_grace_period_ns :: "TlaRegistry \<Rightarrow> u64" where
  "get_grace_period_ns s = rg_grace_period_ns s"

definition get_rent_price :: "TlaRegistry \<Rightarrow> AccountId \<Rightarrow> string \<Rightarrow> rg_error + RentPriceView" where
  "get_rent_price s tla_id name =
     try_in (ok_or TlaNotFound (tla_of s tla_id)) (\<lambda>tla.
       let rent = calculate_rent tla tla_id name (rg_fee_config s);
           key = sub_account_key tla_id name;
           deposit = (if rg_parked_names s key \<noteq> None then 0
             else fc_account_creation_deposit (rg_fee_config s))
       in Inr \<lparr>rp_rent_yocto = rent, rp_creation_deposit_yocto = deposit,
            rp_total_yocto = sat_add rent deposit\<rparr>)"

definition is_name_available :: "TlaRegistry \<Rightarrow> AccountId \<Rightarrow> string \<Rightarrow> bool" where
  "is_name_available s tla_id name \<longleftrightarrow> rg_sub_accounts s (sub_account_key tla_id name) = None"

definition is_signer_pending :: "TlaRegistry \<Rightarrow> AccountId \<Rightarrow> string \<Rightarrow> bool" where
  "is_signer_pending s tla_id name \<longleftrightarrow> rg_signer_pending s (sub_account_key tla_id name) \<noteq> None"

text \<open>\<open>usize\<close> has 32 bits on the contract's target.\<close>

definition list_tlas :: "ctx \<Rightarrow> TlaRegistry \<Rightarrow> u64 \<Rightarrow> u64 \<Rightarrow> TlaView list" where
  "list_tlas c s from_index limit =
     map (\<lambda>(tla_id, entry). to_tla_view c tla_id entry (rg_fee_config s) (rg_grace_period_ns s))
       (take (unat (ucast limit :: u32)) (drop (unat (ucast from_index :: u32)) (rg_tlas s)))"

definition get_fee_config :: "TlaRegistry \<Rightarrow> FeeConfig" where "get_fee_config s = rg_fee_config s"

definition get_stats :: "TlaRegistry \<Rightarrow> RegistryStats" where
  "get_stats s = \<lparr>rs_tla_count = word_of_nat (length (rg_tlas s)),
     rs_sub_account_count = rg_sub_account_count s, rs_total_revenue_yocto = rg_total_revenue s,
     rs_total_pending_refunds_yocto = rg_total_pending_refunds s\<rparr>"

definition rg_get_admins :: "TlaRegistry \<Rightarrow> AccountId list" where "rg_get_admins s = rg_admins s"
definition get_payment_authorities :: "TlaRegistry \<Rightarrow> AccountId list" where
  "get_payment_authorities s = rg_payment_authorities s"
definition get_ft_allowlist :: "TlaRegistry \<Rightarrow> AccountId list" where
  "get_ft_allowlist s = rg_ft_allowlist s"

end
