(* ===== verification/Registry_Market.thy ===== *)
theory Registry_Market
  imports Registry_Rental
begin

text \<open>
  The marketplace and the reclaim of expired names of \<open>tla-registry\<close>
  (\<open>src/contracts/tla-registry/src\<close>: \<open>marketplace.rs\<close>, \<open>reclaim.rs\<close>), and the method table of the
  whole contract with the payable and private guards of its methods.
\<close>

section \<open>Listings, offers and sales (marketplace.rs)\<close>

definition GAS_FOR_FORCE_TRANSFER :: nat where "GAS_FOR_FORCE_TRANSFER = 45"
definition GAS_FOR_SOLD_CALLBACK :: nat where "GAS_FOR_SOLD_CALLBACK = 20"
definition GAS_FOR_BUY_BALANCES_CB :: nat where "GAS_FOR_BUY_BALANCES_CB = 85"
definition GAS_FOR_SIGNER_QUERY :: nat where "GAS_FOR_SIGNER_QUERY = 5"
definition GAS_FOR_VERIFY_CALLBACK :: nat where "GAS_FOR_VERIFY_CALLBACK = 10"

definition assert_sellable :: "host \<Rightarrow> ctx \<Rightarrow> string \<Rightarrow> AccountId \<Rightarrow> TlaRegistry \<Rightarrow> rg_error + AccountId" where
  "assert_sellable h c key tla_id s =
     (if \<not> valid_account_id h key then Inl InvalidSubAccountId
      else if get_or 0 (rg_mother_use_count s) key > 0 then Inl SubAccountIsMother
      else if rg_signer_pending s key \<noteq> None then Inl SubAccountNotSellable
      else try_in (ok_or SubAccountNotFound (rg_sub_accounts s key)) (\<lambda>sub.
        if sa_tla_id sub \<noteq> tla_id then Inl SubAccountTlaMismatch
        else if sa_retraction_at sub \<noteq> None then Inl RetractionPending
        else try_in (ok_or TlaNotFound (tla_of s tla_id)) (\<lambda>tla.
          if te_tla_type tla = Business then Inl BusinessSubNotResellable
          else if te_status tla \<noteq> StActive then Inl SubAccountNotSellable
          else if effective_sub_lifecycle c sub tla (fc_retraction_notice_ns (rg_fee_config s))
                    (rg_grace_period_ns s) \<noteq> LcActive then Inl SubAccountNotSellable
          else Inr (sa_owner sub))))"

definition assert_listable :: "host \<Rightarrow> ctx \<Rightarrow> AccountId \<Rightarrow> string \<Rightarrow> u128 \<Rightarrow> PublicKey \<Rightarrow> TlaRegistry
    \<Rightarrow> rg_error + AccountId \<times> AccountId" where
  "assert_listable h c tla_id name price owner_key s =
     try_in (assert_one_yocto c) (\<lambda>_.
     try_in (assert_not_paused s) (\<lambda>_.
     try_in (validate_name name) (\<lambda>_.
     if price = 0 then Inl InvalidPrice
     else if \<not> is_ed25519 h owner_key then Inl NotEd25519
     else
       let key = sub_account_key tla_id name
       in try_in (assert_sale_idle key s) (\<lambda>_.
          try_in (assert_sellable h c key tla_id s) (\<lambda>own.
          if predecessor_account_id c \<noteq> own then Inl OnlyOwner
          else if \<not> valid_account_id h key then Inl InvalidSubAccountId
          else Inr (key, own))))))"

definition sub_account_owner :: "string \<Rightarrow> TlaRegistry \<Rightarrow> rg_error + AccountId" where
  "sub_account_owner key s = ok_or SubAccountNotFound (map_option sa_owner (rg_sub_accounts s key))"

definition resolve_and_lock_sale :: "string \<Rightarrow> AccountId \<Rightarrow> u128 \<Rightarrow> TlaRegistry
    \<Rightarrow> rg_error + TlaRegistry \<times> u128 \<times> PublicKey" where
  "resolve_and_lock_sale key buyer deposit s =
     (let from_listing = (case rg_listings s key of
            Some listing \<Rightarrow>
              if deposit < li_price listing then Inl PriceNotMet
              else Inr (s\<lparr>rg_listings := (rg_listings s)(key \<mapsto> listing\<lparr>li_settling := True\<rparr>)\<rparr>,
                     li_price listing, li_owner_key listing)
          | None \<Rightarrow> Inl NotListed)
      in case rg_accepted_offers s key of
           Some offer \<Rightarrow>
             if ao_buyer offer = buyer
             then (if deposit < ao_price offer then Inl PriceNotMet
               else Inr (s\<lparr>rg_accepted_offers := (rg_accepted_offers s)(key \<mapsto> offer\<lparr>ao_settling := True\<rparr>)\<rparr>,
                      ao_price offer, ao_owner_key offer))
             else from_listing
         | None \<Rightarrow> from_listing)"

definition resolve_and_lock_paid_sale :: "string \<Rightarrow> AccountId \<Rightarrow> TlaRegistry
    \<Rightarrow> rg_error + TlaRegistry \<times> u128 \<times> PublicKey" where
  "resolve_and_lock_paid_sale key buyer s =
     (let from_listing = (case rg_listings s key of
            Some listing \<Rightarrow>
              Inr (s\<lparr>rg_listings := (rg_listings s)(key \<mapsto> listing\<lparr>li_settling := True\<rparr>)\<rparr>,
                   li_price listing, li_owner_key listing)
          | None \<Rightarrow> Inl NotListed)
      in case rg_accepted_offers s key of
           Some offer \<Rightarrow>
             if ao_buyer offer = buyer
             then Inr (s\<lparr>rg_accepted_offers := (rg_accepted_offers s)(key \<mapsto> offer\<lparr>ao_settling := True\<rparr>)\<rparr>,
                    ao_price offer, ao_owner_key offer)
             else from_listing
         | None \<Rightarrow> from_listing)"

definition abort_sale :: "string \<Rightarrow> PendingBuy \<Rightarrow> string \<Rightarrow> string \<Rightarrow> TlaRegistry
    \<Rightarrow> (rg_callback, unit) promise_or_value rg_outcome" where
  "abort_sale key settlement token reason s =
     (let s = add_pending_refund (pb_buyer settlement) (pb_deposit settlement) s;
          s = clear_settling key s
      in Inr (s, [G_SubAccountSaleBlocked key token reason], ValueR ()))"

definition current_key_matches :: "host \<Rightarrow> string option promise_result \<Rightarrow> PublicKey \<Rightarrow> bool" where
  "current_key_matches h current owner_key = (case (current, ed25519_base58 h owner_key) of
     (Inr (Some signer), Some expected) \<Rightarrow>
       (case strip_prefix ''ed25519:'' signer of Some r \<Rightarrow> r | None \<Rightarrow> signer) = expected
   | _ \<Rightarrow> False)"

definition settle_transfer :: "AccountId \<Rightarrow> PendingBuy \<Rightarrow> rg_promise" where
  "settle_transfer hos_extension settlement =
     ThenP (CallP hos_extension (ForceTransfer (pb_sub_account settlement) (pb_new_owner_key settlement)
              (Some (pb_owner_key settlement))) 0 GAS_FOR_FORCE_TRANSFER)
       (OnSubAccountSold (pb_tla_id settlement) (pb_name settlement) (pb_buyer settlement)
          (pb_price settlement) (pb_deposit settlement))
       GAS_FOR_SOLD_CALLBACK"

definition settle_transfer_paid :: "AccountId \<Rightarrow> PendingBuy \<Rightarrow> AccountId \<Rightarrow> rg_promise" where
  "settle_transfer_paid hos_extension settlement operator =
     ThenP (CallP hos_extension (ForceTransfer (pb_sub_account settlement) (pb_new_owner_key settlement)
              (Some (pb_owner_key settlement))) 0 GAS_FOR_FORCE_TRANSFER)
       (OnSubAccountSoldPaid (pb_tla_id settlement) (pb_name settlement) (pb_buyer settlement)
          operator (pb_price settlement))
       GAS_FOR_SOLD_CALLBACK"

definition list_sub_account :: "host \<Rightarrow> ctx \<Rightarrow> AccountId \<Rightarrow> string \<Rightarrow> u128 \<Rightarrow> PublicKey \<Rightarrow> TlaRegistry
    \<Rightarrow> rg_promise rg_outcome" where
  "list_sub_account h c tla_id name price owner_key s =
     try_in (assert_listable h c tla_id name price owner_key s) (\<lambda>(sub_account, own).
     Inr (s, [], ThenP (CallP (rg_active_signer s) (SignerOf sub_account) 0 GAS_FOR_SIGNER_QUERY)
       (OnListingVerified tla_id name price owner_key own) GAS_FOR_VERIFY_CALLBACK))"

definition on_listing_verified :: "host \<Rightarrow> AccountId \<Rightarrow> string \<Rightarrow> u128 \<Rightarrow> PublicKey \<Rightarrow> AccountId
    \<Rightarrow> string option promise_result \<Rightarrow> TlaRegistry \<Rightarrow> unit rg_outcome" where
  "on_listing_verified h tla_id name price owner_key seller current s =
     (let key = sub_account_key tla_id name
      in if \<not> current_key_matches h current owner_key
         then Inr (s, [G_ListingRejected key seller ''owner_key_not_current''], ())
         else if map_option sa_owner (rg_sub_accounts s key) \<noteq> Some seller
         then Inr (s, [G_ListingRejected key seller ''owner_changed''], ())
         else if (case rg_listings s key of Some l \<Rightarrow> li_settling l | None \<Rightarrow> False)
         then Inr (s, [G_ListingRejected key seller ''settlement_in_progress''], ())
         else Inr (s\<lparr>rg_listings := (rg_listings s)(key \<mapsto>
                \<lparr>li_price = price, li_settling = False, li_owner_key = owner_key\<rparr>)\<rparr>,
              [G_SubAccountListed key price seller], ()))"

definition unlist_sub_account :: "ctx \<Rightarrow> AccountId \<Rightarrow> string \<Rightarrow> TlaRegistry \<Rightarrow> unit rg_outcome" where
  "unlist_sub_account c tla_id name s =
     try_in (assert_one_yocto c) (\<lambda>_.
     try_in (assert_not_paused s) (\<lambda>_.
     try_in (validate_name name) (\<lambda>_.
       let key = sub_account_key tla_id name
       in try_in (assert_sale_idle key s) (\<lambda>_.
          if rg_listings s key = None then Inl NotListed
          else try_in (sub_account_owner key s) (\<lambda>own.
            if predecessor_account_id c \<noteq> own then Inl OnlyOwner
            else Inr (s\<lparr>rg_listings := (rg_listings s)(key := None)\<rparr>,
                   [G_SubAccountUnlisted key own], ()))))))"

definition accept_offer :: "host \<Rightarrow> ctx \<Rightarrow> AccountId \<Rightarrow> string \<Rightarrow> AccountId \<Rightarrow> u128 \<Rightarrow> PublicKey
    \<Rightarrow> TlaRegistry \<Rightarrow> rg_promise rg_outcome" where
  "accept_offer h c tla_id name buyer price owner_key s =
     try_in (assert_listable h c tla_id name price owner_key s) (\<lambda>(sub_account, own).
     Inr (s, [], ThenP (CallP (rg_active_signer s) (SignerOf sub_account) 0 GAS_FOR_SIGNER_QUERY)
       (OnOfferVerified tla_id name buyer price owner_key own) GAS_FOR_VERIFY_CALLBACK))"

definition on_offer_verified :: "host \<Rightarrow> AccountId \<Rightarrow> string \<Rightarrow> AccountId \<Rightarrow> u128 \<Rightarrow> PublicKey
    \<Rightarrow> AccountId \<Rightarrow> string option promise_result \<Rightarrow> TlaRegistry \<Rightarrow> unit rg_outcome" where
  "on_offer_verified h tla_id name buyer price owner_key seller current s =
     (let key = sub_account_key tla_id name
      in if \<not> current_key_matches h current owner_key
         then Inr (s, [G_OfferRejected key buyer seller ''owner_key_not_current''], ())
         else if map_option sa_owner (rg_sub_accounts s key) \<noteq> Some seller
         then Inr (s, [G_OfferRejected key buyer seller ''owner_changed''], ())
         else if (case rg_accepted_offers s key of Some o' \<Rightarrow> ao_settling o' | None \<Rightarrow> False)
         then Inr (s, [G_OfferRejected key buyer seller ''settlement_in_progress''], ())
         else Inr (s\<lparr>rg_accepted_offers := (rg_accepted_offers s)(key \<mapsto>
                \<lparr>ao_buyer = buyer, ao_price = price, ao_settling = False, ao_owner_key = owner_key\<rparr>)\<rparr>,
              [G_OfferAccepted key buyer price seller], ()))"

definition revoke_offer :: "ctx \<Rightarrow> AccountId \<Rightarrow> string \<Rightarrow> TlaRegistry \<Rightarrow> unit rg_outcome" where
  "revoke_offer c tla_id name s =
     try_in (assert_one_yocto c) (\<lambda>_.
     try_in (assert_not_paused s) (\<lambda>_.
     try_in (validate_name name) (\<lambda>_.
       let key = sub_account_key tla_id name
       in try_in (assert_sale_idle key s) (\<lambda>_.
          if rg_accepted_offers s key = None then Inl NoAcceptedOffer
          else try_in (sub_account_owner key s) (\<lambda>own.
            if predecessor_account_id c \<noteq> own then Inl OnlyOwner
            else Inr (s\<lparr>rg_accepted_offers := (rg_accepted_offers s)(key := None)\<rparr>,
                   [G_OfferRevoked key own], ()))))))"

definition buy_sub_account :: "host \<Rightarrow> ctx \<Rightarrow> AccountId \<Rightarrow> string \<Rightarrow> PublicKey \<Rightarrow> TlaRegistry
    \<Rightarrow> rg_promise rg_outcome" where
  "buy_sub_account h c tla_id name new_owner_key s =
     try_in (assert_not_paused s) (\<lambda>_.
     try_in (validate_name name) (\<lambda>_.
     if \<not> is_ed25519 h new_owner_key then Inl NotEd25519
     else
       let key = sub_account_key tla_id name
       in try_in (assert_sale_idle key s) (\<lambda>_.
          try_in (assert_sellable h c key tla_id s) (\<lambda>_.
            let buyer = predecessor_account_id c;
                deposit = attached_deposit c
            in try_in (resolve_and_lock_sale key buyer deposit s) (\<lambda>(s, price, owner_key).
               if \<not> valid_account_id h key then Inl InvalidSubAccountId
               else
                 let settlement = \<lparr>pb_tla_id = tla_id, pb_name = name, pb_buyer = buyer,
                       pb_new_owner_key = new_owner_key, pb_price = price, pb_deposit = deposit,
                       pb_owner_key = owner_key, pb_sub_account = key\<rparr>;
                     allowlist = rg_ft_allowlist s
                 in (case ft_balance_fanout allowlist key of
                       None \<Rightarrow> Inr (s, [], settle_transfer (rg_hos_extension s) settlement)
                     | Some chain \<Rightarrow> Inr (s, [], ThenP chain (OnBuyBalancesChecked settlement allowlist)
                         GAS_FOR_BUY_BALANCES_CB)))))))"

definition buy_sub_account_paid :: "host \<Rightarrow> ctx \<Rightarrow> AccountId \<Rightarrow> string \<Rightarrow> AccountId \<Rightarrow> PublicKey
    \<Rightarrow> TlaRegistry \<Rightarrow> rg_promise rg_outcome" where
  "buy_sub_account_paid h c tla_id name buyer new_owner_key s =
     try_in (assert_not_paused s) (\<lambda>_.
     try_in (assert_payment_authority c s) (\<lambda>operator.
     try_in (validate_name name) (\<lambda>_.
     if \<not> is_ed25519 h new_owner_key then Inl NotEd25519
     else
       let key = sub_account_key tla_id name
       in try_in (assert_sale_idle key s) (\<lambda>_.
          try_in (assert_sellable h c key tla_id s) (\<lambda>_.
          try_in (resolve_and_lock_paid_sale key buyer s) (\<lambda>(s, price, owner_key).
          if \<not> valid_account_id h key then Inl InvalidSubAccountId
          else
            let settlement = \<lparr>pb_tla_id = tla_id, pb_name = name, pb_buyer = buyer,
                  pb_new_owner_key = new_owner_key, pb_price = price, pb_deposit = 0,
                  pb_owner_key = owner_key, pb_sub_account = key\<rparr>;
                allowlist = rg_ft_allowlist s
            in (case ft_balance_fanout allowlist key of
                  None \<Rightarrow> Inr (s, [], settle_transfer_paid (rg_hos_extension s) settlement operator)
                | Some chain \<Rightarrow> Inr (s, [],
                    ThenP chain (OnBuyPaidBalancesChecked settlement allowlist operator)
                      GAS_FOR_BUY_BALANCES_CB))))))))"

definition on_sub_account_sold :: "AccountId \<Rightarrow> string \<Rightarrow> AccountId \<Rightarrow> u128 \<Rightarrow> u128
    \<Rightarrow> bool promise_result \<Rightarrow> TlaRegistry \<Rightarrow> unit rg_outcome" where
  "on_sub_account_sold tla_id name buyer price deposit swapped s =
     (let key = sub_account_key tla_id name
      in if swapped \<noteq> Inr True
         then Inr (clear_settling key (add_pending_refund buyer deposit s),
                [G_SubAccountSaleFailed key buyer], ())
         else (case rg_sub_accounts s key of
           None \<Rightarrow> Inr (clear_settling key (add_pending_refund buyer deposit s), [], ())
         | Some sub \<Rightarrow>
             let seller = sa_owner sub
             in (case split_resale price (fc_resale_commission_bps (rg_fee_config s)) of
                   (commission, seller_proceeds) \<Rightarrow>
                     let s = s\<lparr>rg_total_revenue := sat_add (rg_total_revenue s) commission\<rparr>;
                         s = add_pending_refund seller seller_proceeds s;
                         s = refund_excess buyer deposit price s;
                         s = s\<lparr>rg_sub_accounts := (rg_sub_accounts s)(key \<mapsto>
                               sub\<lparr>sa_owner := buyer, sa_main_wallet := buyer\<rparr>)\<rparr>;
                         s = s\<lparr>rg_listings := (rg_listings s)(key := None)\<rparr>;
                         s = s\<lparr>rg_accepted_offers := (rg_accepted_offers s)(key := None)\<rparr>
                     in Inr (s, [G_SubAccountSold key tla_id seller buyer price commission
                          seller_proceeds], ()))))"

definition on_sub_account_sold_paid :: "AccountId \<Rightarrow> string \<Rightarrow> AccountId \<Rightarrow> AccountId \<Rightarrow> u128
    \<Rightarrow> bool promise_result \<Rightarrow> TlaRegistry \<Rightarrow> unit rg_outcome" where
  "on_sub_account_sold_paid tla_id name buyer operator price swapped s =
     (let key = sub_account_key tla_id name
      in if swapped \<noteq> Inr True
         then Inr (clear_settling key s, [G_SubAccountSaleFailed key buyer], ())
         else (case rg_sub_accounts s key of
           None \<Rightarrow> Inr (clear_settling key s, [], ())
         | Some sub \<Rightarrow>
             let seller = sa_main_wallet sub;
                 s = s\<lparr>rg_sub_accounts := (rg_sub_accounts s)(key \<mapsto>
                       sub\<lparr>sa_owner := operator, sa_main_wallet := buyer\<rparr>)\<rparr>;
                 s = s\<lparr>rg_listings := (rg_listings s)(key := None)\<rparr>;
                 s = s\<lparr>rg_accepted_offers := (rg_accepted_offers s)(key := None)\<rparr>
             in Inr (s, [G_SubAccountSold key tla_id seller buyer price 0 0], ())))"

definition on_buy_balances_checked :: "host \<Rightarrow> byte list promise_result list \<Rightarrow> PendingBuy
    \<Rightarrow> AccountId list \<Rightarrow> TlaRegistry \<Rightarrow> (rg_callback, unit) promise_or_value rg_outcome" where
  "on_buy_balances_checked h results settlement allowlist s =
     (let key = sub_account_key (pb_tla_id settlement) (pb_name settlement)
      in case ft_balances_clear h results allowlist of
           Blocked token reason \<Rightarrow> abort_sale key settlement token reason s
         | Clear \<Rightarrow> Inr (s, [], PromiseR (settle_transfer (rg_hos_extension s) settlement)))"

definition on_buy_paid_balances_checked :: "host \<Rightarrow> byte list promise_result list \<Rightarrow> PendingBuy
    \<Rightarrow> AccountId list \<Rightarrow> AccountId \<Rightarrow> TlaRegistry \<Rightarrow> (rg_callback, unit) promise_or_value rg_outcome" where
  "on_buy_paid_balances_checked h results settlement allowlist operator s =
     (let key = sub_account_key (pb_tla_id settlement) (pb_name settlement)
      in case ft_balances_clear h results allowlist of
           Blocked token reason \<Rightarrow>
             Inr (clear_settling key s, [G_SubAccountSaleBlocked key token reason], ValueR ())
         | Clear \<Rightarrow>
             Inr (s, [], PromiseR (settle_transfer_paid (rg_hos_extension s) settlement operator)))"

record ListingView =
  lv_full_name :: string
  lv_price_yocto :: u128
  lv_settling :: bool

record AcceptedOfferView =
  av_full_name :: string
  av_buyer :: AccountId
  av_price_yocto :: u128
  av_settling :: bool

definition get_listing :: "TlaRegistry \<Rightarrow> AccountId \<Rightarrow> string \<Rightarrow> ListingView option" where
  "get_listing s tla_id name =
     (let key = sub_account_key tla_id name
      in map_option (\<lambda>l. \<lparr>lv_full_name = key, lv_price_yocto = li_price l,
           lv_settling = li_settling l\<rparr>) (rg_listings s key))"

definition get_accepted_offer :: "TlaRegistry \<Rightarrow> AccountId \<Rightarrow> string \<Rightarrow> AcceptedOfferView option" where
  "get_accepted_offer s tla_id name =
     (let key = sub_account_key tla_id name
      in map_option (\<lambda>o'. \<lparr>av_full_name = key, av_buyer = ao_buyer o', av_price_yocto = ao_price o',
           av_settling = ao_settling o'\<rparr>) (rg_accepted_offers s key))"

section \<open>Reclaiming expired names (reclaim.rs)\<close>

definition GAS_FOR_HOS_SWEEP :: nat where "GAS_FOR_HOS_SWEEP = 120"
definition GAS_FOR_HOS_FORCE_TRANSFER :: nat where "GAS_FOR_HOS_FORCE_TRANSFER = 45"
definition RC_GAS_FOR_RETRY_INSTALL :: nat where "RC_GAS_FOR_RETRY_INSTALL = 30"
definition GAS_FOR_FINALIZE_CB :: nat where "GAS_FOR_FINALIZE_CB = 10"
definition GAS_FOR_BALANCES_CB_TOTAL :: nat where "GAS_FOR_BALANCES_CB_TOTAL = 80"
definition SWEEP_ATTACHED_REQUIRED :: u128 where "SWEEP_ATTACHED_REQUIRED = FT_STORAGE_DEPOSIT_YOCTO + 1"

definition resolve_reclaimable :: "host \<Rightarrow> ctx \<Rightarrow> AccountId \<Rightarrow> string \<Rightarrow> TlaRegistry
    \<Rightarrow> rg_error + AccountId \<times> AccountId" where
  "resolve_reclaimable h c tla_id key s =
     (if \<not> valid_account_id h key then Inl InvalidSubAccountId
      else try_in (ok_or SubAccountNotFound (rg_sub_accounts s key)) (\<lambda>sub.
        if sa_tla_id sub \<noteq> tla_id then Inl SubAccountTlaMismatch
        else
          let total_refs = get_or 0 (rg_mother_use_count s) key;
              owner_self_ref = (rg_mothers s (sa_owner sub) = Some key);
              external_refs = (if owner_self_ref then sat_sub total_refs 1 else total_refs)
          in if external_refs > 0 then Inl SubAccountIsMother
             else try_in (ok_or TlaNotFound (tla_of s tla_id)) (\<lambda>tla.
               if effective_sub_lifecycle c sub tla (fc_retraction_notice_ns (rg_fee_config s))
                    (rg_grace_period_ns s) \<noteq> LcReclaimable then Inl SubAccountNotReclaimable
               else Inr (key, sa_main_wallet sub))))"

definition park_wallet :: "AccountId \<Rightarrow> AccountId \<Rightarrow> string \<Rightarrow> AccountId \<Rightarrow> TlaRegistry \<Rightarrow> rg_promise" where
  "park_wallet sub_account tla_id name destination s =
     (let key = sub_account_key tla_id name;
          finalize = OnReclaimFinalized tla_id name destination
      in if rg_signer_pending s key \<noteq> None
         then ThenP (CallP tla_id (RetryInstall sub_account (rg_parked_signer_pubkey s)) 0
                RC_GAS_FOR_RETRY_INSTALL) finalize GAS_FOR_FINALIZE_CB
         else ThenP (CallP (rg_hos_extension s)
                (ForceTransfer sub_account (rg_parked_signer_pubkey s) None) 0 GAS_FOR_HOS_FORCE_TRANSFER)
                finalize GAS_FOR_FINALIZE_CB)"

definition reclaim_sweep_ft :: "host \<Rightarrow> ctx \<Rightarrow> AccountId \<Rightarrow> string \<Rightarrow> AccountId \<Rightarrow> u64 \<Rightarrow> byte list
    \<Rightarrow> TlaRegistry \<Rightarrow> rg_promise rg_outcome" where
  "reclaim_sweep_ft h c tla_id name ft tx_nonce block_hash s =
     try_in (assert_not_paused s) (\<lambda>_.
     try_in (validate_name name) (\<lambda>_.
     if attached_deposit c < SWEEP_ATTACHED_REQUIRED then Inl InsufficientPayment
     else
       let key = sub_account_key tla_id name
       in try_in (assert_sale_idle key s) (\<lambda>_.
          if ft \<notin> set (rg_ft_allowlist s) then Inl TokenNotInAllowlist
          else try_in (resolve_reclaimable h c tla_id key s) (\<lambda>(sub_account, destination).
            let caller = predecessor_account_id c;
                s = refund_excess caller (attached_deposit c) SWEEP_ATTACHED_REQUIRED s
            in Inr (s, [], CallP (rg_hos_extension s)
                 (SweepFt sub_account ft destination tx_nonce block_hash) SWEEP_ATTACHED_REQUIRED
                 GAS_FOR_HOS_SWEEP)))))"

definition reclaim_finalize :: "host \<Rightarrow> ctx \<Rightarrow> AccountId \<Rightarrow> string \<Rightarrow> TlaRegistry \<Rightarrow> rg_promise rg_outcome" where
  "reclaim_finalize h c tla_id name s =
     try_in (assert_not_paused s) (\<lambda>_.
     try_in (validate_name name) (\<lambda>_.
       let key = sub_account_key tla_id name
       in try_in (assert_sale_idle key s) (\<lambda>_.
          if rg_reclaim_pending s key \<noteq> None then Inl ReclaimInProgress
          else try_in (resolve_reclaimable h c tla_id key s) (\<lambda>(sub_account, destination).
            let s = s\<lparr>rg_reclaim_pending := (rg_reclaim_pending s)(key \<mapsto> True)\<rparr>;
                allowlist = rg_ft_allowlist s
            in (case ft_balance_fanout allowlist sub_account of
                  None \<Rightarrow> Inr (s, [], park_wallet sub_account tla_id name destination s)
                | Some chain \<Rightarrow> Inr (s, [],
                    ThenP chain (OnBalancesChecked tla_id name destination allowlist)
                      GAS_FOR_BALANCES_CB_TOTAL))))))"

definition on_balances_checked :: "host \<Rightarrow> ctx \<Rightarrow> byte list promise_result list \<Rightarrow> AccountId \<Rightarrow> string
    \<Rightarrow> AccountId \<Rightarrow> AccountId list \<Rightarrow> TlaRegistry \<Rightarrow> (rg_callback, unit) promise_or_value rg_outcome" where
  "on_balances_checked h c results tla_id name destination allowlist s =
     (let key = sub_account_key tla_id name;
          release = (\<lambda>token reason. Inr (s\<lparr>rg_reclaim_pending := (rg_reclaim_pending s)(key := None)\<rparr>,
            [G_ReclaimFinalizeBlocked key token reason], ValueR ()))
      in if isl (assert_sale_idle key s) then release [] ''sale_in_progress''
         else (case ft_balances_clear h results allowlist of
           Blocked token reason \<Rightarrow> release token reason
         | Clear \<Rightarrow> (case resolve_reclaimable h c tla_id key s of
             Inr (sub_account, _) \<Rightarrow>
               Inr (s, [], PromiseR (park_wallet sub_account tla_id name destination s))
           | Inl _ \<Rightarrow> release [] ''no_longer_reclaimable'')))"

definition on_reclaim_finalized :: "host \<Rightarrow> ctx \<Rightarrow> AccountId \<Rightarrow> string \<Rightarrow> AccountId \<Rightarrow> bool
    \<Rightarrow> TlaRegistry \<Rightarrow> unit rg_outcome" where
  "on_reclaim_finalized h c tla_id name destination promise_success s =
     (let key = sub_account_key tla_id name;
          s = s\<lparr>rg_reclaim_pending := (rg_reclaim_pending s)(key := None)\<rparr>
      in if \<not> promise_success then Inr (s, [G_ReclaimFinalizeBlocked key [] ''park_failed''], ())
         else (case rg_sub_accounts s key of
           None \<Rightarrow> Inr (s, [], ())
         | Some removed \<Rightarrow>
             let s = s\<lparr>rg_sub_accounts := (rg_sub_accounts s)(key := None)\<rparr>;
                 s = (if valid_account_id h key \<and> rg_mothers s (sa_owner removed) = Some key
                      then decrement_mother_use key
                             (s\<lparr>rg_mothers := (rg_mothers s)(sa_owner removed := None)\<rparr>)
                      else s);
                 s = s\<lparr>rg_listings := (rg_listings s)(key := None)\<rparr>;
                 s = s\<lparr>rg_accepted_offers := (rg_accepted_offers s)(key := None)\<rparr>;
                 s = s\<lparr>rg_signer_pending := (rg_signer_pending s)(key := None)\<rparr>;
                 s = s\<lparr>rg_sub_account_count := sat_sub (rg_sub_account_count s) 1\<rparr>;
                 s = business_count_decrement_if_business tla_id s;
                 s = s\<lparr>rg_parked_names := (rg_parked_names s)(key \<mapsto>
                       \<lparr>pe_tla_id = tla_id, pe_parked_at = block_timestamp c\<rparr>)\<rparr>
             in Inr (s, [G_SubAccountReclaimed key tla_id destination], ())))"

section \<open>The method table\<close>

datatype rg_call =
    K_Pause
  | K_Unpause
  | K_ClaimRefund
  | K_RegisterTla AccountId TlaType PremiumCategory "AccountId option"
  | K_SuspendTla AccountId
  | K_UnsuspendTla AccountId
  | K_AddAdmin AccountId
  | K_RemoveAdmin AccountId
  | K_AddPaymentAuthority AccountId
  | K_RemovePaymentAuthority AccountId
  | K_UpdateFeeConfig FeeConfig
  | K_SetParkedSignerPubkey PublicKey
  | K_Withdraw u128 AccountId
  | K_AddFtAllowlist AccountId
  | K_RemoveFtAllowlist AccountId
  | K_ActivateOpenTla AccountId
  | K_AdminClearSettling AccountId string
  | K_AdminClearReclaimPending AccountId string
  | K_SetMother AccountId
  | K_AdminClearMother AccountId
  | K_ScheduleRetraction AccountId string
  | K_CancelRetraction AccountId string
  | K_SetBusinessSubCap AccountId "u32 option"
  | K_ActivateTla AccountId
  | K_RentSubAccount AccountId string PublicKey AccountId
  | K_RentSubAccountPaid AccountId string PublicKey AccountId
  | K_RenewTla AccountId
  | K_SetMainWallet AccountId string AccountId
  | K_RenewSubAccount AccountId string
  | K_RetrySignerInstall AccountId string
  | K_ListSubAccount AccountId string u128 PublicKey
  | K_UnlistSubAccount AccountId string
  | K_AcceptOffer AccountId string AccountId u128 PublicKey
  | K_RevokeOffer AccountId string
  | K_BuySubAccount AccountId string PublicKey
  | K_BuySubAccountPaid AccountId string AccountId PublicKey
  | K_ReclaimSweepFt AccountId string AccountId u64 "byte list"
  | K_ReclaimFinalize AccountId string

text \<open>What the runtime hands to a callback.\<close>

datatype rg_result =
    Success bool
  | Minted "MintOutcome promise_result"
  | Swapped "bool promise_result"
  | SignerIs "string option promise_result"
  | Balances "byte list promise_result list"

type_synonym rg_reply = "(rg_callback, unit) promise_or_value"

abbreviation rg_unit :: "unit rg_outcome \<Rightarrow> rg_reply rg_outcome" where
  "rg_unit \<equiv> map_reply ValueR"

abbreviation rg_prom :: "rg_promise rg_outcome \<Rightarrow> rg_reply rg_outcome" where
  "rg_prom \<equiv> map_reply PromiseR"

primrec rg_method :: "host \<Rightarrow> ctx \<Rightarrow> rg_call \<Rightarrow> TlaRegistry \<Rightarrow> rg_reply rg_outcome" where
  "rg_method h c K_Pause s = non_payable RgNoDeposit c (rg_unit (rg_pause c s))"
| "rg_method h c K_Unpause s = non_payable RgNoDeposit c (rg_unit (rg_unpause c s))"
| "rg_method h c K_ClaimRefund s = non_payable RgNoDeposit c (rg_prom (claim_refund c s))"
| "rg_method h c (K_RegisterTla t ty p l) s = non_payable RgNoDeposit c (rg_unit (register_tla c t ty p l s))"
| "rg_method h c (K_SuspendTla t) s = non_payable RgNoDeposit c (rg_unit (suspend_tla c t s))"
| "rg_method h c (K_UnsuspendTla t) s = non_payable RgNoDeposit c (rg_unit (unsuspend_tla c t s))"
| "rg_method h c (K_AddAdmin a) s = non_payable RgNoDeposit c (rg_unit (rg_add_admin c a s))"
| "rg_method h c (K_RemoveAdmin a) s = non_payable RgNoDeposit c (rg_unit (rg_remove_admin c a s))"
| "rg_method h c (K_AddPaymentAuthority a) s =
     non_payable RgNoDeposit c (rg_unit (add_payment_authority c a s))"
| "rg_method h c (K_RemovePaymentAuthority a) s =
     non_payable RgNoDeposit c (rg_unit (remove_payment_authority c a s))"
| "rg_method h c (K_UpdateFeeConfig f) s = non_payable RgNoDeposit c (rg_unit (update_fee_config c f s))"
| "rg_method h c (K_SetParkedSignerPubkey k) s =
     non_payable RgNoDeposit c (rg_unit (set_parked_signer_pubkey h c k s))"
| "rg_method h c (K_Withdraw n a) s = non_payable RgNoDeposit c (rg_unit (withdraw c n a s))"
| "rg_method h c (K_AddFtAllowlist f) s = non_payable RgNoDeposit c (rg_unit (add_ft_allowlist c f s))"
| "rg_method h c (K_RemoveFtAllowlist f) s = non_payable RgNoDeposit c (rg_unit (remove_ft_allowlist c f s))"
| "rg_method h c (K_ActivateOpenTla t) s = non_payable RgNoDeposit c (rg_unit (activate_open_tla c t s))"
| "rg_method h c (K_AdminClearSettling t n) s =
     non_payable RgNoDeposit c (rg_unit (admin_clear_settling c t n s))"
| "rg_method h c (K_AdminClearReclaimPending t n) s =
     non_payable RgNoDeposit c (rg_unit (admin_clear_reclaim_pending c t n s))"
| "rg_method h c (K_SetMother a) s = rg_unit (set_mother c a s)"
| "rg_method h c (K_AdminClearMother a) s = non_payable RgNoDeposit c (rg_unit (admin_clear_mother c a s))"
| "rg_method h c (K_ScheduleRetraction t n) s = rg_unit (schedule_retraction c t n s)"
| "rg_method h c (K_CancelRetraction t n) s = rg_unit (cancel_retraction c t n s)"
| "rg_method h c (K_SetBusinessSubCap t m) s =
     non_payable RgNoDeposit c (rg_unit (set_business_sub_cap c t m s))"
| "rg_method h c (K_ActivateTla t) s = rg_unit (activate_tla c t s)"
| "rg_method h c (K_RentSubAccount t n k w) s = rg_prom (rent_sub_account h c t n k w s)"
| "rg_method h c (K_RentSubAccountPaid t n k w) s = rg_prom (rent_sub_account_paid h c t n k w s)"
| "rg_method h c (K_RenewTla t) s = rg_unit (renew_tla c t s)"
| "rg_method h c (K_SetMainWallet t n w) s = rg_unit (set_main_wallet c t n w s)"
| "rg_method h c (K_RenewSubAccount t n) s = rg_unit (renew_sub_account c t n s)"
| "rg_method h c (K_RetrySignerInstall t n) s =
     non_payable RgNoDeposit c (rg_prom (retry_signer_install h c t n s))"
| "rg_method h c (K_ListSubAccount t n p k) s = rg_prom (list_sub_account h c t n p k s)"
| "rg_method h c (K_UnlistSubAccount t n) s = rg_unit (unlist_sub_account c t n s)"
| "rg_method h c (K_AcceptOffer t n b p k) s = rg_prom (accept_offer h c t n b p k s)"
| "rg_method h c (K_RevokeOffer t n) s = rg_unit (revoke_offer c t n s)"
| "rg_method h c (K_BuySubAccount t n k) s = rg_prom (buy_sub_account h c t n k s)"
| "rg_method h c (K_BuySubAccountPaid t n b k) s =
     non_payable RgNoDeposit c (rg_prom (buy_sub_account_paid h c t n b k s))"
| "rg_method h c (K_ReclaimSweepFt t n f x b) s = rg_prom (reclaim_sweep_ft h c t n f x b s)"
| "rg_method h c (K_ReclaimFinalize t n) s =
     non_payable RgNoDeposit c (rg_prom (reclaim_finalize h c t n s))"

definition rg_exec :: "host \<Rightarrow> ctx \<times> rg_call \<Rightarrow> TlaRegistry \<Rightarrow> rg_reply rg_outcome" where
  "rg_exec h x s = rg_method h (fst x) (snd x) s"

lemma rg_exec_pair [simp]: "rg_exec h (c, call) s = rg_method h c call s"
  by (simp add: rg_exec_def)

text \<open>Delivery of a callback with the result of its promise; a result of the wrong shape does not
  occur and leaves an error.\<close>

primrec rg_deliver :: "host \<Rightarrow> ctx \<Rightarrow> rg_callback \<Rightarrow> rg_result \<Rightarrow> TlaRegistry \<Rightarrow> rg_reply rg_outcome" where
  "rg_deliver h c (OnClaimRefundSettled a n) r s = (case r of
     Success b \<Rightarrow> rg_unit (on_claim_refund_settled a n b s) | _ \<Rightarrow> Inl RgPrivate)"
| "rg_deliver h c (OnSubAccountCreated t n p k rent att) r s = (case r of
     Minted m \<Rightarrow> rg_unit (on_sub_account_created t n p k rent att m s) | _ \<Rightarrow> Inl RgPrivate)"
| "rg_deliver h c (OnSubAccountCreatedPaid t n p k rent att) r s = (case r of
     Minted m \<Rightarrow> rg_unit (on_sub_account_created_paid t n p k rent att m s) | _ \<Rightarrow> Inl RgPrivate)"
| "rg_deliver h c (OnSubAccountReRented t n p rent att) r s = (case r of
     Success b \<Rightarrow> rg_unit (on_sub_account_re_rented t n p rent att b s) | _ \<Rightarrow> Inl RgPrivate)"
| "rg_deliver h c (OnRetrySignerSettled k) r s = (case r of
     Success b \<Rightarrow> rg_unit (on_retry_signer_settled k b s) | _ \<Rightarrow> Inl RgPrivate)"
| "rg_deliver h c (OnReRentBalancesChecked p al) r s = (case r of
     Balances rs \<Rightarrow> on_re_rent_balances_checked h rs p al s | _ \<Rightarrow> Inl RgPrivate)"
| "rg_deliver h c (OnListingVerified t n p k o') r s = (case r of
     SignerIs x \<Rightarrow> rg_unit (on_listing_verified h t n p k o' x s) | _ \<Rightarrow> Inl RgPrivate)"
| "rg_deliver h c (OnOfferVerified t n b p k o') r s = (case r of
     SignerIs x \<Rightarrow> rg_unit (on_offer_verified h t n b p k o' x s) | _ \<Rightarrow> Inl RgPrivate)"
| "rg_deliver h c (OnSubAccountSold t n b p d) r s = (case r of
     Swapped x \<Rightarrow> rg_unit (on_sub_account_sold t n b p d x s) | _ \<Rightarrow> Inl RgPrivate)"
| "rg_deliver h c (OnSubAccountSoldPaid t n b o' p) r s = (case r of
     Swapped x \<Rightarrow> rg_unit (on_sub_account_sold_paid t n b o' p x s) | _ \<Rightarrow> Inl RgPrivate)"
| "rg_deliver h c (OnBuyBalancesChecked p al) r s = (case r of
     Balances rs \<Rightarrow> on_buy_balances_checked h rs p al s | _ \<Rightarrow> Inl RgPrivate)"
| "rg_deliver h c (OnBuyPaidBalancesChecked p al o') r s = (case r of
     Balances rs \<Rightarrow> on_buy_paid_balances_checked h rs p al o' s | _ \<Rightarrow> Inl RgPrivate)"
| "rg_deliver h c (OnBalancesChecked t n d al) r s = (case r of
     Balances rs \<Rightarrow> on_balances_checked h c rs t n d al s | _ \<Rightarrow> Inl RgPrivate)"
| "rg_deliver h c (OnReclaimFinalized t n d) r s = (case r of
     Success b \<Rightarrow> rg_unit (on_reclaim_finalized h c t n d b s) | _ \<Rightarrow> Inl RgPrivate)"

end
