(* ===== verification/Registry_Ledger.thy ===== *)
theory Registry_Ledger
  imports Registry_Market
begin

text \<open>
  The money of \<open>tla-registry\<close>. A world is the contract's state, the callbacks in flight with the
  NEAR sent along with their promises, and the NEAR the contract holds: what callers attached and
  remote calls gave back, less what it sent out. The books balance in every world that calls and
  deliveries reach: recorded revenue, recorded refunds and the deposits of unsettled requests are
  covered by what is held, and the refund total is the sum of the refunds owed.
\<close>

section \<open>Books\<close>

definition refund_sum :: "TlaRegistry \<Rightarrow> nat" where
  "refund_sum s = map_total (rg_pending_refunds s)"

definition books :: "TlaRegistry \<Rightarrow> bool" where
  "books s \<longleftrightarrow> finite (dom (rg_pending_refunds s)) \<and> refund_sum s = unat (rg_total_pending_refunds s)"

definition claims :: "TlaRegistry \<Rightarrow> nat" where
  "claims s = unat (rg_total_revenue s) + unat (rg_total_pending_refunds s)"

text \<open>The part of the state the books are about, and calls that leave it alone.\<close>

definition same_money :: "TlaRegistry \<Rightarrow> TlaRegistry \<Rightarrow> bool" where
  "same_money s s' \<longleftrightarrow> rg_total_revenue s' = rg_total_revenue s \<and>
     rg_pending_refunds s' = rg_pending_refunds s \<and>
     rg_total_pending_refunds s' = rg_total_pending_refunds s"

lemma same_money_books: "same_money s s' \<Longrightarrow> books s' = books s \<and> claims s' = claims s"
  by (simp add: same_money_def books_def claims_def refund_sum_def)

lemma same_money_refl [simp]: "same_money s s"
  by (simp add: same_money_def)

definition owed :: "TlaRegistry \<Rightarrow> AccountId \<Rightarrow> nat" where
  "owed s a = unat (get_or 0 (rg_pending_refunds s) a)"

lemma owed_le_sum: "finite (dom (rg_pending_refunds s)) \<Longrightarrow> owed s a \<le> refund_sum s"
  unfolding owed_def refund_sum_def by (rule map_total_member)

lemma refund_sum_upd:
  assumes "finite (dom (rg_pending_refunds s))"
    and "rg_pending_refunds s' = (rg_pending_refunds s)(a := v)"
  shows "refund_sum s' + owed s a = refund_sum s + (case v of None \<Rightarrow> 0 | Some n \<Rightarrow> unat n)"
  using map_total_upd [OF assms(1), of a v] by (simp add: assms(2) refund_sum_def owed_def)

lemma books_add_pending_refund:
  assumes "books s" and "unat (rg_total_pending_refunds s) + unat n < 2 ^ 128"
  shows "books (add_pending_refund a n s)"
    and "claims (add_pending_refund a n s) = claims s + unat n"
proof -
  let ?s = "add_pending_refund a n s"
  from assms have fin: "finite (dom (rg_pending_refunds s))"
    and sum: "refund_sum s = unat (rg_total_pending_refunds s)" by (auto simp: books_def)
  with assms(2) owed_le_sum [OF fin, of a] have "unat (sat_add (get_or 0 (rg_pending_refunds s) a) n) = owed s a + unat n"
    by (simp add: owed_def unat_sat_add_exact)
  with refund_sum_upd [OF fin, of ?s a "Some (sat_add (get_or 0 (rg_pending_refunds s) a) n)"]
  have "refund_sum ?s = refund_sum s + unat n"
    by (simp add: add_pending_refund_def Let_def)
  with fin sum assms(2) show "books ?s"
    by (simp add: books_def) (simp add: add_pending_refund_def Let_def unat_sat_add_exact)
  from assms(2) show "claims ?s = claims s + unat n"
    by (simp add: claims_def) (simp add: add_pending_refund_def Let_def unat_sat_add_exact)
qed

lemma books_refund_excess:
  assumes "books s" and "unat (rg_total_pending_refunds s) + (unat att - unat ch) < 2 ^ 128"
  shows "books (refund_excess a att ch s)"
    and "claims (refund_excess a att ch s) = claims s + (unat att - unat ch)"
proof -
  have "sat_sub att ch > 0 \<longleftrightarrow> 0 < unat att - unat ch"
    by (simp add: word_less_nat_alt unat_sat_sub)
  with assms books_add_pending_refund [OF assms(1), of "sat_sub att ch" a]
  show "books (refund_excess a att ch s)"
    and "claims (refund_excess a att ch s) = claims s + (unat att - unat ch)"
    by (auto simp: refund_excess_def Let_def unat_sat_sub)
qed

lemma books_revenue:
  assumes "books s"
  shows "books (s\<lparr>rg_total_revenue := r\<rparr>)"
    and "claims (s\<lparr>rg_total_revenue := r\<rparr>) = unat r + unat (rg_total_pending_refunds s)"
  using assms by (simp_all add: books_def refund_sum_def claims_def)

lemma add_pending_refund_sel [simp]:
  "rg_tlas (add_pending_refund a n s) = rg_tlas s"
  "rg_sub_accounts (add_pending_refund a n s) = rg_sub_accounts s"
  "rg_fee_config (add_pending_refund a n s) = rg_fee_config s"
  "rg_total_revenue (add_pending_refund a n s) = rg_total_revenue s"
  "rg_listings (add_pending_refund a n s) = rg_listings s"
  "rg_accepted_offers (add_pending_refund a n s) = rg_accepted_offers s"
  "rg_hos_extension (add_pending_refund a n s) = rg_hos_extension s"
  "rg_ft_allowlist (add_pending_refund a n s) = rg_ft_allowlist s"
  "rg_admins (add_pending_refund a n s) = rg_admins s"
  "rg_grace_period_ns (add_pending_refund a n s) = rg_grace_period_ns s"
  "rg_paused (add_pending_refund a n s) = rg_paused s"
  "rg_parked_names (add_pending_refund a n s) = rg_parked_names s"
  "rg_signer_pending (add_pending_refund a n s) = rg_signer_pending s"
  "rg_reclaim_pending (add_pending_refund a n s) = rg_reclaim_pending s"
  "rg_payment_authorities (add_pending_refund a n s) = rg_payment_authorities s"
  "rg_active_signer (add_pending_refund a n s) = rg_active_signer s"
  "rg_parked_signer_pubkey (add_pending_refund a n s) = rg_parked_signer_pubkey s"
  "rg_mothers (add_pending_refund a n s) = rg_mothers s"
  "rg_mother_use_count (add_pending_refund a n s) = rg_mother_use_count s"
  "rg_business_sub_count (add_pending_refund a n s) = rg_business_sub_count s"
  by (simp_all add: add_pending_refund_def Let_def)

lemma refund_excess_sel [simp]:
  "rg_tlas (refund_excess a n m s) = rg_tlas s"
  "rg_sub_accounts (refund_excess a n m s) = rg_sub_accounts s"
  "rg_fee_config (refund_excess a n m s) = rg_fee_config s"
  "rg_total_revenue (refund_excess a n m s) = rg_total_revenue s"
  "rg_listings (refund_excess a n m s) = rg_listings s"
  "rg_accepted_offers (refund_excess a n m s) = rg_accepted_offers s"
  "rg_hos_extension (refund_excess a n m s) = rg_hos_extension s"
  "rg_ft_allowlist (refund_excess a n m s) = rg_ft_allowlist s"
  "rg_admins (refund_excess a n m s) = rg_admins s"
  "rg_grace_period_ns (refund_excess a n m s) = rg_grace_period_ns s"
  "rg_paused (refund_excess a n m s) = rg_paused s"
  "rg_parked_names (refund_excess a n m s) = rg_parked_names s"
  "rg_signer_pending (refund_excess a n m s) = rg_signer_pending s"
  "rg_reclaim_pending (refund_excess a n m s) = rg_reclaim_pending s"
  "rg_payment_authorities (refund_excess a n m s) = rg_payment_authorities s"
  "rg_active_signer (refund_excess a n m s) = rg_active_signer s"
  "rg_parked_signer_pubkey (refund_excess a n m s) = rg_parked_signer_pubkey s"
  "rg_mothers (refund_excess a n m s) = rg_mothers s"
  "rg_mother_use_count (refund_excess a n m s) = rg_mother_use_count s"
  "rg_business_sub_count (refund_excess a n m s) = rg_business_sub_count s"
  by (simp_all add: refund_excess_def Let_def)

text \<open>What the bookkeeping helpers leave alone.\<close>

lemma mother_use_sel [simp]:
  "rg_tlas (decrement_mother_use a s) = rg_tlas s"
  "rg_admins (decrement_mother_use a s) = rg_admins s"
  "rg_fee_config (decrement_mother_use a s) = rg_fee_config s"
  "rg_total_revenue (decrement_mother_use a s) = rg_total_revenue s"
  "rg_pending_refunds (decrement_mother_use a s) = rg_pending_refunds s"
  "rg_total_pending_refunds (decrement_mother_use a s) = rg_total_pending_refunds s"
  "rg_ft_allowlist (decrement_mother_use a s) = rg_ft_allowlist s"
  "rg_listings (decrement_mother_use a s) = rg_listings s"
  "rg_accepted_offers (decrement_mother_use a s) = rg_accepted_offers s"
  "rg_hos_extension (decrement_mother_use a s) = rg_hos_extension s"
  "rg_sub_accounts (decrement_mother_use a s) = rg_sub_accounts s"
  "rg_grace_period_ns (decrement_mother_use a s) = rg_grace_period_ns s"
  "rg_paused (decrement_mother_use a s) = rg_paused s"
  "rg_parked_names (decrement_mother_use a s) = rg_parked_names s"
  "rg_signer_pending (decrement_mother_use a s) = rg_signer_pending s"
  "rg_reclaim_pending (decrement_mother_use a s) = rg_reclaim_pending s"
  "rg_payment_authorities (decrement_mother_use a s) = rg_payment_authorities s"
  "rg_active_signer (decrement_mother_use a s) = rg_active_signer s"
  "rg_parked_signer_pubkey (decrement_mother_use a s) = rg_parked_signer_pubkey s"
  "rg_business_sub_count (decrement_mother_use a s) = rg_business_sub_count s"
  "rg_mothers (decrement_mother_use a s) = rg_mothers s"
  "rg_tlas (increment_mother_use a s) = rg_tlas s"
  "rg_admins (increment_mother_use a s) = rg_admins s"
  "rg_fee_config (increment_mother_use a s) = rg_fee_config s"
  "rg_total_revenue (increment_mother_use a s) = rg_total_revenue s"
  "rg_pending_refunds (increment_mother_use a s) = rg_pending_refunds s"
  "rg_total_pending_refunds (increment_mother_use a s) = rg_total_pending_refunds s"
  "rg_ft_allowlist (increment_mother_use a s) = rg_ft_allowlist s"
  "rg_listings (increment_mother_use a s) = rg_listings s"
  "rg_accepted_offers (increment_mother_use a s) = rg_accepted_offers s"
  "rg_hos_extension (increment_mother_use a s) = rg_hos_extension s"
  "rg_sub_accounts (increment_mother_use a s) = rg_sub_accounts s"
  "rg_grace_period_ns (increment_mother_use a s) = rg_grace_period_ns s"
  "rg_paused (increment_mother_use a s) = rg_paused s"
  "rg_parked_names (increment_mother_use a s) = rg_parked_names s"
  "rg_signer_pending (increment_mother_use a s) = rg_signer_pending s"
  "rg_reclaim_pending (increment_mother_use a s) = rg_reclaim_pending s"
  "rg_payment_authorities (increment_mother_use a s) = rg_payment_authorities s"
  "rg_active_signer (increment_mother_use a s) = rg_active_signer s"
  "rg_parked_signer_pubkey (increment_mother_use a s) = rg_parked_signer_pubkey s"
  "rg_business_sub_count (increment_mother_use a s) = rg_business_sub_count s"
  "rg_mothers (increment_mother_use a s) = rg_mothers s"
  by (simp_all add: decrement_mother_use_def increment_mother_use_def Let_def)

lemma business_count_sel [simp]:
  "rg_tlas (business_count_decrement_if_business t s) = rg_tlas s"
  "rg_admins (business_count_decrement_if_business t s) = rg_admins s"
  "rg_fee_config (business_count_decrement_if_business t s) = rg_fee_config s"
  "rg_total_revenue (business_count_decrement_if_business t s) = rg_total_revenue s"
  "rg_pending_refunds (business_count_decrement_if_business t s) = rg_pending_refunds s"
  "rg_total_pending_refunds (business_count_decrement_if_business t s) = rg_total_pending_refunds s"
  "rg_ft_allowlist (business_count_decrement_if_business t s) = rg_ft_allowlist s"
  "rg_listings (business_count_decrement_if_business t s) = rg_listings s"
  "rg_accepted_offers (business_count_decrement_if_business t s) = rg_accepted_offers s"
  "rg_hos_extension (business_count_decrement_if_business t s) = rg_hos_extension s"
  "rg_sub_accounts (business_count_decrement_if_business t s) = rg_sub_accounts s"
  "rg_grace_period_ns (business_count_decrement_if_business t s) = rg_grace_period_ns s"
  "rg_paused (business_count_decrement_if_business t s) = rg_paused s"
  "rg_parked_names (business_count_decrement_if_business t s) = rg_parked_names s"
  "rg_signer_pending (business_count_decrement_if_business t s) = rg_signer_pending s"
  "rg_reclaim_pending (business_count_decrement_if_business t s) = rg_reclaim_pending s"
  "rg_payment_authorities (business_count_decrement_if_business t s) = rg_payment_authorities s"
  "rg_active_signer (business_count_decrement_if_business t s) = rg_active_signer s"
  "rg_parked_signer_pubkey (business_count_decrement_if_business t s) = rg_parked_signer_pubkey s"
  "rg_mothers (business_count_decrement_if_business t s) = rg_mothers s"
  "rg_mother_use_count (business_count_decrement_if_business t s) = rg_mother_use_count s"
  by (simp_all add: business_count_decrement_if_business_def business_count_decrement_def Let_def)

lemma clear_settling_sel [simp]:
  "rg_tlas (clear_settling k s) = rg_tlas s"
  "rg_admins (clear_settling k s) = rg_admins s"
  "rg_fee_config (clear_settling k s) = rg_fee_config s"
  "rg_total_revenue (clear_settling k s) = rg_total_revenue s"
  "rg_pending_refunds (clear_settling k s) = rg_pending_refunds s"
  "rg_total_pending_refunds (clear_settling k s) = rg_total_pending_refunds s"
  "rg_ft_allowlist (clear_settling k s) = rg_ft_allowlist s"
  "rg_hos_extension (clear_settling k s) = rg_hos_extension s"
  "rg_sub_accounts (clear_settling k s) = rg_sub_accounts s"
  "rg_grace_period_ns (clear_settling k s) = rg_grace_period_ns s"
  "rg_paused (clear_settling k s) = rg_paused s"
  "rg_parked_names (clear_settling k s) = rg_parked_names s"
  "rg_signer_pending (clear_settling k s) = rg_signer_pending s"
  "rg_reclaim_pending (clear_settling k s) = rg_reclaim_pending s"
  "rg_payment_authorities (clear_settling k s) = rg_payment_authorities s"
  "rg_active_signer (clear_settling k s) = rg_active_signer s"
  "rg_parked_signer_pubkey (clear_settling k s) = rg_parked_signer_pubkey s"
  "rg_mothers (clear_settling k s) = rg_mothers s"
  "rg_mother_use_count (clear_settling k s) = rg_mother_use_count s"
  "rg_business_sub_count (clear_settling k s) = rg_business_sub_count s"
  by (simp_all add: clear_settling_def Let_def split: option.splits)

section \<open>Requests in flight\<close>

text \<open>The NEAR a promise carries away, the callbacks it leaves in flight, and the part of a
  caller's deposit that a callback still has to account for.\<close>

primrec sent :: "'cb promise \<Rightarrow> nat" where
  "sent (CallP r m d g) = unat d"
| "sent (BatchP r as) = sum_list (map (\<lambda>a. case a of TransferNear n \<Rightarrow> unat n | _ \<Rightarrow> 0) as)"
| "sent (AndP p q) = sent p + sent q"
| "sent (ThenP p cb g) = sent p"

type_synonym flight = "rg_callback \<times> nat"

primrec sent_by :: "rg_reply \<Rightarrow> nat" where
  "sent_by (PromiseR p) = sent p"
| "sent_by (ValueR u) = 0"

primrec flights_of :: "rg_reply \<Rightarrow> flight list" where
  "flights_of (PromiseR p) = map (\<lambda>cb. (cb, sent p)) (callbacks_of p)"
| "flights_of (ValueR u) = []"

definition escrow :: "flight \<Rightarrow> nat" where
  "escrow f = (case fst f of
     OnSubAccountCreated t n p k r a \<Rightarrow> unat a - snd f
   | OnSubAccountCreatedPaid t n p k r a \<Rightarrow> unat a - snd f
   | OnSubAccountReRented t n p r a \<Rightarrow> unat a
   | OnReRentBalancesChecked pend al \<Rightarrow> unat (prr_attached pend)
   | OnSubAccountSold t n b p d \<Rightarrow> unat d
   | OnBuyBalancesChecked st al \<Rightarrow> unat (pb_deposit st)
   | _ \<Rightarrow> 0)"

definition flight_ok :: "nat \<Rightarrow> flight \<Rightarrow> bool" where
  "flight_ok creation_deposit f = (case fst f of
     OnSubAccountCreated t n p k r a \<Rightarrow> snd f = creation_deposit \<and> unat r + snd f \<le> unat a
   | OnSubAccountCreatedPaid t n p k r a \<Rightarrow> snd f = creation_deposit \<and> snd f \<le> unat a
   | OnSubAccountReRented t n p r a \<Rightarrow> r \<le> a
   | OnReRentBalancesChecked pend al \<Rightarrow> prr_rent pend \<le> prr_attached pend
   | OnSubAccountSold t n b p d \<Rightarrow> p \<le> d
   | OnBuyBalancesChecked st al \<Rightarrow> pb_price st \<le> pb_deposit st
   | OnClaimRefundSettled a n \<Rightarrow> snd f = unat n
   | _ \<Rightarrow> True)"

text \<open>What a failed remote call gives back: a transfer that did not go through, and the funding of
  a sub-account that was not created.\<close>

definition comes_back :: "flight \<Rightarrow> rg_result \<Rightarrow> nat" where
  "comes_back f r = (case (fst f, r) of
     (OnClaimRefundSettled a n, Success False) \<Rightarrow> snd f
   | (OnSubAccountCreated t n p k x a, Minted (Inr CreationFailed)) \<Rightarrow> snd f
   | (OnSubAccountCreated t n p k x a, Minted (Inl _)) \<Rightarrow> snd f
   | (OnSubAccountCreatedPaid t n p k x a, Minted (Inr CreationFailed)) \<Rightarrow> snd f
   | (OnSubAccountCreatedPaid t n p k x a, Minted (Inl _)) \<Rightarrow> snd f
   | _ \<Rightarrow> 0)"

abbreviation creation_deposit :: "TlaRegistry \<Rightarrow> nat" where
  "creation_deposit s \<equiv> unat (fc_account_creation_deposit (rg_fee_config s))"

text \<open>A receipt that brings in some NEAR balances: every unit is recorded, in flight or sent.\<close>

definition balanced :: "TlaRegistry \<Rightarrow> nat \<Rightarrow> TlaRegistry \<Rightarrow> rg_reply \<Rightarrow> bool" where
  "balanced s income s' reply \<longleftrightarrow> books s' \<and>
     claims s' + sum_list (map escrow (flights_of reply)) + sent_by reply \<le> claims s + income \<and>
     list_all (flight_ok (creation_deposit s')) (flights_of reply)"

lemma balanced_same:
  assumes "books s" and "same_money s s'"
    and "sum_list (map escrow (flights_of reply)) + sent_by reply \<le> income"
    and "list_all (flight_ok (creation_deposit s')) (flights_of reply)"
  shows "balanced s income s' reply"
  using assms same_money_books [OF assms(2)] by (simp add: balanced_def)

lemma balanced_value:
  "books s \<Longrightarrow> same_money s s' \<Longrightarrow> balanced s income s' (ValueR ())"
  by (rule balanced_same) auto

lemma fanout_fold:
  "sent (foldl (\<lambda>chain ft. AndP chain (ft_balance_query ft x)) q fts) = sent q \<and>
   callbacks_of (foldl (\<lambda>chain ft. AndP chain (ft_balance_query ft x)) q fts) = callbacks_of q \<and>
   static_gas (foldl (\<lambda>chain ft. AndP chain (ft_balance_query ft x)) q fts) =
     static_gas q + GAS_PER_FT_BALANCE * length fts \<and>
   calls_of (foldl (\<lambda>chain ft. AndP chain (ft_balance_query ft x)) q fts) =
     calls_of q @ map (\<lambda>ft. (ft, FtBalanceOf x, 0)) fts"
  by (induction fts arbitrary: q) (auto simp: ft_balance_query_def)

lemma fanout_Some:
  "ft_balance_fanout al x = Some p \<Longrightarrow> sent p = 0 \<and> callbacks_of p = [] \<and>
     static_gas p = GAS_PER_FT_BALANCE * length al \<and> calls_of p = map (\<lambda>ft. (ft, FtBalanceOf x, 0)) al"
  by (auto simp: ft_balance_fanout_def fanout_fold split: list.splits)
    (simp_all add: ft_balance_query_def)

lemma helper_money:
  "same_money s (clear_settling k s)" "same_money s (decrement_mother_use a s)"
  "same_money s (increment_mother_use a s)" "same_money s (business_count_decrement_if_business t s)"
  by (simp_all add: same_money_def)

lemmas clear_settling_money = helper_money(1)
lemmas decrement_mother_use_money = helper_money(2)
lemmas business_count_decrement_money = helper_money(4)

lemma business_bump_money: "business_count_check_and_bump t s = Inr s' \<Longrightarrow> same_money s s'"
  by (auto simp: business_count_check_and_bump_def same_money_def Let_def split: if_splits)

lemma ensure_mother_default_money: "ensure_mother_default u s = (s', evs) \<Longrightarrow> same_money s s'"
  by (auto simp: ensure_mother_default_def increment_mother_use_def same_money_def Let_def split: if_splits)

lemma same_money_trans: "same_money s t \<Longrightarrow> same_money t u \<Longrightarrow> same_money s u"
  by (simp add: same_money_def)

lemma set_mother_money: "set_mother c a s = Inr (s', evs, v) \<Longrightarrow> same_money s s'"
  by (auto simp: set_mother_def set_mother_internal_def increment_mother_use_def decrement_mother_use_def
      same_money_def Let_def split: if_splits option.splits)

lemma resolve_and_lock_sale_Inr:
  "resolve_and_lock_sale key buyer deposit s = Inr (s', price, k) \<Longrightarrow>
     same_money s s' \<and> price \<le> deposit \<and> rg_fee_config s' = rg_fee_config s"
  by (auto simp: resolve_and_lock_sale_def same_money_def Let_def split: option.splits if_splits)

lemma resolve_and_lock_paid_sale_Inr:
  "resolve_and_lock_paid_sale key buyer s = Inr (s', price, k) \<Longrightarrow>
     same_money s s' \<and> rg_fee_config s' = rg_fee_config s"
  by (auto simp: resolve_and_lock_paid_sale_def same_money_def Let_def split: option.splits if_splits)

section \<open>Calls balance\<close>

lemma charge_balanced:
  assumes "books s" and "price \<le> att" and "claims s + unat att < 2 ^ 128"
    and u: "rg_total_revenue u = sat_add (rg_total_revenue s) price"
      "rg_pending_refunds u = rg_pending_refunds s"
      "rg_total_pending_refunds u = rg_total_pending_refunds s"
  shows "balanced s (unat att) (refund_excess a att price u) (ValueR ())"
proof -
  from assms have le: "unat price \<le> unat att" by (simp add: word_le_nat_alt)
  with assms(3) have "claims u = claims s + unat price"
    by (simp add: claims_def u unat_sat_add_exact)
  moreover have bu: "books u" using assms(1) by (simp add: books_def refund_sum_def u)
  moreover have "unat (rg_total_pending_refunds u) + (unat att - unat price) < 2 ^ 128"
    using assms(3) le by (simp add: claims_def u)
  ultimately show ?thesis
    using books_refund_excess [OF bu, of att price a] le by (simp add: balanced_def)
qed

lemma claim_refund_balanced:
  assumes "claim_refund c s = Inr (s', evs, p)" and "books s"
  shows "balanced s n s' (PromiseR p)"
proof -
  let ?a = "predecessor_account_id c"
  let ?m = "get_or 0 (rg_pending_refunds s) ?a"
  from assms(1) have s': "s' = s\<lparr>rg_pending_refunds := (rg_pending_refunds s)(?a := None),
        rg_total_pending_refunds := sat_sub (rg_total_pending_refunds s) ?m\<rparr>"
    and p: "p = ThenP (BatchP ?a [TransferNear ?m]) (OnClaimRefundSettled ?a ?m) GAS_FOR_CLAIM_REFUND_CB"
    by (auto simp: claim_refund_def Let_def split: if_splits)
  from assms(2) have fin: "finite (dom (rg_pending_refunds s))" by (simp add: books_def)
  with assms(2) owed_le_sum [OF fin, of ?a] have le: "unat ?m \<le> unat (rg_total_pending_refunds s)"
    by (simp add: books_def owed_def)
  from refund_sum_upd [OF fin, of s' ?a None] have "refund_sum s' + unat ?m = refund_sum s"
    by (simp add: s' owed_def)
  with assms(2) fin have "books s'" by (simp add: books_def s' unat_sat_sub)
  moreover have "claims s' + unat ?m = claims s"
    using le by (simp add: claims_def s' unat_sat_sub)
  ultimately show ?thesis by (simp add: balanced_def p escrow_def flight_ok_def)
qed

lemma withdraw_balanced:
  assumes "withdraw c n a s = Inr (s', evs, v)" and "books s" and "claims s < 2 ^ 128"
  shows "balanced s m s' (ValueR ())"
proof -
  let ?t = "s\<lparr>rg_total_revenue := sat_sub (rg_total_revenue s) n\<rparr>"
  from assms(1) have s': "s' = add_pending_refund a n ?t" and le: "n \<le> rg_total_revenue s"
    by (auto simp: withdraw_def split: if_splits)
  from le have le': "unat n \<le> unat (rg_total_revenue s)" by (simp add: word_le_nat_alt)
  then have t: "books ?t" "claims ?t + unat n = claims s"
    using books_revenue [OF assms(2), of "sat_sub (rg_total_revenue s) n"]
    by (simp_all add: claims_def unat_sat_sub)
  with assms(3) have "unat (rg_total_pending_refunds ?t) + unat n < 2 ^ 128" by (simp add: claims_def)
  from books_add_pending_refund [OF t(1) this, of a] t(2) show ?thesis by (simp add: balanced_def s')
qed

lemma rent_sub_account_Inr:
  assumes "rent_sub_account h c t n k w s = Inr (s', evs, p)"
  shows "\<exists>rent isb s1 s2. \<not> rg_paused s \<and> validate_name n = Inr () \<and>
    rg_sub_accounts s (sub_account_key t n) = None \<and>
    rental_terms c t n (predecessor_account_id c) s = Inr (rent, isb) \<and>
    ensure_mother_default (predecessor_account_id c) s = (s1, evs) \<and>
    (if isb then business_count_check_and_bump t s1 else Inr s1) = Inr s2 \<and>
    s' = s2\<lparr>rg_sub_accounts := (rg_sub_accounts s2)(sub_account_key t n \<mapsto>
           new_sub_entry c (predecessor_account_id c) t w)\<rparr> \<and>
    (if rg_parked_names s (sub_account_key t n) \<noteq> None then rent \<le> attached_deposit c \<and>
       (let pend = \<lparr>prr_tla_id = t, prr_name = n, prr_payer = predecessor_account_id c,
          prr_owner_key = k, prr_rent = rent, prr_attached = attached_deposit c,
          prr_sub_account = sub_account_key t n\<rparr>
        in p = (case ft_balance_fanout (rg_ft_allowlist s2) (sub_account_key t n) of
            None \<Rightarrow> re_rent_transfer (rg_hos_extension s2) pend
          | Some chain \<Rightarrow> ThenP chain (OnReRentBalancesChecked pend (rg_ft_allowlist s2))
              GAS_FOR_RERENT_BALANCES_CB))
     else sat_add rent (fc_account_creation_deposit (rg_fee_config s)) \<le> attached_deposit c \<and>
       p = ThenP (CallP t (CreateSubAccount n k) (fc_account_creation_deposit (rg_fee_config s2)) GAS_FOR_CREATE)
         (OnSubAccountCreated t n (predecessor_account_id c) k rent (attached_deposit c)) GAS_FOR_CALLBACK)"
proof -
  obtain s1 ev1 where em: "ensure_mother_default (predecessor_account_id c) s = (s1, ev1)" by fastforce
  from assms have pre: "\<not> rg_paused s" "validate_name n = Inr ()"
      "rg_sub_accounts s (sub_account_key t n) = None" "w \<noteq> sub_account_key t n"
    by (simp_all add: rent_sub_account_def assert_not_paused_def Let_def split: if_splits)
  from assms pre obtain rent isb where rt: "rental_terms c t n (predecessor_account_id c) s = Inr (rent, isb)"
    by (cases "rental_terms c t n (predecessor_account_id c) s")
      (auto simp: rent_sub_account_def assert_not_paused_def Let_def)
  note used = rent_sub_account_def assert_not_paused_def Let_def em rt pre
  from assms obtain s2 where s2: "(if isb then business_count_check_and_bump t s1 else Inr s1) = Inr s2"
    by (cases "(if isb then business_count_check_and_bump t s1 else Inr s1)")
      (simp_all add: used split: if_splits)
  from assms show ?thesis
    by (cases "rg_parked_names s (sub_account_key t n)";
        cases "ft_balance_fanout (rg_ft_allowlist s2) (sub_account_key t n) :: rg_callback promise option")
      (simp_all add: used s2 Let_def not_less split: if_splits)
qed

lemma rent_sub_account_paid_Inr:
  assumes "rent_sub_account_paid h c t n k w s = Inr (s', evs, p)"
  shows "\<exists>rent isb s1 s2. \<not> rg_paused s \<and> validate_name n = Inr () \<and>
    predecessor_account_id c \<in> set (rg_payment_authorities s) \<and> is_ed25519 h k \<and>
    rg_sub_accounts s (sub_account_key t n) = None \<and> rg_parked_names s (sub_account_key t n) = None \<and>
    rental_terms c t n w s = Inr (rent, isb) \<and>
    ensure_mother_default (predecessor_account_id c) s = (s1, evs) \<and>
    (if isb then business_count_check_and_bump t s1 else Inr s1) = Inr s2 \<and>
    s' = s2\<lparr>rg_sub_accounts := (rg_sub_accounts s2)(sub_account_key t n \<mapsto>
           new_sub_entry c (predecessor_account_id c) t w)\<rparr> \<and>
    fc_account_creation_deposit (rg_fee_config s) \<le> attached_deposit c \<and>
    p = ThenP (CallP t (CreateSubAccount n k) (fc_account_creation_deposit (rg_fee_config s)) GAS_FOR_CREATE)
         (OnSubAccountCreatedPaid t n (predecessor_account_id c) k rent (attached_deposit c)) GAS_FOR_CALLBACK"
proof -
  obtain s1 ev1 where em: "ensure_mother_default (predecessor_account_id c) s = (s1, ev1)" by fastforce
  from assms have pre: "\<not> rg_paused s" "validate_name n = Inr ()" "is_ed25519 h k"
      "predecessor_account_id c \<in> set (rg_payment_authorities s)"
      "rg_sub_accounts s (sub_account_key t n) = None" "rg_parked_names s (sub_account_key t n) = None"
      "w \<noteq> sub_account_key t n"
    by (simp_all add: rent_sub_account_paid_def assert_not_paused_def assert_payment_authority_def Let_def
        split: if_splits)
  from assms pre obtain rent isb where rt: "rental_terms c t n w s = Inr (rent, isb)"
    by (cases "rental_terms c t n w s")
      (auto simp: rent_sub_account_paid_def assert_not_paused_def assert_payment_authority_def Let_def)
  note used = rent_sub_account_paid_def assert_not_paused_def assert_payment_authority_def Let_def em rt pre
  from assms obtain s2 where s2: "(if isb then business_count_check_and_bump t s1 else Inr s1) = Inr s2"
    by (cases "(if isb then business_count_check_and_bump t s1 else Inr s1)")
      (simp_all add: used split: if_splits)
  from assms show ?thesis by (simp add: used s2 not_less split: if_splits)
qed

text \<open>The steps before a rental's promise touch neither money nor fees.\<close>

lemma rental_prelude:
  assumes "ensure_mother_default u s = (s1, evs)"
    and "(if isb then business_count_check_and_bump t s1 else Inr s1) = Inr s2"
  shows "same_money s s2 \<and> rg_fee_config s2 = rg_fee_config s"
proof -
  have "rg_fee_config s1 = rg_fee_config s"
    using assms(1) by (auto simp: ensure_mother_default_def increment_mother_use_def Let_def split: if_splits)
  moreover have "rg_fee_config s2 = rg_fee_config s1"
    using assms(2) by (auto simp: business_count_check_and_bump_def Let_def split: if_splits)
  moreover have "same_money s1 s2"
    using assms(2) by (auto dest: business_bump_money split: if_splits)
  ultimately show ?thesis
    using same_money_trans [OF ensure_mother_default_money [OF assms(1)]] by simp
qed

lemma same_money_subs: "same_money s s2 \<Longrightarrow> same_money s (s2\<lparr>rg_sub_accounts := m\<rparr>)"
  by (simp add: same_money_def)

lemma rent_sub_account_balanced:
  assumes "rent_sub_account h c t n k w s = Inr (s', evs, p)" and "books s"
    and "unat (attached_deposit c) < 2 ^ 128 - 1"
  shows "balanced s (unat (attached_deposit c)) s' (PromiseR p)"
proof -
  from rent_sub_account_Inr [OF assms(1)] obtain rent isb s1 s2 where
    em: "ensure_mother_default (predecessor_account_id c) s = (s1, evs)"
      "(if isb then business_count_check_and_bump t s1 else Inr s1) = Inr s2"
    and s': "s' = s2\<lparr>rg_sub_accounts := (rg_sub_accounts s2)(sub_account_key t n \<mapsto>
           new_sub_entry c (predecessor_account_id c) t w)\<rparr>"
    and p: "if rg_parked_names s (sub_account_key t n) \<noteq> None then rent \<le> attached_deposit c \<and>
       (let pend = \<lparr>prr_tla_id = t, prr_name = n, prr_payer = predecessor_account_id c,
          prr_owner_key = k, prr_rent = rent, prr_attached = attached_deposit c,
          prr_sub_account = sub_account_key t n\<rparr>
        in p = (case ft_balance_fanout (rg_ft_allowlist s2) (sub_account_key t n) of
            None \<Rightarrow> re_rent_transfer (rg_hos_extension s2) pend
          | Some chain \<Rightarrow> ThenP chain (OnReRentBalancesChecked pend (rg_ft_allowlist s2))
              GAS_FOR_RERENT_BALANCES_CB))
     else sat_add rent (fc_account_creation_deposit (rg_fee_config s)) \<le> attached_deposit c \<and>
       p = ThenP (CallP t (CreateSubAccount n k) (fc_account_creation_deposit (rg_fee_config s2)) GAS_FOR_CREATE)
         (OnSubAccountCreated t n (predecessor_account_id c) k rent (attached_deposit c)) GAS_FOR_CALLBACK"
    by blast
  note pre = rental_prelude [OF em]
  show ?thesis
  proof (cases "rg_parked_names s (sub_account_key t n)")
    case None
    with p have le: "sat_add rent (fc_account_creation_deposit (rg_fee_config s)) \<le> attached_deposit c" by simp
    have "unat rent + creation_deposit s \<le> unat (attached_deposit c)"
      using le assms(3) by (simp add: word_le_nat_alt unat_sat_add min_def split: if_splits)
    with None p pre show ?thesis
      by (intro balanced_same [OF assms(2)]) (simp_all add: s' same_money_subs escrow_def flight_ok_def)
  next
    case (Some e)
    then show ?thesis using p pre
      by (intro balanced_same [OF assms(2)])
        (auto simp: s' same_money_subs escrow_def flight_ok_def re_rent_transfer_def Let_def
          split: option.splits dest!: fanout_Some)
  qed
qed

lemma rent_sub_account_paid_balanced:
  assumes "rent_sub_account_paid h c t n k w s = Inr (s', evs, p)" and "books s"
  shows "balanced s (unat (attached_deposit c)) s' (PromiseR p)"
proof -
  from rent_sub_account_paid_Inr [OF assms(1)] obtain rent isb s1 s2 where
    em: "ensure_mother_default (predecessor_account_id c) s = (s1, evs)"
      "(if isb then business_count_check_and_bump t s1 else Inr s1) = Inr s2"
    and s': "s' = s2\<lparr>rg_sub_accounts := (rg_sub_accounts s2)(sub_account_key t n \<mapsto>
           new_sub_entry c (predecessor_account_id c) t w)\<rparr>"
    and p: "fc_account_creation_deposit (rg_fee_config s) \<le> attached_deposit c"
      "p = ThenP (CallP t (CreateSubAccount n k) (fc_account_creation_deposit (rg_fee_config s)) GAS_FOR_CREATE)
         (OnSubAccountCreatedPaid t n (predecessor_account_id c) k rent (attached_deposit c)) GAS_FOR_CALLBACK"
    by blast
  with rental_prelude [OF em] show ?thesis
    by (intro balanced_same [OF assms(2)])
      (simp_all add: same_money_subs escrow_def flight_ok_def word_le_nat_alt)
qed

lemma buy_sub_account_balanced:
  assumes "buy_sub_account h c t n k s = Inr (s', evs, p)" and "books s"
  shows "balanced s (unat (attached_deposit c)) s' (PromiseR p)"
proof -
  let ?key = "sub_account_key t n"
  from assms(1) obtain price ok where r: "resolve_and_lock_sale ?key (predecessor_account_id c)
      (attached_deposit c) s = Inr (s', price, ok)"
    and p: "p = (let st = \<lparr>pb_tla_id = t, pb_name = n, pb_buyer = predecessor_account_id c,
        pb_new_owner_key = k, pb_price = price, pb_deposit = attached_deposit c,
        pb_owner_key = ok, pb_sub_account = ?key\<rparr>
      in case ft_balance_fanout (rg_ft_allowlist s') ?key of
           None \<Rightarrow> settle_transfer (rg_hos_extension s') st
         | Some chain \<Rightarrow> ThenP chain (OnBuyBalancesChecked st (rg_ft_allowlist s')) GAS_FOR_BUY_BALANCES_CB)"
    by (auto simp: buy_sub_account_def Let_def split: if_splits option.splits)
  from resolve_and_lock_sale_Inr [OF r] show ?thesis
    by (intro balanced_same [OF assms(2)])
      (auto simp: p escrow_def flight_ok_def settle_transfer_def Let_def
        split: option.splits dest!: fanout_Some)
qed

lemma buy_sub_account_paid_balanced:
  assumes "buy_sub_account_paid h c t n b k s = Inr (s', evs, p)" and "books s"
  shows "balanced s m s' (PromiseR p)"
proof -
  let ?key = "sub_account_key t n"
  from assms(1) obtain op price ok where r: "resolve_and_lock_paid_sale ?key b s = Inr (s', price, ok)"
    and p: "p = (let st = \<lparr>pb_tla_id = t, pb_name = n, pb_buyer = b,
        pb_new_owner_key = k, pb_price = price, pb_deposit = 0,
        pb_owner_key = ok, pb_sub_account = ?key\<rparr>
      in case ft_balance_fanout (rg_ft_allowlist s') ?key of
           None \<Rightarrow> settle_transfer_paid (rg_hos_extension s') st op
         | Some chain \<Rightarrow> ThenP chain (OnBuyPaidBalancesChecked st (rg_ft_allowlist s') op) GAS_FOR_BUY_BALANCES_CB)"
    by (auto simp: buy_sub_account_paid_def Let_def split: if_splits option.splits)
  from resolve_and_lock_paid_sale_Inr [OF r] show ?thesis
    by (intro balanced_same [OF assms(2)])
      (auto simp: p escrow_def flight_ok_def settle_transfer_paid_def Let_def
        split: option.splits dest!: fanout_Some)
qed

lemma reclaim_sweep_ft_balanced:
  assumes "reclaim_sweep_ft h c t n f x b s = Inr (s', evs, p)" and "books s"
    and "claims s + unat (attached_deposit c) < 2 ^ 128"
  shows "balanced s (unat (attached_deposit c)) s' (PromiseR p)"
proof -
  from assms(1) obtain y d where s': "s' = refund_excess (predecessor_account_id c) (attached_deposit c)
        SWEEP_ATTACHED_REQUIRED s"
    and p: "p = CallP (rg_hos_extension s') (SweepFt y f d x b) SWEEP_ATTACHED_REQUIRED GAS_FOR_HOS_SWEEP"
    and le: "\<not> attached_deposit c < SWEEP_ATTACHED_REQUIRED"
    by (auto simp: reclaim_sweep_ft_def Let_def split: if_splits)
  from le have "unat SWEEP_ATTACHED_REQUIRED \<le> unat (attached_deposit c)"
    by (simp add: not_less word_le_nat_alt)
  with books_refund_excess [OF assms(2), of "attached_deposit c" SWEEP_ATTACHED_REQUIRED "predecessor_account_id c"]
    assms(3)
  show ?thesis by (simp add: balanced_def s' p claims_def)
qed

lemma reclaim_finalize_balanced:
  assumes "reclaim_finalize h c t n s = Inr (s', evs, p)" and "books s"
  shows "balanced s m s' (PromiseR p)"
proof -
  from assms(1) obtain y d where yd: "resolve_reclaimable h c t (sub_account_key t n) s = Inr (y, d)"
    by (auto simp: reclaim_finalize_def Let_def split: if_splits)
  from assms(1) have s': "s' = s\<lparr>rg_reclaim_pending := (rg_reclaim_pending s)(sub_account_key t n \<mapsto> True)\<rparr>"
    and p: "p = (case ft_balance_fanout (rg_ft_allowlist s) y of
        None \<Rightarrow> park_wallet y t n d s'
      | Some chain \<Rightarrow> ThenP chain (OnBalancesChecked t n d (rg_ft_allowlist s)) GAS_FOR_BALANCES_CB_TOTAL)"
    by (auto simp: reclaim_finalize_def yd Let_def split: if_splits option.splits)
  show ?thesis
    by (rule balanced_same [OF assms(2)])
      (auto simp: s' p same_money_def escrow_def flight_ok_def park_wallet_def Let_def
        split: option.splits dest!: fanout_Some)
qed

lemma activate_tla_balanced:
  assumes "activate_tla c t s = Inr (s', evs, v)" and "books s"
    and "claims s + unat (attached_deposit c) < 2 ^ 128"
  shows "balanced s (unat (attached_deposit c)) s' (ValueR ())"
  using assms(1)
  by (auto simp: activate_tla_def Let_def not_less tla_insert_def split: if_splits
      intro!: charge_balanced [OF assms(2) _ assms(3)])

lemma renew_tla_balanced:
  assumes "renew_tla c t s = Inr (s', evs, v)" and "books s"
    and "claims s + unat (attached_deposit c) < 2 ^ 128"
  shows "balanced s (unat (attached_deposit c)) s' (ValueR ())"
  using assms(1)
  by (auto simp: renew_tla_def Let_def not_less tla_insert_def split: if_splits
      intro!: charge_balanced [OF assms(2) _ assms(3)])

lemma renew_sub_account_balanced:
  assumes "renew_sub_account c t n s = Inr (s', evs, v)" and "books s"
    and "claims s + unat (attached_deposit c) < 2 ^ 128"
  shows "balanced s (unat (attached_deposit c)) s' (ValueR ())"
  using assms(1)
  by (auto simp: renew_sub_account_def Let_def not_less split: if_splits
      intro!: charge_balanced [OF assms(2) _ assms(3)])

lemma quiet_calls:
  "rg_pause c s = Inr (s', evs, v) \<Longrightarrow> same_money s s'"
  "rg_unpause c s = Inr (s', evs, v) \<Longrightarrow> same_money s s'"
  "register_tla c t ty pc l s = Inr (s', evs, v) \<Longrightarrow> same_money s s'"
  "suspend_tla c t s = Inr (s', evs, v) \<Longrightarrow> same_money s s'"
  "unsuspend_tla c t s = Inr (s', evs, v) \<Longrightarrow> same_money s s'"
  "rg_add_admin c a s = Inr (s', evs, v) \<Longrightarrow> same_money s s'"
  "rg_remove_admin c a s = Inr (s', evs, v) \<Longrightarrow> same_money s s'"
  "add_payment_authority c a s = Inr (s', evs, v) \<Longrightarrow> same_money s s'"
  "remove_payment_authority c a s = Inr (s', evs, v) \<Longrightarrow> same_money s s'"
  "update_fee_config c f s = Inr (s', evs, v) \<Longrightarrow> same_money s s'"
  "set_parked_signer_pubkey h c k s = Inr (s', evs, v) \<Longrightarrow> same_money s s'"
  "add_ft_allowlist c a s = Inr (s', evs, v) \<Longrightarrow> same_money s s'"
  "remove_ft_allowlist c a s = Inr (s', evs, v) \<Longrightarrow> same_money s s'"
  "activate_open_tla c t s = Inr (s', evs, v) \<Longrightarrow> same_money s s'"
  "admin_clear_reclaim_pending c t n s = Inr (s', evs, v) \<Longrightarrow> same_money s s'"
  "schedule_retraction c t n s = Inr (s', evs, v) \<Longrightarrow> same_money s s'"
  "cancel_retraction c t n s = Inr (s', evs, v) \<Longrightarrow> same_money s s'"
  "set_business_sub_cap c t m s = Inr (s', evs, v) \<Longrightarrow> same_money s s'"
  "set_main_wallet c t n w s = Inr (s', evs, v) \<Longrightarrow> same_money s s'"
  "unlist_sub_account c t n s = Inr (s', evs, v) \<Longrightarrow> same_money s s'"
  "revoke_offer c t n s = Inr (s', evs, v) \<Longrightarrow> same_money s s'"
  by (auto simp: rg_pause_def rg_unpause_def register_tla_def suspend_tla_def unsuspend_tla_def
      rg_add_admin_def rg_remove_admin_def add_payment_authority_def remove_payment_authority_def
      update_fee_config_def set_parked_signer_pubkey_def add_ft_allowlist_def remove_ft_allowlist_def
      activate_open_tla_def admin_clear_reclaim_pending_def schedule_retraction_def cancel_retraction_def
      set_business_sub_cap_def set_main_wallet_def unlist_sub_account_def revoke_offer_def tla_insert_def
      same_money_def Let_def split: if_splits)

lemma admin_clear_settling_money: "admin_clear_settling c t n s = Inr (s', evs, v) \<Longrightarrow> same_money s s'"
  by (auto simp: admin_clear_settling_def Let_def intro: clear_settling_money)

lemma admin_clear_mother_money: "admin_clear_mother c a s = Inr (s', evs, v) \<Longrightarrow> same_money s s'"
proof -
  assume "admin_clear_mother c a s = Inr (s', evs, v)"
  then obtain b where "s' = s\<lparr>rg_mothers := (rg_mothers s)(a := None)\<rparr> \<or>
      s' = decrement_mother_use b (s\<lparr>rg_mothers := (rg_mothers s)(a := None)\<rparr>)"
    by (auto simp: admin_clear_mother_def Let_def split: if_splits)
  moreover have "same_money s (s\<lparr>rg_mothers := (rg_mothers s)(a := None)\<rparr>)" by (simp add: same_money_def)
  ultimately show ?thesis using same_money_trans [OF _ decrement_mother_use_money] by blast
qed

lemma query_balanced:
  assumes "books s" and "sent p = 0" and "\<forall>cb \<in> set (callbacks_of p). escrow (cb, 0) = 0 \<and> flight_ok m (cb, 0)"
    and "m = creation_deposit s"
  shows "balanced s n s (PromiseR p)"
proof (rule balanced_same [OF assms(1)])
  have "map escrow (flights_of (PromiseR p)) = map (\<lambda>_. 0) (callbacks_of p)"
    using assms(2,3) by simp
  then show "sum_list (map escrow (flights_of (PromiseR p))) + sent_by (PromiseR p) \<le> n"
    by (simp only: sum_list_0) (simp add: assms(2))
qed (use assms(2-) in \<open>auto simp: list_all_iff\<close>)

lemmas quiet_balanced = quiet_calls [THEN balanced_value [rotated]]
  admin_clear_settling_money [THEN balanced_value [rotated]]
  admin_clear_mother_money [THEN balanced_value [rotated]] set_mother_money [THEN balanced_value [rotated]]

lemmas calls_balanced = claim_refund_balanced withdraw_balanced rent_sub_account_balanced
  rent_sub_account_paid_balanced buy_sub_account_balanced buy_sub_account_paid_balanced
  reclaim_sweep_ft_balanced reclaim_finalize_balanced activate_tla_balanced renew_tla_balanced
  renew_sub_account_balanced

lemma rg_method_balanced:
  assumes "rg_method h c call s = Inr (s', evs, reply)" and "books s"
    and "claims s + unat (attached_deposit c) < 2 ^ 128 - 1"
  shows "balanced s (unat (attached_deposit c)) s' reply"
proof (cases call)
  case (K_ListSubAccount t n p k)
  with assms show ?thesis
    by (auto simp: list_sub_account_def intro!: query_balanced) (auto simp: escrow_def flight_ok_def)
next
  case (K_AcceptOffer t n b p k)
  with assms show ?thesis
    by (auto simp: accept_offer_def intro!: query_balanced) (auto simp: escrow_def flight_ok_def)
next
  case (K_RetrySignerInstall t n)
  with assms show ?thesis
    by (auto simp: retry_signer_install_def Let_def split: if_splits intro!: query_balanced)
      (auto simp: escrow_def flight_ok_def)
qed (use assms in \<open>auto\<close>, (erule calls_balanced quiet_balanced; simp)+)

section \<open>Deliveries balance\<close>

lemma settle_failed_mint_balanced:
  assumes "settle_failed_mint key t a n reason s = (s', evs)" and "books s" and "claims s + unat n < 2 ^ 128"
  shows "balanced s (unat n) s' (ValueR ())"
proof -
  let ?u = "business_count_decrement_if_business t (s\<lparr>rg_sub_accounts := (rg_sub_accounts s)(key := None)\<rparr>)"
  from assms(1) have s': "s' = add_pending_refund a n ?u" by (simp add: settle_failed_mint_def Let_def)
  have "same_money s ?u"
    by (rule same_money_trans [OF _ business_count_decrement_money]) (simp add: same_money_def)
  from same_money_books [OF this] assms(2) have u: "books ?u" "claims ?u = claims s" by auto
  with assms(3) have "unat (rg_total_pending_refunds ?u) + unat n < 2 ^ 128" by (simp add: claims_def)
  from books_add_pending_refund [OF u(1) this, of a] u(2) show ?thesis by (simp add: balanced_def s')
qed

lemma record_rental_balanced:
  assumes "record_rental key a rent att s = Inr (s', x)" and "books s"
    and "unat rent + creation_deposit s \<le> unat att" and "claims s + (unat att - creation_deposit s) < 2 ^ 128"
  shows "balanced s (unat att - creation_deposit s) s' (ValueR ())"
proof -
  let ?u = "s\<lparr>rg_sub_account_count := sat_add (rg_sub_account_count s) 1,
      rg_total_revenue := sat_add (rg_total_revenue s) rent\<rparr>"
  let ?ch = "sat_add rent (fc_account_creation_deposit (rg_fee_config s))"
  from assms(1) have s': "s' = refund_excess a att ?ch ?u"
    by (auto simp: record_rental_def Let_def split: option.splits)
  have ch: "unat ?ch = unat rent + creation_deposit s"
    using assms(3) unat_le_max [of att] by (intro unat_sat_add_exact) simp
  have "books ?u" using assms(2) by (simp add: books_def refund_sum_def)
  moreover have "claims ?u = claims s + unat rent"
    using assms(3,4) by (simp add: claims_def unat_sat_add_exact)
  moreover have "unat (rg_total_pending_refunds ?u) + (unat att - unat ?ch) < 2 ^ 128"
    using assms(3,4) by (simp add: claims_def ch)
  ultimately show ?thesis
    using books_refund_excess [of ?u att ?ch a] assms(3) by (simp add: balanced_def s' ch)
qed

lemma record_paid_rental_balanced:
  assumes "record_paid_rental key a att s = Inr (s', x)" and "books s"
    and "claims s + (unat att - creation_deposit s) < 2 ^ 128"
  shows "balanced s (unat att - creation_deposit s) s' (ValueR ())"
proof -
  let ?u = "s\<lparr>rg_sub_account_count := sat_add (rg_sub_account_count s) 1\<rparr>"
  let ?ch = "fc_account_creation_deposit (rg_fee_config s)"
  from assms(1) have s': "s' = refund_excess a att ?ch ?u"
    by (auto simp: record_paid_rental_def Let_def split: option.splits)
  have "books ?u" "claims ?u = claims s" using assms(2) by (simp_all add: books_def refund_sum_def claims_def)
  with books_refund_excess [of ?u att ?ch a] assms(3) show ?thesis by (simp add: balanced_def s' claims_def)
qed

lemma split_resale_sum:
  "split_resale price bps = (commission, proceeds) \<Longrightarrow> unat commission + unat proceeds = unat price"
proof -
  assume "split_resale price bps = (commission, proceeds)"
  then have "commission \<le> price" "proceeds = sat_sub price commission"
    by (auto simp: split_resale_def Let_def)
  then show ?thesis by (simp add: unat_sat_sub word_le_nat_alt)
qed

lemma balanced_refund:
  assumes "books s" and "claims s + unat n < 2 ^ 128"
  shows "balanced s (unat n) (add_pending_refund a n s) (ValueR ())"
    and "balanced s (unat n) (clear_settling key (add_pending_refund a n s)) (ValueR ())"
proof -
  let ?s = "add_pending_refund a n s"
  have "unat (rg_total_pending_refunds s) + unat n < 2 ^ 128" using assms(2) by (simp add: claims_def)
  note b = books_add_pending_refund [OF assms(1) this, of a]
  then show "balanced s (unat n) ?s (ValueR ())" by (simp add: balanced_def)
  from same_money_books [OF clear_settling_money [of ?s key]] b
  show "balanced s (unat n) (clear_settling key ?s) (ValueR ())" by (simp add: balanced_def)
qed

lemma on_sub_account_created_balanced:
  assumes "on_sub_account_created t n a k rent att r s = Inr (s', evs, v)" and "books s"
    and "flight_ok (creation_deposit s) (OnSubAccountCreated t n a k rent att, d)"
    and "claims s + (unat att - d + comes_back (OnSubAccountCreated t n a k rent att, d) (Minted r)) < 2 ^ 128"
  shows "balanced s (unat att - d + comes_back (OnSubAccountCreated t n a k rent att, d) (Minted r)) s' (ValueR ())"
proof -
  let ?key = "sub_account_key t n"
  from assms(3) have d: "d = creation_deposit s" "unat rent + creation_deposit s \<le> unat att"
    by (auto simp: flight_ok_def)
  show ?thesis
  proof (cases "r = Inr Active \<or> r = Inr SignerPending")
    case True
    with assms(1) obtain u x where u: "record_rental ?key a rent att s = Inr (u, x)" and s': "same_money u s'"
      "rg_fee_config s' = rg_fee_config u"
      by (auto simp: on_sub_account_created_def Let_def same_money_def)
    from record_rental_balanced [OF u assms(2) d(2)] assms(4) [unfolded comes_back_def] same_money_books [OF s'(1)] True show ?thesis
      by (auto simp: balanced_def d(1) comes_back_def)
  next
    case False
    then have "r = Inr CreationFailed \<or> isl r" by (cases r) (auto intro: MintOutcome.exhaust)
    with assms(1) obtain ev where "settle_failed_mint ?key t a att ''sub-account creation failed'' s = (s', ev)"
      by (cases r) (auto simp: on_sub_account_created_def Let_def split: prod.splits)
    moreover have ret: "comes_back (OnSubAccountCreated t n a k rent att, d) (Minted r) = d"
      using \<open>r = _ \<or> _\<close> by (cases r) (auto simp: comes_back_def)
    moreover have "claims s + unat att < 2 ^ 128" using assms(4) d unfolding ret by simp
    ultimately show ?thesis using settle_failed_mint_balanced [OF _ assms(2)] d by simp
  qed
qed

lemma on_sub_account_created_paid_balanced:
  assumes "on_sub_account_created_paid t n a k rent att r s = Inr (s', evs, v)" and "books s"
    and "flight_ok (creation_deposit s) (OnSubAccountCreatedPaid t n a k rent att, d)"
    and "claims s + (unat att - d + comes_back (OnSubAccountCreatedPaid t n a k rent att, d) (Minted r)) < 2 ^ 128"
  shows "balanced s (unat att - d + comes_back (OnSubAccountCreatedPaid t n a k rent att, d) (Minted r)) s' (ValueR ())"
proof -
  let ?key = "sub_account_key t n"
  from assms(3) have d: "d = creation_deposit s" "creation_deposit s \<le> unat att"
    by (auto simp: flight_ok_def)
  show ?thesis
  proof (cases "r = Inr Active \<or> r = Inr SignerPending")
    case True
    with assms(1) obtain u x where u: "record_paid_rental ?key a att s = Inr (u, x)" and s': "same_money u s'"
      "rg_fee_config s' = rg_fee_config u"
      by (auto simp: on_sub_account_created_paid_def Let_def same_money_def)
    from record_paid_rental_balanced [OF u assms(2)] assms(4) [unfolded comes_back_def] same_money_books [OF s'(1)] True show ?thesis
      by (auto simp: balanced_def d(1) comes_back_def)
  next
    case False
    then have "r = Inr CreationFailed \<or> isl r" by (cases r) (auto intro: MintOutcome.exhaust)
    with assms(1) obtain ev where "settle_failed_mint ?key t a att ''paid sub-account creation failed'' s = (s', ev)"
      by (cases r) (auto simp: on_sub_account_created_paid_def Let_def split: prod.splits)
    moreover have ret: "comes_back (OnSubAccountCreatedPaid t n a k rent att, d) (Minted r) = d"
      using \<open>r = _ \<or> _\<close> by (cases r) (auto simp: comes_back_def)
    moreover have "claims s + unat att < 2 ^ 128" using assms(4) d unfolding ret by simp
    ultimately show ?thesis using settle_failed_mint_balanced [OF _ assms(2)] d by simp
  qed
qed

lemma on_sub_account_re_rented_balanced:
  assumes "on_sub_account_re_rented t n a rent att ok s = Inr (s', evs, v)" and "books s"
    and "rent \<le> att" and "claims s + unat att < 2 ^ 128"
  shows "balanced s (unat att) s' (ValueR ())"
proof (cases ok)
  case True
  let ?u = "s\<lparr>rg_parked_names := (rg_parked_names s)(sub_account_key t n := None),
      rg_sub_account_count := sat_add (rg_sub_account_count s) 1,
      rg_total_revenue := sat_add (rg_total_revenue s) rent\<rparr>"
  from assms(1) True have "s' = refund_excess a att rent ?u"
    by (auto simp: on_sub_account_re_rented_def Let_def split: option.splits)
  then show ?thesis by (simp add: charge_balanced [OF assms(2-4)])
next
  case False
  with assms(1) have "settle_failed_mint (sub_account_key t n) t a att ''sub-account re-rent failed'' s = (s', evs)"
    by (auto simp: on_sub_account_re_rented_def Let_def split: prod.splits)
  from settle_failed_mint_balanced [OF this assms(2,4)] show ?thesis .
qed

lemma on_sub_account_sold_balanced:
  assumes "on_sub_account_sold t n b price dep r s = Inr (s', evs, v)" and "books s"
    and "price \<le> dep" and "claims s + unat dep < 2 ^ 128"
  shows "balanced s (unat dep) s' (ValueR ())"
proof -
  let ?key = "sub_account_key t n"
  show ?thesis
  proof (cases "r = Inr True \<and> rg_sub_accounts s ?key \<noteq> None")
    case False
    with assms(1) have "s' = clear_settling ?key (add_pending_refund b dep s)"
      by (auto simp: on_sub_account_sold_def Let_def split: if_splits option.splits)
    with balanced_refund(2) [OF assms(2,4)] show ?thesis by simp
  next
    case True
    then obtain sub where sub: "rg_sub_accounts s ?key = Some sub" by auto
    obtain co pr where sp: "split_resale price (fc_resale_commission_bps (rg_fee_config s)) = (co, pr)"
      by fastforce
    let ?u = "add_pending_refund (sa_owner sub) pr (s\<lparr>rg_total_revenue := sat_add (rg_total_revenue s) co\<rparr>)"
    let ?w = "refund_excess b dep price ?u"
    from assms(1) True sub sp have s': "same_money ?w s'" "rg_fee_config s' = rg_fee_config s"
      by (auto simp: on_sub_account_sold_def same_money_def Let_def)
    have le: "unat price \<le> unat dep" using assms(3) by (simp add: word_le_nat_alt)
    note sum = split_resale_sum [OF sp]
    have r0: "claims (s\<lparr>rg_total_revenue := sat_add (rg_total_revenue s) co\<rparr>) = claims s + unat co"
      "books (s\<lparr>rg_total_revenue := sat_add (rg_total_revenue s) co\<rparr>)"
      using assms(2,4) sum le by (simp_all add: claims_def unat_sat_add_exact books_def refund_sum_def)
    have u: "books ?u" "claims ?u = claims s + unat price"
      using books_add_pending_refund [OF r0(2), of pr "sa_owner sub"] assms(4) r0(1) sum le
      by (simp_all add: claims_def)
    then have "books ?w" "claims ?w = claims s + unat dep"
      using books_refund_excess [OF u(1), of dep price b] assms(4) le by (simp_all add: claims_def)
    with same_money_books [OF s'(1)] show ?thesis by (simp add: balanced_def)
  qed
qed

lemma settlement_balanced:
  assumes "books s" and "sent p = 0" and "callbacks_of p = [cb]" and "escrow (cb, 0) \<le> n"
    and "flight_ok (creation_deposit s) (cb, 0)"
  shows "balanced s n s (PromiseR p)"
  by (rule balanced_same [OF assms(1)]) (use assms(2-) in auto)

lemma on_re_rent_balances_checked_balanced:
  assumes "on_re_rent_balances_checked h rs pend al s = Inr (s', evs, v)" and "books s"
    and "prr_rent pend \<le> prr_attached pend" and "claims s + unat (prr_attached pend) < 2 ^ 128"
  shows "balanced s (unat (prr_attached pend)) s' v"
proof (cases "ft_balances_clear h rs al")
  case Clear
  with assms show ?thesis
    by (auto simp: on_re_rent_balances_checked_def re_rent_transfer_def Let_def escrow_def flight_ok_def
        intro!: settlement_balanced)
next
  case (Blocked token reason)
  with assms(1) obtain ev where "v = ValueR ()" "settle_failed_mint (sub_account_key (prr_tla_id pend) (prr_name pend))
      (prr_tla_id pend) (prr_payer pend) (prr_attached pend) ''re-rent blocked by asset gate'' s = (s', ev)"
    by (auto simp: on_re_rent_balances_checked_def Let_def split: prod.splits)
  with settle_failed_mint_balanced [OF _ assms(2,4)] show ?thesis by simp
qed

lemma on_buy_balances_checked_balanced:
  assumes "on_buy_balances_checked h rs st al s = Inr (s', evs, v)" and "books s"
    and "pb_price st \<le> pb_deposit st" and "claims s + unat (pb_deposit st) < 2 ^ 128"
  shows "balanced s (unat (pb_deposit st)) s' v"
proof (cases "ft_balances_clear h rs al")
  case Clear
  with assms show ?thesis
    by (auto simp: on_buy_balances_checked_def settle_transfer_def Let_def escrow_def flight_ok_def
        intro!: settlement_balanced)
next
  case (Blocked token reason)
  with assms show ?thesis
    by (auto simp: on_buy_balances_checked_def abort_sale_def Let_def intro: balanced_refund)
qed

lemma on_buy_paid_balances_checked_balanced:
  assumes "on_buy_paid_balances_checked h rs st al op s = Inr (s', evs, v)" and "books s"
  shows "balanced s m s' v"
  using assms
  by (auto simp: on_buy_paid_balances_checked_def settle_transfer_paid_def Let_def escrow_def flight_ok_def
      split: BalanceGate.splits intro!: settlement_balanced balanced_value clear_settling_money)

lemma on_balances_checked_balanced:
  assumes "on_balances_checked h c rs t n d al s = Inr (s', evs, v)" and "books s"
  shows "balanced s m s' v"
proof -
  let ?rel = "s\<lparr>rg_reclaim_pending := (rg_reclaim_pending s)(sub_account_key t n := None)\<rparr>"
  have "same_money s ?rel" by (simp add: same_money_def)
  note released = balanced_value [OF assms(2) this]
  have "balanced s m s (PromiseR (park_wallet x t n d s))" for x
    by (cases "rg_signer_pending s (sub_account_key t n)")
      (auto simp: park_wallet_def Let_def escrow_def flight_ok_def intro!: settlement_balanced [OF assms(2)])
  with released assms(1) show ?thesis
    by (auto simp: on_balances_checked_def Let_def
        split: if_splits BalanceGate.splits sum.splits prod.splits)
qed

lemma on_reclaim_finalized_money:
  "on_reclaim_finalized h c t n d ok s = Inr (s', evs, v) \<Longrightarrow> same_money s s'"
  by (auto simp: on_reclaim_finalized_def same_money_def Let_def split: if_splits option.splits)

lemma on_listing_verified_money:
  "on_listing_verified h t n p k o' r s = Inr (s', evs, v) \<Longrightarrow> same_money s s'"
  by (auto simp: on_listing_verified_def same_money_def Let_def split: if_splits)

lemma on_offer_verified_money:
  "on_offer_verified h t n b p k o' r s = Inr (s', evs, v) \<Longrightarrow> same_money s s'"
  by (auto simp: on_offer_verified_def same_money_def Let_def split: if_splits)

lemma on_sub_account_sold_paid_money:
  "on_sub_account_sold_paid t n b o' p r s = Inr (s', evs, v) \<Longrightarrow> same_money s s'"
  by (auto simp: on_sub_account_sold_paid_def same_money_def Let_def split: if_splits option.splits)

lemma on_retry_signer_settled_money:
  "on_retry_signer_settled k b s = Inr (s', evs, v) \<Longrightarrow> same_money s s'"
  by (auto simp: on_retry_signer_settled_def same_money_def split: if_splits)

lemmas quiet_deliveries = on_listing_verified_money [THEN balanced_value [rotated]]
  on_offer_verified_money [THEN balanced_value [rotated]]
  on_sub_account_sold_paid_money [THEN balanced_value [rotated]]
  on_retry_signer_settled_money [THEN balanced_value [rotated]]
  on_reclaim_finalized_money [THEN balanced_value [rotated]]
  on_buy_paid_balances_checked_balanced on_balances_checked_balanced

lemma rg_deliver_balanced:
  assumes "rg_deliver h c cb r s = Inr (s', evs, reply)" and "books s"
    and "flight_ok (creation_deposit s) (cb, d)"
    and "claims s + escrow (cb, d) + comes_back (cb, d) r < 2 ^ 128"
  shows "balanced s (escrow (cb, d) + comes_back (cb, d) r) s' reply"
proof (cases cb)
  case (OnClaimRefundSettled a n)
  with assms(1) obtain ok where ok: "r = Success ok"
      "on_claim_refund_settled a n ok s = Inr (s', evs, ())" "reply = ValueR ()" by (cases r) auto
  show ?thesis
  proof (cases ok)
    case True
    with ok OnClaimRefundSettled assms(2) show ?thesis
      by (auto simp: on_claim_refund_settled_def intro!: balanced_value)
  next
    case False
    with OnClaimRefundSettled assms(3,4) ok have "d = unat n" "claims s + unat n < 2 ^ 128"
      by (auto simp: flight_ok_def escrow_def comes_back_def)
    with False ok OnClaimRefundSettled balanced_refund(1) [OF assms(2), of n a] show ?thesis
      by (auto simp: on_claim_refund_settled_def escrow_def comes_back_def)
  qed
next
  case (OnSubAccountCreated t n p k rent att)
  with assms show ?thesis
    by (cases r) (auto simp: escrow_def [of "(OnSubAccountCreated t n p k rent att, d)"] add.assoc
        intro: on_sub_account_created_balanced)
next
  case (OnSubAccountCreatedPaid t n p k rent att)
  with assms show ?thesis
    by (cases r) (auto simp: escrow_def [of "(OnSubAccountCreatedPaid t n p k rent att, d)"] add.assoc
        intro: on_sub_account_created_paid_balanced)
next
  case (OnSubAccountReRented t n p rent att)
  with assms show ?thesis
    by (cases r) (auto simp: escrow_def flight_ok_def comes_back_def intro: on_sub_account_re_rented_balanced)
next
  case (OnSubAccountSold t n b p dep)
  with assms show ?thesis
    by (cases r) (auto simp: escrow_def flight_ok_def comes_back_def intro: on_sub_account_sold_balanced)
next
  case (OnReRentBalancesChecked pend al)
  with assms show ?thesis
    by (cases r) (auto simp: escrow_def flight_ok_def comes_back_def intro: on_re_rent_balances_checked_balanced)
next
  case (OnBuyBalancesChecked st al)
  with assms show ?thesis
    by (cases r) (auto simp: escrow_def flight_ok_def comes_back_def intro: on_buy_balances_checked_balanced)
qed (use assms in \<open>auto split: rg_result.splits\<close>, (erule quiet_deliveries; simp)+)

section \<open>Worlds\<close>

record world =
  wd_reg :: TlaRegistry
  wd_flights :: "flight list"
  wd_held :: nat

definition is_mint :: "flight \<Rightarrow> bool" where
  "is_mint f = (case fst f of
     OnSubAccountCreated t n p k r a \<Rightarrow> True | OnSubAccountCreatedPaid t n p k r a \<Rightarrow> True | _ \<Rightarrow> False)"

text \<open>One receipt on the registry: a call from outside, the delivery of a callback in flight with
  some result, or a callback that fails. Balances are below the largest \<open>u128\<close>. In a \<open>calm\<close>
  world the account-creation deposit is not changed while a mint is in flight. With a result the
  registry \<open>gets\<close> some funds back; in a \<open>refunded\<close> world they are \<open>comes_back\<close>: what a failed mint or
  transfer carried returns whole. The runtime gives that when the receiver fails at once and
  \<open>tla-manager\<close> pays it back in its own failure branches; a failure later in the chain of
  \<open>tla-manager\<close> (a panic in its callback) would leave the funds there, which is a world that is not
  \<open>refunded\<close>.\<close>

inductive reg_step :: "host \<Rightarrow> bool \<Rightarrow> bool \<Rightarrow> world \<Rightarrow> world \<Rightarrow> bool" for h calm refunded where
  called: "rg_method h c call s = Inr (s', evs, reply) \<Longrightarrow>
    n + unat (attached_deposit c) < 2 ^ 128 - 1 \<Longrightarrow>
    calm \<longrightarrow> creation_deposit s' = creation_deposit s \<or> \<not> list_ex is_mint q \<Longrightarrow>
    reg_step h calm refunded \<lparr>wd_reg = s, wd_flights = q, wd_held = n\<rparr>
      \<lparr>wd_reg = s', wd_flights = q @ flights_of reply,
       wd_held = n + unat (attached_deposit c) - sent_by reply\<rparr>"
| delivered: "f \<in> set q \<Longrightarrow> rg_deliver h c (fst f) r s = Inr (s', evs, reply) \<Longrightarrow>
    refunded \<longrightarrow> gets = comes_back f r \<Longrightarrow> n + gets < 2 ^ 128 - 1 \<Longrightarrow>
    reg_step h calm refunded \<lparr>wd_reg = s, wd_flights = q, wd_held = n\<rparr>
      \<lparr>wd_reg = s', wd_flights = remove1 f q @ flights_of reply,
       wd_held = n + gets - sent_by reply\<rparr>"
| dropped: "f \<in> set q \<Longrightarrow> rg_deliver h c (fst f) r s = Inl e \<Longrightarrow>
    refunded \<longrightarrow> gets = comes_back f r \<Longrightarrow> n + gets < 2 ^ 128 - 1 \<Longrightarrow>
    reg_step h calm refunded \<lparr>wd_reg = s, wd_flights = q, wd_held = n\<rparr>
      \<lparr>wd_reg = s, wd_flights = remove1 f q, wd_held = n + gets\<rparr>"

definition solvent :: "world \<Rightarrow> bool" where
  "solvent w \<longleftrightarrow> books (wd_reg w) \<and>
     claims (wd_reg w) + sum_list (map escrow (wd_flights w)) \<le> wd_held w \<and>
     list_all (flight_ok (creation_deposit (wd_reg w))) (wd_flights w)"

lemma flight_ok_no_mint: "\<not> is_mint f \<Longrightarrow> flight_ok m f = flight_ok m' f"
  by (auto simp: is_mint_def flight_ok_def split: rg_callback.splits)

lemma flights_ok_keep:
  assumes "list_all (flight_ok m) q" and "m' = m \<or> \<not> list_ex is_mint q"
  shows "list_all (flight_ok m') q"
  using assms by (auto simp: list_all_iff list_ex_iff flight_ok_no_mint [of _ m' m])

lemma deliver_fee_config:
  assumes "rg_deliver h c cb r s = Inr (s', evs, reply)"
  shows "rg_fee_config s' = rg_fee_config s"
proof (cases cb)
  case (OnSubAccountCreated t n p k rent att)
  with assms show ?thesis
    by (auto simp: on_sub_account_created_def record_rental_def settle_failed_mint_def Let_def
        split: rg_result.splits sum.splits MintOutcome.splits option.splits)
next
  case (OnSubAccountCreatedPaid t n p k rent att)
  with assms show ?thesis
    by (auto simp: on_sub_account_created_paid_def record_paid_rental_def settle_failed_mint_def Let_def
        split: rg_result.splits sum.splits MintOutcome.splits option.splits)
next
  case (OnReclaimFinalized t n d)
  with assms show ?thesis
    by (auto simp: on_reclaim_finalized_def Let_def split: rg_result.splits option.splits if_splits)
qed (use assms in \<open>auto simp: on_claim_refund_settled_def on_sub_account_re_rented_def settle_failed_mint_def
    on_retry_signer_settled_def on_re_rent_balances_checked_def on_listing_verified_def on_offer_verified_def
    on_sub_account_sold_def on_sub_account_sold_paid_def on_buy_balances_checked_def abort_sale_def
    on_buy_paid_balances_checked_def on_balances_checked_def Let_def
    split: rg_result.splits option.splits if_splits sum.splits BalanceGate.splits prod.splits\<close>)

lemma sum_list_remove1:
  "x \<in> set xs \<Longrightarrow> sum_list (map f (remove1 x xs)) + f x = sum_list (map f xs)" for f :: "'a \<Rightarrow> nat"
  by (induction xs) auto

lemma reg_step_solvent:
  assumes "reg_step h True True w w'" and "solvent w"
  shows "solvent w'"
  using assms(1)
proof cases
  case (called c call s s' evs reply n q)
  from assms(2) called(1) have sv: "books s" "claims s + sum_list (map escrow q) \<le> n"
      "list_all (flight_ok (creation_deposit s)) q" by (auto simp: solvent_def)
  then have "balanced s (unat (attached_deposit c)) s' reply"
    using called(4) by (intro rg_method_balanced [OF called(3)]) auto
  moreover have "list_all (flight_ok (creation_deposit s')) q"
    using called(5) by (intro flights_ok_keep [OF sv(3)]) simp
  ultimately show ?thesis using sv by (auto simp: solvent_def called(2) balanced_def)
next
  case (delivered f q c r s s' evs reply gets n)
  from assms(2) delivered(1) have sv: "books s" "claims s + sum_list (map escrow q) \<le> n"
      "list_all (flight_ok (creation_deposit s)) q" by (auto simp: solvent_def)
  have esc: "sum_list (map escrow (remove1 f q)) + escrow f = sum_list (map escrow q)"
    by (rule sum_list_remove1 [OF delivered(3)])
  have "flight_ok (creation_deposit s) (fst f, snd f)"
    using sv(3) delivered(3) by (simp add: list_all_iff)
  from rg_deliver_balanced [OF delivered(4) sv(1) this] sv(2) esc delivered(5,6)
  have "balanced s (escrow f + gets) s' reply" by simp
  moreover have "list_all (flight_ok (creation_deposit s')) (remove1 f q)"
    using sv(3) set_remove1_subset [of f q] deliver_fee_config [OF delivered(4)]
    by (auto simp: list_all_iff)
  ultimately show ?thesis using sv(2) esc by (auto simp: solvent_def delivered(2) balanced_def)
next
  case (dropped f q c r s e gets n)
  from assms(2) dropped(1) have sv: "books s" "claims s + sum_list (map escrow q) \<le> n"
      "list_all (flight_ok (creation_deposit s)) q" by (auto simp: solvent_def)
  with sum_list_remove1 [OF dropped(3), of escrow] set_remove1_subset [of f q] show ?thesis
    by (auto simp: solvent_def dropped(2) list_all_iff)
qed

lemma rg_new_solvent:
  "rg_new h c a e g k p = Inr s \<Longrightarrow> solvent \<lparr>wd_reg = s, wd_flights = [], wd_held = n\<rparr>"
  by (auto simp: rg_new_def solvent_def books_def refund_sum_def map_total_def claims_def split: if_splits)

end
