(* ===== verification/Demo_Host.thy ===== *)
theory Demo_Host
  imports Near_Calls
begin

text \<open>
  A small concrete instance of the third-party functions, at which the witnesses of the
  development evaluate. It satisfies \<open>key_laws\<close>: a key of 33 bytes with tag 0 is an ed25519
  key and prints as the curve name and its data. Signatures are trivial: the text \<open>sig\<close>
  signs everything for a wallet key, and the key data written twice is a recovery signature.
\<close>

definition demo_host :: host where
  "demo_host = \<lparr>
     curve_type = (\<lambda>k. if length (as_bytes k) = 33 \<and> take 1 (as_bytes k) = [0]
                       then ED25519 else SECP256K1),
     key_to_string = (\<lambda>k. ''ed25519:'' @ bytes_str (drop 1 (as_bytes k))),
     valid_account_id = (\<lambda>s. s \<noteq> []),
     sha256 = (\<lambda>b. take 4 b),
     ed25519_verify = (\<lambda>sig msg key. sig = key @ key),
     dalek_is_weak = (\<lambda>_. Some False),
     ed25519_from_str = (\<lambda>s. if s = [] then None else Some (str_bytes s)),
     ed25519_to_string = (\<lambda>k. ''ed25519:'' @ bytes_str k),
     sha256_ed25519_verify = (\<lambda>msg key sig. sig = ''sig''),
     json_to_string = (\<lambda>_. ''{}''),
     parse_u128 = (\<lambda>b. if b = [] then None else Some (word_of_nat (of_le b)))\<rparr>"

definition demo_key :: "byte \<Rightarrow> PublicKey" where
  "demo_key b = PublicKey (0 # replicate 32 b)"

definition demo_ctx :: ctx where
  "demo_ctx = \<lparr>current_account_id = ''here.near'', predecessor_account_id = ''alice.near'',
     attached_deposit = 0, block_timestamp = 1000000000000, account_balance = 10 ^ 30,
     storage_byte_cost = 10 ^ 19, storage_usage = 1000\<rparr>"

definition called_by :: "AccountId \<Rightarrow> ctx" where
  "called_by a = demo_ctx\<lparr>predecessor_account_id := a\<rparr>"

lemma called_by_simps [simp]:
  "predecessor_account_id (called_by a) = a"
  "current_account_id (called_by a) = ''here.near''"
  "attached_deposit (called_by a) = 0"
  "block_timestamp (called_by a) = 1000000000000"
  by (simp_all add: called_by_def demo_ctx_def)

lemma length_one_0: "length xs = 33 \<Longrightarrow> take 1 xs = [0] \<Longrightarrow> \<exists>d. xs = 0 # d \<and> length d = 32"
  by (cases xs) auto

lemma demo_host_key_laws: "key_laws demo_host"
  unfolding key_laws_def is_ed25519_def
  by (auto simp: demo_host_def split: if_splits dest: length_one_0)

lemma demo_key_ed25519 [simp]: "is_ed25519 demo_host (demo_key b)"
  by (simp add: is_ed25519_def demo_host_def demo_key_def)

lemma demo_key_inject [simp]: "demo_key a = demo_key b \<longleftrightarrow> a = b"
  by (simp add: demo_key_def)

lemma demo_base58: "ed25519_base58 demo_host (demo_key k) = Some (bytes_str (replicate 32 k))"
  by (simp add: ed25519_base58_Some) (simp add: demo_host_def demo_key_def)

theorem build_transaction_roundtrip_witness:
  "dec_transaction 33 (build_transaction ''alice.near'' (demo_key 7) 42 ''bob.near'' (replicate 32 0)
       [Transfer 1, FunctionCall ''ping'' [1, 2] 5 0] @ [])
     = Some ((''alice.near'', as_bytes (demo_key 7), 42, ''bob.near'', replicate 32 0,
         [Transfer 1, FunctionCall ''ping'' [1, 2] 5 0]), [])"
  by (rule build_transaction_roundtrip [OF demo_host_key_laws demo_key_ed25519])
    (simp_all add: action_fits_def)

end
