(* ===== verification/Demo_Registry.thy ===== *)
theory Demo_Registry
  imports Registry_Market Demo_Host
begin

text \<open>
  A concrete registry for the witnesses: the state \<open>rg_new\<close> makes, the open TLA \<open>tla\<close> registered
  and activated by the admin \<open>alice.near\<close>, and the sub-account \<open>joe.tla\<close> of \<open>bob.near\<close>.
\<close>

definition paying :: "AccountId \<Rightarrow> u128 \<Rightarrow> ctx" where
  "paying a n = (called_by a)\<lparr>attached_deposit := n\<rparr>"

lemma paying_simps [simp]:
  "predecessor_account_id (paying a n) = a"
  "current_account_id (paying a n) = ''here.near''"
  "attached_deposit (paying a n) = n"
  "block_timestamp (paying a n) = 1000000000000"
  by (simp_all add: paying_def)

definition demo_new :: TlaRegistry where
  "demo_new = \<lparr>rg_tlas = [], rg_sub_accounts = Map.empty, rg_admins = [''alice.near''],
     rg_fee_config = default_fee_config, rg_total_revenue = 0, rg_sub_account_count = 0,
     rg_paused = False, rg_version = 1, rg_pending_refunds = Map.empty,
     rg_total_pending_refunds = 0, rg_ft_allowlist = [], rg_mothers = Map.empty,
     rg_mother_use_count = Map.empty, rg_business_sub_count = Map.empty,
     rg_business_sub_cap_override = Map.empty, rg_listings = Map.empty,
     rg_accepted_offers = Map.empty, rg_parked_names = Map.empty, rg_signer_pending = Map.empty,
     rg_reclaim_pending = Map.empty, rg_payment_authorities = [],
     rg_hos_extension = ''ext.near'', rg_active_signer = ''signer.near'',
     rg_parked_signer_pubkey = demo_key 9, rg_grace_period_ns = 86400000000000\<rparr>"

lemma demo_new_made:
  "rg_new demo_host (called_by ''alice.near'') ''alice.near'' ''ext.near'' ''signer.near''
     (demo_key 9) 86400000000000 = Inr demo_new"
  by (simp add: rg_new_def demo_new_def MIN_GRACE_PERIOD_NS_def RG_CONTRACT_VERSION_def iset_insert_def)

definition demo_tla :: TlaEntry where
  "demo_tla = \<lparr>te_tla_type = Open, te_status = StActive, te_licensee = None,
     te_premium_category = Standard, te_activated_at = 1000000000000,
     te_expires_at = 31537000000000000\<rparr>"

definition demo_open :: TlaRegistry where
  "demo_open = demo_new\<lparr>rg_tlas := [(''tla'', demo_tla)]\<rparr>"

definition demo_sub :: SubAccountEntry where
  "demo_sub = \<lparr>sa_owner = ''bob.near'', sa_tla_id = ''tla'', sa_main_wallet = ''bob.near'',
     sa_rented_at = 1000000000000, sa_expires_at = 31537000000000000, sa_retraction_at = None\<rparr>"

lemma demo_registered:
  "rg_method demo_host (called_by ''alice.near'') (K_RegisterTla ''tla'' Open Standard None) demo_new =
     Inr (demo_new\<lparr>rg_tlas := [(''tla'', demo_tla\<lparr>te_status := StRegistered, te_activated_at := 0,
            te_expires_at := 0\<rparr>)]\<rparr>, [G_TlaRegistered ''tla'' ''open'' ''standard'' None], ValueR ())"
  by (simp add: register_tla_def assert_admin_def tla_of_def tla_insert_def non_payable_def demo_tla_def)
    (simp add: demo_new_def)

lemma demo_activated:
  "rg_method demo_host (called_by ''alice.near'') (K_ActivateOpenTla ''tla'')
     (demo_new\<lparr>rg_tlas := [(''tla'', demo_tla\<lparr>te_status := StRegistered, te_activated_at := 0,
            te_expires_at := 0\<rparr>)]\<rparr>) =
     Inr (demo_open, [G_TlaActivated ''tla'' 31537000000000000 0], ValueR ())"
  by (simp add: activate_open_tla_def assert_admin_def tla_of_def tla_insert_def non_payable_def
      demo_tla_def demo_open_def ONE_YEAR_NS_def sat_add_def)
    (simp add: demo_new_def)

end
