(* ===== verification/Registry_Solvency.thy ===== *)
theory Registry_Solvency
  imports Registry_Ledger Demo_Registry
begin

text \<open>
  Solvency of \<open>tla-registry\<close> over the worlds of \<open>Registry_Ledger\<close>, a run of the example registry,
  and the run on which a change of the creation deposit breaks the books.
\<close>

section \<open>Solvency\<close>

lemma reachable_solvent:
  "rtranclp (reg_step h True True) w w' \<Longrightarrow> solvent w \<Longrightarrow> solvent w'"
  by (induction rule: rtranclp_induct) (auto intro: reg_step_solvent)

text \<open>C2: The registry is solvent, on two conditions. In every world that calls, deliveries and failed
  callbacks reach from a fresh contract, provided the creation deposit is not changed while a mint is
  in flight (\<open>calm\<close>) and what a failed mint or a failed transfer carried comes back whole
  (\<open>refunded\<close>), the recorded revenue, the recorded refunds and the deposits that requests in flight
  still have to account for are covered by the NEAR the contract holds, and \<open>total_pending_refunds\<close>
  is exactly the sum of the refunds owed to the accounts.\<close>

theorem registry_solvent:
  assumes "rg_new h c a e g k p = Inr s0"
    and "rtranclp (reg_step h True True) \<lparr>wd_reg = s0, wd_flights = [], wd_held = n\<rparr> w"
  shows "unat (rg_total_revenue (wd_reg w)) + unat (rg_total_pending_refunds (wd_reg w))
           + (\<Sum>f\<leftarrow>wd_flights w. escrow f) \<le> wd_held w \<and>
         unat (rg_total_pending_refunds (wd_reg w)) =
           (\<Sum>x\<in>dom (rg_pending_refunds (wd_reg w)). unat (the (rg_pending_refunds (wd_reg w) x)))"
  using reachable_solvent [OF assms(2) rg_new_solvent [OF assms(1)]]
  by (simp add: solvent_def claims_def books_def refund_sum_def map_total_def)

text \<open>A run of the example registry: \<open>bob.near\<close> rents \<open>joe.tla\<close>, the mint fails, the refund is owed.\<close>

abbreviation demo_mint :: rg_callback where
  "demo_mint \<equiv> OnSubAccountCreated ''tla'' ''joe'' ''bob.near'' (demo_key 5) (30 * ONE_NEAR) (31 * ONE_NEAR)"

definition demo_minting :: TlaRegistry where
  "demo_minting = demo_open\<lparr>rg_mothers := [''bob.near'' \<mapsto> ''bob.near''],
     rg_sub_accounts := [''joe.tla'' \<mapsto> demo_sub]\<rparr>"

lemma demo_rented:
  "rg_method demo_host (paying ''bob.near'' (31 * ONE_NEAR))
     (K_RentSubAccount ''tla'' ''joe'' (demo_key 5) ''bob.near'') demo_open =
   Inr (demo_minting, [G_MotherSet ''bob.near'' ''bob.near'' ''default''],
     PromiseR (ThenP (CallP ''tla'' (CreateSubAccount ''joe'' (demo_key 5)) (ONE_NEAR div 100) GAS_FOR_CREATE)
       demo_mint GAS_FOR_CALLBACK))"
  by (simp add: rent_sub_account_def validate_name_def name_char_def sub_account_key_def
      rental_terms_def tla_of_def is_accepting_rentals_def calculate_rent_def total_name_length_def
      sub_account_rent_def base_rent_def ensure_mother_default_def new_sub_entry_def assert_not_paused_def
      demo_open_def demo_tla_def demo_new_def demo_sub_def demo_minting_def default_fee_config_def
      sat_add_def sat_mul_def ONE_NEAR_def ONE_YEAR_NS_def Let_def)

lemma demo_to_minting:
  "rtranclp (reg_step demo_host calm refunded) \<lparr>wd_reg = demo_new, wd_flights = [], wd_held = 0\<rparr>
     \<lparr>wd_reg = demo_minting, wd_flights = [(demo_mint, unat (ONE_NEAR div 100))],
      wd_held = unat (31 * ONE_NEAR) - unat (ONE_NEAR div 100)\<rparr>"
proof -
  let ?w = "\<lambda>s. \<lparr>wd_reg = s, wd_flights = [], wd_held = 0\<rparr>"
  have "reg_step demo_host calm refunded (?w demo_new) (?w (demo_new\<lparr>rg_tlas := [(''tla'',
      demo_tla\<lparr>te_status := StRegistered, te_activated_at := 0, te_expires_at := 0\<rparr>)]\<rparr>))"
    using reg_step.called [OF demo_registered, of 0 calm "[]"] by simp
  moreover have "reg_step demo_host calm refunded (?w (demo_new\<lparr>rg_tlas := [(''tla'',
      demo_tla\<lparr>te_status := StRegistered, te_activated_at := 0, te_expires_at := 0\<rparr>)]\<rparr>)) (?w demo_open)"
    using reg_step.called [OF demo_activated, of 0 calm "[]"] by simp
  moreover have "reg_step demo_host calm refunded (?w demo_open) \<lparr>wd_reg = demo_minting,
      wd_flights = [(demo_mint, unat (ONE_NEAR div 100))],
      wd_held = unat (31 * ONE_NEAR) - unat (ONE_NEAR div 100)\<rparr>"
    using reg_step.called [OF demo_rented, of 0 calm "[]"] by (simp add: ONE_NEAR_def)
  ultimately show ?thesis by (meson converse_rtranclp_into_rtranclp rtranclp.rtrancl_refl)
qed

theorem registry_solvent_witness:
  "unat (rg_total_revenue demo_minting) + unat (rg_total_pending_refunds demo_minting)
     + (\<Sum>f\<leftarrow>[(demo_mint, unat (ONE_NEAR div 100))]. escrow f)
     \<le> unat (31 * ONE_NEAR) - unat (ONE_NEAR div 100)"
  using registry_solvent [OF demo_new_made demo_to_minting] by simp

text \<open>The creation deposit is lowered to one yocto while the mint is in flight.\<close>

definition demo_lowered :: FeeConfig where
  "demo_lowered = default_fee_config\<lparr>fc_account_creation_deposit := 1\<rparr>"

lemma demo_fee_update:
  "rg_method demo_host (called_by ''alice.near'') (K_UpdateFeeConfig demo_lowered) demo_minting =
     Inr (demo_minting\<lparr>rg_fee_config := demo_lowered\<rparr>, [G_FeeConfigUpdated ''alice.near''], ValueR ())"
  by (simp add: update_fee_config_def assert_admin_def non_payable_def demo_lowered_def
      default_fee_config_def ONE_NEAR_def)
    (simp add: demo_minting_def demo_open_def demo_new_def)

definition demo_settled :: TlaRegistry where
  "demo_settled = demo_minting\<lparr>rg_fee_config := demo_lowered, rg_sub_account_count := 1,
     rg_total_revenue := 30 * ONE_NEAR, rg_pending_refunds := [''bob.near'' \<mapsto> ONE_NEAR - 1],
     rg_total_pending_refunds := ONE_NEAR - 1\<rparr>"

lemma demo_mint_settled:
  "rg_deliver demo_host demo_ctx demo_mint (Minted (Inr Active)) (demo_minting\<lparr>rg_fee_config := demo_lowered\<rparr>) =
     Inr (demo_settled, [G_SubAccountRented ''joe.tla'' ''tla'' ''bob.near'' (30 * ONE_NEAR)
       31537000000000000], ValueR ())"
  by (simp add: on_sub_account_created_def record_rental_def refund_excess_def add_pending_refund_def
      sub_account_key_def demo_settled_def demo_minting_def demo_open_def demo_new_def demo_lowered_def
      demo_sub_def sat_add_def sat_sub_def ONE_NEAR_def Let_def)

text \<open>C40: The condition on the creation deposit is needed. \<open>record_rental\<close> charges the creation
  deposit of the fee configuration in force when the mint settles, not the amount that was sent
  along with it. In the example run the admin lowers that deposit while a mint is in flight; once
  it settles, the registry owes more than it holds.\<close>

theorem fee_change_breaks_books:
  "\<exists>w. rtranclp (reg_step demo_host False True) \<lparr>wd_reg = demo_new, wd_flights = [], wd_held = 0\<rparr> w \<and>
     wd_flights w = [] \<and>
     wd_held w < unat (rg_total_revenue (wd_reg w)) + unat (rg_total_pending_refunds (wd_reg w))"
proof -
  let ?q = "[(demo_mint, unat (ONE_NEAR div 100))]" and ?m = "unat (31 * ONE_NEAR) - unat (ONE_NEAR div 100)"
  have "reg_step demo_host False True \<lparr>wd_reg = demo_minting, wd_flights = ?q, wd_held = ?m\<rparr>
      \<lparr>wd_reg = demo_minting\<lparr>rg_fee_config := demo_lowered\<rparr>, wd_flights = ?q, wd_held = ?m\<rparr>"
    using reg_step.called [OF demo_fee_update, of ?m False ?q] by (simp add: ONE_NEAR_def)
  moreover have "reg_step demo_host False True
      \<lparr>wd_reg = demo_minting\<lparr>rg_fee_config := demo_lowered\<rparr>, wd_flights = ?q, wd_held = ?m\<rparr>
      \<lparr>wd_reg = demo_settled, wd_flights = [], wd_held = ?m\<rparr>"
    using reg_step.delivered [of "(demo_mint, unat (ONE_NEAR div 100))" ?q demo_host demo_ctx
        "Minted (Inr Active)", simplified fst_conv, OF _ demo_mint_settled, of True 0 ?m False]
    by (simp add: comes_back_def ONE_NEAR_def)
  moreover have "?m < unat (rg_total_revenue demo_settled) + unat (rg_total_pending_refunds demo_settled)"
    by (simp add: demo_settled_def ONE_NEAR_def)
  ultimately show ?thesis using demo_to_minting [of False True]
    by (intro exI [of _ "\<lparr>wd_reg = demo_settled, wd_flights = [], wd_held = ?m\<rparr>"])
      (auto intro: rtranclp.rtrancl_into_rtrancl)
qed

end
