(* ===== verification/Registry_Names.thy ===== *)
theory Registry_Names
  imports Registry_Core Demo_Host
begin

text \<open>
  Names, prices, rental periods and the token-balance gate of \<open>tla-registry\<close>: the key of a
  sub-account determines the TLA and the name, the rent never rises with the length of the name,
  rental periods only move forward, and the gate opens on verified zero balances only.
\<close>

section \<open>Names\<close>

lemma validate_name_Inr:
  "validate_name n = Inr u \<longleftrightarrow> n \<noteq> [] \<and> length n \<le> 60 \<and> list_all name_char n \<and>
     hd n \<notin> {CHR ''-'', CHR ''_''} \<and> last n \<notin> {CHR ''-'', CHR ''_''}"
  by (auto simp: validate_name_def)

lemma name_char_not_dot: "name_char ch \<Longrightarrow> ch \<noteq> CHR ''.''"
  by (auto simp: name_char_def Let_def)

lemma name_before_dot:
  assumes "list_all name_char n"
  shows "takeWhile (\<lambda>ch. ch \<noteq> CHR ''.'') (sub_account_key t n) = n"
    and "dropWhile (\<lambda>ch. ch \<noteq> CHR ''.'') (sub_account_key t n) = CHR ''.'' # t"
  using assms by (auto simp: sub_account_key_def list_all_iff takeWhile_append dropWhile_append
      dest: name_char_not_dot)

text \<open>C29: Sub-account keys do not collide. Two valid names under two TLAs have the same storage key
  only if the names and the TLAs are the same, whatever dots the TLA ids contain.\<close>

theorem sub_account_key_unique:
  assumes "validate_name n = Inr ()" and "validate_name n' = Inr ()"
    and "sub_account_key t n = sub_account_key t' n'"
  shows "t = t' \<and> n = n'"
proof -
  have "list_all name_char n" "list_all name_char n'" using assms(1,2) by (auto simp: validate_name_Inr)
  with assms(3) show ?thesis using name_before_dot [of n t] name_before_dot [of n' t'] by simp
qed

theorem sub_account_key_unique_witness:
  "validate_name ''joe-2'' = Inr () \<and> sub_account_key ''b.tla'' ''joe-2'' \<noteq> sub_account_key ''tla'' ''joe''"
  using sub_account_key_unique [of "''joe-2''" "''joe''" "''b.tla''" "''tla''"]
  by (auto simp: validate_name_def name_char_def)

section \<open>Rent\<close>

definition tiers_descend :: "FeeConfig \<Rightarrow> bool" where
  "tiers_descend f \<longleftrightarrow> fc_rent_tier_8 f \<le> fc_rent_tier_5 f \<and> fc_rent_tier_10 f \<le> fc_rent_tier_8 f \<and>
     fc_rent_tier_12plus f \<le> fc_rent_tier_10 f"

lemma base_rent_antitone:
  "tiers_descend f \<Longrightarrow> l \<le> l' \<Longrightarrow> base_rent l' f \<le> base_rent l f"
  by (auto simp: base_rent_def tiers_descend_def intro: order_trans)

lemma sat_mul_mono: "a \<le> a' \<Longrightarrow> sat_mul a b \<le> sat_mul a' b" for a b :: "'a::len word"
  by (simp add: word_le_nat_alt unat_sat_mul min.coboundedI1 mult_le_mono1 le_SucI)

lemma sub_account_rent_antitone:
  assumes "tiers_descend f" and "l \<le> l'"
  shows "sub_account_rent l' p f \<le> sub_account_rent l p f"
proof -
  have "unat (sat_mul (base_rent l' f) m) \<le> unat (sat_mul (base_rent l f) m)" for m
    using sat_mul_mono [OF base_rent_antitone [OF assms], of m] by (simp add: word_le_nat_alt)
  then show ?thesis
    by (simp add: sub_account_rent_def Let_def word_le_nat_alt unat_div div_le_mono split: prod.split)
qed

lemma total_name_length_exact:
  "length n \<le> 60 \<Longrightarrow> length t \<le> 64 \<Longrightarrow> unat (total_name_length t n) = length n + 1 + length t"
  unfolding total_name_length_def by (rule unat_of_nat_small) simp

text \<open>C28: The length of a name is computed in eight bits; with valid names under an account id of at
  most 64 bytes it does not wrap. Provided the fee tiers do not rise with the length, which
  \<open>update_fee_config\<close> does not enforce and the default configuration satisfies, a longer name under
  the same TLA never costs more rent.\<close>

theorem rent_antitone:
  assumes "tiers_descend f" and "validate_name n = Inr ()" and "validate_name n' = Inr ()"
    and "length n \<le> length n'" and "length t \<le> 64"
  shows "unat (total_name_length t n') = length (sub_account_key t n') \<and>
    calculate_rent e t n' f \<le> calculate_rent e t n f"
proof -
  have "length n \<le> 60" "length n' \<le> 60" using assms(2,3) by (auto simp: validate_name_Inr)
  then have len: "unat (total_name_length t n) = length n + 1 + length t"
    "unat (total_name_length t n') = length n' + 1 + length t"
    using assms(5) total_name_length_exact by auto
  then have "total_name_length t n \<le> total_name_length t n'" using assms(4) by (simp add: word_le_nat_alt)
  with assms(1) len show ?thesis
    by (auto simp: calculate_rent_def Let_def sub_account_rent_antitone sub_account_key_def
        split: TlaType.split)
qed

theorem rent_antitone_witness:
  "tiers_descend default_fee_config \<and>
   calculate_rent \<lparr>te_tla_type = Open, te_status = StActive, te_licensee = None,
     te_premium_category = Premium, te_activated_at = 0, te_expires_at = 5\<rparr> ''tla'' ''longer'' default_fee_config
   \<le> calculate_rent \<lparr>te_tla_type = Open, te_status = StActive, te_licensee = None,
     te_premium_category = Premium, te_activated_at = 0, te_expires_at = 5\<rparr> ''tla'' ''joe'' default_fee_config"
  using rent_antitone [of default_fee_config "''joe''" "''longer''" "''tla''"]
  by (simp add: tiers_descend_def default_fee_config_def ONE_NEAR_def validate_name_def name_char_def)

section \<open>Rental periods\<close>

text \<open>The order in which a rental goes through its states.\<close>

fun lifecycle_rank :: "LifecycleStatus \<Rightarrow> nat" where
  "lifecycle_rank LcRegistered = 0"
| "lifecycle_rank LcActive = 1"
| "lifecycle_rank LcGrace = 2"
| "lifecycle_rank LcReclaimable = 3"
| "lifecycle_rank LcSuspended = 4"

lemma lifecycle_rank_inject: "lifecycle_rank a = lifecycle_rank b \<Longrightarrow> a = b"
  by (cases a; cases b) auto

instantiation LifecycleStatus :: linorder
begin

definition less_eq_LifecycleStatus :: "LifecycleStatus \<Rightarrow> LifecycleStatus \<Rightarrow> bool" where
  "less_eq_LifecycleStatus a b \<longleftrightarrow> lifecycle_rank a \<le> lifecycle_rank b"

definition less_LifecycleStatus :: "LifecycleStatus \<Rightarrow> LifecycleStatus \<Rightarrow> bool" where
  "less_LifecycleStatus a b \<longleftrightarrow> lifecycle_rank a < lifecycle_rank b"

instance
  by standard (auto simp: less_eq_LifecycleStatus_def less_LifecycleStatus_def
      intro: lifecycle_rank_inject)

end

lemmas lifecycle_order = less_eq_LifecycleStatus_def less_LifecycleStatus_def

lemma time_lifecycle_mono:
  "block_timestamp c \<le> block_timestamp c' \<Longrightarrow> time_lifecycle c e g \<le> time_lifecycle c' e g"
  by (auto simp: time_lifecycle_def Let_def lifecycle_order)

lemma time_lifecycle_later_expiry:
  assumes "e \<le> e'"
  shows "time_lifecycle c e' g \<le> time_lifecycle c e g"
  using assms sat_add_mono [OF assms, of g] by (auto simp: time_lifecycle_def Let_def lifecycle_order)

lemma time_lifecycle_reclaimable:
  "time_lifecycle c e g = LcReclaimable \<longleftrightarrow> sat_add e g \<le> block_timestamp c"
  using sat_add_ge [of e g] by (auto simp: time_lifecycle_def Let_def)

lemma time_lifecycle_not_suspended: "time_lifecycle c e g \<le> LcReclaimable"
  by (simp add: time_lifecycle_def Let_def lifecycle_order)

lemma tla_lifecycle_reclaimable:
  "tla_lifecycle c e g = LcReclaimable \<longleftrightarrow>
     te_status e = StActive \<and> sat_add (te_expires_at e) g \<le> block_timestamp c"
  by (simp add: tla_lifecycle_def time_lifecycle_reclaimable split: TlaStatus.split)

lemma effective_reclaimable:
  "effective_sub_lifecycle c sub tla notice g = LcReclaimable \<longleftrightarrow>
     te_status tla = StActive \<and> sat_add (te_expires_at tla) g \<le> block_timestamp c \<or>
     (\<exists>r. sa_retraction_at sub = Some r \<and> sat_add r notice \<le> block_timestamp c) \<or>
     sat_add (sa_expires_at sub) g \<le> block_timestamp c"
  by (auto simp: effective_sub_lifecycle_def tla_lifecycle_reclaimable sub_lifecycle_def
      time_lifecycle_reclaimable split: option.split)

text \<open>C30: Time only moves a rental forward. With the registry unchanged, the effective state of a
  sub-account never goes back on the line active, grace, reclaimable; in particular a name that can
  be reclaimed stays reclaimable.\<close>

theorem lifecycle_forward:
  assumes "block_timestamp c \<le> block_timestamp c'"
  shows "effective_sub_lifecycle c sub tla notice g \<le> effective_sub_lifecycle c' sub tla notice g"
proof (cases "effective_sub_lifecycle c' sub tla notice g = LcReclaimable")
  case True
  have "effective_sub_lifecycle c sub tla notice g \<le> LcReclaimable"
    by (auto simp: effective_sub_lifecycle_def sub_lifecycle_def time_lifecycle_not_suspended
        split: option.split)
  with True show ?thesis by simp
next
  case False
  then have "effective_sub_lifecycle c sub tla notice g \<noteq> LcReclaimable"
    using assms by (auto simp: effective_reclaimable)
  with False have "effective_sub_lifecycle c sub tla notice g = sub_lifecycle c sub g"
    "effective_sub_lifecycle c' sub tla notice g = sub_lifecycle c' sub g"
    by (auto simp: effective_sub_lifecycle_def split: if_splits option.splits)
  then show ?thesis using time_lifecycle_mono [OF assms] by (simp add: sub_lifecycle_def)
qed

theorem lifecycle_forward_witness:
  "let sub = \<lparr>sa_owner = ''bob.near'', sa_tla_id = ''tla'', sa_main_wallet = ''bob.near'',
         sa_rented_at = 0, sa_expires_at = 1500000000000, sa_retraction_at = None\<rparr>;
       tla = \<lparr>te_tla_type = Open, te_status = StActive, te_licensee = None,
         te_premium_category = Premium, te_activated_at = 0, te_expires_at = 5000000000000\<rparr>
   in effective_sub_lifecycle demo_ctx sub tla 10 20 = LcActive \<and>
      effective_sub_lifecycle demo_ctx sub tla 10 20
        \<le> effective_sub_lifecycle (demo_ctx\<lparr>block_timestamp := 1600000000000\<rparr>) sub tla 10 20"
  using lifecycle_forward [of demo_ctx "demo_ctx\<lparr>block_timestamp := 1600000000000\<rparr>"]
  by (simp add: demo_ctx_def effective_sub_lifecycle_def tla_lifecycle_def sub_lifecycle_def
      time_lifecycle_def sat_add_def)

section \<open>The token-balance gate\<close>

lemma block_reason_None:
  "block_reason h r = None \<longleftrightarrow> (\<exists>b. r = Inr b \<and> length b \<le> FT_BALANCE_MAX_LEN \<and> parse_u128 h b = Some 0)"
  by (auto simp: block_reason_def promise_result_checked_def word_gt_0 split: sum.splits option.splits if_splits PromiseError.splits)

lemma first_blocked_Clear:
  "first_blocked h xs = Clear \<longleftrightarrow> list_all (\<lambda>x. block_reason h (snd x) = None) xs"
  by (induction xs) (auto split: option.split)

text \<open>C26: The asset gate fails closed. It opens exactly when there is one result for each token of
  the allowlist and every result is a balance of zero that reads from at most 256 bytes; a missing, failed, oversized or
  unreadable answer blocks.\<close>

theorem asset_gate_fails_closed:
  "ft_balances_clear h results allowlist = Clear \<longleftrightarrow>
     length results = length allowlist \<and>
     set results \<subseteq> {Inr b | b. length b \<le> FT_BALANCE_MAX_LEN \<and> parse_u128 h b = Some 0}"
proof (cases "length results = length allowlist")
  case True
  then have "length allowlist = length results" by simp
  then have "list_all (\<lambda>x. block_reason h (snd x) = None) (zip allowlist results) \<longleftrightarrow>
      list_all (\<lambda>r. block_reason h r = None) results"
    by (induction allowlist results rule: list_induct2) auto
  moreover have "set results \<subseteq> {Inr b | b. length b \<le> FT_BALANCE_MAX_LEN \<and> parse_u128 h b = Some 0} \<longleftrightarrow>
      list_all (\<lambda>r. block_reason h r = None) results"
    by (auto simp: list_all_iff block_reason_None)
  ultimately show ?thesis using True by (simp add: ft_balances_clear_def first_blocked_Clear)
qed (simp add: ft_balances_clear_def)

end
