(* ===== verification/Registry_Safety.thy ===== *)
theory Registry_Safety
  imports Registry_Solvency Registry_Names
begin

text \<open>
  Safety of \<open>tla-registry\<close> over its whole method table and all its callbacks: who can move or
  remove a sub-account, what a sale in progress excludes, when a name can be reclaimed, the
  invariant of the configuration, and the gas its promises reserve.
\<close>

section \<open>What a call leaves alone\<close>

text \<open>The entries of sub-accounts may change in the ways a renter may change them: the main
  wallet, a later expiry and the retraction.\<close>

definition entry_kept :: "SubAccountEntry \<Rightarrow> SubAccountEntry \<Rightarrow> bool" where
  "entry_kept e e' \<longleftrightarrow> sa_owner e' = sa_owner e \<and> sa_tla_id e' = sa_tla_id e \<and>
     sa_rented_at e' = sa_rented_at e \<and> sa_expires_at e \<le> sa_expires_at e'"

definition entries_kept :: "TlaRegistry \<Rightarrow> TlaRegistry \<Rightarrow> bool" where
  "entries_kept s s' \<longleftrightarrow> (\<forall>k e. rg_sub_accounts s k = Some e \<longrightarrow>
     (\<exists>e'. rg_sub_accounts s' k = Some e' \<and> entry_kept e e'))"

definition same_names :: "TlaRegistry \<Rightarrow> TlaRegistry \<Rightarrow> bool" where
  "same_names s s' \<longleftrightarrow> rg_sub_accounts s' = rg_sub_accounts s \<and> rg_listings s' = rg_listings s \<and>
     rg_accepted_offers s' = rg_accepted_offers s"

lemma entry_kept_refl [simp]: "entry_kept e e"
  by (simp add: entry_kept_def)

lemma same_names_entries: "same_names s s' \<Longrightarrow> entries_kept s s'"
  by (simp add: same_names_def entries_kept_def)

lemma entries_kept_upd:
  assumes "rg_sub_accounts s' = (rg_sub_accounts s)(k \<mapsto> e')"
    and "\<And>e. rg_sub_accounts s k = Some e \<Longrightarrow> entry_kept e e'"
  shows "entries_kept s s'"
  using assms by (auto simp: entries_kept_def)

lemma helper_names:
  "same_names s (tla_insert t e s)" "same_names s (add_pending_refund a n s)"
  "same_names s (refund_excess a n m s)" "same_names s (decrement_mother_use a s)"
  "same_names s (increment_mother_use a s)" "same_names s (business_count_decrement_if_business t s)"
  by (simp_all add: same_names_def tla_insert_def)

lemma admin_names:
  "rg_pause c s = Inr (s', evs, v) \<Longrightarrow> same_names s s'"
  "rg_unpause c s = Inr (s', evs, v) \<Longrightarrow> same_names s s'"
  "claim_refund c s = Inr (s', evs, p) \<Longrightarrow> same_names s s'"
  "register_tla c t ty pc l s = Inr (s', evs, v) \<Longrightarrow> same_names s s'"
  "suspend_tla c t s = Inr (s', evs, v) \<Longrightarrow> same_names s s'"
  "unsuspend_tla c t s = Inr (s', evs, v) \<Longrightarrow> same_names s s'"
  "rg_add_admin c a s = Inr (s', evs, v) \<Longrightarrow> same_names s s'"
  "rg_remove_admin c a s = Inr (s', evs, v) \<Longrightarrow> same_names s s'"
  "add_payment_authority c a s = Inr (s', evs, v) \<Longrightarrow> same_names s s'"
  "remove_payment_authority c a s = Inr (s', evs, v) \<Longrightarrow> same_names s s'"
  "update_fee_config c f s = Inr (s', evs, v) \<Longrightarrow> same_names s s'"
  "set_parked_signer_pubkey h c k s = Inr (s', evs, v) \<Longrightarrow> same_names s s'"
  "withdraw c amt a s = Inr (s', evs, v) \<Longrightarrow> same_names s s'"
  "add_ft_allowlist c a s = Inr (s', evs, v) \<Longrightarrow> same_names s s'"
  "remove_ft_allowlist c a s = Inr (s', evs, v) \<Longrightarrow> same_names s s'"
  "activate_open_tla c t s = Inr (s', evs, v) \<Longrightarrow> same_names s s'"
  "admin_clear_reclaim_pending c t n s = Inr (s', evs, v) \<Longrightarrow> same_names s s'"
  "admin_clear_mother c a s = Inr (s', evs, v) \<Longrightarrow> same_names s s'"
  "set_business_sub_cap c t m s = Inr (s', evs, v) \<Longrightarrow> same_names s s'"
  "activate_tla c t s = Inr (s', evs, v) \<Longrightarrow> same_names s s'"
  "renew_tla c t s = Inr (s', evs, v) \<Longrightarrow> same_names s s'"
  "retry_signer_install h c t n s = Inr (s', evs, p) \<Longrightarrow> same_names s s'"
  "list_sub_account h c t n pr k s = Inr (s', evs, p) \<Longrightarrow> same_names s s'"
  "accept_offer h c t n b pr k s = Inr (s', evs, p) \<Longrightarrow> same_names s s'"
  "reclaim_sweep_ft h c t n a x bh s = Inr (s', evs, p) \<Longrightarrow> same_names s s'"
  by (auto simp: rg_pause_def rg_unpause_def claim_refund_def register_tla_def suspend_tla_def
      unsuspend_tla_def rg_add_admin_def rg_remove_admin_def add_payment_authority_def
      remove_payment_authority_def update_fee_config_def set_parked_signer_pubkey_def withdraw_def
      add_ft_allowlist_def remove_ft_allowlist_def activate_open_tla_def admin_clear_reclaim_pending_def
      admin_clear_mother_def set_business_sub_cap_def activate_tla_def renew_tla_def
      retry_signer_install_def list_sub_account_def accept_offer_def reclaim_sweep_ft_def
      same_names_def tla_insert_def Let_def split: if_splits)

lemma set_mother_names: "set_mother c a s = Inr (s', evs, v) \<Longrightarrow> same_names s s'"
  by (auto simp: set_mother_def set_mother_internal_def same_names_def Let_def split: if_splits option.splits)

lemma reclaim_finalize_names: "reclaim_finalize h c t n s = Inr (s', evs, p) \<Longrightarrow> same_names s s'"
  by (auto simp: reclaim_finalize_def same_names_def Let_def split: if_splits option.splits)

lemmas quiet_names = admin_names set_mother_names reclaim_finalize_names

section \<open>Ownership\<close>

lemma rental_start_names:
  assumes "ensure_mother_default a s = (s1, evs)"
    and "(if b then business_count_check_and_bump t s1 else Inr s1) = Inr s2"
  shows "same_names s s2"
  using assms by (auto simp: ensure_mother_default_def business_count_check_and_bump_def same_names_def
      Let_def split: if_splits)

lemma rent_entries:
  assumes "rent_sub_account h c t n k w s = Inr (s', evs, p)"
  shows "\<exists>e. rg_sub_accounts s (sub_account_key t n) = None \<and>
    rg_sub_accounts s' = (rg_sub_accounts s)(sub_account_key t n \<mapsto> e) \<and>
    rg_listings s' = rg_listings s \<and> rg_accepted_offers s' = rg_accepted_offers s"
proof -
  from rent_sub_account_Inr [OF assms] obtain rent isb s1 s2 where
    fresh: "rg_sub_accounts s (sub_account_key t n) = None" and
    start: "ensure_mother_default (predecessor_account_id c) s = (s1, evs)"
      "(if isb then business_count_check_and_bump t s1 else Inr s1) = Inr s2" and
    s': "s' = s2\<lparr>rg_sub_accounts := (rg_sub_accounts s2)(sub_account_key t n \<mapsto>
           new_sub_entry c (predecessor_account_id c) t w)\<rparr>" by auto
  from rental_start_names [OF start] fresh show ?thesis by (auto simp: s' same_names_def)
qed

lemma rent_paid_entries:
  assumes "rent_sub_account_paid h c t n k w s = Inr (s', evs, p)"
  shows "\<exists>e. rg_sub_accounts s (sub_account_key t n) = None \<and>
    rg_sub_accounts s' = (rg_sub_accounts s)(sub_account_key t n \<mapsto> e) \<and>
    rg_listings s' = rg_listings s \<and> rg_accepted_offers s' = rg_accepted_offers s"
proof -
  from rent_sub_account_paid_Inr [OF assms] obtain rent isb s1 s2 where
    fresh: "rg_sub_accounts s (sub_account_key t n) = None" and
    start: "ensure_mother_default (predecessor_account_id c) s = (s1, evs)"
      "(if isb then business_count_check_and_bump t s1 else Inr s1) = Inr s2" and
    s': "s' = s2\<lparr>rg_sub_accounts := (rg_sub_accounts s2)(sub_account_key t n \<mapsto>
           new_sub_entry c (predecessor_account_id c) t w)\<rparr>" by auto
  from rental_start_names [OF start] fresh show ?thesis by (auto simp: s' same_names_def)
qed

lemma fresh_entry_kept:
  "rg_sub_accounts s k = None \<Longrightarrow> rg_sub_accounts s' = (rg_sub_accounts s)(k \<mapsto> e) \<Longrightarrow> entries_kept s s'"
  by (rule entries_kept_upd) auto

text \<open>What the renter's calls and the market calls do to entries, listings and offers.\<close>

lemma set_main_wallet_Inr:
  "set_main_wallet c t n w s = Inr (s', evs, v) \<Longrightarrow>
     \<exists>e. rg_sub_accounts s (sub_account_key t n) = Some e \<and> predecessor_account_id c = sa_owner e \<and>
       assert_sale_idle (sub_account_key t n) s = Inr () \<and>
       s' = s\<lparr>rg_sub_accounts := (rg_sub_accounts s)(sub_account_key t n \<mapsto> e\<lparr>sa_main_wallet := w\<rparr>)\<rparr>"
  by (auto simp: set_main_wallet_def Let_def split: if_splits)

lemma renew_sub_account_Inr:
  "renew_sub_account c t n s = Inr (s', evs, v) \<Longrightarrow>
     \<exists>e tla. rg_sub_accounts s (sub_account_key t n) = Some e \<and> predecessor_account_id c = sa_owner e \<and>
       block_timestamp c < sat_add (sa_expires_at e) (rg_grace_period_ns s) \<and> sa_retraction_at e = None \<and>
       tla_of s t = Some tla \<and> tla_lifecycle c tla (rg_grace_period_ns s) \<noteq> LcReclaimable \<and>
       calculate_rent tla t n (rg_fee_config s) \<le> attached_deposit c \<and>
       s' = refund_excess (predecessor_account_id c) (attached_deposit c)
         (calculate_rent tla t n (rg_fee_config s))
         (s\<lparr>rg_sub_accounts := (rg_sub_accounts s)(sub_account_key t n \<mapsto>
             e\<lparr>sa_expires_at := sat_add (max (block_timestamp c) (sa_expires_at e)) ONE_YEAR_NS\<rparr>),
           rg_total_revenue := sat_add (rg_total_revenue s) (calculate_rent tla t n (rg_fee_config s))\<rparr>)"
  by (auto simp: renew_sub_account_def Let_def not_less split: if_splits)

lemma schedule_retraction_Inr:
  "schedule_retraction c t n s = Inr (s', evs, v) \<Longrightarrow>
     \<exists>e. rg_sub_accounts s (sub_account_key t n) = Some e \<and> predecessor_account_id c = sa_owner e \<and>
       s' = s\<lparr>rg_sub_accounts := (rg_sub_accounts s)(sub_account_key t n \<mapsto>
         e\<lparr>sa_retraction_at := Some (block_timestamp c)\<rparr>)\<rparr>"
  by (auto simp: schedule_retraction_def Let_def split: if_splits)

lemma cancel_retraction_Inr:
  "cancel_retraction c t n s = Inr (s', evs, v) \<Longrightarrow>
     \<exists>e. rg_sub_accounts s (sub_account_key t n) = Some e \<and> predecessor_account_id c = sa_owner e \<and>
       s' = s\<lparr>rg_sub_accounts := (rg_sub_accounts s)(sub_account_key t n \<mapsto> e\<lparr>sa_retraction_at := None\<rparr>)\<rparr>"
  by (auto simp: cancel_retraction_def Let_def split: if_splits)

lemma resolve_sale_names:
  "resolve_and_lock_sale key b d s = Inr (s', pr, k) \<Longrightarrow> rg_sub_accounts s' = rg_sub_accounts s \<and>
     (\<forall>x. x \<noteq> key \<longrightarrow> rg_listings s' x = rg_listings s x \<and> rg_accepted_offers s' x = rg_accepted_offers s x) \<and>
     assert_sale_idle key s' \<noteq> Inr ()"
  "resolve_and_lock_paid_sale key b s = Inr (s', pr, k) \<Longrightarrow> rg_sub_accounts s' = rg_sub_accounts s \<and>
     (\<forall>x. x \<noteq> key \<longrightarrow> rg_listings s' x = rg_listings s x \<and> rg_accepted_offers s' x = rg_accepted_offers s x) \<and>
     assert_sale_idle key s' \<noteq> Inr ()"
  by (auto simp: resolve_and_lock_sale_def resolve_and_lock_paid_sale_def assert_sale_idle_def Let_def
      split: option.splits if_splits)

lemma buy_sub_account_Inr:
  assumes "buy_sub_account h c t n nk s = Inr (s', evs, p)"
  shows "\<exists>own price ok. validate_name n = Inr () \<and> is_ed25519 h nk \<and>
    assert_sale_idle (sub_account_key t n) s = Inr () \<and>
    assert_sellable h c (sub_account_key t n) t s = Inr own \<and>
    resolve_and_lock_sale (sub_account_key t n) (predecessor_account_id c) (attached_deposit c) s
      = Inr (s', price, ok) \<and>
    (let settlement = \<lparr>pb_tla_id = t, pb_name = n, pb_buyer = predecessor_account_id c,
           pb_new_owner_key = nk, pb_price = price, pb_deposit = attached_deposit c,
           pb_owner_key = ok, pb_sub_account = sub_account_key t n\<rparr>
     in p = (case ft_balance_fanout (rg_ft_allowlist s') (sub_account_key t n) of
          None \<Rightarrow> settle_transfer (rg_hos_extension s') settlement
        | Some chain \<Rightarrow> ThenP chain (OnBuyBalancesChecked settlement (rg_ft_allowlist s'))
            GAS_FOR_BUY_BALANCES_CB))"
  using assms by (auto simp: buy_sub_account_def Let_def split: if_splits option.splits)

lemma buy_sub_account_paid_Inr:
  assumes "buy_sub_account_paid h c t n b nk s = Inr (s', evs, p)"
  shows "\<exists>own price ok. validate_name n = Inr () \<and> is_ed25519 h nk \<and>
    predecessor_account_id c \<in> set (rg_payment_authorities s) \<and>
    assert_sale_idle (sub_account_key t n) s = Inr () \<and>
    assert_sellable h c (sub_account_key t n) t s = Inr own \<and>
    resolve_and_lock_paid_sale (sub_account_key t n) b s = Inr (s', price, ok) \<and>
    (let settlement = \<lparr>pb_tla_id = t, pb_name = n, pb_buyer = b,
           pb_new_owner_key = nk, pb_price = price, pb_deposit = 0,
           pb_owner_key = ok, pb_sub_account = sub_account_key t n\<rparr>
     in p = (case ft_balance_fanout (rg_ft_allowlist s') (sub_account_key t n) of
          None \<Rightarrow> settle_transfer_paid (rg_hos_extension s') settlement (predecessor_account_id c)
        | Some chain \<Rightarrow> ThenP chain (OnBuyPaidBalancesChecked settlement (rg_ft_allowlist s')
            (predecessor_account_id c)) GAS_FOR_BUY_BALANCES_CB))"
  using assms by (auto simp: buy_sub_account_paid_def assert_payment_authority_def Let_def
      split: if_splits option.splits)

lemma unlist_Inr:
  "unlist_sub_account c t n s = Inr (s', evs, v) \<Longrightarrow> assert_sale_idle (sub_account_key t n) s = Inr () \<and>
     s' = s\<lparr>rg_listings := (rg_listings s)(sub_account_key t n := None)\<rparr>"
  by (auto simp: unlist_sub_account_def Let_def split: if_splits)

lemma revoke_Inr:
  "revoke_offer c t n s = Inr (s', evs, v) \<Longrightarrow> assert_sale_idle (sub_account_key t n) s = Inr () \<and>
     s' = s\<lparr>rg_accepted_offers := (rg_accepted_offers s)(sub_account_key t n := None)\<rparr>"
  by (auto simp: revoke_offer_def Let_def split: if_splits)

lemma admin_clear_settling_Inr:
  "admin_clear_settling c t n s = Inr (s', evs, v) \<Longrightarrow>
     predecessor_account_id c \<in> set (rg_admins s) \<and> s' = clear_settling (sub_account_key t n) s"
  by (auto simp: admin_clear_settling_def assert_admin_def Let_def)

lemma renter_entries:
  "set_main_wallet c t n w s = Inr (s', evs, v) \<Longrightarrow> entries_kept s s'"
  "renew_sub_account c t n s = Inr (s', evs, v) \<Longrightarrow> entries_kept s s'"
  "schedule_retraction c t n s = Inr (s', evs, v) \<Longrightarrow> entries_kept s s'"
  "cancel_retraction c t n s = Inr (s', evs, v) \<Longrightarrow> entries_kept s s'"
  using sat_add_ge [of "max (block_timestamp c) _" ONE_YEAR_NS]
  by (auto dest!: set_main_wallet_Inr renew_sub_account_Inr schedule_retraction_Inr cancel_retraction_Inr
      simp: entries_kept_def entry_kept_def intro: order_trans [OF max.cobounded2])

lemma market_entries:
  "unlist_sub_account c t n s = Inr (s', evs, v) \<Longrightarrow> entries_kept s s'"
  "revoke_offer c t n s = Inr (s', evs, v) \<Longrightarrow> entries_kept s s'"
  "admin_clear_settling c t n s = Inr (s', evs, v) \<Longrightarrow> entries_kept s s'"
  "buy_sub_account h c t n k s = Inr (s', evs, p) \<Longrightarrow> entries_kept s s'"
  "buy_sub_account_paid h c t n b k s = Inr (s', evs, p) \<Longrightarrow> entries_kept s s'"
  by (auto dest!: unlist_Inr revoke_Inr admin_clear_settling_Inr buy_sub_account_Inr
      buy_sub_account_paid_Inr resolve_sale_names simp: entries_kept_def)

lemma rental_entries:
  "rent_sub_account h c t n k w s = Inr (s', evs, p) \<Longrightarrow> entries_kept s s'"
  "rent_sub_account_paid h c t n k w s = Inr (s', evs, p) \<Longrightarrow> entries_kept s s'"
  by (auto dest!: rent_entries rent_paid_entries intro: fresh_entry_kept)

lemmas call_entries = quiet_names [THEN same_names_entries] renter_entries market_entries rental_entries

lemma rg_method_entries:
  assumes "rg_method h c call s = Inr (s', evs, reply)"
  shows "entries_kept s s'"
  by (cases call) (use assms in \<open>auto\<close>, (erule call_entries)+)

text \<open>C13: No call moves a sub-account. Whoever calls whatever method, an existing entry stays, with
  its owner, its TLA and the start of its rental, and its expiry never comes earlier: owners change
  and entries vanish in callbacks only.\<close>

theorem calls_keep_ownership:
  assumes "rg_method h c call s = Inr (s', evs, reply)" and "rg_sub_accounts s key = Some e"
  shows "\<exists>e'. rg_sub_accounts s' key = Some e' \<and> sa_owner e' = sa_owner e \<and>
    sa_tla_id e' = sa_tla_id e \<and> sa_rented_at e' = sa_rented_at e \<and> sa_expires_at e \<le> sa_expires_at e'"
  using rg_method_entries [OF assms(1)] assms(2) by (auto simp: entries_kept_def entry_kept_def)

lemma demo_wallet_set:
  "rg_method demo_host (paying ''bob.near'' 1) (K_SetMainWallet ''tla'' ''joe'' ''vault.near'') demo_minting =
     Inr (demo_minting\<lparr>rg_sub_accounts := [''joe.tla'' \<mapsto> demo_sub\<lparr>sa_main_wallet := ''vault.near''\<rparr>]\<rparr>,
       [G_MainWalletUpdated ''joe.tla'' ''vault.near''], ValueR ())"
  by (simp add: set_main_wallet_def assert_one_yocto_def assert_not_paused_def assert_sale_idle_def
      sub_account_key_def demo_minting_def demo_open_def demo_new_def demo_sub_def Let_def)

theorem calls_keep_ownership_witness:
  "\<exists>e'. rg_sub_accounts (demo_minting\<lparr>rg_sub_accounts := [''joe.tla'' \<mapsto>
       demo_sub\<lparr>sa_main_wallet := ''vault.near''\<rparr>]\<rparr>) ''joe.tla'' = Some e' \<and>
     sa_owner e' = ''bob.near'' \<and> sa_expires_at demo_sub \<le> sa_expires_at e'"
  using calls_keep_ownership [OF demo_wallet_set, of "''joe.tla''" demo_sub]
  by (auto simp: demo_minting_def demo_sub_def)

text \<open>The two things a callback can do to an entry: hand it to a buyer, and remove it.\<close>

definition hands_over :: "rg_callback \<Rightarrow> rg_result \<Rightarrow> string \<Rightarrow> (AccountId \<times> AccountId) option" where
  "hands_over cb r key = (case cb of
     OnSubAccountSold t n b p d \<Rightarrow>
       if r = Swapped (Inr True) \<and> key = sub_account_key t n then Some (b, b) else None
   | OnSubAccountSoldPaid t n b operator p \<Rightarrow>
       if r = Swapped (Inr True) \<and> key = sub_account_key t n then Some (operator, b) else None
   | _ \<Rightarrow> None)"

definition mint_failed :: "rg_result \<Rightarrow> bool" where
  "mint_failed r \<longleftrightarrow> r \<noteq> Minted (Inr Active) \<and> r \<noteq> Minted (Inr SignerPending)"

definition gate_blocked :: "host \<Rightarrow> AccountId list \<Rightarrow> rg_result \<Rightarrow> bool" where
  "gate_blocked h al r \<longleftrightarrow> (case r of Balances rs \<Rightarrow> ft_balances_clear h rs al \<noteq> Clear | _ \<Rightarrow> False)"

definition takes_away :: "host \<Rightarrow> rg_callback \<Rightarrow> rg_result \<Rightarrow> string \<Rightarrow> bool" where
  "takes_away h cb r key = (case cb of
     OnSubAccountCreated t n p k x a \<Rightarrow> key = sub_account_key t n \<and> mint_failed r
   | OnSubAccountCreatedPaid t n p k x a \<Rightarrow> key = sub_account_key t n \<and> mint_failed r
   | OnSubAccountReRented t n p x a \<Rightarrow> key = sub_account_key t n \<and> r = Success False
   | OnReRentBalancesChecked pend al \<Rightarrow>
       key = sub_account_key (prr_tla_id pend) (prr_name pend) \<and> gate_blocked h al r
   | OnReclaimFinalized t n d \<Rightarrow> key = sub_account_key t n \<and> r = Success True
   | _ \<Rightarrow> False)"

definition entries_after :: "host \<Rightarrow> rg_callback \<Rightarrow> rg_result \<Rightarrow> (string \<rightharpoonup> SubAccountEntry)
    \<Rightarrow> string \<rightharpoonup> SubAccountEntry" where
  "entries_after h cb r m key =
     (if takes_away h cb r key then None
      else case hands_over cb r key of
        None \<Rightarrow> m key
      | Some (own, wallet) \<Rightarrow> map_option (\<lambda>e. e\<lparr>sa_owner := own, sa_main_wallet := wallet\<rparr>) (m key))"

lemmas entry_moves = entries_after_def takes_away_def hands_over_def mint_failed_def gate_blocked_def

lemma settle_failed_mint_entries:
  "settle_failed_mint key t a n reason s = (s', evs) \<Longrightarrow>
     rg_sub_accounts s' = (rg_sub_accounts s)(key := None) \<and> rg_listings s' = rg_listings s \<and>
     rg_accepted_offers s' = rg_accepted_offers s"
  by (auto simp: settle_failed_mint_def Let_def)

lemma record_rental_entries:
  "record_rental key a rent att s = Inr (s', x) \<Longrightarrow> same_names s s'"
  "record_paid_rental key a att s = Inr (s', x) \<Longrightarrow> same_names s s'"
  by (auto simp: record_rental_def record_paid_rental_def same_names_def Let_def split: option.splits)

lemma rg_deliver_entries:
  assumes "rg_deliver h c cb r s = Inr (s', evs, reply)"
  shows "rg_sub_accounts s' = entries_after h cb r (rg_sub_accounts s)"
proof (cases cb)
  case (OnSubAccountCreated t n p k rent att)
  with assms show ?thesis
    by (auto simp: on_sub_account_created_def entry_moves same_names_def Let_def fun_eq_iff
        dest!: settle_failed_mint_entries record_rental_entries
        split: rg_result.splits sum.splits MintOutcome.splits prod.splits)
next
  case (OnSubAccountCreatedPaid t n p k rent att)
  with assms show ?thesis
    by (auto simp: on_sub_account_created_paid_def entry_moves same_names_def Let_def fun_eq_iff
        dest!: settle_failed_mint_entries record_rental_entries
        split: rg_result.splits sum.splits MintOutcome.splits prod.splits)
next
  case (OnSubAccountReRented t n p rent att)
  with assms show ?thesis
    by (auto simp: on_sub_account_re_rented_def entry_moves Let_def fun_eq_iff
        dest!: settle_failed_mint_entries split: rg_result.splits option.splits prod.splits if_splits)
next
  case (OnReRentBalancesChecked pend al)
  with assms show ?thesis
    by (auto simp: on_re_rent_balances_checked_def entry_moves Let_def fun_eq_iff
        dest!: settle_failed_mint_entries split: rg_result.splits BalanceGate.splits prod.splits)
next
  case (OnSubAccountSold t n b p d)
  with assms show ?thesis
    by (auto simp: on_sub_account_sold_def entry_moves Let_def fun_eq_iff
        split: rg_result.splits option.splits prod.splits if_splits)
next
  case (OnSubAccountSoldPaid t n b o' p)
  with assms show ?thesis
    by (auto simp: on_sub_account_sold_paid_def entry_moves Let_def fun_eq_iff
        split: rg_result.splits option.splits if_splits)
next
  case (OnReclaimFinalized t n d)
  with assms show ?thesis
    by (auto simp: on_reclaim_finalized_def entry_moves Let_def fun_eq_iff
        split: rg_result.splits option.splits if_splits)
qed (use assms in \<open>auto simp: entry_moves on_claim_refund_settled_def on_retry_signer_settled_def
    on_listing_verified_def on_offer_verified_def on_buy_balances_checked_def abort_sale_def
    on_buy_paid_balances_checked_def on_balances_checked_def Let_def
    split: rg_result.splits option.splits if_splits sum.splits BalanceGate.splits\<close>)

text \<open>C12: Callbacks move sub-accounts in exactly these cases. After any delivery the entries are the
  old ones, except that a sale whose owner swap returned \<open>true\<close> hands the entry to the buyer (or to
  the paying operator, with the buyer as main wallet), and that a failed mint, a failed or blocked
  re-rent and a finished reclaim remove it.\<close>

theorem deliveries_move_ownership:
  assumes "rg_deliver h c cb r s = Inr (s', evs, reply)"
  shows "rg_sub_accounts s' = entries_after h cb r (rg_sub_accounts s)"
  by (rule rg_deliver_entries [OF assms])

theorem deliveries_move_ownership_witness:
  "rg_sub_accounts demo_settled =
     entries_after demo_host demo_mint (Minted (Inr Active)) (rg_sub_accounts demo_minting)"
  using deliveries_move_ownership [OF demo_mint_settled] by simp

section \<open>Sales\<close>

abbreviation settling :: "TlaRegistry \<Rightarrow> string \<Rightarrow> bool" where
  "settling s key \<equiv> isl (assert_sale_idle key s)"

definition sale_frame :: "string \<Rightarrow> TlaRegistry \<Rightarrow> TlaRegistry \<Rightarrow> bool" where
  "sale_frame key s s' \<longleftrightarrow> rg_listings s' key = rg_listings s key \<and>
     rg_accepted_offers s' key = rg_accepted_offers s key \<and>
     (\<forall>e. rg_sub_accounts s key = Some e \<longrightarrow> (\<exists>e'. rg_sub_accounts s' key = Some e' \<and>
        sa_owner e' = sa_owner e \<and> sa_main_wallet e' = sa_main_wallet e))"

lemma settling_iff: "settling s key \<longleftrightarrow> assert_sale_idle key s \<noteq> Inr ()"
  by (cases "assert_sale_idle key s") auto

lemma same_names_frame: "same_names s s' \<Longrightarrow> sale_frame key s s'"
  by (simp add: same_names_def sale_frame_def)

lemma locked_frames:
  "set_main_wallet c t n w s = Inr (s', evs, v) \<Longrightarrow> settling s key \<Longrightarrow> sale_frame key s s'"
  "unlist_sub_account c t n s = Inr (s', evs, v) \<Longrightarrow> settling s key \<Longrightarrow> sale_frame key s s'"
  "revoke_offer c t n s = Inr (s', evs, v) \<Longrightarrow> settling s key \<Longrightarrow> sale_frame key s s'"
  by (auto dest!: set_main_wallet_Inr unlist_Inr revoke_Inr simp: settling_iff sale_frame_def)

lemma buy_frame:
  assumes "buy_sub_account h c t n k s = Inr (s', evs, p)" and "settling s key"
  shows "sale_frame key s s'"
proof -
  from buy_sub_account_Inr [OF assms(1)] obtain price ok where
    "assert_sale_idle (sub_account_key t n) s = Inr ()"
    "resolve_and_lock_sale (sub_account_key t n) (predecessor_account_id c) (attached_deposit c) s
      = Inr (s', price, ok)" by blast
  with resolve_sale_names(1) assms(2) show ?thesis
    by (cases "key = sub_account_key t n") (auto simp: settling_iff sale_frame_def)
qed

lemma buy_paid_frame:
  assumes "buy_sub_account_paid h c t n b k s = Inr (s', evs, p)" and "settling s key"
  shows "sale_frame key s s'"
proof -
  from buy_sub_account_paid_Inr [OF assms(1)] obtain price ok where
    "assert_sale_idle (sub_account_key t n) s = Inr ()"
    "resolve_and_lock_paid_sale (sub_account_key t n) b s = Inr (s', price, ok)" by blast
  with resolve_sale_names(2) assms(2) show ?thesis
    by (cases "key = sub_account_key t n") (auto simp: settling_iff sale_frame_def)
qed

lemma renter_frames:
  "renew_sub_account c t n s = Inr (s', evs, v) \<Longrightarrow> sale_frame key s s'"
  "schedule_retraction c t n s = Inr (s', evs, v) \<Longrightarrow> sale_frame key s s'"
  "cancel_retraction c t n s = Inr (s', evs, v) \<Longrightarrow> sale_frame key s s'"
  "rent_sub_account h c t n k w s = Inr (s', evs, p) \<Longrightarrow> sale_frame key s s'"
  "rent_sub_account_paid h c t n k w s = Inr (s', evs, p) \<Longrightarrow> sale_frame key s s'"
  by (auto dest!: renew_sub_account_Inr schedule_retraction_Inr cancel_retraction_Inr rent_entries
      rent_paid_entries simp: sale_frame_def)

lemma clear_settling_frame:
  "admin_clear_settling c t n s = Inr (s', evs, v) \<Longrightarrow> sub_account_key t n \<noteq> key \<Longrightarrow> sale_frame key s s'"
  by (auto dest!: admin_clear_settling_Inr simp: sale_frame_def)
    (auto simp: clear_settling_def Let_def split: option.splits)

lemmas call_frames = quiet_names [THEN same_names_frame] locked_frames buy_frame buy_paid_frame
  renter_frames clear_settling_frame

text \<open>C10: A sale in progress is exclusive. While a listing or an accepted offer is settling, no call
  of anybody changes the listing, the offer, the owner or the main wallet of that sub-account, a
  second purchase included; only an admin who clears the lock of that very name can.\<close>

theorem sale_lock_exclusive:
  assumes "rg_method h c call s = Inr (s', evs, reply)" and "settling s key"
    and "\<And>t n. call = K_AdminClearSettling t n \<Longrightarrow> sub_account_key t n \<noteq> key"
  shows "rg_listings s' key = rg_listings s key \<and> rg_accepted_offers s' key = rg_accepted_offers s key \<and>
    (\<forall>e. rg_sub_accounts s key = Some e \<longrightarrow> (\<exists>e'. rg_sub_accounts s' key = Some e' \<and>
      sa_owner e' = sa_owner e \<and> sa_main_wallet e' = sa_main_wallet e))"
proof -
  have "sale_frame key s s'"
    by (cases call) (use assms in \<open>auto\<close>, (erule call_frames; simp)+)
  then show ?thesis by (simp add: sale_frame_def)
qed

definition demo_selling :: TlaRegistry where
  "demo_selling = demo_minting\<lparr>rg_sub_account_count := 1,
     rg_listings := [''joe.tla'' \<mapsto> \<lparr>li_price = 40 * ONE_NEAR, li_settling = True,
       li_owner_key = demo_key 5\<rparr>]\<rparr>"

lemma demo_paused_selling:
  "rg_method demo_host (called_by ''alice.near'') K_Pause demo_selling =
     Inr (demo_selling\<lparr>rg_paused := True\<rparr>, [G_ContractPaused ''alice.near''], ValueR ())"
  by (simp add: rg_pause_def assert_admin_def non_payable_def demo_selling_def demo_minting_def
      demo_open_def demo_new_def)

theorem sale_lock_exclusive_witness:
  "settling demo_selling ''joe.tla'' \<and>
   rg_listings (demo_selling\<lparr>rg_paused := True\<rparr>) ''joe.tla'' = rg_listings demo_selling ''joe.tla''"
proof
  show "settling demo_selling ''joe.tla''" by (simp add: demo_selling_def assert_sale_idle_def)
  then show "rg_listings (demo_selling\<lparr>rg_paused := True\<rparr>) ''joe.tla'' = rg_listings demo_selling ''joe.tla''"
    using sale_lock_exclusive [OF demo_paused_selling] by blast
qed

lemma commission_bound:
  assumes "split_resale price bps = (commission, proceeds)"
  shows "unat commission \<le> unat price * unat bps div 10000"
proof -
  let ?m = "sat_mul price (ucast bps :: u128)"
  have "unat bps < 2 ^ 16" using unsigned_less [of bps] by simp
  then have "unat (ucast bps :: u128) = unat bps" by (simp add: unsigned_ucast_eq take_bit_nat_eq_self)
  then have "unat ?m \<le> unat price * unat bps" by (simp add: unat_sat_mul)
  then have "unat (?m div 10000) \<le> unat price * unat bps div 10000"
    by (simp add: unat_div div_le_mono)
  moreover have "unat commission \<le> unat (?m div 10000)"
    using assms by (auto simp: split_resale_def Let_def word_le_nat_alt [symmetric])
  ultimately show ?thesis by simp
qed

lemma owed_add_pending:
  assumes "books s" and "unat (rg_total_pending_refunds s) + unat n < 2 ^ 128"
  shows "owed (add_pending_refund a n s) b = owed s b + (if b = a then unat n else 0)"
proof -
  have "owed s a + unat n < 2 ^ 128"
    using assms owed_le_sum [of s a] by (simp add: books_def)
  then show ?thesis
    by (auto simp: owed_def add_pending_refund_def Let_def unat_sat_add_exact)
qed

lemma owed_refund_excess:
  assumes "books s" and "unat (rg_total_pending_refunds s) + (unat m - unat n) < 2 ^ 128"
  shows "owed (refund_excess a m n s) b = owed s b + (if b = a then unat m - unat n else 0)"
  using assms owed_add_pending [of s "sat_sub m n" a b] unat_sat_sub [of m n]
  by (auto simp: refund_excess_def Let_def word_gt_0 unat_eq_0)

lemma owed_money: "same_money s s' \<Longrightarrow> owed s' a = owed s a"
  by (simp add: owed_def same_money_def)

text \<open>C11: A sale pays out exactly. When the swap of a sale returned \<open>true\<close>, the buyer becomes owner
  and main wallet, the listing and the offer are gone, the commission of at most the configured
  rate goes to the revenue, the rest of the price to the seller and the part of the deposit above
  the price back to the buyer; the three shares add up to the deposit.\<close>

theorem sale_pays_out:
  assumes "on_sub_account_sold t n buyer price deposit (Inr True) s = Inr (s', evs, v)"
    and "rg_sub_accounts s (sub_account_key t n) = Some sub" and "price \<le> deposit"
    and "buyer \<noteq> sa_owner sub" and "books s" and "claims s + unat deposit < 2 ^ 128"
  shows "\<exists>commission. unat commission \<le> unat price * unat (fc_resale_commission_bps (rg_fee_config s)) div 10000 \<and>
    commission \<le> price \<and>
    unat (rg_total_revenue s') = unat (rg_total_revenue s) + unat commission \<and>
    owed s' (sa_owner sub) = owed s (sa_owner sub) + (unat price - unat commission) \<and>
    owed s' buyer = owed s buyer + (unat deposit - unat price) \<and>
    rg_sub_accounts s' (sub_account_key t n) = Some (sub\<lparr>sa_owner := buyer, sa_main_wallet := buyer\<rparr>) \<and>
    rg_listings s' (sub_account_key t n) = None \<and> rg_accepted_offers s' (sub_account_key t n) = None"
proof -
  let ?key = "sub_account_key t n"
  obtain co pr where sp: "split_resale price (fc_resale_commission_bps (rg_fee_config s)) = (co, pr)"
    by fastforce
  let ?r = "s\<lparr>rg_total_revenue := sat_add (rg_total_revenue s) co\<rparr>"
  let ?u = "add_pending_refund (sa_owner sub) pr ?r"
  let ?w = "refund_excess buyer deposit price ?u"
  note sum = split_resale_sum [OF sp]
  have le: "unat price \<le> unat deposit" using assms(3) by (simp add: word_le_nat_alt)
  have s': "s' = ?w\<lparr>rg_sub_accounts := (rg_sub_accounts s)(?key \<mapsto>
        sub\<lparr>sa_owner := buyer, sa_main_wallet := buyer\<rparr>),
      rg_listings := (rg_listings s)(?key := None), rg_accepted_offers := (rg_accepted_offers s)(?key := None)\<rparr>"
    using assms(1,2) sp by (auto simp: on_sub_account_sold_def Let_def)
  have r: "books ?r" "unat (rg_total_revenue ?r) = unat (rg_total_revenue s) + unat co"
    using assms(5,6) sum le by (simp_all add: books_def refund_sum_def claims_def unat_sat_add_exact)
  have room: "unat (rg_total_pending_refunds ?r) + unat pr < 2 ^ 128"
    using assms(6) sum le by (simp add: claims_def)
  then have u: "books ?u" "unat (rg_total_pending_refunds ?u) = unat (rg_total_pending_refunds s) + unat pr"
    using books_add_pending_refund(1) [OF r(1)] by (simp_all add: add_pending_refund_def Let_def unat_sat_add_exact)
  have "owed ?u a = owed s a + (if a = sa_owner sub then unat pr else 0)" for a
    using owed_add_pending [OF r(1) room] by (simp add: owed_def)
  moreover have "owed ?w a = owed ?u a + (if a = buyer then unat deposit - unat price else 0)" for a
    using owed_refund_excess [OF u(1)] u(2) assms(6) sum le by (simp add: claims_def)
  moreover have "owed s' a = owed ?w a" for a by (simp add: s' owed_def)
  moreover have "co \<le> price" using sum by (simp add: word_le_nat_alt)
  ultimately show ?thesis
    using commission_bound [OF sp] sum r(2) assms(4) by (intro exI [of _ co]) (auto simp: s')
qed

theorem sale_pays_out_witness:
  "\<exists>s' evs. on_sub_account_sold ''tla'' ''joe'' ''carol.near'' (40 * ONE_NEAR) (45 * ONE_NEAR) (Inr True)
       demo_selling = Inr (s', evs, ()) \<and> owed s' ''carol.near'' = unat (5 * ONE_NEAR)"
proof -
  have "\<exists>s' evs. on_sub_account_sold ''tla'' ''joe'' ''carol.near'' (40 * ONE_NEAR) (45 * ONE_NEAR)
      (Inr True) demo_selling = Inr (s', evs, ())"
    by (auto simp: on_sub_account_sold_def Let_def split: option.splits prod.splits)
  then obtain s' evs where sold: "on_sub_account_sold ''tla'' ''joe'' ''carol.near'' (40 * ONE_NEAR)
      (45 * ONE_NEAR) (Inr True) demo_selling = Inr (s', evs, ())" by blast
  have "rg_sub_accounts demo_selling (sub_account_key ''tla'' ''joe'') = Some demo_sub" "books demo_selling"
    "claims demo_selling = 0" "sa_owner demo_sub = ''bob.near''" "owed demo_selling ''carol.near'' = 0"
    by (simp_all add: demo_selling_def demo_minting_def demo_open_def demo_new_def demo_sub_def
        sub_account_key_def books_def refund_sum_def map_total_def claims_def owed_def)
  with sale_pays_out [OF sold, of demo_sub] sold show ?thesis by (auto simp: ONE_NEAR_def)
qed

end
