(* ===== verification/Registry_Governance.thy ===== *)
theory Registry_Governance
  imports Registry_Safety
begin

text \<open>
  Configuration and time limits of \<open>tla-registry\<close>: who can change its configuration and what is
  invariant of it, what a paused registry still accepts, when a name can be reclaimed and what a
  renewal does.
\<close>

section \<open>Configuration\<close>

definition fees_ok :: "FeeConfig \<Rightarrow> bool" where
  "fees_ok f \<longleftrightarrow> \<not> (fc_rent_tier_5 f = 0 \<and> fc_rent_tier_8 f = 0 \<and> fc_rent_tier_10 f = 0 \<and>
     fc_rent_tier_12plus f = 0) \<and> fc_account_creation_deposit f \<noteq> 0 \<and> fc_resale_commission_bps f \<le> 10000"

definition config_ok :: "host \<Rightarrow> TlaRegistry \<Rightarrow> bool" where
  "config_ok h s \<longleftrightarrow> admins_ok (rg_admins s) \<and> distinct (rg_ft_allowlist s) \<and>
     length (rg_ft_allowlist s) \<le> MAX_ALLOWLIST_SIZE \<and> fees_ok (rg_fee_config s) \<and>
     is_ed25519 h (rg_parked_signer_pubkey s)"

definition wiring :: "TlaRegistry \<Rightarrow> AccountId \<times> AccountId \<times> u64" where
  "wiring s = (rg_hos_extension s, rg_active_signer s, rg_grace_period_ns s)"

definition same_config :: "TlaRegistry \<Rightarrow> TlaRegistry \<Rightarrow> bool" where
  "same_config s s' \<longleftrightarrow> rg_admins s' = rg_admins s \<and> rg_ft_allowlist s' = rg_ft_allowlist s \<and>
     rg_fee_config s' = rg_fee_config s \<and> rg_parked_signer_pubkey s' = rg_parked_signer_pubkey s \<and>
     rg_payment_authorities s' = rg_payment_authorities s \<and>
     rg_paused s' = rg_paused s \<and> wiring s' = wiring s"

lemma same_config_refl [simp]: "same_config s s"
  by (simp add: same_config_def)

lemma same_config_ok: "same_config s s' \<Longrightarrow> config_ok h s' = config_ok h s"
  by (simp add: same_config_def config_ok_def)

lemmas config_defs = same_config_def wiring_def

lemma user_config:
  "claim_refund c s = Inr (s', evs, p) \<Longrightarrow> same_config s s'"
  "set_main_wallet c t n w s = Inr (s', evs, v) \<Longrightarrow> same_config s s'"
  "renew_sub_account c t n s = Inr (s', evs, v) \<Longrightarrow> same_config s s'"
  "schedule_retraction c t n s = Inr (s', evs, v) \<Longrightarrow> same_config s s'"
  "cancel_retraction c t n s = Inr (s', evs, v) \<Longrightarrow> same_config s s'"
  "unlist_sub_account c t n s = Inr (s', evs, v) \<Longrightarrow> same_config s s'"
  "revoke_offer c t n s = Inr (s', evs, v) \<Longrightarrow> same_config s s'"
  "retry_signer_install h c t n s = Inr (s', evs, p) \<Longrightarrow> same_config s s'"
  "list_sub_account h c t n pr k s = Inr (s', evs, p) \<Longrightarrow> same_config s s'"
  "accept_offer h c t n b pr k s = Inr (s', evs, p) \<Longrightarrow> same_config s s'"
  "reclaim_sweep_ft h c t n a x bh s = Inr (s', evs, p) \<Longrightarrow> same_config s s'"
  by (auto dest!: set_main_wallet_Inr renew_sub_account_Inr schedule_retraction_Inr
      cancel_retraction_Inr unlist_Inr revoke_Inr
      simp: claim_refund_def retry_signer_install_def list_sub_account_def accept_offer_def
        reclaim_sweep_ft_def config_defs Let_def split: if_splits)

lemma set_mother_config: "set_mother c a s = Inr (s', evs, v) \<Longrightarrow> same_config s s'"
  by (auto simp: set_mother_def set_mother_internal_def config_defs Let_def split: if_splits option.splits)

lemma reclaim_finalize_config: "reclaim_finalize h c t n s = Inr (s', evs, p) \<Longrightarrow> same_config s s'"
  by (auto simp: reclaim_finalize_def config_defs Let_def split: if_splits option.splits)

lemma resolve_sale_config:
  "resolve_and_lock_sale key b d s = Inr (s', pr, k) \<Longrightarrow> same_config s s'"
  "resolve_and_lock_paid_sale key b s = Inr (s', pr, k) \<Longrightarrow> same_config s s'"
  by (auto simp: resolve_and_lock_sale_def resolve_and_lock_paid_sale_def config_defs Let_def
      split: option.splits if_splits)

lemma buy_config:
  "buy_sub_account h c t n k s = Inr (s', evs, p) \<Longrightarrow> same_config s s'"
  "buy_sub_account_paid h c t n b k s = Inr (s', evs, p) \<Longrightarrow> same_config s s'"
  by (auto dest!: buy_sub_account_Inr buy_sub_account_paid_Inr intro: resolve_sale_config)

lemma rental_start_config:
  assumes "ensure_mother_default a s = (s1, evs)"
    and "(if b then business_count_check_and_bump t s1 else Inr s1) = Inr s2"
  shows "same_config s s2"
  using assms by (auto simp: ensure_mother_default_def business_count_check_and_bump_def config_defs
      Let_def split: if_splits)

lemma rent_config:
  "rent_sub_account h c t n k w s = Inr (s', evs, p) \<Longrightarrow> same_config s s'"
  "rent_sub_account_paid h c t n k w s = Inr (s', evs, p) \<Longrightarrow> same_config s s'"
  by (drule rent_sub_account_Inr rent_sub_account_paid_Inr, elim exE conjE,
      drule (1) rental_start_config, simp add: config_defs)+

lemma tla_calls_config:
  "activate_tla c t s = Inr (s', evs, v) \<Longrightarrow> same_config s s'"
  "renew_tla c t s = Inr (s', evs, v) \<Longrightarrow> same_config s s'"
  by (auto simp: activate_tla_def renew_tla_def tla_insert_def config_defs Let_def split: if_splits)

interpretation rg_admin: admin_registry rg_admins rg_add_admin rg_remove_admin
  by unfold_locales
    (auto simp: rg_add_admin_def rg_remove_admin_def assert_admin_def iset_insert_def split: if_splits)

text \<open>What every call promises about the configuration.\<close>

definition governed :: "host \<Rightarrow> ctx \<Rightarrow> TlaRegistry \<Rightarrow> TlaRegistry \<Rightarrow> bool" where
  "governed h c s s' \<longleftrightarrow> wiring s' = wiring s \<and> (config_ok h s \<longrightarrow> config_ok h s') \<and>
     (predecessor_account_id c \<in> set (rg_admins s) \<or> same_config s s')"

lemma same_config_governed: "same_config s s' \<Longrightarrow> governed h c s s'"
  by (simp add: governed_def same_config_ok) (simp add: same_config_def)

lemma admin_same_config:
  "register_tla c t ty pc l s = Inr (s', evs, v) \<Longrightarrow> same_config s s'"
  "suspend_tla c t s = Inr (s', evs, v) \<Longrightarrow> same_config s s'"
  "unsuspend_tla c t s = Inr (s', evs, v) \<Longrightarrow> same_config s s'"
  "withdraw c amt a s = Inr (s', evs, v) \<Longrightarrow> same_config s s'"
  "activate_open_tla c t s = Inr (s', evs, v) \<Longrightarrow> same_config s s'"
  "admin_clear_settling c t n s = Inr (s', evs, v) \<Longrightarrow> same_config s s'"
  "admin_clear_reclaim_pending c t n s = Inr (s', evs, v) \<Longrightarrow> same_config s s'"
  "admin_clear_mother c a s = Inr (s', evs, v) \<Longrightarrow> same_config s s'"
  "set_business_sub_cap c t m s = Inr (s', evs, v) \<Longrightarrow> same_config s s'"
  by (auto simp: register_tla_def suspend_tla_def unsuspend_tla_def withdraw_def activate_open_tla_def
      admin_clear_settling_def admin_clear_reclaim_pending_def admin_clear_mother_def
      set_business_sub_cap_def config_defs tla_insert_def Let_def split: if_splits)

text \<open>The calls that change the configuration are an admin's, and each keeps it well formed.\<close>

lemma governedI:
  "predecessor_account_id c \<in> set (rg_admins s) \<Longrightarrow> wiring s' = wiring s \<Longrightarrow>
     (config_ok h s \<Longrightarrow> config_ok h s') \<Longrightarrow> governed h c s s'"
  by (simp add: governed_def)

lemma switch_governed:
  "rg_pause c s = Inr (s', evs, v) \<Longrightarrow> governed h c s s'"
  "rg_unpause c s = Inr (s', evs, v) \<Longrightarrow> governed h c s s'"
  "add_payment_authority c a s = Inr (s', evs, v) \<Longrightarrow> governed h c s s'"
  "remove_payment_authority c a s = Inr (s', evs, v) \<Longrightarrow> governed h c s s'"
  by (auto simp: rg_pause_def rg_unpause_def add_payment_authority_def remove_payment_authority_def
      assert_admin_def wiring_def config_ok_def intro!: governedI split: if_splits)

lemma update_fee_config_governed: "update_fee_config c f s = Inr (s', evs, v) \<Longrightarrow> governed h c s s'"
  by (rule governedI) (auto simp: update_fee_config_def assert_admin_def wiring_def config_ok_def
      fees_ok_def split: if_splits)

lemma set_parked_governed: "set_parked_signer_pubkey h c k s = Inr (s', evs, v) \<Longrightarrow> governed h c s s'"
  by (rule governedI) (auto simp: set_parked_signer_pubkey_def assert_admin_def wiring_def config_ok_def
      split: if_splits)

lemma allowlist_governed:
  "add_ft_allowlist c a s = Inr (s', evs, v) \<Longrightarrow> governed h c s s'"
  "remove_ft_allowlist c a s = Inr (s', evs, v) \<Longrightarrow> governed h c s s'"
  using iset.length_ins [of "rg_ft_allowlist s" a] iset.length_rem [of "rg_ft_allowlist s" a]
  by (auto simp: add_ft_allowlist_def remove_ft_allowlist_def assert_admin_def config_ok_def
      wiring_def iset_keeps split: if_splits intro!: governedI)

lemma admins_governed:
  assumes "rg_add_admin c a s = Inr (s', evs, v) \<or> rg_remove_admin c a s = Inr (s', evs, v)"
  shows "governed h c s s'"
proof (rule governedI)
  show "predecessor_account_id c \<in> set (rg_admins s)"
    using assms rg_admin.add_ok rg_admin.remove_ok by blast
  from assms have s': "s' = s\<lparr>rg_admins := rg_admins s'\<rparr>"
    by (auto simp: rg_add_admin_def rg_remove_admin_def split: if_splits)
  show "wiring s' = wiring s" by (subst s') (simp add: wiring_def)
  assume ok: "config_ok h s"
  then have "admins_ok (rg_admins s)" by (simp add: config_ok_def)
  then have "admins_ok (rg_admins s')"
    using assms rg_admin.add_keeps rg_admin.remove_keeps by blast
  with ok show "config_ok h s'" by (subst s') (simp add: config_ok_def)
qed

lemmas user_governed = user_config set_mother_config reclaim_finalize_config buy_config rent_config
  tla_calls_config

lemmas call_governed = switch_governed update_fee_config_governed set_parked_governed allowlist_governed
  admins_governed [OF disjI1] admins_governed [OF disjI2]
  admin_same_config [THEN same_config_governed] user_governed [THEN same_config_governed]

lemma rg_method_governed:
  assumes "rg_method h c call s = Inr (s', evs, reply)"
  shows "governed h c s s'"
  by (cases call) (use assms in \<open>auto\<close>, (erule call_governed)+)

interpretation rg_config: invariant_step "rg_exec h" "\<lambda>_. True" "config_ok h" for h
  using rg_method_governed by unfold_locales (auto simp: rg_exec_def governed_def)

lemma settle_failed_mint_config:
  "settle_failed_mint key t a n reason s = (s', evs) \<Longrightarrow> same_config s s'"
  by (auto simp: settle_failed_mint_def config_defs Let_def)

lemma record_rental_config:
  "record_rental key a rent att s = Inr (s', x) \<Longrightarrow> same_config s s'"
  "record_paid_rental key a att s = Inr (s', x) \<Longrightarrow> same_config s s'"
  by (auto simp: record_rental_def record_paid_rental_def config_defs Let_def split: option.splits)

lemma same_config_signer_pending: "same_config s (s'\<lparr>rg_signer_pending := m\<rparr>) = same_config s s'"
  by (simp add: config_defs)

lemma rg_deliver_config:
  assumes "rg_deliver h c cb r s = Inr (s', evs, reply)"
  shows "same_config s s'"
proof (cases cb)
  case (OnSubAccountCreated t n p k rent att)
  with assms show ?thesis
    by (auto simp: on_sub_account_created_def same_config_signer_pending Let_def
        intro: settle_failed_mint_config record_rental_config
        split: rg_result.splits sum.splits MintOutcome.splits prod.splits)
next
  case (OnSubAccountCreatedPaid t n p k rent att)
  with assms show ?thesis
    by (auto simp: on_sub_account_created_paid_def same_config_signer_pending Let_def
        intro: settle_failed_mint_config record_rental_config
        split: rg_result.splits sum.splits MintOutcome.splits prod.splits)
next
  case (OnSubAccountReRented t n p rent att)
  with assms show ?thesis
    by (auto simp: on_sub_account_re_rented_def Let_def intro: settle_failed_mint_config
        split: rg_result.splits option.splits prod.splits if_splits) (auto simp: config_defs)
next
  case (OnReRentBalancesChecked pend al)
  with assms show ?thesis
    by (auto simp: on_re_rent_balances_checked_def Let_def intro: settle_failed_mint_config
        split: rg_result.splits BalanceGate.splits prod.splits)
next
  case (OnSubAccountSold t n b p d)
  with assms show ?thesis
    by (auto simp: on_sub_account_sold_def config_defs Let_def
        split: rg_result.splits option.splits prod.splits if_splits)
next
  case (OnReclaimFinalized t n d)
  with assms show ?thesis
    by (auto simp: on_reclaim_finalized_def config_defs Let_def
        split: rg_result.splits option.splits if_splits)
qed (use assms in \<open>auto simp: config_defs on_claim_refund_settled_def on_retry_signer_settled_def
    on_sub_account_sold_paid_def on_listing_verified_def on_offer_verified_def on_buy_balances_checked_def
    abort_sale_def on_buy_paid_balances_checked_def on_balances_checked_def Let_def
    split: rg_result.splits option.splits if_splits sum.splits BalanceGate.splits\<close>)

text \<open>C23: Only admins configure the registry, and nobody rewires it. No method call, an admin's
  included, and no callback changes the wiring (the extension, the signer and the grace period). A
  call of anyone who is not an admin, and any callback, also leaves the admins, the payment
  authorities, the fees, the token allowlist, the key for parked names and the pause switch as they
  are.\<close>

theorem only_admins_configure:
  "(rg_method h c call s = Inr (s', evs, reply) \<longrightarrow> wiring s' = wiring s \<and>
     (predecessor_account_id c \<notin> set (rg_admins s) \<longrightarrow>
       rg_admins s' = rg_admins s \<and> rg_payment_authorities s' = rg_payment_authorities s \<and>
       rg_fee_config s' = rg_fee_config s \<and> rg_ft_allowlist s' = rg_ft_allowlist s \<and>
       rg_parked_signer_pubkey s' = rg_parked_signer_pubkey s \<and> rg_paused s' = rg_paused s)) \<and>
   (rg_deliver h c cb r s = Inr (s', evs, reply) \<longrightarrow> wiring s' = wiring s \<and>
     rg_admins s' = rg_admins s \<and> rg_payment_authorities s' = rg_payment_authorities s \<and>
     rg_fee_config s' = rg_fee_config s \<and> rg_ft_allowlist s' = rg_ft_allowlist s \<and>
     rg_parked_signer_pubkey s' = rg_parked_signer_pubkey s \<and> rg_paused s' = rg_paused s)"
  using rg_method_governed [of h c call s s' evs reply] rg_deliver_config [of h c cb r s s' evs reply]
  by (auto simp: governed_def same_config_def)

theorem only_admins_configure_witness:
  "rg_fee_config demo_minting = rg_fee_config demo_open \<and>
   wiring (demo_minting\<lparr>rg_fee_config := demo_lowered\<rparr>) = wiring demo_minting"
proof
  show "rg_fee_config demo_minting = rg_fee_config demo_open"
    using only_admins_configure [THEN conjunct1, THEN mp, OF demo_rented]
    by (auto simp: demo_open_def demo_new_def)
  show "wiring (demo_minting\<lparr>rg_fee_config := demo_lowered\<rparr>) = wiring demo_minting"
    using only_admins_configure [THEN conjunct1, THEN mp, OF demo_fee_update] by blast
qed

text \<open>C24: The configuration is well formed in every world reachable from a fresh contract: at least one
  admin and no repetitions, an allowlist of at most sixteen distinct tokens, fees that charge
  something, a commission of at most the whole price, an ed25519 key for parked names, and the
  extension, the signer and the grace period that were given at the start.\<close>

theorem registry_config_invariant:
  assumes "rg_new h c a e g k p = Inr s0"
    and "rtranclp (reg_step h calm refunded) \<lparr>wd_reg = s0, wd_flights = [], wd_held = n\<rparr> w"
  shows "config_ok h (wd_reg w) \<and> wiring (wd_reg w) = (e, g, p)"
  using assms(2)
proof (induction rule: rtranclp_induct)
  case base
  from assms(1) show ?case
    by (auto simp: rg_new_def config_ok_def wiring_def admins_ok_def iset_insert_def fees_ok_def
        default_fee_config_def ONE_NEAR_def split: if_splits)
next
  case (step w w')
  from step(2) have "wiring (wd_reg w') = wiring (wd_reg w) \<and> (config_ok h (wd_reg w) \<longrightarrow> config_ok h (wd_reg w'))"
    by cases (auto dest!: rg_method_governed rg_deliver_config simp: governed_def same_config_ok
        dest: same_config_def [THEN iffD1])
  with step(3) show ?case by simp
qed

theorem registry_config_invariant_witness:
  "config_ok demo_host demo_minting \<and> wiring demo_minting = (''ext.near'', ''signer.near'', 86400000000000)"
  using registry_config_invariant [OF demo_new_made demo_to_minting] by simp

section \<open>Pause\<close>

lemma paused_user:
  assumes "rg_paused s"
  shows "rent_sub_account h c t n k w s = Inl Paused" "rent_sub_account_paid h c t n k w s = Inl Paused"
    "activate_tla c t s = Inl Paused" "renew_tla c t s = Inl Paused" "renew_sub_account c t n s = Inl Paused"
    "retry_signer_install h c t n s = Inl Paused" "buy_sub_account h c t n k s = Inl Paused"
    "buy_sub_account_paid h c t n b k s = Inl Paused" "reclaim_sweep_ft h c t n a y bh s = Inl Paused"
    "reclaim_finalize h c t n s = Inl Paused"
    "set_mother c a s \<noteq> Inr x" "schedule_retraction c t n s \<noteq> Inr x"
    "cancel_retraction c t n s \<noteq> Inr x" "set_main_wallet c t n w s \<noteq> Inr x"
    "unlist_sub_account c t n s \<noteq> Inr x" "revoke_offer c t n s \<noteq> Inr x"
    "list_sub_account h c t n pr k s \<noteq> Inr z" "accept_offer h c t n b pr k s \<noteq> Inr z"
  using assms
  by (simp_all add: rent_sub_account_def rent_sub_account_paid_def activate_tla_def renew_tla_def
      renew_sub_account_def retry_signer_install_def buy_sub_account_def buy_sub_account_paid_def
      reclaim_sweep_ft_def reclaim_finalize_def set_mother_def schedule_retraction_def
      cancel_retraction_def set_main_wallet_def unlist_sub_account_def revoke_offer_def
      list_sub_account_def accept_offer_def assert_listable_def assert_not_paused_def assert_one_yocto_def
      check_def)

lemma outsider_admin:
  assumes "predecessor_account_id c \<notin> set (rg_admins s)"
  shows "assert_admin c s = Inl OnlyAdmin"
  using assms by (simp add: assert_admin_def)

lemmas admin_call_defs = rg_pause_def rg_unpause_def register_tla_def suspend_tla_def unsuspend_tla_def
  rg_add_admin_def rg_remove_admin_def add_payment_authority_def remove_payment_authority_def
  update_fee_config_def set_parked_signer_pubkey_def withdraw_def add_ft_allowlist_def
  remove_ft_allowlist_def activate_open_tla_def admin_clear_settling_def admin_clear_reclaim_pending_def
  admin_clear_mother_def set_business_sub_cap_def

text \<open>C25: A paused registry refuses everybody but its admins. While it is paused every call fails, except
  the calls of admins and \<open>claim_refund\<close>, which lets users take out what they are owed.\<close>

theorem paused_registry_refuses:
  assumes "rg_paused s" and "predecessor_account_id c \<notin> set (rg_admins s)" and "call \<noteq> K_ClaimRefund"
  shows "\<exists>e. rg_method h c call s = Inl e"
  using assms(3)
  by (cases call) (auto simp: paused_user [OF assms(1)] outsider_admin [OF assms(2)] admin_call_defs
      non_payable_def map_reply_def split: sum.split)

theorem paused_registry_refuses_witness:
  "\<exists>e. rg_method demo_host (paying ''bob.near'' 1) (K_SetMainWallet ''tla'' ''joe'' ''vault.near'')
     (demo_minting\<lparr>rg_paused := True\<rparr>) = Inl e"
  by (rule paused_registry_refuses) (simp_all add: demo_minting_def demo_open_def demo_new_def)

section \<open>Reclaim\<close>

lemma resolve_reclaimable_Inr:
  "resolve_reclaimable h c t key s = Inr (a, d) \<Longrightarrow> a = key \<and>
     (\<exists>sub tla. rg_sub_accounts s key = Some sub \<and> sa_tla_id sub = t \<and> tla_of s t = Some tla \<and>
        d = sa_main_wallet sub \<and>
        effective_sub_lifecycle c sub tla (fc_retraction_notice_ns (rg_fee_config s)) (rg_grace_period_ns s)
          = LcReclaimable \<and>
        (if rg_mothers s (sa_owner sub) = Some key then get_or 0 (rg_mother_use_count s) key \<le> 1
         else get_or 0 (rg_mother_use_count s) key = 0))"
  by (auto simp: resolve_reclaimable_def Let_def word_gt_0 sat_sub_def split: if_splits option.splits)

definition no_park :: "rg_promise \<Rightarrow> bool" where
  "no_park p \<longleftrightarrow> list_all (\<lambda>cb. case cb of OnReclaimFinalized t n d \<Rightarrow> False | _ \<Rightarrow> True) (callbacks_of p)"

lemma no_park_callback: "no_park p \<Longrightarrow> OnReclaimFinalized t n d \<notin> set (callbacks_of p)"
  by (auto simp: no_park_def list_all_iff)

lemma fanout_then:
  fixes q :: "'a promise"
  shows
  "callbacks_of (case ft_balance_fanout al x of None \<Rightarrow> q | Some chain \<Rightarrow> ThenP chain cb g) =
     (if al = [] then callbacks_of q else [cb])"
  "static_gas (case ft_balance_fanout al x of None \<Rightarrow> q | Some chain \<Rightarrow> ThenP chain cb g) =
     (if al = [] then static_gas q else GAS_PER_FT_BALANCE * length al + g)"
proof -
  have none: "ft_balance_fanout al x = (None :: 'a promise option) \<longleftrightarrow> al = []"
    by (simp add: ft_balance_fanout_def split: list.split)
  show "callbacks_of (case ft_balance_fanout al x of None \<Rightarrow> q | Some chain \<Rightarrow> ThenP chain cb g) =
      (if al = [] then callbacks_of q else [cb])"
    by (cases "ft_balance_fanout al x :: 'a promise option") (use none fanout_Some in \<open>auto\<close>)
  show "static_gas (case ft_balance_fanout al x of None \<Rightarrow> q | Some chain \<Rightarrow> ThenP chain cb g) =
      (if al = [] then static_gas q else GAS_PER_FT_BALANCE * length al + g)"
    by (cases "ft_balance_fanout al x :: 'a promise option") (use none fanout_Some in \<open>auto\<close>)
qed

lemma market_no_park:
  "claim_refund c s = Inr (s', evs, p) \<Longrightarrow> no_park p"
  "retry_signer_install h c t n s = Inr (s', evs, p) \<Longrightarrow> no_park p"
  "list_sub_account h c t n pr k s = Inr (s', evs, p) \<Longrightarrow> no_park p"
  "accept_offer h c t n b pr k s = Inr (s', evs, p) \<Longrightarrow> no_park p"
  "reclaim_sweep_ft h c t n a x bh s = Inr (s', evs, p) \<Longrightarrow> no_park p"
  by (auto simp: claim_refund_def retry_signer_install_def list_sub_account_def accept_offer_def
      reclaim_sweep_ft_def no_park_def Let_def split: if_splits)

lemma buy_no_park:
  "buy_sub_account h c t n k s = Inr (s', evs, p) \<Longrightarrow> no_park p"
  "buy_sub_account_paid h c t n b k s = Inr (s', evs, p) \<Longrightarrow> no_park p"
  by (auto dest!: buy_sub_account_Inr buy_sub_account_paid_Inr
      simp: no_park_def settle_transfer_def settle_transfer_paid_def Let_def fanout_then)

lemma rent_no_park:
  assumes "rent_sub_account h c t n k w s = Inr (s', evs, p)"
  shows "no_park p"
  using rent_sub_account_Inr [OF assms]
  by (elim exE conjE) (auto simp: no_park_def re_rent_transfer_def Let_def fanout_then split: if_splits)

lemma rent_paid_no_park:
  assumes "rent_sub_account_paid h c t n k w s = Inr (s', evs, p)"
  shows "no_park p"
  using rent_sub_account_paid_Inr [OF assms] by (elim exE conjE) (simp add: no_park_def)

lemma method_park:
  assumes "rg_method h c call s = Inr (s', evs, PromiseR p)"
    and "OnReclaimFinalized t n d \<in> set (callbacks_of p)"
  shows "call = K_ReclaimFinalize t n"
proof (cases "\<exists>t' n'. call = K_ReclaimFinalize t' n'")
  case True
  then obtain t' n' where call: "call = K_ReclaimFinalize t' n'" by blast
  with assms show ?thesis
    by (auto simp: reclaim_finalize_def park_wallet_def Let_def
        split: if_splits option.splits) (auto dest!: fanout_Some)
next
  case False
  have "no_park p"
    by (cases call) (use assms(1) False in \<open>auto\<close>, (erule market_no_park buy_no_park rent_no_park rent_paid_no_park)+)
  with assms(2) show ?thesis using no_park_callback by blast
qed

lemma deliver_park:
  assumes "rg_deliver h c cb r s = Inr (s', evs, PromiseR p)"
    and "OnReclaimFinalized t n d \<in> set (callbacks_of p)"
  shows "\<exists>al rs. cb = OnBalancesChecked t n d al \<and> r = Balances rs"
  using assms
  by (cases cb) (auto simp: on_re_rent_balances_checked_def re_rent_transfer_def on_buy_balances_checked_def
      abort_sale_def settle_transfer_def on_buy_paid_balances_checked_def settle_transfer_paid_def
      on_balances_checked_def park_wallet_def Let_def
      split: rg_result.splits BalanceGate.splits prod.splits if_splits sum.splits)

text \<open>C14: A name is parked only when it is due. Whenever a call or a callback of the registry starts the
  transfer of a wallet to the parking key, at that moment the name exists under that TLA, no sale
  of it is settling, no other account uses it as its mother, and its time is up: its own expiry and
  grace period have passed, or those of its active TLA, or a scheduled retraction has run out its
  notice. The callback moreover saw verified zero balances for the whole allowlist.\<close>

theorem parked_only_when_due:
  assumes "rg_method h c call s = Inr (s', evs, PromiseR p) \<or>
      rg_deliver h c cb r s = Inr (s', evs, PromiseR p)"
    and "OnReclaimFinalized t n d \<in> set (callbacks_of p)"
  shows "\<exists>sub tla. rg_sub_accounts s (sub_account_key t n) = Some sub \<and> sa_tla_id sub = t \<and>
    tla_of s t = Some tla \<and> \<not> settling s (sub_account_key t n) \<and>
    (if rg_mothers s (sa_owner sub) = Some (sub_account_key t n)
     then get_or 0 (rg_mother_use_count s) (sub_account_key t n) \<le> 1
     else get_or 0 (rg_mother_use_count s) (sub_account_key t n) = 0) \<and>
    (sat_add (sa_expires_at sub) (rg_grace_period_ns s) \<le> block_timestamp c \<or>
     te_status tla = StActive \<and> sat_add (te_expires_at tla) (rg_grace_period_ns s) \<le> block_timestamp c \<or>
     (\<exists>at. sa_retraction_at sub = Some at \<and>
        sat_add at (fc_retraction_notice_ns (rg_fee_config s)) \<le> block_timestamp c))"
proof -
  have "\<exists>a d. resolve_reclaimable h c t (sub_account_key t n) s = Inr (a, d) \<and>
      \<not> settling s (sub_account_key t n)"
  proof (rule disjE [OF assms(1)])
    assume call: "rg_method h c call s = Inr (s', evs, PromiseR p)"
    with method_park [OF this assms(2)] show ?thesis
      by (auto simp: reclaim_finalize_def settling_iff Let_def split: if_splits)
  next
    assume del: "rg_deliver h c cb r s = Inr (s', evs, PromiseR p)"
    with deliver_park [OF this assms(2)] show ?thesis
      by (auto simp: on_balances_checked_def Let_def split: if_splits BalanceGate.splits sum.splits)
  qed
  then obtain a d' where rr: "resolve_reclaimable h c t (sub_account_key t n) s = Inr (a, d')"
    and idle: "\<not> settling s (sub_account_key t n)" by blast
  from resolve_reclaimable_Inr [OF rr] idle show ?thesis unfolding effective_reclaimable by blast
qed

definition demo_late :: ctx where
  "demo_late = (called_by ''eve.near'')\<lparr>block_timestamp := 40000000000000000\<rparr>"

lemma demo_reclaim:
  "rg_method demo_host demo_late (K_ReclaimFinalize ''tla'' ''joe'') demo_minting =
     Inr (demo_minting\<lparr>rg_reclaim_pending := [''joe.tla'' \<mapsto> True]\<rparr>, [],
       PromiseR (ThenP (CallP ''ext.near'' (ForceTransfer ''joe.tla'' (demo_key 9) None) 0
         GAS_FOR_HOS_FORCE_TRANSFER) (OnReclaimFinalized ''tla'' ''joe'' ''bob.near'') GAS_FOR_FINALIZE_CB))"
  by (simp add: reclaim_finalize_def assert_not_paused_def validate_name_def name_char_def sub_account_key_def
      assert_sale_idle_def resolve_reclaimable_def demo_host_def tla_of_def effective_sub_lifecycle_def
      tla_lifecycle_def time_lifecycle_def sat_add_def ft_balance_fanout_def park_wallet_def
      non_payable_def demo_late_def demo_minting_def demo_open_def demo_new_def demo_tla_def demo_sub_def Let_def)

theorem parked_only_when_due_witness:
  "\<exists>sub. rg_sub_accounts demo_minting ''joe.tla'' = Some sub \<and> sa_tla_id sub = ''tla'' \<and>
     \<not> settling demo_minting ''joe.tla''"
  using parked_only_when_due [OF disjI1, OF demo_reclaim, of "''tla''" "''joe''" "''bob.near''"]
  by (auto simp: sub_account_key_def)

section \<open>Renewal\<close>

text \<open>C27: A renewal is a full year. A renewal of a sub-account succeeds only for its owner, before the
  grace period ends and with no retraction pending; it adds exactly one year to the later of the
  current time and the old expiry (stopping at the largest 64-bit time), the name is active
  afterwards, and the revenue grows by the rent.\<close>

theorem renewal_full_year:
  assumes "rg_method h c (K_RenewSubAccount t n) s = Inr (s', evs, reply)"
  shows "\<exists>e e' tla. rg_sub_accounts s (sub_account_key t n) = Some e \<and>
    rg_sub_accounts s' (sub_account_key t n) = Some e' \<and> tla_of s t = Some tla \<and>
    predecessor_account_id c = sa_owner e \<and> sa_retraction_at e = None \<and>
    block_timestamp c < sat_add (sa_expires_at e) (rg_grace_period_ns s) \<and>
    unat (sa_expires_at e') =
      min (max (unat (block_timestamp c)) (unat (sa_expires_at e)) + 31536000000000000) (2 ^ 64 - 1) \<and>
    sub_lifecycle c e' (rg_grace_period_ns s') = LcActive \<and>
    rg_total_revenue s' = sat_add (rg_total_revenue s) (calculate_rent tla t n (rg_fee_config s))"
proof -
  from assms obtain v where "renew_sub_account c t n s = Inr (s', evs, v)" by auto
  from renew_sub_account_Inr [OF this] obtain e tla where
    pre: "rg_sub_accounts s (sub_account_key t n) = Some e" "tla_of s t = Some tla"
      "predecessor_account_id c = sa_owner e" "sa_retraction_at e = None"
      "block_timestamp c < sat_add (sa_expires_at e) (rg_grace_period_ns s)"
    and s': "s' = refund_excess (predecessor_account_id c) (attached_deposit c)
         (calculate_rent tla t n (rg_fee_config s))
         (s\<lparr>rg_sub_accounts := (rg_sub_accounts s)(sub_account_key t n \<mapsto>
             e\<lparr>sa_expires_at := sat_add (max (block_timestamp c) (sa_expires_at e)) ONE_YEAR_NS\<rparr>),
           rg_total_revenue := sat_add (rg_total_revenue s) (calculate_rent tla t n (rg_fee_config s))\<rparr>)"
    by blast
  let ?x = "sat_add (max (block_timestamp c) (sa_expires_at e)) ONE_YEAR_NS"
  have "unat (max (block_timestamp c) (sa_expires_at e)) = max (unat (block_timestamp c)) (unat (sa_expires_at e))"
    by (simp add: max_def word_le_nat_alt)
  then have x: "unat ?x =
      min (max (unat (block_timestamp c)) (unat (sa_expires_at e)) + 31536000000000000) (2 ^ 64 - 1)"
    by (simp add: unat_sat_add ONE_YEAR_NS_def)
  have "unat (block_timestamp c) < 2 ^ 64 - 1"
    using pre(5) unat_le_max [of "sat_add (sa_expires_at e) (rg_grace_period_ns s)"]
    by (simp add: word_less_nat_alt)
  then have "block_timestamp c < ?x" unfolding word_less_nat_alt x by auto
  then have "time_lifecycle c ?x (rg_grace_period_ns s') = LcActive" by (simp add: time_lifecycle_def)
  with pre x show ?thesis
    by (intro exI [of _ e] exI [of _ "e\<lparr>sa_expires_at := ?x\<rparr>"] exI [of _ tla])
      (simp add: s' sub_lifecycle_def)
qed

lemma demo_renewed:
  "\<exists>s' evs. rg_method demo_host (paying ''bob.near'' (30 * ONE_NEAR)) (K_RenewSubAccount ''tla'' ''joe'')
     demo_minting = Inr (s', evs, ValueR ())"
  by (simp add: renew_sub_account_def assert_not_paused_def sub_account_key_def tla_of_def
      calculate_rent_def total_name_length_def sub_account_rent_def base_rent_def tla_lifecycle_def
      time_lifecycle_def sat_add_def sat_mul_def demo_minting_def demo_open_def demo_new_def demo_tla_def
      demo_sub_def default_fee_config_def ONE_NEAR_def Let_def)

theorem renewal_full_year_witness:
  "\<exists>s' evs e'. rg_method demo_host (paying ''bob.near'' (30 * ONE_NEAR)) (K_RenewSubAccount ''tla'' ''joe'')
     demo_minting = Inr (s', evs, ValueR ()) \<and> rg_sub_accounts s' ''joe.tla'' = Some e' \<and>
     unat (sa_expires_at e') = 63073000000000000"
proof -
  from demo_renewed obtain s' evs where r: "rg_method demo_host (paying ''bob.near'' (30 * ONE_NEAR))
      (K_RenewSubAccount ''tla'' ''joe'') demo_minting = Inr (s', evs, ValueR ())" by blast
  from renewal_full_year [OF r] r show ?thesis
    by (auto simp: demo_minting_def demo_sub_def sub_account_key_def)
qed

end
