(* ===== verification/Hos_Extension.thy ===== *)
theory Hos_Extension
  imports Near_Calls
begin

text \<open>
  The contract \<open>hos-extension\<close> (\<open>src/contracts/hos-extension/src\<close>: \<open>lib.rs\<close>, \<open>events.rs\<close>,
  \<open>error.rs\<close>): the marketplace authority of \<open>active-signer\<close>. It forwards forced owner swaps and
  token sweeps that the registry asks for. Fields carry the prefix \<open>hx_\<close>, events the prefix
  \<open>H_\<close>. A promise that a method creates and drops is dispatched all the same; the value of such
  a method is paired with the list of the promises it detached.
\<close>

section \<open>Data\<close>

datatype hx_error =
    HxOnlyAdmin | HxOnlyRegistry | HxPaused | HxCannotRemoveLastAdmin | HxInsufficientDeposit
  | HxInsufficientBalance | HxNotEd25519 | HxPrivate | HxNoDeposit

datatype hx_event =
    H_ContractPaused AccountId
  | H_ContractUnpaused AccountId
  | H_AdminAdded AccountId AccountId
  | H_AdminRemoved AccountId AccountId
  | H_ForceTransferRequested AccountId PublicKey AccountId
  | H_ForceTransferCompleted AccountId
  | H_ForceTransferVoided AccountId
  | H_BalanceSkimmed u128 AccountId AccountId
  | H_SweepRequested AccountId AccountId AccountId AccountId
  | H_SweepDispatched AccountId AccountId AccountId u128
  | H_SweepSkipped AccountId AccountId string
  | H_SweepFailed AccountId AccountId string

definition HX_CONTRACT_VERSION :: u8 where "HX_CONTRACT_VERSION = 1"
definition GAS_FOR_SWAP_OWNER :: nat where "GAS_FOR_SWAP_OWNER = 8"
definition GAS_FOR_SWAP_CB :: nat where "GAS_FOR_SWAP_CB = 10"
definition GAS_FOR_RESET :: nat where "GAS_FOR_RESET = 5"
definition GAS_FOR_BALANCE_QUERY :: nat where "GAS_FOR_BALANCE_QUERY = 5"
definition GAS_FOR_BALANCE_CB :: nat where "GAS_FOR_BALANCE_CB = 105"
definition GAS_FOR_STORAGE_DEPOSIT :: nat where "GAS_FOR_STORAGE_DEPOSIT = 10"
definition GAS_FOR_STORAGE_CB :: nat where "GAS_FOR_STORAGE_CB = 90"
definition GAS_FOR_AUTHORITY_SIGN :: nat where "GAS_FOR_AUTHORITY_SIGN = 75"
definition GAS_FOR_SETTLE_CB :: nat where "GAS_FOR_SETTLE_CB = 8"
definition GAS_FOR_FT_TRANSFER :: u64 where "GAS_FOR_FT_TRANSFER = 10000000000000"
definition STORAGE_DEPOSIT_AMOUNT :: u128 where "STORAGE_DEPOSIT_AMOUNT = FT_STORAGE_DEPOSIT_YOCTO"
definition MIN_SWEEP_ATTACHED :: u128 where "MIN_SWEEP_ATTACHED = FT_STORAGE_DEPOSIT_YOCTO + 1"
definition ONE_YOCTO :: u128 where "ONE_YOCTO = 1"

record HosExtension =
  hx_admins :: "AccountId list"
  hx_registry :: AccountId
  hx_active_signer :: AccountId
  hx_recovery :: AccountId
  hx_paused :: bool
  hx_version :: u8

datatype hx_callback =
    AfterForceSwap AccountId
  | AfterBalanceForSweep AccountId AccountId AccountId u64 "byte list"
  | AfterStorageForSweep AccountId AccountId AccountId u128 u64 "byte list"
  | AfterSweepSettled AccountId AccountId AccountId u128

type_synonym 'r hx_outcome = "(hx_error, HosExtension, hx_event, 'r) outcome"

type_synonym hx_sweep_reply = "(hx_callback, json option) promise_or_value \<times> hx_callback promise list"

section \<open>Helpers\<close>

definition hx_assert_admin :: "ctx \<Rightarrow> HosExtension \<Rightarrow> hx_error + unit" where
  "hx_assert_admin c s =
     (if predecessor_account_id c \<notin> set (hx_admins s) then Inl HxOnlyAdmin else Inr ())"

definition hx_assert_registry :: "ctx \<Rightarrow> HosExtension \<Rightarrow> hx_error + unit" where
  "hx_assert_registry c s =
     (if predecessor_account_id c \<noteq> hx_registry s then Inl HxOnlyRegistry else Inr ())"

definition hx_assert_not_paused :: "HosExtension \<Rightarrow> hx_error + unit" where
  "hx_assert_not_paused s = (if hx_paused s then Inl HxPaused else Inr ())"

definition refund_registry :: "HosExtension \<Rightarrow> u128 \<Rightarrow> hx_callback promise" where
  "refund_registry s amount = BatchP (hx_registry s) [TransferNear amount]"

definition abort_and_refund :: "HosExtension \<Rightarrow> hx_event \<Rightarrow> hx_sweep_reply hx_outcome" where
  "abort_and_refund s event = Inr (s, [event], (ValueR None, [refund_registry s MIN_SWEEP_ATTACHED]))"

definition hx_ed25519_base58 :: "host \<Rightarrow> PublicKey \<Rightarrow> hx_error + string" where
  "hx_ed25519_base58 h key = (case ed25519_base58 h key of Some s \<Rightarrow> Inr s | None \<Rightarrow> Inl HxNotEd25519)"

definition sweep_action :: "host \<Rightarrow> AccountId \<Rightarrow> u128 \<Rightarrow> TxAction" where
  "sweep_action h destination amount =
     (let args = str_bytes (json_to_string h (JObj [(''receiver_id'', JStr destination),
            (''amount'', JStr (nat_to_string (unat amount))), (''memo'', JStr ''hos-tla reclaim'')]))
      in FunctionCall ''ft_transfer'' args GAS_FOR_FT_TRANSFER ONE_YOCTO)"

section \<open>Calls\<close>

definition hx_new :: "AccountId \<Rightarrow> AccountId \<Rightarrow> AccountId \<Rightarrow> AccountId \<Rightarrow> HosExtension" where
  "hx_new admin registry active_signer recovery =
     \<lparr>hx_admins = iset_insert admin [], hx_registry = registry, hx_active_signer = active_signer,
      hx_recovery = recovery, hx_paused = False, hx_version = HX_CONTRACT_VERSION\<rparr>"

definition hx_pause :: "ctx \<Rightarrow> HosExtension \<Rightarrow> unit hx_outcome" where
  "hx_pause c s = (case hx_assert_admin c s of
     Inl e \<Rightarrow> Inl e
   | Inr _ \<Rightarrow> Inr (s\<lparr>hx_paused := True\<rparr>, [H_ContractPaused (predecessor_account_id c)], ()))"

definition hx_unpause :: "ctx \<Rightarrow> HosExtension \<Rightarrow> unit hx_outcome" where
  "hx_unpause c s = (case hx_assert_admin c s of
     Inl e \<Rightarrow> Inl e
   | Inr _ \<Rightarrow> Inr (s\<lparr>hx_paused := False\<rparr>, [H_ContractUnpaused (predecessor_account_id c)], ()))"

definition hx_add_admin :: "ctx \<Rightarrow> AccountId \<Rightarrow> HosExtension \<Rightarrow> unit hx_outcome" where
  "hx_add_admin c account s = (case hx_assert_admin c s of
     Inl e \<Rightarrow> Inl e
   | Inr _ \<Rightarrow> Inr (s\<lparr>hx_admins := iset_insert account (hx_admins s)\<rparr>,
       [H_AdminAdded account (predecessor_account_id c)], ()))"

definition hx_remove_admin :: "ctx \<Rightarrow> AccountId \<Rightarrow> HosExtension \<Rightarrow> unit hx_outcome" where
  "hx_remove_admin c account s = (case hx_assert_admin c s of
     Inl e \<Rightarrow> Inl e
   | Inr _ \<Rightarrow>
       if length (hx_admins s) \<le> 1 then Inl HxCannotRemoveLastAdmin
       else Inr (s\<lparr>hx_admins := iset_remove account (hx_admins s)\<rparr>,
         [H_AdminRemoved account (predecessor_account_id c)], ()))"

definition skim :: "ctx \<Rightarrow> u128 \<Rightarrow> AccountId \<Rightarrow> HosExtension \<Rightarrow> hx_callback promise hx_outcome" where
  "skim c amount dest s = (case hx_assert_admin c s of
     Inl e \<Rightarrow> Inl e
   | Inr _ \<Rightarrow>
       let reserve = sat_mul (storage_byte_cost c) (ucast (storage_usage c));
           available = sat_sub (account_balance c) reserve
       in if amount > available then Inl HxInsufficientBalance
          else Inr (s, [H_BalanceSkimmed amount dest (predecessor_account_id c)],
            BatchP dest [TransferNear amount]))"

definition force_transfer :: "host \<Rightarrow> ctx \<Rightarrow> AccountId \<Rightarrow> PublicKey \<Rightarrow> PublicKey option \<Rightarrow> HosExtension
    \<Rightarrow> hx_callback promise hx_outcome" where
  "force_transfer h c wallet new_public_key expected_current s = (case hx_assert_registry c s of
     Inl e \<Rightarrow> Inl e
   | Inr _ \<Rightarrow> (case hx_assert_not_paused s of
       Inl e \<Rightarrow> Inl e
     | Inr _ \<Rightarrow> (case hx_ed25519_base58 h new_public_key of
         Inl e \<Rightarrow> Inl e
       | Inr raw_key \<Rightarrow>
           (case (case expected_current of
                    Some key \<Rightarrow> map_sum id Some (hx_ed25519_base58 h key)
                  | None \<Rightarrow> Inr None) of
              Inl e \<Rightarrow> Inl e
            | Inr expected_raw \<Rightarrow>
                Inr (s, [H_ForceTransferRequested wallet new_public_key (predecessor_account_id c)],
                  ThenP (CallP (hx_active_signer s) (SwapOwner wallet raw_key expected_raw) 0
                           GAS_FOR_SWAP_OWNER)
                    (AfterForceSwap wallet) GAS_FOR_SWAP_CB)))))"

definition after_force_swap :: "AccountId \<Rightarrow> bool promise_result \<Rightarrow> HosExtension
    \<Rightarrow> (bool \<times> hx_callback promise list) hx_outcome" where
  "after_force_swap wallet swapped s =
     (let transferred = (case swapped of Inr True \<Rightarrow> True | _ \<Rightarrow> False)
      in if transferred
         then Inr (s, [H_ForceTransferCompleted wallet],
           (transferred, [CallP (hx_recovery s) (OnWalletTransferred wallet) 0 GAS_FOR_RESET]))
         else Inr (s, [H_ForceTransferVoided wallet], (transferred, [])))"

definition sweep_ft :: "ctx \<Rightarrow> AccountId \<Rightarrow> AccountId \<Rightarrow> AccountId \<Rightarrow> u64 \<Rightarrow> byte list \<Rightarrow> HosExtension
    \<Rightarrow> hx_callback promise hx_outcome" where
  "sweep_ft c wallet ft destination tx_nonce block_hash s = (case hx_assert_registry c s of
     Inl e \<Rightarrow> Inl e
   | Inr _ \<Rightarrow> (case hx_assert_not_paused s of
       Inl e \<Rightarrow> Inl e
     | Inr _ \<Rightarrow>
         if attached_deposit c \<noteq> MIN_SWEEP_ATTACHED then Inl HxInsufficientDeposit
         else Inr (s, [H_SweepRequested wallet ft destination (predecessor_account_id c)],
           ThenP (CallP ft (FtBalanceOf wallet) 0 GAS_FOR_BALANCE_QUERY)
             (AfterBalanceForSweep wallet ft destination tx_nonce block_hash) GAS_FOR_BALANCE_CB)))"

definition after_balance_for_sweep :: "AccountId \<Rightarrow> AccountId \<Rightarrow> AccountId \<Rightarrow> u64 \<Rightarrow> byte list
    \<Rightarrow> u128 promise_result \<Rightarrow> HosExtension \<Rightarrow> hx_sweep_reply hx_outcome" where
  "after_balance_for_sweep wallet ft destination tx_nonce block_hash balance s = (case balance of
     Inl _ \<Rightarrow> abort_and_refund s (H_SweepSkipped wallet ft ''balance_query_failed'')
   | Inr balance \<Rightarrow>
       if balance = 0 then abort_and_refund s (H_SweepSkipped wallet ft ''zero_balance'')
       else Inr (s, [], (PromiseR (ThenP
         (CallP ft (StorageDeposit (Some destination) (Some True)) STORAGE_DEPOSIT_AMOUNT
            GAS_FOR_STORAGE_DEPOSIT)
         (AfterStorageForSweep wallet ft destination balance tx_nonce block_hash) GAS_FOR_STORAGE_CB), [])))"

definition after_storage_for_sweep :: "host \<Rightarrow> AccountId \<Rightarrow> AccountId \<Rightarrow> AccountId \<Rightarrow> u128 \<Rightarrow> u64
    \<Rightarrow> byte list \<Rightarrow> bool \<Rightarrow> HosExtension \<Rightarrow> hx_sweep_reply hx_outcome" where
  "after_storage_for_sweep h wallet ft destination balance tx_nonce block_hash promise_success s =
     (if \<not> promise_success
      then abort_and_refund s (H_SweepFailed wallet ft ''storage_deposit_failed'')
      else
        let action = sweep_action h destination balance
        in Inr (s, [], (PromiseR (ThenP
             (CallP (hx_active_signer s) (AuthoritySignTx wallet ft [action] tx_nonce block_hash)
                ONE_YOCTO GAS_FOR_AUTHORITY_SIGN)
             (AfterSweepSettled wallet ft destination balance) GAS_FOR_SETTLE_CB), [])))"

definition after_sweep_settled :: "AccountId \<Rightarrow> AccountId \<Rightarrow> AccountId \<Rightarrow> u128 \<Rightarrow> json promise_result
    \<Rightarrow> HosExtension \<Rightarrow> json option hx_outcome" where
  "after_sweep_settled wallet ft destination amount result s = (case result of
     Inr value \<Rightarrow>
       if value \<noteq> JNull then Inr (s, [H_SweepDispatched wallet ft destination amount], Some value)
       else Inr (s, [H_SweepFailed wallet ft ''authority_sign_failed''], None)
   | Inl _ \<Rightarrow> Inr (s, [H_SweepFailed wallet ft ''authority_sign_failed''], None))"

section \<open>Views\<close>

definition hx_get_version :: "HosExtension \<Rightarrow> u8" where "hx_get_version s = hx_version s"
definition hx_is_paused :: "HosExtension \<Rightarrow> bool" where "hx_is_paused s = hx_paused s"
definition hx_get_admins :: "HosExtension \<Rightarrow> AccountId list" where "hx_get_admins s = hx_admins s"
definition get_registry :: "HosExtension \<Rightarrow> AccountId" where "get_registry s = hx_registry s"
definition hx_get_active_signer :: "HosExtension \<Rightarrow> AccountId" where
  "hx_get_active_signer s = hx_active_signer s"
definition get_recovery :: "HosExtension \<Rightarrow> AccountId" where "get_recovery s = hx_recovery s"
definition min_sweep_attached :: "HosExtension \<Rightarrow> u128" where "min_sweep_attached s = MIN_SWEEP_ATTACHED"

section \<open>The method table\<close>

datatype hx_call =
    X_Pause
  | X_Unpause
  | X_AddAdmin AccountId
  | X_RemoveAdmin AccountId
  | X_Skim u128 AccountId
  | X_ForceTransfer AccountId PublicKey "PublicKey option"
  | X_AfterForceSwap AccountId "bool promise_result"
  | X_SweepFt AccountId AccountId AccountId u64 "byte list"
  | X_AfterBalanceForSweep AccountId AccountId AccountId u64 "byte list" "u128 promise_result"
  | X_AfterStorageForSweep AccountId AccountId AccountId u128 u64 "byte list" bool
  | X_AfterSweepSettled AccountId AccountId AccountId u128 "json promise_result"

text \<open>The reply: the promise returned, if any, and the promises detached.\<close>

datatype hx_reply =
    X_Unit
  | X_Bool bool "hx_callback promise list"
  | X_Promise "hx_callback promise"
  | X_Value "json option" "hx_callback promise list"

primrec hx_reply_of :: "hx_sweep_reply \<Rightarrow> hx_reply" where
  "hx_reply_of (r, ps) = (case r of PromiseR p \<Rightarrow> X_Promise p | ValueR v \<Rightarrow> X_Value v ps)"

definition hx_private :: "ctx \<Rightarrow> 'r hx_outcome \<Rightarrow> 'r hx_outcome" where
  "hx_private c r = private_only HxPrivate c (non_payable HxNoDeposit c r)"

fun hx_exec :: "host \<Rightarrow> ctx \<times> hx_call \<Rightarrow> HosExtension \<Rightarrow> hx_reply hx_outcome" where
  "hx_exec h (c, X_Pause) s = non_payable HxNoDeposit c (map_reply (\<lambda>_. X_Unit) (hx_pause c s))"
| "hx_exec h (c, X_Unpause) s = non_payable HxNoDeposit c (map_reply (\<lambda>_. X_Unit) (hx_unpause c s))"
| "hx_exec h (c, X_AddAdmin a) s =
     non_payable HxNoDeposit c (map_reply (\<lambda>_. X_Unit) (hx_add_admin c a s))"
| "hx_exec h (c, X_RemoveAdmin a) s =
     non_payable HxNoDeposit c (map_reply (\<lambda>_. X_Unit) (hx_remove_admin c a s))"
| "hx_exec h (c, X_Skim n a) s = non_payable HxNoDeposit c (map_reply X_Promise (skim c n a s))"
| "hx_exec h (c, X_ForceTransfer w k e) s =
     non_payable HxNoDeposit c (map_reply X_Promise (force_transfer h c w k e s))"
| "hx_exec h (c, X_AfterForceSwap w r) s =
     hx_private c (map_reply (\<lambda>(b, ps). X_Bool b ps) (after_force_swap w r s))"
| "hx_exec h (c, X_SweepFt w f d n b) s = map_reply X_Promise (sweep_ft c w f d n b s)"
| "hx_exec h (c, X_AfterBalanceForSweep w f d n b r) s =
     hx_private c (map_reply hx_reply_of (after_balance_for_sweep w f d n b r s))"
| "hx_exec h (c, X_AfterStorageForSweep w f d m n b r) s =
     hx_private c (map_reply hx_reply_of (after_storage_for_sweep h w f d m n b r s))"
| "hx_exec h (c, X_AfterSweepSettled w f d m r) s =
     hx_private c (map_reply (\<lambda>v. X_Value v []) (after_sweep_settled w f d m r s))"

section \<open>What a successful call did\<close>

lemmas hx_asserts = hx_assert_admin_def hx_assert_registry_def hx_assert_not_paused_def

lemmas hx_admin_defs = hx_pause_def hx_unpause_def hx_add_admin_def hx_remove_admin_def skim_def
  hx_asserts

lemma hx_ed25519_base58_Inr [simp]: "hx_ed25519_base58 h k = Inr s \<longleftrightarrow> ed25519_base58 h k = Some s"
  by (simp add: hx_ed25519_base58_def split: option.splits)

lemma map_sum_Inr [simp]: "map_sum f g r = Inr y \<longleftrightarrow> (\<exists>x. r = Inr x \<and> y = g x)"
  by (cases r) auto

lemma force_transfer_Inr:
  "force_transfer h c w k ex s = Inr (s', evs, p) \<Longrightarrow>
     predecessor_account_id c = hx_registry s \<and> \<not> hx_paused s \<and> s' = s \<and>
     (\<exists>raw raw_ex. ed25519_base58 h k = Some raw \<and>
        (case ex of None \<Rightarrow> raw_ex = None
         | Some x \<Rightarrow> \<exists>y. ed25519_base58 h x = Some y \<and> raw_ex = Some y) \<and>
        p = ThenP (CallP (hx_active_signer s) (SwapOwner w raw raw_ex) 0 GAS_FOR_SWAP_OWNER)
              (AfterForceSwap w) GAS_FOR_SWAP_CB)"
  by (cases ex)
    (auto simp: force_transfer_def hx_asserts split: if_splits sum.splits option.splits)

lemma sweep_ft_Inr:
  "sweep_ft c w f d n b s = Inr (s', evs, p) \<Longrightarrow>
     predecessor_account_id c = hx_registry s \<and> \<not> hx_paused s \<and> s' = s \<and>
     attached_deposit c = MIN_SWEEP_ATTACHED \<and>
     p = ThenP (CallP f (FtBalanceOf w) 0 GAS_FOR_BALANCE_QUERY)
           (AfterBalanceForSweep w f d n b) GAS_FOR_BALANCE_CB"
  by (auto simp: sweep_ft_def hx_asserts split: if_splits)

interpretation hx_admin: admin_registry hx_admins hx_add_admin hx_remove_admin
  by unfold_locales (auto simp: hx_admin_defs split: if_splits)

end
