(* ===== verification/Tla_Manager.thy ===== *)
theory Tla_Manager
  imports Near_Calls
begin

text \<open>
  The contract \<open>tla-manager\<close> (\<open>src/contracts/tla-manager/src/lib.rs\<close>, \<open>error.rs\<close>,
  \<open>events.rs\<close>), deployed on every TLA account: it derives the MPC key of a new sub-account,
  creates and funds the account with that key and installs the renter's operating key in
  \<open>active-signer\<close>. Fields carry the prefix \<open>tm_\<close>, events the prefix \<open>T_\<close>. The account of the
  contract itself is \<open>current_account_id\<close>.
\<close>

section \<open>Data\<close>

datatype tm_error =
    ONLY_REGISTRY | INVALID_NAME | INSUFFICIENT_DEPOSIT | DERIVE_FAILED | TM_NOT_ED25519
  | TM_PRIVATE | TM_NO_DEPOSIT

datatype tm_event =
    T_SubAccountMinted AccountId string
  | T_MintFailed AccountId
  | T_SignerInstallFailed AccountId

definition TM_ED25519_DOMAIN :: nat where "TM_ED25519_DOMAIN = 1"
definition DERIVE_KEY_GAS :: nat where "DERIVE_KEY_GAS = 10"
definition ON_KEY_DERIVED_GAS :: nat where "ON_KEY_DERIVED_GAS = 75"
definition ON_RETRY_KEY_DERIVED_GAS :: nat where "ON_RETRY_KEY_DERIVED_GAS = 15"
definition INSTALL_SIGNER_GAS :: nat where "INSTALL_SIGNER_GAS = 10"
definition TM_CALLBACK_GAS :: nat where "TM_CALLBACK_GAS = 20"
definition ON_CREATED_GAS :: nat where "ON_CREATED_GAS = 50"

record TlaManager =
  tm_registry :: AccountId
  tm_active_signer :: AccountId
  tm_mpc_signer :: AccountId
  tm_min_balance :: u128

datatype tm_callback =
    OnKeyDerived AccountId PublicKey u128
  | OnWalletCreated AccountId PublicKey PublicKey u128
  | OnSignerSettled AccountId
  | OnCreationFailed
  | OnRetryKeyDerived AccountId PublicKey

type_synonym 'r tm_outcome = "(tm_error, TlaManager, tm_event, 'r) outcome"

section \<open>Helpers\<close>

definition derive_key :: "TlaManager \<Rightarrow> AccountId \<Rightarrow> tm_callback promise" where
  "derive_key s account =
     (let args = JObj [(''path'', JStr (mpc_path account)),
            (''predecessor'', JStr (tm_active_signer s)),
            (''domain_id'', JNum TM_ED25519_DOMAIN)]
      in CallP (tm_mpc_signer s) (JsonCall ''derived_public_key'' args) 0 DERIVE_KEY_GAS)"

definition refund_and_fail :: "TlaManager \<Rightarrow> u128 \<Rightarrow> (tm_callback, MintOutcome) promise_or_value" where
  "refund_and_fail s funding = PromiseR (ThenP (BatchP (tm_registry s) [TransferNear funding])
     OnCreationFailed TM_CALLBACK_GAS)"

section \<open>Calls\<close>

definition tm_new :: "AccountId \<Rightarrow> AccountId \<Rightarrow> AccountId \<Rightarrow> u128 \<Rightarrow> TlaManager" where
  "tm_new reg active_signer mpc_signer minimum =
     \<lparr>tm_registry = reg, tm_active_signer = active_signer, tm_mpc_signer = mpc_signer,
      tm_min_balance = minimum\<rparr>"

definition create_sub_account :: "host \<Rightarrow> ctx \<Rightarrow> string \<Rightarrow> PublicKey \<Rightarrow> TlaManager
    \<Rightarrow> tm_callback promise tm_outcome" where
  "create_sub_account h c name owner_public_key s =
     (if predecessor_account_id c \<noteq> tm_registry s then Inl ONLY_REGISTRY
      else if \<not> (name \<noteq> [] \<and> CHR ''.'' \<notin> set name) then Inl INVALID_NAME
      else if \<not> is_ed25519 h owner_public_key then Inl TM_NOT_ED25519
      else
        let funding = attached_deposit c
        in if \<not> funding \<ge> tm_min_balance s then Inl INSUFFICIENT_DEPOSIT
           else
             let account = name @ ''.'' @ current_account_id c
             in if \<not> valid_account_id h account then Inl INVALID_NAME
                else Inr (s, [], ThenP (derive_key s account)
                       (OnKeyDerived account owner_public_key funding) ON_KEY_DERIVED_GAS))"

definition derived_ed25519 :: "host \<Rightarrow> PublicKey promise_result \<Rightarrow> PublicKey option" where
  "derived_ed25519 h derived = (case derived of
     Inr key \<Rightarrow> if is_ed25519 h key then Some key else None | Inl _ \<Rightarrow> None)"

definition on_key_derived :: "host \<Rightarrow> AccountId \<Rightarrow> PublicKey \<Rightarrow> u128 \<Rightarrow> PublicKey promise_result
    \<Rightarrow> TlaManager \<Rightarrow> (tm_callback, MintOutcome) promise_or_value tm_outcome" where
  "on_key_derived h account owner_public_key funding derived s = (case derived_ed25519 h derived of
     None \<Rightarrow> Inr (s, [T_MintFailed account], refund_and_fail s funding)
   | Some mpc_public_key \<Rightarrow>
       Inr (s, [], PromiseR (ThenP
         (BatchP account [CreateAccount, TransferNear funding, AddFullAccessKey mpc_public_key])
         (OnWalletCreated account owner_public_key mpc_public_key funding) ON_CREATED_GAS)))"

definition on_wallet_created :: "host \<Rightarrow> AccountId \<Rightarrow> PublicKey \<Rightarrow> PublicKey \<Rightarrow> u128
    \<Rightarrow> unit promise_result \<Rightarrow> TlaManager \<Rightarrow> (tm_callback, MintOutcome) promise_or_value tm_outcome" where
  "on_wallet_created h account owner_public_key mpc_public_key funding result s =
     (if isl result then Inr (s, [T_MintFailed account], refund_and_fail s funding)
      else (case ed25519_base58_or_panic h TM_NOT_ED25519 owner_public_key of
              Inl e \<Rightarrow> Inl e
            | Inr key \<Rightarrow>
                Inr (s, [T_SubAccountMinted account (key_to_string h owner_public_key)],
                  PromiseR (ThenP
                    (CallP (tm_active_signer s) (InstallSigner account key mpc_public_key) 0
                       INSTALL_SIGNER_GAS)
                    (OnSignerSettled account) TM_CALLBACK_GAS))))"

definition on_signer_settled :: "AccountId \<Rightarrow> unit promise_result \<Rightarrow> TlaManager \<Rightarrow> MintOutcome tm_outcome" where
  "on_signer_settled account result s =
     (if is_ok result then Inr (s, [], Active)
      else Inr (s, [T_SignerInstallFailed account], SignerPending))"

definition on_creation_failed :: "TlaManager \<Rightarrow> MintOutcome tm_outcome" where
  "on_creation_failed s = Inr (s, [], CreationFailed)"

definition retry_install :: "host \<Rightarrow> ctx \<Rightarrow> AccountId \<Rightarrow> PublicKey \<Rightarrow> TlaManager
    \<Rightarrow> tm_callback promise tm_outcome" where
  "retry_install h c account owner_public_key s =
     (if predecessor_account_id c \<noteq> tm_registry s then Inl ONLY_REGISTRY
      else if \<not> is_ed25519 h owner_public_key then Inl TM_NOT_ED25519
      else Inr (s, [], ThenP (derive_key s account)
             (OnRetryKeyDerived account owner_public_key) ON_RETRY_KEY_DERIVED_GAS))"

definition on_retry_key_derived :: "host \<Rightarrow> AccountId \<Rightarrow> PublicKey \<Rightarrow> PublicKey promise_result
    \<Rightarrow> TlaManager \<Rightarrow> tm_callback promise tm_outcome" where
  "on_retry_key_derived h account owner_public_key derived s = (case derived_ed25519 h derived of
     None \<Rightarrow> Inl DERIVE_FAILED
   | Some mpc_public_key \<Rightarrow>
       (case ed25519_base58_or_panic h TM_NOT_ED25519 owner_public_key of
          Inl e \<Rightarrow> Inl e
        | Inr key \<Rightarrow> Inr (s, [],
            CallP (tm_active_signer s) (InstallSigner account key mpc_public_key) 0 INSTALL_SIGNER_GAS)))"

section \<open>Views\<close>

definition registry :: "TlaManager \<Rightarrow> AccountId" where "registry s = tm_registry s"
definition min_balance :: "TlaManager \<Rightarrow> u128" where "min_balance s = tm_min_balance s"
definition config :: "TlaManager \<Rightarrow> AccountId \<times> AccountId \<times> u128" where
  "config s = (tm_active_signer s, tm_mpc_signer s, tm_min_balance s)"

section \<open>The method table\<close>

datatype tm_call =
    T_CreateSubAccount string PublicKey
  | T_OnKeyDerived AccountId PublicKey u128 "PublicKey promise_result"
  | T_OnWalletCreated AccountId PublicKey PublicKey u128 "unit promise_result"
  | T_OnSignerSettled AccountId "unit promise_result"
  | T_OnCreationFailed
  | T_RetryInstall AccountId PublicKey
  | T_OnRetryKeyDerived AccountId PublicKey "PublicKey promise_result"

definition tm_private :: "ctx \<Rightarrow> 'r tm_outcome \<Rightarrow> 'r tm_outcome" where
  "tm_private c r = private_only TM_PRIVATE c (non_payable TM_NO_DEPOSIT c r)"

fun tm_exec :: "host \<Rightarrow> ctx \<times> tm_call \<Rightarrow> TlaManager
    \<Rightarrow> (tm_callback, MintOutcome) promise_or_value tm_outcome" where
  "tm_exec h (c, T_CreateSubAccount n k) s = map_reply PromiseR (create_sub_account h c n k s)"
| "tm_exec h (c, T_OnKeyDerived a k f d) s = tm_private c (on_key_derived h a k f d s)"
| "tm_exec h (c, T_OnWalletCreated a k m f r) s = tm_private c (on_wallet_created h a k m f r s)"
| "tm_exec h (c, T_OnSignerSettled a r) s = tm_private c (map_reply ValueR (on_signer_settled a r s))"
| "tm_exec h (c, T_OnCreationFailed) s =
     private_only TM_PRIVATE c (map_reply ValueR (on_creation_failed s))"
| "tm_exec h (c, T_RetryInstall a k) s =
     non_payable TM_NO_DEPOSIT c (map_reply PromiseR (retry_install h c a k s))"
| "tm_exec h (c, T_OnRetryKeyDerived a k d) s =
     tm_private c (map_reply PromiseR (on_retry_key_derived h a k d s))"

end
