(* ===== verification/Extension_Safety.thy ===== *)
theory Extension_Safety
  imports Hos_Extension Tla_Manager Demo_Host
begin

text \<open>
  Safety of the two contracts between the registry and the signer. \<open>hos-extension\<close> makes the
  signer act only as the registry asked: the runs of the contract are traces of calls with the
  callbacks in flight. \<open>tla-manager\<close> mints all or nothing: the whole chain of its callbacks is
  composed for given answers of the signer, the chain and \<open>active-signer\<close>.
\<close>

section \<open>Runs of hos-extension\<close>

text \<open>A call of the contract on itself is a callback it scheduled, with some result.\<close>

fun delivers :: "hx_callback \<Rightarrow> hx_call \<Rightarrow> bool" where
  "delivers (AfterForceSwap w) (X_AfterForceSwap w' r) \<longleftrightarrow> w' = w"
| "delivers (AfterBalanceForSweep w f d n b) (X_AfterBalanceForSweep w' f' d' n' b' r) \<longleftrightarrow>
     (w', f', d', n', b') = (w, f, d, n, b)"
| "delivers (AfterStorageForSweep w f d m n b) (X_AfterStorageForSweep w' f' d' m' n' b' r) \<longleftrightarrow>
     (w', f', d', m', n', b') = (w, f, d, m, n, b)"
| "delivers (AfterSweepSettled w f d m) (X_AfterSweepSettled w' f' d' m' r) \<longleftrightarrow>
     (w', f', d', m') = (w, f, d, m)"
| "delivers _ _ \<longleftrightarrow> False"

primrec promises_of :: "hx_reply \<Rightarrow> hx_callback promise list" where
  "promises_of X_Unit = []"
| "promises_of (X_Bool b ps) = ps"
| "promises_of (X_Promise p) = [p]"
| "promises_of (X_Value v ps) = ps"

abbreviation scheduled :: "hx_reply \<Rightarrow> hx_callback list" where
  "scheduled r \<equiv> concat (map callbacks_of (promises_of r))"

abbreviation made_calls :: "hx_reply \<Rightarrow> (AccountId \<times> remote_call \<times> u128) list" where
  "made_calls r \<equiv> concat (map calls_of (promises_of r))"

inductive hx_run :: "host \<Rightarrow> (ctx \<times> hx_call) list \<Rightarrow> HosExtension \<Rightarrow> hx_callback list \<Rightarrow> bool" for h where
  start: "hx_run h [] (hx_new a r g m) []"
| step: "hx_run h hist s q \<Longrightarrow> hx_exec h (c, call) s = Inr (s', evs, reply) \<Longrightarrow>
    predecessor_account_id c = current_account_id c \<longrightarrow> list_ex (\<lambda>cb. delivers cb call) q \<Longrightarrow>
    hx_run h ((c, call) # hist) s' (scheduled reply @ q)"

text \<open>What a callback in flight says about the past: a sweep, or a forced transfer, was asked for by the
  registry.\<close>

definition asked :: "(ctx \<times> hx_call) list \<Rightarrow> AccountId \<Rightarrow> AccountId \<Rightarrow> AccountId \<Rightarrow> AccountId \<Rightarrow> u64
    \<Rightarrow> byte list \<Rightarrow> bool" where
  "asked hist reg w f d n b \<longleftrightarrow> (\<exists>c. (c, X_SweepFt w f d n b) \<in> set hist \<and>
     predecessor_account_id c = reg \<and> attached_deposit c = MIN_SWEEP_ATTACHED)"

definition forced :: "(ctx \<times> hx_call) list \<Rightarrow> AccountId \<Rightarrow> AccountId \<Rightarrow> bool" where
  "forced hist reg w \<longleftrightarrow> (\<exists>c k e. (c, X_ForceTransfer w k e) \<in> set hist \<and> predecessor_account_id c = reg)"

definition backed :: "(ctx \<times> hx_call) list \<Rightarrow> AccountId \<Rightarrow> hx_callback \<Rightarrow> bool" where
  "backed hist reg cb = (case cb of
     AfterBalanceForSweep w f d n b \<Rightarrow> asked hist reg w f d n b
   | AfterStorageForSweep w f d m n b \<Rightarrow> asked hist reg w f d n b
   | AfterForceSwap w \<Rightarrow> forced hist reg w
   | AfterSweepSettled w f d m \<Rightarrow> True)"

lemma asked_mono: "asked hist reg w f d n b \<Longrightarrow> asked (x # hist) reg w f d n b"
  by (auto simp: asked_def)

lemma backed_mono: "backed hist reg cb \<Longrightarrow> backed (x # hist) reg cb"
  by (auto simp: backed_def asked_mono forced_def split: hx_callback.splits)

lemmas hx_callback_defs = after_force_swap_def after_balance_for_sweep_def after_storage_for_sweep_def
  after_sweep_settled_def abort_and_refund_def refund_registry_def hx_private_def

lemma hx_exec_wiring:
  assumes "hx_exec h (c, call) s = Inr (s', evs, reply)"
  shows "hx_registry s' = hx_registry s \<and> hx_active_signer s' = hx_active_signer s \<and> hx_recovery s' = hx_recovery s"
  using assms
  by (cases call) (auto simp: hx_admin_defs hx_callback_defs Let_def dest!: force_transfer_Inr sweep_ft_Inr
      split: if_splits sum.splits)

text \<open>The callbacks a call schedules, and the calls it makes on the signer.\<close>

lemma hx_exec_backed:
  assumes "hx_exec h (c, call) s = Inr (s', evs, reply)"
    and "predecessor_account_id c = current_account_id c \<longrightarrow> list_ex (\<lambda>cb. delivers cb call) q"
    and "list_all (backed hist (hx_registry s)) q"
  shows "list_all (backed ((c, call) # hist) (hx_registry s)) (scheduled reply)"
proof (cases call)
  case (X_SweepFt w f d n b)
  with assms(1) show ?thesis by (auto dest!: sweep_ft_Inr simp: backed_def asked_def)
next
  case (X_AfterBalanceForSweep w f d n b r)
  with assms(1,2) have "list_ex (\<lambda>cb. delivers cb call) q" by (simp add: hx_private_def)
  with X_AfterBalanceForSweep assms(3) have "asked hist (hx_registry s) w f d n b"
    by (auto simp: list_ex_iff list_all_iff backed_def elim!: delivers.elims)
  with X_AfterBalanceForSweep assms(1) show ?thesis
    by (auto simp: hx_callback_defs backed_def asked_mono Let_def split: sum.splits if_splits)
next
  case (X_ForceTransfer w k e)
  with assms(1) show ?thesis
    by (auto dest!: force_transfer_Inr simp: backed_def forced_def) blast
qed (use assms(1) in \<open>auto simp: hx_admin_defs hx_callback_defs backed_def Let_def
    split: if_splits sum.splits\<close>)

lemma hx_run_backed:
  "hx_run h hist s q \<Longrightarrow> list_all (backed hist (hx_registry s)) q"
proof (induction rule: hx_run.induct)
  case (step hist s q c call s' evs reply)
  from hx_exec_backed [OF step(2,3,4)] step(4) hx_exec_wiring [OF step(2)] show ?case
    by (auto simp: list_all_iff backed_mono)
qed simp

lemma hx_exec_calls:
  assumes "hx_exec h (c, call) s = Inr (s', evs, reply)" and "(r, m, d) \<in> set (made_calls reply)"
  shows "case m of
      SwapOwner w k e \<Rightarrow> r = hx_active_signer s \<and> predecessor_account_id c = hx_registry s \<and> \<not> hx_paused s
    | AuthoritySignTx w f as n b \<Rightarrow> r = hx_active_signer s \<and>
        (\<exists>dest bal. call = X_AfterStorageForSweep w f dest bal n b True \<and> as = [sweep_action h dest bal])
    | OnWalletTransferred w \<Rightarrow> r = hx_recovery s \<and> call = X_AfterForceSwap w (Inr True)
    | _ \<Rightarrow> True"
  using assms
  by (cases call) (auto simp: hx_admin_defs hx_callback_defs Let_def dest!: force_transfer_Inr sweep_ft_Inr
      split: if_splits sum.splits bool.splits)

text \<open>C19: The extension acts for the registry only. In every run of the contract, an owner swap goes to
  the signer only in a call of the registry while the extension is not paused; a signature is
  requested only for one token transfer, to the destination, with the nonce and block hash of a
  sweep that the registry asked for earlier with the exact deposit; and recovery is told of a
  transfer only in the contract's own callback of a forced transfer of that wallet that the registry
  asked for earlier, when the signer answered the swap with \<open>true\<close>.\<close>

theorem extension_acts_for_registry:
  assumes "hx_run h hist s q" and "hx_exec h (c, call) s = Inr (s', evs, reply)"
    and "predecessor_account_id c = current_account_id c \<longrightarrow> list_ex (\<lambda>cb. delivers cb call) q"
    and "(r, m, d) \<in> set (made_calls reply)"
  shows "case m of
      SwapOwner w k e \<Rightarrow> r = hx_active_signer s \<and> predecessor_account_id c = hx_registry s \<and> \<not> hx_paused s
    | AuthoritySignTx w f as n b \<Rightarrow> r = hx_active_signer s \<and>
        (\<exists>c0 dest bal. (c0, X_SweepFt w f dest n b) \<in> set hist \<and> predecessor_account_id c0 = hx_registry s \<and>
           attached_deposit c0 = MIN_SWEEP_ATTACHED \<and> as = [sweep_action h dest bal])
    | OnWalletTransferred w \<Rightarrow> r = hx_recovery s \<and> call = X_AfterForceSwap w (Inr True) \<and>
        predecessor_account_id c = current_account_id c \<and>
        (\<exists>c0 k e. (c0, X_ForceTransfer w k e) \<in> set hist \<and> predecessor_account_id c0 = hx_registry s)
    | _ \<Rightarrow> True"
proof (cases m)
  case (AuthoritySignTx w f as n b)
  with hx_exec_calls [OF assms(2,4)] obtain dest bal where
    call: "call = X_AfterStorageForSweep w f dest bal n b True" "as = [sweep_action h dest bal]"
      "r = hx_active_signer s" by auto
  with assms(2,3) have "list_ex (\<lambda>cb. delivers cb call) q" by (simp add: hx_private_def)
  with call(1) hx_run_backed [OF assms(1)] have "asked hist (hx_registry s) w f dest n b"
    by (auto simp: list_ex_iff list_all_iff backed_def elim!: delivers.elims)
  with call AuthoritySignTx show ?thesis by (auto simp: asked_def)
next
  case (OnWalletTransferred w)
  with hx_exec_calls [OF assms(2,4)] have call: "call = X_AfterForceSwap w (Inr True)" "r = hx_recovery s" by auto
  with assms(2,3) have own: "predecessor_account_id c = current_account_id c" "list_ex (\<lambda>cb. delivers cb call) q"
    by (simp_all add: hx_private_def)
  with call(1) hx_run_backed [OF assms(1)] have "forced hist (hx_registry s) w"
    by (auto simp: list_ex_iff list_all_iff backed_def elim!: delivers.elims)
  with call own(1) OnWalletTransferred show ?thesis by (auto simp: forced_def)
qed (use hx_exec_calls [OF assms(2,4)] in auto)

abbreviation demo_ext :: HosExtension where
  "demo_ext \<equiv> hx_new ''alice.near'' ''reg.near'' ''signer.near'' ''recovery.near''"

lemma demo_forced:
  "\<exists>evs. hx_exec demo_host (called_by ''reg.near'', X_ForceTransfer ''joe.tla'' (demo_key 7) (Some (demo_key 5)))
     demo_ext = Inr (demo_ext, evs, X_Promise (ThenP (CallP ''signer.near''
       (SwapOwner ''joe.tla'' (bytes_str (replicate 32 7)) (Some (bytes_str (replicate 32 5)))) 0
       GAS_FOR_SWAP_OWNER) (AfterForceSwap ''joe.tla'') GAS_FOR_SWAP_CB))"
  by (simp add: force_transfer_def hx_asserts hx_new_def hx_ed25519_base58_def ed25519_base58_def
      is_ed25519_def demo_host_def demo_key_def non_payable_def)

theorem extension_acts_for_registry_witness:
  "\<exists>evs reply m. hx_exec demo_host (called_by ''reg.near'', X_ForceTransfer ''joe.tla'' (demo_key 7)
       (Some (demo_key 5))) demo_ext = Inr (demo_ext, evs, reply) \<and>
     (''signer.near'', m, 0) \<in> set (made_calls reply) \<and> hx_registry demo_ext = ''reg.near'' \<and> \<not> hx_paused demo_ext"
proof -
  from demo_forced obtain evs where ex: "hx_exec demo_host (called_by ''reg.near'',
      X_ForceTransfer ''joe.tla'' (demo_key 7) (Some (demo_key 5))) demo_ext = Inr (demo_ext, evs,
      X_Promise (ThenP (CallP ''signer.near'' (SwapOwner ''joe.tla'' (bytes_str (replicate 32 7))
       (Some (bytes_str (replicate 32 5)))) 0 GAS_FOR_SWAP_OWNER) (AfterForceSwap ''joe.tla'') GAS_FOR_SWAP_CB))"
    by blast
  have "hx_run demo_host [] demo_ext []" by (rule hx_run.start)
  from extension_acts_for_registry [OF this ex, of "''signer.near''"
      "SwapOwner ''joe.tla'' (bytes_str (replicate 32 7)) (Some (bytes_str (replicate 32 5)))" 0] ex
  show ?thesis by fastforce
qed

section \<open>The mint of tla-manager\<close>

text \<open>The chain of promises of a mint, for the answers it meets: the derived key, whether the account
  was created, and whether the signer took the owner key. The result is the outcome the registry
  sees, the funding sent to the new account and the refund sent to the registry.\<close>

record mint_trace =
  mi_outcome :: MintOutcome
  mi_account :: "(AccountId \<times> account_action list) option"
  mi_refund :: "(AccountId \<times> account_action list) option"

definition batch_of :: "(tm_callback, 'v) promise_or_value \<Rightarrow> (AccountId \<times> account_action list) option" where
  "batch_of r = (case r of PromiseR (ThenP (BatchP a as) cb g) \<Rightarrow> Some (a, as) | _ \<Rightarrow> None)"

definition mint_settled :: "TlaManager \<Rightarrow> (AccountId \<times> account_action list) option
    \<Rightarrow> (tm_callback, MintOutcome) promise_or_value \<Rightarrow> unit promise_result \<Rightarrow> mint_trace option" where
  "mint_settled s acc r installed = (case r of
     PromiseR (ThenP p (OnSignerSettled a) g) \<Rightarrow>
       (case on_signer_settled a installed s of
          Inr (_, _, out) \<Rightarrow> Some \<lparr>mi_outcome = out, mi_account = acc, mi_refund = None\<rparr> | Inl _ \<Rightarrow> None)
   | PromiseR (ThenP p OnCreationFailed g) \<Rightarrow>
       (case on_creation_failed s of
          Inr (_, _, out) \<Rightarrow> Some \<lparr>mi_outcome = out, mi_account = None, mi_refund = batch_of r\<rparr>
        | Inl _ \<Rightarrow> None)
   | _ \<Rightarrow> None)"

definition mint_run :: "host \<Rightarrow> ctx \<Rightarrow> string \<Rightarrow> PublicKey \<Rightarrow> TlaManager \<Rightarrow> PublicKey promise_result
    \<Rightarrow> unit promise_result \<Rightarrow> unit promise_result \<Rightarrow> mint_trace option" where
  "mint_run h c name key s derived created installed = (case create_sub_account h c name key s of
     Inr (s1, _, ThenP p (OnKeyDerived a k f) g) \<Rightarrow>
       (case on_key_derived h a k f derived s1 of
          Inr (s2, _, r2) \<Rightarrow> (case r2 of
            PromiseR (ThenP p2 (OnWalletCreated a2 k2 m2 f2) g2) \<Rightarrow>
              (case on_wallet_created h a2 k2 m2 f2 created s2 of
                 Inr (s3, _, r3) \<Rightarrow> mint_settled s3 (batch_of r2) r3 installed | Inl _ \<Rightarrow> None)
          | _ \<Rightarrow> mint_settled s2 None r2 installed)
        | Inl _ \<Rightarrow> None)
   | _ \<Rightarrow> None)"

text \<open>C20: A mint is all or nothing. A mint the manager accepts always reports an outcome. If the derived
  key is ed25519 and the account was created, the account was given exactly the funding and the
  derived key, nothing is refunded, and the outcome says whether the signer took the owner key;
  otherwise the outcome is a failure and the whole funding goes back to the registry.\<close>

theorem mint_all_or_nothing:
  assumes "create_sub_account h c name key s = Inr (s', evs, p)" and "key_laws h"
  shows "mint_run h c name key s derived created installed =
    (case derived_ed25519 h derived of
       Some mpc \<Rightarrow> if is_ok created
         then Some \<lparr>mi_outcome = (if is_ok installed then Active else SignerPending),
           mi_account = Some (name @ ''.'' @ current_account_id c,
             [CreateAccount, TransferNear (attached_deposit c), AddFullAccessKey mpc]),
           mi_refund = None\<rparr>
         else Some \<lparr>mi_outcome = CreationFailed, mi_account = None,
           mi_refund = Some (tm_registry s, [TransferNear (attached_deposit c)])\<rparr>
     | None \<Rightarrow> Some \<lparr>mi_outcome = CreationFailed, mi_account = None,
           mi_refund = Some (tm_registry s, [TransferNear (attached_deposit c)])\<rparr>)"
proof -
  from assms(1) have "is_ed25519 h key" by (auto simp: create_sub_account_def split: if_splits)
  with assms(2) obtain raw where "ed25519_base58 h key = Some raw" using ed25519_base58_total by blast
  with assms(1) show ?thesis
    by (auto simp: create_sub_account_def mint_run_def mint_settled_def on_key_derived_def
        on_wallet_created_def on_signer_settled_def on_creation_failed_def refund_and_fail_def batch_of_def
        ed25519_base58_or_panic_def Let_def split: option.split if_splits)
qed

theorem mint_all_or_nothing_witness:
  "mint_run demo_host ((called_by ''reg.near'')\<lparr>attached_deposit := 100\<rparr>) ''joe'' (demo_key 5)
     (tm_new ''reg.near'' ''signer.near'' ''mpc.near'' 50) (Inl Failed) (Inr ()) (Inr ()) =
   Some \<lparr>mi_outcome = CreationFailed, mi_account = None, mi_refund = Some (''reg.near'', [TransferNear 100])\<rparr>"
proof -
  have "\<exists>s' evs p. create_sub_account demo_host ((called_by ''reg.near'')\<lparr>attached_deposit := 100\<rparr>) ''joe''
      (demo_key 5) (tm_new ''reg.near'' ''signer.near'' ''mpc.near'' 50) = Inr (s', evs, p)"
    by (simp add: create_sub_account_def tm_new_def) (simp add: demo_host_def Let_def)
  then obtain s' evs p where "create_sub_account demo_host ((called_by ''reg.near'')\<lparr>attached_deposit := 100\<rparr>)
      ''joe'' (demo_key 5) (tm_new ''reg.near'' ''signer.near'' ''mpc.near'' 50) = Inr (s', evs, p)" by blast
  from mint_all_or_nothing [OF this demo_host_key_laws] show ?thesis
    by (simp add: derived_ed25519_def tm_new_def)
qed

end
