(* ===== verification/Active_Signer.thy ===== *)
theory Active_Signer
  imports Near_Calls
begin

text \<open>
  The contract \<open>active-signer\<close> (\<open>src/contracts/active-signer/src\<close>: \<open>lib.rs\<close>, \<open>state.rs\<close>,
  \<open>nep413.rs\<close>, \<open>events.rs\<close>, \<open>error.rs\<close>): the operating key, nonces and freeze state of each
  rented account. Record fields carry the prefix \<open>as_\<close> (contract), \<open>se_\<close> (signer entry),
  \<open>tm_\<close>, \<open>mr_\<close>, \<open>fm_\<close> (signed messages); events the prefix \<open>E_\<close>. The nonce windows and the
  derived borsh serializers come from third-party crates and are the record \<open>wallet_lib\<close>.
\<close>

section \<open>Data\<close>

datatype FreezeState = Unfrozen | SelfFrozen | RecoveryFrozen

record 'n SignerEntry =
  se_public_key :: "byte list"
  se_mpc_public_key :: PublicKey
  se_nonces :: 'n
  se_freeze_nonces :: 'n
  se_last_signed_at :: u64
  se_frozen :: FreezeState

datatype as_error =
    ONLY_ADMIN | ONLY_MINTER | ONLY_MARKETPLACE | WALLET_NOT_UNDER_MINTER | LAST_ADMIN
  | ONLY_RECOVERY | NO_SIGNER | ONE_YOCTO_REQUIRED | SIGNER_MISMATCH | WRONG_CHAIN | FROZEN
  | NOT_FROZEN | OWNER_CHANGED | BAD_SIGNATURE | NONCE_REJECTED | UNAUTHORIZED | BAD_KEY
  | MPC_NOT_ED25519 | SIGNER_EXISTS | NO_ACTIONS | BAD_MESSAGE_NONCE | INVALID_TIMEOUT
  | AS_PRIVATE | AS_NO_DEPOSIT \<comment> \<open>checks of the near-sdk method attributes\<close>

datatype as_event =
    E_SignerInstalled AccountId
  | E_TxSigned AccountId u32
  | E_MessageSigned AccountId u32
  | E_AuthorityTxSigned AccountId
  | E_OwnerSwapped AccountId string
  | E_OwnerSwapVoided AccountId
  | E_Frozen AccountId
  | E_Unfrozen AccountId
  | E_UnfreezeRefused AccountId
  | E_SelfFrozen AccountId
  | E_MinterAdded AccountId
  | E_MinterRemoved AccountId
  | E_AdminAdded AccountId
  | E_AdminRemoved AccountId

definition CHAIN_ID :: string where "CHAIN_ID = ''mainnet''"
definition MIN_TIMEOUT_SECS :: u32 where "MIN_TIMEOUT_SECS = 60"
definition MAX_TIMEOUT_SECS :: u32 where "MAX_TIMEOUT_SECS = 2592000"
definition AS_SIGN_GAS :: nat where "AS_SIGN_GAS = 60"
definition ON_SIGNED_GAS :: nat where "ON_SIGNED_GAS = 10"
definition ED25519_DOMAIN :: nat where "ED25519_DOMAIN = 1"
definition BY_MARKETPLACE :: string where "BY_MARKETPLACE = ''marketplace''"
definition BY_RECOVERY :: string where "BY_RECOVERY = ''recovery''"
definition FREEZE_DOMAIN :: "byte list" where
  "FREEZE_DOMAIN = str_bytes ''NEAR_HOS_ACTIVE_SIGNER_FREEZE/V1''"
definition TX_DOMAIN :: "byte list" where
  "TX_DOMAIN = str_bytes ''NEAR_HOS_ACTIVE_SIGNER_TX/V1''"
definition MESSAGE_DOMAIN :: "byte list" where
  "MESSAGE_DOMAIN = str_bytes ''NEAR_HOS_ACTIVE_SIGNER_MSG/V1''"

record FreezeMessage =
  fm_chain_id :: string
  fm_signer_id :: AccountId
  fm_nonce :: u32
  fm_created_at_secs :: u32
  fm_timeout_secs :: u32

record TxMessage =
  tm_chain_id :: string
  tm_signer_id :: AccountId
  tm_nonce :: u32
  tm_created_at_secs :: u32
  tm_timeout_secs :: u32
  tm_receiver_id :: AccountId
  tm_actions :: "TxAction list"

record MessageRequest =
  mr_chain_id :: string
  mr_signer_id :: AccountId
  mr_nonce :: u32
  mr_created_at_secs :: u32
  mr_timeout_secs :: u32
  mr_message :: string
  mr_recipient :: string
  mr_message_nonce :: "byte list"
  mr_callback_url :: "string option"

record MpcSigned =
  ms_payload_hash :: string
  ms_unsigned_tx_hex :: "string option"
  ms_mpc_signature :: json

text \<open>
  Third-party parts: \<open>Nonces::new\<close> and \<open>Nonces::commit\<close> of \<open>defuse_wallet\<close> (nonce, creation
  time and timeout in seconds, block time in nanoseconds; \<open>None\<close> is a rejected nonce), and
  the derived borsh serializers of the three message types.
\<close>

record 'n wallet_lib =
  nonces_new :: "u32 \<Rightarrow> 'n"
  nonces_commit :: "'n \<Rightarrow> u32 \<Rightarrow> u32 \<Rightarrow> u32 \<Rightarrow> u64 \<Rightarrow> 'n option"
  borsh_tx :: "TxMessage \<Rightarrow> byte list"
  borsh_message :: "MessageRequest \<Rightarrow> byte list"
  borsh_freeze :: "FreezeMessage \<Rightarrow> byte list"

datatype as_callback = OnSigned string "string option"

record 'n ActiveSigner =
  as_admins :: "AccountId list"
  as_minters :: "AccountId list"
  as_marketplace_authority :: AccountId
  as_recovery_authority :: AccountId
  as_mpc_signer :: AccountId
  as_timeout_secs :: u32
  as_signers :: "AccountId \<rightharpoonup> 'n SignerEntry"

type_synonym ('n, 'r) as_outcome = "(as_error, 'n ActiveSigner, as_event, 'r) outcome"

section \<open>Helpers\<close>

definition tagged_verify :: "host \<Rightarrow> byte list \<Rightarrow> byte list \<Rightarrow> byte list \<Rightarrow> string \<Rightarrow> bool" where
  "tagged_verify h domain msg key signature = sha256_ed25519_verify h (domain @ msg) key signature"

definition NEP413_TAG :: u32 where "NEP413_TAG = 2147484061"

definition nep413_payload :: "string \<Rightarrow> byte list \<Rightarrow> string \<Rightarrow> string option \<Rightarrow> byte list" where
  "nep413_payload message nonce recipient callback_url =
     (let b = le_bytes 4 NEP413_TAG;
          b = write_str b message;
          b = b @ nonce;
          b = write_str b recipient
      in case callback_url of
           Some url \<Rightarrow> write_str (b @ [1]) url
         | None \<Rightarrow> b @ [0])"

definition parse_key :: "host \<Rightarrow> string \<Rightarrow> as_error + byte list" where
  "parse_key h s = (case ed25519_from_str h s of Some k \<Rightarrow> Inr k | None \<Rightarrow> Inl BAD_KEY)"

definition is_direct_subaccount :: "AccountId \<Rightarrow> AccountId \<Rightarrow> bool" where
  "is_direct_subaccount wallet parent =
     (case Option.bind (strip_suffix parent wallet) (strip_suffix ''.'') of
        Some label \<Rightarrow> label \<noteq> [] \<and> CHR ''.'' \<notin> set label
      | None \<Rightarrow> False)"

definition sign_payload :: "'n ActiveSigner \<Rightarrow> AccountId \<Rightarrow> byte list \<Rightarrow> string option
    \<Rightarrow> as_callback promise" where
  "sign_payload s wallet payload unsigned_tx_hex =
     (let payload_hash = to_hex payload;
          args = JObj [(''request'', JObj [
            (''path'', JStr (mpc_path wallet)),
            (''payload_v2'', JObj [(''Eddsa'', JStr payload_hash)]),
            (''domain_id'', JNum ED25519_DOMAIN)])]
      in ThenP (CallP (as_mpc_signer s) (JsonCall ''sign'' args) 1 AS_SIGN_GAS)
           (OnSigned payload_hash unsigned_tx_hex) ON_SIGNED_GAS)"

definition authorize :: "'n wallet_lib \<Rightarrow> ctx \<Rightarrow> AccountId \<Rightarrow> u32 \<Rightarrow> u32 \<Rightarrow> u32
    \<Rightarrow> (byte list \<Rightarrow> bool) \<Rightarrow> 'n ActiveSigner \<Rightarrow> as_error + 'n ActiveSigner \<times> PublicKey" where
  "authorize w c wallet nonce created_at_secs timeout_secs verify s =
     (case as_signers s wallet of
        None \<Rightarrow> Inl NO_SIGNER
      | Some entry \<Rightarrow>
          if se_frozen entry \<noteq> Unfrozen then Inl FROZEN
          else if \<not> verify (se_public_key entry) then Inl BAD_SIGNATURE
          else (case nonces_commit w (se_nonces entry) nonce created_at_secs timeout_secs
                       (block_timestamp c) of
                  None \<Rightarrow> Inl NONCE_REJECTED
                | Some ns \<Rightarrow>
                    Inr (s\<lparr>as_signers := (as_signers s)(wallet \<mapsto>
                           entry\<lparr>se_nonces := ns, se_last_signed_at := block_timestamp c\<rparr>)\<rparr>,
                         se_mpc_public_key entry)))"

section \<open>Calls\<close>

definition as_new :: "AccountId \<Rightarrow> AccountId \<Rightarrow> AccountId \<Rightarrow> AccountId \<Rightarrow> u32
    \<Rightarrow> as_error + 'n ActiveSigner" where
  "as_new admin marketplace_authority recovery_authority mpc_signer timeout_secs =
     (if \<not> (MIN_TIMEOUT_SECS \<le> timeout_secs \<and> timeout_secs \<le> MAX_TIMEOUT_SECS)
      then Inl INVALID_TIMEOUT
      else Inr \<lparr>as_admins = iset_insert admin [], as_minters = [],
        as_marketplace_authority = marketplace_authority,
        as_recovery_authority = recovery_authority, as_mpc_signer = mpc_signer,
        as_timeout_secs = timeout_secs, as_signers = Map.empty\<rparr>)"

definition add_minter :: "ctx \<Rightarrow> AccountId \<Rightarrow> 'n ActiveSigner \<Rightarrow> ('n, unit) as_outcome" where
  "add_minter c minter s =
     (if predecessor_account_id c \<notin> set (as_admins s) then Inl ONLY_ADMIN
      else Inr (s\<lparr>as_minters := iset_insert minter (as_minters s)\<rparr>,
                if minter \<in> set (as_minters s) then [] else [E_MinterAdded minter], ()))"

definition remove_minter :: "ctx \<Rightarrow> AccountId \<Rightarrow> 'n ActiveSigner \<Rightarrow> ('n, unit) as_outcome" where
  "remove_minter c minter s =
     (if predecessor_account_id c \<notin> set (as_admins s) then Inl ONLY_ADMIN
      else Inr (s\<lparr>as_minters := iset_remove minter (as_minters s)\<rparr>,
                if minter \<in> set (as_minters s) then [E_MinterRemoved minter] else [], ()))"

definition as_add_admin :: "ctx \<Rightarrow> AccountId \<Rightarrow> 'n ActiveSigner \<Rightarrow> ('n, unit) as_outcome" where
  "as_add_admin c admin s =
     (if predecessor_account_id c \<notin> set (as_admins s) then Inl ONLY_ADMIN
      else Inr (s\<lparr>as_admins := iset_insert admin (as_admins s)\<rparr>,
                if admin \<in> set (as_admins s) then [] else [E_AdminAdded admin], ()))"

definition as_remove_admin :: "ctx \<Rightarrow> AccountId \<Rightarrow> 'n ActiveSigner \<Rightarrow> ('n, unit) as_outcome" where
  "as_remove_admin c admin s =
     (if predecessor_account_id c \<notin> set (as_admins s) then Inl ONLY_ADMIN
      else if \<not> 1 < length (as_admins s) then Inl LAST_ADMIN
      else Inr (s\<lparr>as_admins := iset_remove admin (as_admins s)\<rparr>,
                if admin \<in> set (as_admins s) then [E_AdminRemoved admin] else [], ()))"

definition install_signer :: "host \<Rightarrow> 'n wallet_lib \<Rightarrow> ctx \<Rightarrow> AccountId \<Rightarrow> string \<Rightarrow> PublicKey
    \<Rightarrow> 'n ActiveSigner \<Rightarrow> ('n, unit) as_outcome" where
  "install_signer h w c wallet public_key mpc_public_key s =
     (if predecessor_account_id c \<notin> set (as_minters s) then Inl ONLY_MINTER
      else if \<not> is_direct_subaccount wallet (predecessor_account_id c)
        then Inl WALLET_NOT_UNDER_MINTER
      else if as_signers s wallet \<noteq> None then Inl SIGNER_EXISTS
      else if \<not> is_ed25519 h mpc_public_key then Inl MPC_NOT_ED25519
      else (case parse_key h public_key of
              Inl e \<Rightarrow> Inl e
            | Inr key \<Rightarrow>
                Inr (s\<lparr>as_signers := (as_signers s)(wallet \<mapsto>
                       \<lparr>se_public_key = key, se_mpc_public_key = mpc_public_key,
                        se_nonces = nonces_new w (as_timeout_secs s),
                        se_freeze_nonces = nonces_new w (as_timeout_secs s),
                        se_last_signed_at = 0, se_frozen = Unfrozen\<rparr>)\<rparr>,
                     [E_SignerInstalled wallet], ())))"

definition submit_signed_tx :: "host \<Rightarrow> 'n wallet_lib \<Rightarrow> ctx \<Rightarrow> AccountId \<Rightarrow> TxMessage \<Rightarrow> string
    \<Rightarrow> u64 \<Rightarrow> byte list \<Rightarrow> 'n ActiveSigner \<Rightarrow> ('n, as_callback promise) as_outcome" where
  "submit_signed_tx h w c wallet msg proof_sig tx_nonce block_hash s =
     (if attached_deposit c \<noteq> 1 then Inl ONE_YOCTO_REQUIRED
      else if tm_chain_id msg \<noteq> CHAIN_ID then Inl WRONG_CHAIN
      else if tm_signer_id msg \<noteq> wallet then Inl SIGNER_MISMATCH
      else if tm_actions msg = [] then Inl NO_ACTIONS
      else (case authorize w c wallet (tm_nonce msg) (tm_created_at_secs msg) (tm_timeout_secs msg)
                   (\<lambda>key. tagged_verify h TX_DOMAIN (borsh_tx w msg) key proof_sig) s of
              Inl e \<Rightarrow> Inl e
            | Inr (s', mpc_public_key) \<Rightarrow>
                let unsigned = build_transaction wallet mpc_public_key tx_nonce
                      (tm_receiver_id msg) block_hash (tm_actions msg)
                in Inr (s', [E_TxSigned wallet (tm_nonce msg)],
                     sign_payload s' wallet (sha256 h unsigned) (Some (to_hex unsigned)))))"

definition submit_signed_message :: "host \<Rightarrow> 'n wallet_lib \<Rightarrow> ctx \<Rightarrow> AccountId \<Rightarrow> MessageRequest
    \<Rightarrow> string \<Rightarrow> 'n ActiveSigner \<Rightarrow> ('n, as_callback promise) as_outcome" where
  "submit_signed_message h w c wallet msg proof_sig s =
     (if attached_deposit c \<noteq> 1 then Inl ONE_YOCTO_REQUIRED
      else if mr_chain_id msg \<noteq> CHAIN_ID then Inl WRONG_CHAIN
      else if mr_signer_id msg \<noteq> wallet then Inl SIGNER_MISMATCH
      else if length (mr_message_nonce msg) \<noteq> 32 then Inl BAD_MESSAGE_NONCE
      else (case authorize w c wallet (mr_nonce msg) (mr_created_at_secs msg) (mr_timeout_secs msg)
                   (\<lambda>key. tagged_verify h MESSAGE_DOMAIN (borsh_message w msg) key proof_sig) s of
              Inl e \<Rightarrow> Inl e
            | Inr (s', _) \<Rightarrow>
                let payload = nep413_payload (mr_message msg) (mr_message_nonce msg)
                      (mr_recipient msg) (mr_callback_url msg)
                in Inr (s', [E_MessageSigned wallet (mr_nonce msg)],
                     sign_payload s' wallet (sha256 h payload) None)))"

definition authority_sign_tx :: "host \<Rightarrow> ctx \<Rightarrow> AccountId \<Rightarrow> AccountId \<Rightarrow> TxAction list \<Rightarrow> u64
    \<Rightarrow> byte list \<Rightarrow> 'n ActiveSigner \<Rightarrow> ('n, as_callback promise) as_outcome" where
  "authority_sign_tx h c wallet receiver_id actions tx_nonce block_hash s =
     (if attached_deposit c \<noteq> 1 then Inl ONE_YOCTO_REQUIRED
      else if predecessor_account_id c \<noteq> as_marketplace_authority s then Inl ONLY_MARKETPLACE
      else if actions = [] then Inl NO_ACTIONS
      else (case as_signers s wallet of
              None \<Rightarrow> Inl NO_SIGNER
            | Some entry \<Rightarrow>
                if se_frozen entry \<noteq> Unfrozen then Inl FROZEN
                else
                  let s' = s\<lparr>as_signers := (as_signers s)(wallet \<mapsto>
                             entry\<lparr>se_last_signed_at := block_timestamp c\<rparr>)\<rparr>;
                      unsigned = build_transaction wallet (se_mpc_public_key entry) tx_nonce
                        receiver_id block_hash actions
                  in Inr (s', [E_AuthorityTxSigned wallet],
                       sign_payload s' wallet (sha256 h unsigned) (Some (to_hex unsigned)))))"

definition as_on_signed :: "string \<Rightarrow> string option \<Rightarrow> json promise_result \<Rightarrow> 'n ActiveSigner
    \<Rightarrow> ('n, MpcSigned option) as_outcome" where
  "as_on_signed payload_hash unsigned_tx_hex mpc_signature s =
     Inr (s, [], case mpc_signature of
        Inr signature \<Rightarrow> Some \<lparr>ms_payload_hash = payload_hash,
          ms_unsigned_tx_hex = unsigned_tx_hex, ms_mpc_signature = signature\<rparr>
      | Inl _ \<Rightarrow> None)"

definition swap_owner :: "host \<Rightarrow> 'n wallet_lib \<Rightarrow> ctx \<Rightarrow> AccountId \<Rightarrow> string \<Rightarrow> string option
    \<Rightarrow> 'n ActiveSigner \<Rightarrow> ('n, bool) as_outcome" where
  "swap_owner h w c wallet new_public_key expected_current s =
     (case parse_key h new_public_key of
        Inl e \<Rightarrow> Inl e
      | Inr new_key \<Rightarrow>
          let caller = predecessor_account_id c;
              marketplace = (caller = as_marketplace_authority s);
              recovery = (caller = as_recovery_authority s);
              swapped = (\<lambda>entry. Inr (s\<lparr>as_signers := (as_signers s)(wallet \<mapsto>
                  entry\<lparr>se_frozen := Unfrozen, se_public_key := new_key,
                    se_nonces := nonces_new w (as_timeout_secs s),
                    se_freeze_nonces := nonces_new w (as_timeout_secs s)\<rparr>)\<rparr>,
                [E_OwnerSwapped wallet (if marketplace then BY_MARKETPLACE else BY_RECOVERY)],
                True))
          in if \<not> (marketplace \<or> recovery) then Inl UNAUTHORIZED
             else (case as_signers s wallet of
               None \<Rightarrow> Inl NO_SIGNER
             | Some entry \<Rightarrow>
                 if marketplace \<and> se_frozen entry \<noteq> Unfrozen then Inl FROZEN
                 else if \<not> marketplace \<and> se_frozen entry = Unfrozen then Inl NOT_FROZEN
                 else (case expected_current of
                   None \<Rightarrow> swapped entry
                 | Some expected \<Rightarrow>
                     (case parse_key h expected of
                        Inl e \<Rightarrow> Inl e
                      | Inr key \<Rightarrow>
                          if se_public_key entry \<noteq> key
                          then Inr (s, [E_OwnerSwapVoided wallet], False)
                          else swapped entry))))"

definition self_freeze :: "host \<Rightarrow> 'n wallet_lib \<Rightarrow> ctx \<Rightarrow> AccountId \<Rightarrow> FreezeMessage \<Rightarrow> string
    \<Rightarrow> 'n ActiveSigner \<Rightarrow> ('n, unit) as_outcome" where
  "self_freeze h w c wallet msg proof_sig s =
     (if fm_chain_id msg \<noteq> CHAIN_ID then Inl WRONG_CHAIN
      else if fm_signer_id msg \<noteq> wallet then Inl SIGNER_MISMATCH
      else (case as_signers s wallet of
              None \<Rightarrow> Inl NO_SIGNER
            | Some entry \<Rightarrow>
                if \<not> tagged_verify h FREEZE_DOMAIN (borsh_freeze w msg) (se_public_key entry) proof_sig
                then Inl BAD_SIGNATURE
                else (case nonces_commit w (se_freeze_nonces entry) (fm_nonce msg)
                             (fm_created_at_secs msg) (fm_timeout_secs msg) (block_timestamp c) of
                        None \<Rightarrow> Inl NONCE_REJECTED
                      | Some ns \<Rightarrow>
                          Inr (s\<lparr>as_signers := (as_signers s)(wallet \<mapsto>
                                 entry\<lparr>se_freeze_nonces := ns, se_frozen := SelfFrozen\<rparr>)\<rparr>,
                               [E_SelfFrozen wallet], ()))))"

definition freeze :: "host \<Rightarrow> ctx \<Rightarrow> AccountId \<Rightarrow> string option \<Rightarrow> 'n ActiveSigner
    \<Rightarrow> ('n, unit) as_outcome" where
  "freeze h c wallet expected_current s =
     (if predecessor_account_id c \<noteq> as_recovery_authority s then Inl ONLY_RECOVERY
      else (case as_signers s wallet of
              None \<Rightarrow> Inl NO_SIGNER
            | Some entry \<Rightarrow>
                let frozen = Inr (s\<lparr>as_signers := (as_signers s)(wallet \<mapsto>
                      (if se_frozen entry \<noteq> SelfFrozen
                       then entry\<lparr>se_frozen := RecoveryFrozen\<rparr> else entry))\<rparr>,
                      [E_Frozen wallet], ())
                in (case expected_current of
                      None \<Rightarrow> frozen
                    | Some expected \<Rightarrow>
                        (case parse_key h expected of
                           Inl e \<Rightarrow> Inl e
                         | Inr key \<Rightarrow>
                             if se_public_key entry \<noteq> key then Inl OWNER_CHANGED else frozen))))"

definition unfreeze :: "ctx \<Rightarrow> AccountId \<Rightarrow> 'n ActiveSigner \<Rightarrow> ('n, unit) as_outcome" where
  "unfreeze c wallet s =
     (if predecessor_account_id c \<noteq> as_recovery_authority s then Inl ONLY_RECOVERY
      else (case as_signers s wallet of
              None \<Rightarrow> Inl NO_SIGNER
            | Some entry \<Rightarrow>
                if se_frozen entry = SelfFrozen then Inr (s, [E_UnfreezeRefused wallet], ())
                else Inr (s\<lparr>as_signers := (as_signers s)(wallet \<mapsto>
                            entry\<lparr>se_frozen := Unfrozen\<rparr>)\<rparr>,
                          [E_Unfrozen wallet], ())))"

section \<open>Views\<close>

definition signer_of :: "host \<Rightarrow> 'n ActiveSigner \<Rightarrow> AccountId \<Rightarrow> string option" where
  "signer_of h s wallet = map_option (\<lambda>e. ed25519_to_string h (se_public_key e)) (as_signers s wallet)"

definition mpc_key_of :: "'n ActiveSigner \<Rightarrow> AccountId \<Rightarrow> PublicKey option" where
  "mpc_key_of s wallet = map_option se_mpc_public_key (as_signers s wallet)"

definition last_signed_at :: "'n ActiveSigner \<Rightarrow> AccountId \<Rightarrow> u64 option" where
  "last_signed_at s wallet = map_option se_last_signed_at (as_signers s wallet)"

definition is_frozen :: "'n ActiveSigner \<Rightarrow> AccountId \<Rightarrow> bool option" where
  "is_frozen s wallet = map_option (\<lambda>e. se_frozen e \<noteq> Unfrozen) (as_signers s wallet)"

definition freeze_state :: "'n ActiveSigner \<Rightarrow> AccountId \<Rightarrow> FreezeState option" where
  "freeze_state s wallet = map_option se_frozen (as_signers s wallet)"

definition is_minter :: "'n ActiveSigner \<Rightarrow> AccountId \<Rightarrow> bool" where
  "is_minter s account \<longleftrightarrow> account \<in> set (as_minters s)"

definition as_is_admin :: "'n ActiveSigner \<Rightarrow> AccountId \<Rightarrow> bool" where
  "as_is_admin s account \<longleftrightarrow> account \<in> set (as_admins s)"

section \<open>The method table\<close>

datatype as_call =
    C_AddMinter AccountId
  | C_RemoveMinter AccountId
  | C_AddAdmin AccountId
  | C_RemoveAdmin AccountId
  | C_InstallSigner AccountId string PublicKey
  | C_SubmitSignedTx AccountId TxMessage string u64 "byte list"
  | C_SubmitSignedMessage AccountId MessageRequest string
  | C_AuthoritySignTx AccountId AccountId "TxAction list" u64 "byte list"
  | C_OnSigned string "string option" "json promise_result"
  | C_SwapOwner AccountId string "string option"
  | C_SelfFreeze AccountId FreezeMessage string
  | C_Freeze AccountId "string option"
  | C_Unfreeze AccountId

datatype as_reply =
    R_Unit
  | R_Bool bool
  | R_Promise "as_callback promise"
  | R_Signed "MpcSigned option"

fun as_exec :: "host \<Rightarrow> 'n wallet_lib \<Rightarrow> ctx \<times> as_call \<Rightarrow> 'n ActiveSigner
    \<Rightarrow> ('n, as_reply) as_outcome" where
  "as_exec h w (c, C_AddMinter a) s =
     non_payable AS_NO_DEPOSIT c (map_reply (\<lambda>_. R_Unit) (add_minter c a s))"
| "as_exec h w (c, C_RemoveMinter a) s =
     non_payable AS_NO_DEPOSIT c (map_reply (\<lambda>_. R_Unit) (remove_minter c a s))"
| "as_exec h w (c, C_AddAdmin a) s =
     non_payable AS_NO_DEPOSIT c (map_reply (\<lambda>_. R_Unit) (as_add_admin c a s))"
| "as_exec h w (c, C_RemoveAdmin a) s =
     non_payable AS_NO_DEPOSIT c (map_reply (\<lambda>_. R_Unit) (as_remove_admin c a s))"
| "as_exec h w (c, C_InstallSigner wallet k m) s =
     non_payable AS_NO_DEPOSIT c (map_reply (\<lambda>_. R_Unit) (install_signer h w c wallet k m s))"
| "as_exec h w (c, C_SubmitSignedTx wallet msg p n b) s =
     map_reply R_Promise (submit_signed_tx h w c wallet msg p n b s)"
| "as_exec h w (c, C_SubmitSignedMessage wallet msg p) s =
     map_reply R_Promise (submit_signed_message h w c wallet msg p s)"
| "as_exec h w (c, C_AuthoritySignTx wallet r as n b) s =
     map_reply R_Promise (authority_sign_tx h c wallet r as n b s)"
| "as_exec h w (c, C_OnSigned ph tx r) s =
     private_only AS_PRIVATE c (map_reply R_Signed (as_on_signed ph tx r s))"
| "as_exec h w (c, C_SwapOwner wallet k e) s =
     non_payable AS_NO_DEPOSIT c (map_reply R_Bool (swap_owner h w c wallet k e s))"
| "as_exec h w (c, C_SelfFreeze wallet msg p) s =
     non_payable AS_NO_DEPOSIT c (map_reply (\<lambda>_. R_Unit) (self_freeze h w c wallet msg p s))"
| "as_exec h w (c, C_Freeze wallet e) s =
     non_payable AS_NO_DEPOSIT c (map_reply (\<lambda>_. R_Unit) (freeze h c wallet e s))"
| "as_exec h w (c, C_Unfreeze wallet) s =
     non_payable AS_NO_DEPOSIT c (map_reply (\<lambda>_. R_Unit) (unfreeze c wallet s))"

section \<open>What a successful call did\<close>

lemma parse_key_Inr: "parse_key h k = Inr key \<longleftrightarrow> ed25519_from_str h k = Some key"
  by (simp add: parse_key_def split: option.splits)

lemma is_direct_subaccount_iff:
  "is_direct_subaccount wallet parent \<longleftrightarrow>
     (\<exists>label. wallet = label @ ''.'' @ parent \<and> label \<noteq> [] \<and> CHR ''.'' \<notin> set label)"
proof -
  have "Option.bind (strip_suffix parent wallet) (strip_suffix ''.'') = Some label
      \<longleftrightarrow> wallet = label @ ''.'' @ parent" for label
    by (auto simp: bind_eq_Some_conv strip_suffix_Some)
  note bind = this
  show ?thesis
  proof (cases "Option.bind (strip_suffix parent wallet) (strip_suffix ''.'')")
    case None
    then show ?thesis unfolding is_direct_subaccount_def
      by (metis bind option.simps(3,4))
  next
    case (Some label)
    then have "\<And>l. wallet = l @ ''.'' @ parent \<longleftrightarrow> l = label" by (metis bind option.inject)
    with Some show ?thesis unfolding is_direct_subaccount_def by simp
  qed
qed

lemma authorize_Inr:
  "authorize w c wallet n cr t verify s = Inr (s', key) \<longleftrightarrow>
     (\<exists>e ns. as_signers s wallet = Some e \<and> se_frozen e = Unfrozen \<and> verify (se_public_key e) \<and>
        nonces_commit w (se_nonces e) n cr t (block_timestamp c) = Some ns \<and>
        key = se_mpc_public_key e \<and>
        s' = s\<lparr>as_signers := (as_signers s)(wallet \<mapsto>
               e\<lparr>se_nonces := ns, se_last_signed_at := block_timestamp c\<rparr>)\<rparr>)"
  by (auto simp: authorize_def split: option.splits if_splits)

lemma submit_signed_tx_Inr:
  "submit_signed_tx h w c wallet msg p n b s = Inr (s', evs, pr) \<Longrightarrow>
     attached_deposit c = 1 \<and> tm_chain_id msg = CHAIN_ID \<and> tm_signer_id msg = wallet \<and>
     tm_actions msg \<noteq> [] \<and> evs = [E_TxSigned wallet (tm_nonce msg)] \<and>
     (\<exists>key. authorize w c wallet (tm_nonce msg) (tm_created_at_secs msg) (tm_timeout_secs msg)
        (\<lambda>key. tagged_verify h TX_DOMAIN (borsh_tx w msg) key p) s = Inr (s', key) \<and>
      pr = (let u = build_transaction wallet key n (tm_receiver_id msg) b (tm_actions msg)
            in sign_payload s' wallet (sha256 h u) (Some (to_hex u))))"
  by (auto simp: submit_signed_tx_def Let_def split: if_splits sum.splits prod.splits)

lemma submit_signed_message_Inr:
  "submit_signed_message h w c wallet msg p s = Inr (s', evs, pr) \<Longrightarrow>
     attached_deposit c = 1 \<and> mr_chain_id msg = CHAIN_ID \<and> mr_signer_id msg = wallet \<and>
     length (mr_message_nonce msg) = 32 \<and> evs = [E_MessageSigned wallet (mr_nonce msg)] \<and>
     (\<exists>key. authorize w c wallet (mr_nonce msg) (mr_created_at_secs msg) (mr_timeout_secs msg)
        (\<lambda>key. tagged_verify h MESSAGE_DOMAIN (borsh_message w msg) key p) s = Inr (s', key) \<and>
      pr = sign_payload s' wallet (sha256 h (nep413_payload (mr_message msg)
             (mr_message_nonce msg) (mr_recipient msg) (mr_callback_url msg))) None)"
  by (auto simp: submit_signed_message_def Let_def split: if_splits sum.splits prod.splits)

lemma authority_sign_tx_Inr:
  "authority_sign_tx h c wallet r as n b s = Inr (s', evs, pr) \<Longrightarrow>
     attached_deposit c = 1 \<and> predecessor_account_id c = as_marketplace_authority s \<and> as \<noteq> [] \<and>
     evs = [E_AuthorityTxSigned wallet] \<and>
     (\<exists>e. as_signers s wallet = Some e \<and> se_frozen e = Unfrozen \<and>
        s' = s\<lparr>as_signers := (as_signers s)(wallet \<mapsto> e\<lparr>se_last_signed_at := block_timestamp c\<rparr>)\<rparr> \<and>
        pr = (let u = build_transaction wallet (se_mpc_public_key e) n r b as
              in sign_payload s' wallet (sha256 h u) (Some (to_hex u))))"
  by (auto simp: authority_sign_tx_def Let_def split: if_splits option.splits)

lemma swap_owner_Inr:
  "swap_owner h w c wallet k ex s = Inr (s', evs, ok) \<Longrightarrow>
     \<exists>e new. as_signers s wallet = Some e \<and> ed25519_from_str h k = Some new \<and>
       (predecessor_account_id c = as_marketplace_authority s \<and> se_frozen e = Unfrozen \<or>
        predecessor_account_id c = as_recovery_authority s \<and>
        predecessor_account_id c \<noteq> as_marketplace_authority s \<and> se_frozen e \<noteq> Unfrozen) \<and>
       (\<forall>x. ex = Some x \<longrightarrow> (\<exists>key. ed25519_from_str h x = Some key \<and> (ok \<longleftrightarrow> se_public_key e = key))) \<and>
       (ex = None \<longrightarrow> ok) \<and>
       s' = (if ok then s\<lparr>as_signers := (as_signers s)(wallet \<mapsto>
               e\<lparr>se_frozen := Unfrozen, se_public_key := new,
                 se_nonces := nonces_new w (as_timeout_secs s),
                 se_freeze_nonces := nonces_new w (as_timeout_secs s)\<rparr>)\<rparr> else s)"
proof -
  assume a: "swap_owner h w c wallet k ex s = Inr (s', evs, ok)"
  then obtain new where new: "ed25519_from_str h k = Some new"
    by (cases "ed25519_from_str h k") (auto simp: swap_owner_def parse_key_def)
  from a new obtain e where e: "as_signers s wallet = Some e"
    by (cases "as_signers s wallet") (auto simp: swap_owner_def parse_key_def Let_def split: if_splits)
  show ?thesis
  proof (cases ex)
    case None
    with a new e show ?thesis
      by (auto simp: swap_owner_def parse_key_def Let_def split: if_splits)
  next
    case (Some x)
    with a new e show ?thesis
      by (cases "ed25519_from_str h x")
        (auto simp: swap_owner_def parse_key_def Let_def split: if_splits)
  qed
qed

lemma self_freeze_Inr:
  "self_freeze h w c wallet msg p s = Inr (s', evs, v) \<Longrightarrow>
     fm_chain_id msg = CHAIN_ID \<and> fm_signer_id msg = wallet \<and>
     (\<exists>e ns. as_signers s wallet = Some e \<and>
        tagged_verify h FREEZE_DOMAIN (borsh_freeze w msg) (se_public_key e) p \<and>
        nonces_commit w (se_freeze_nonces e) (fm_nonce msg) (fm_created_at_secs msg)
          (fm_timeout_secs msg) (block_timestamp c) = Some ns \<and>
        s' = s\<lparr>as_signers := (as_signers s)(wallet \<mapsto>
               e\<lparr>se_freeze_nonces := ns, se_frozen := SelfFrozen\<rparr>)\<rparr>)"
  by (auto simp: self_freeze_def split: if_splits option.splits)

lemma freeze_Inr:
  "freeze h c wallet ex s = Inr (s', evs, v) \<Longrightarrow>
     predecessor_account_id c = as_recovery_authority s \<and>
     (\<exists>e. as_signers s wallet = Some e \<and>
        (\<forall>x. ex = Some x \<longrightarrow> ed25519_from_str h x = Some (se_public_key e)) \<and>
        s' = s\<lparr>as_signers := (as_signers s)(wallet \<mapsto>
               (if se_frozen e \<noteq> SelfFrozen then e\<lparr>se_frozen := RecoveryFrozen\<rparr> else e))\<rparr>)"
  by (auto simp: freeze_def Let_def parse_key_Inr split: if_splits option.splits sum.splits)

lemma unfreeze_Inr:
  "unfreeze c wallet s = Inr (s', evs, v) \<Longrightarrow>
     predecessor_account_id c = as_recovery_authority s \<and>
     (\<exists>e. as_signers s wallet = Some e \<and>
        s' = (if se_frozen e = SelfFrozen then s
              else s\<lparr>as_signers := (as_signers s)(wallet \<mapsto> e\<lparr>se_frozen := Unfrozen\<rparr>)\<rparr>))"
  by (auto simp: unfreeze_def split: if_splits option.splits)

lemma install_signer_Inr:
  "install_signer h w c wallet k m s = Inr (s', evs, v) \<Longrightarrow>
     predecessor_account_id c \<in> set (as_minters s) \<and>
     is_direct_subaccount wallet (predecessor_account_id c) \<and>
     as_signers s wallet = None \<and> is_ed25519 h m \<and>
     (\<exists>key. ed25519_from_str h k = Some key \<and>
        s' = s\<lparr>as_signers := (as_signers s)(wallet \<mapsto>
               \<lparr>se_public_key = key, se_mpc_public_key = m,
                se_nonces = nonces_new w (as_timeout_secs s),
                se_freeze_nonces = nonces_new w (as_timeout_secs s),
                se_last_signed_at = 0, se_frozen = Unfrozen\<rparr>)\<rparr>)"
  by (auto simp: install_signer_def parse_key_Inr split: if_splits sum.splits)

lemmas as_admin_defs = add_minter_def remove_minter_def as_add_admin_def as_remove_admin_def

lemmas as_call_dests = submit_signed_tx_Inr submit_signed_message_Inr authority_sign_tx_Inr
  swap_owner_Inr self_freeze_Inr freeze_Inr unfreeze_Inr install_signer_Inr

interpretation as_admin: admin_registry as_admins as_add_admin as_remove_admin
  by unfold_locales (auto simp: as_admin_defs split: if_splits)

end
