(* ===== verification/Gas_Budget.thy ===== *)
theory Gas_Budget
  imports Registry_Governance Extension_Safety Active_Signer
begin

text \<open>
  Static gas. Every call and every callback carries a fixed budget in Tgas, and what it starts in
  turn must fit into it. A promise fits when each remote call in it has more than the promise that
  the callee makes reserves, and each callback more than the promise the callback makes.
\<close>

primrec gas_calls :: "'cb promise \<Rightarrow> (remote_call \<times> nat) list" where
  "gas_calls (CallP r m d g) = [(m, g)]"
| "gas_calls (BatchP r as) = []"
| "gas_calls (AndP p q) = gas_calls p @ gas_calls q"
| "gas_calls (ThenP p cb g) = gas_calls p"

primrec callback_gas :: "'cb promise \<Rightarrow> ('cb \<times> nat) list" where
  "callback_gas (CallP r m d g) = []"
| "callback_gas (BatchP r as) = []"
| "callback_gas (AndP p q) = callback_gas p @ callback_gas q"
| "callback_gas (ThenP p cb g) = callback_gas p @ [(cb, g)]"

text \<open>The gas reserved by the promises that the callees and the callbacks make.\<close>

definition remote_need :: "remote_call \<Rightarrow> nat" where
  "remote_need m = (case m of
     ForceTransfer w k e \<Rightarrow> GAS_FOR_SWAP_OWNER + GAS_FOR_SWAP_CB
   | SweepFt w f d n b \<Rightarrow> GAS_FOR_BALANCE_QUERY + GAS_FOR_BALANCE_CB
   | AuthoritySignTx w f as n b \<Rightarrow> AS_SIGN_GAS + ON_SIGNED_GAS
   | CreateSubAccount n k \<Rightarrow> DERIVE_KEY_GAS + ON_KEY_DERIVED_GAS
   | RetryInstall a k \<Rightarrow> DERIVE_KEY_GAS + ON_RETRY_KEY_DERIVED_GAS
   | _ \<Rightarrow> 0)"

definition rg_need :: "rg_callback \<Rightarrow> nat" where
  "rg_need cb = (case cb of
     OnReRentBalancesChecked p al \<Rightarrow> GAS_FOR_RERENT_FORCE + GAS_FOR_CALLBACK
   | OnBuyBalancesChecked p al \<Rightarrow> GAS_FOR_FORCE_TRANSFER + GAS_FOR_SOLD_CALLBACK
   | OnBuyPaidBalancesChecked p al op \<Rightarrow> GAS_FOR_FORCE_TRANSFER + GAS_FOR_SOLD_CALLBACK
   | OnBalancesChecked t n d al \<Rightarrow> GAS_FOR_HOS_FORCE_TRANSFER + GAS_FOR_FINALIZE_CB
   | _ \<Rightarrow> 0)"

definition hx_need :: "hx_callback \<Rightarrow> nat" where
  "hx_need cb = (case cb of
     AfterForceSwap w \<Rightarrow> GAS_FOR_RESET
   | AfterBalanceForSweep w f d n b \<Rightarrow> GAS_FOR_STORAGE_DEPOSIT + GAS_FOR_STORAGE_CB
   | AfterStorageForSweep w f d m n b \<Rightarrow> GAS_FOR_AUTHORITY_SIGN + GAS_FOR_SETTLE_CB
   | AfterSweepSettled w f d m \<Rightarrow> 0)"

definition tm_need :: "tm_callback \<Rightarrow> nat" where
  "tm_need cb = (case cb of
     OnKeyDerived a k f \<Rightarrow> ON_CREATED_GAS
   | OnWalletCreated a k m f \<Rightarrow> INSTALL_SIGNER_GAS + TM_CALLBACK_GAS
   | OnRetryKeyDerived a k \<Rightarrow> INSTALL_SIGNER_GAS
   | _ \<Rightarrow> 0)"

definition fits :: "('cb \<Rightarrow> nat) \<Rightarrow> 'cb promise \<Rightarrow> bool" where
  "fits need p \<longleftrightarrow> list_all (\<lambda>(m, g). remote_need m < g) (gas_calls p) \<and>
     list_all (\<lambda>(cb, g). need cb < g) (callback_gas p)"

lemmas gas_constants = GAS_FOR_SWAP_OWNER_def GAS_FOR_SWAP_CB_def GAS_FOR_RESET_def
  GAS_FOR_BALANCE_QUERY_def GAS_FOR_BALANCE_CB_def GAS_FOR_STORAGE_DEPOSIT_def GAS_FOR_STORAGE_CB_def
  GAS_FOR_AUTHORITY_SIGN_def GAS_FOR_SETTLE_CB_def AS_SIGN_GAS_def ON_SIGNED_GAS_def DERIVE_KEY_GAS_def
  ON_KEY_DERIVED_GAS_def ON_RETRY_KEY_DERIVED_GAS_def INSTALL_SIGNER_GAS_def TM_CALLBACK_GAS_def
  ON_CREATED_GAS_def GAS_FOR_CREATE_def GAS_FOR_CALLBACK_def GAS_FOR_RERENT_FORCE_def
  GAS_FOR_RETRY_INSTALL_def GAS_FOR_RERENT_BALANCES_CB_def GAS_FOR_FORCE_TRANSFER_def
  GAS_FOR_SOLD_CALLBACK_def GAS_FOR_BUY_BALANCES_CB_def GAS_FOR_SIGNER_QUERY_def
  GAS_FOR_VERIFY_CALLBACK_def GAS_FOR_HOS_SWEEP_def GAS_FOR_HOS_FORCE_TRANSFER_def
  RC_GAS_FOR_RETRY_INSTALL_def GAS_FOR_FINALIZE_CB_def GAS_FOR_BALANCES_CB_TOTAL_def
  GAS_FOR_CLAIM_REFUND_CB_def GAS_PER_FT_BALANCE_def

lemmas needs = remote_need_def rg_need_def hx_need_def tm_need_def fits_def

section \<open>The callees\<close>

lemma hx_exec_gas:
  assumes "hx_exec h (c, call) s = Inr (s', evs, reply)" and "p \<in> set (promises_of reply)"
  shows "fits hx_need p"
  using assms
  by (cases call) (auto simp: hx_admin_defs hx_callback_defs needs gas_constants Let_def
      dest!: force_transfer_Inr sweep_ft_Inr split: if_splits sum.splits bool.splits)

lemma hx_deliver_gas:
  assumes "hx_exec h (c, call) s = Inr (s', evs, reply)" and "delivers cb call"
  shows "(\<Sum>p\<leftarrow>promises_of reply. static_gas p) \<le> hx_need cb"
  using assms
  by (cases cb; cases call) (auto simp: hx_callback_defs needs gas_constants Let_def
      split: if_splits sum.splits bool.splits)

lemma tm_exec_gas:
  assumes "tm_exec h (c, call) s = Inr (s', evs, PromiseR p)"
  shows "fits tm_need p"
  using assms
  by (cases call) (auto simp: create_sub_account_def derive_key_def on_key_derived_def refund_and_fail_def
      on_wallet_created_def retry_install_def on_retry_key_derived_def tm_private_def needs gas_constants Let_def
      split: if_splits sum.splits option.splits)

lemma callee_gas:
  "force_transfer h c w k e x = Inr (x', evs, p) \<Longrightarrow> static_gas p \<le> remote_need (ForceTransfer w k e)"
  "sweep_ft c w f d n b x = Inr (x', evs, p) \<Longrightarrow> static_gas p \<le> remote_need (SweepFt w f d n b)"
  "create_sub_account h c nm k m = Inr (m', evs', q) \<Longrightarrow> static_gas q \<le> remote_need (CreateSubAccount nm k)"
  "retry_install h c a k m = Inr (m', evs', q) \<Longrightarrow> static_gas q \<le> remote_need (RetryInstall a k)"
  "authority_sign_tx h c w f as n b g = Inr (g', evs'', r) \<Longrightarrow>
     static_gas r \<le> remote_need (AuthoritySignTx w f as n b)"
  by (auto dest!: force_transfer_Inr sweep_ft_Inr authority_sign_tx_Inr
      simp: create_sub_account_def retry_install_def derive_key_def sign_payload_def needs Let_def
      split: if_splits)

section \<open>The registry\<close>

lemma fanout_gas:
  fixes q :: "'a promise"
  assumes "length al \<le> 16" and "static_gas q \<le> 165" and "fits need q" and "g \<le> 85" and "need cb < g"
  shows "static_gas (case ft_balance_fanout al x of None \<Rightarrow> q | Some chain \<Rightarrow> ThenP chain cb g) \<le> 165"
    and "fits need (case ft_balance_fanout al x of None \<Rightarrow> q | Some chain \<Rightarrow> ThenP chain cb g)"
proof -
  show "static_gas (case ft_balance_fanout al x of None \<Rightarrow> q | Some chain \<Rightarrow> ThenP chain cb g) \<le> 165"
    using assms(1,2,4) unfolding fanout_then by (simp add: GAS_PER_FT_BALANCE_def)
  have fold: "gas_calls (foldl (\<lambda>chain ft. AndP chain (ft_balance_query ft x)) r fts) =
      gas_calls r @ map (\<lambda>ft. (FtBalanceOf x, GAS_PER_FT_BALANCE)) fts \<and>
      callback_gas (foldl (\<lambda>chain ft. AndP chain (ft_balance_query ft x)) r fts) = callback_gas r"
    for r :: "'a promise" and fts
    by (induction fts arbitrary: r) (auto simp: ft_balance_query_def)
  then show "fits need (case ft_balance_fanout al x of None \<Rightarrow> q | Some chain \<Rightarrow> ThenP chain cb g)"
    using assms(3,5) by (cases al)
      (auto simp: ft_balance_fanout_def needs list_all_iff GAS_PER_FT_BALANCE_def ft_balance_query_def [of _ x])
qed

definition rg_gas_ok :: "rg_promise \<Rightarrow> bool" where
  "rg_gas_ok p \<longleftrightarrow> static_gas p \<le> 165 \<and> fits rg_need p"

lemma transfers_gas:
  "rg_gas_ok (re_rent_transfer e pr)" "rg_gas_ok (settle_transfer e st)" "rg_gas_ok (settle_transfer_paid e st op)"
  "rg_gas_ok (park_wallet w t n d s)"
  by (auto simp: rg_gas_ok_def re_rent_transfer_def settle_transfer_def settle_transfer_paid_def park_wallet_def
      needs gas_constants Let_def)

lemma fanout_ok:
  assumes "length al \<le> 16" and "rg_gas_ok q" and "g \<le> 85" and "rg_need cb < g"
  shows "rg_gas_ok (case ft_balance_fanout al x of None \<Rightarrow> q | Some chain \<Rightarrow> ThenP chain cb g)"
  using assms fanout_gas [of al q rg_need g cb x] by (simp add: rg_gas_ok_def)

lemma simple_calls_gas:
  "claim_refund c s = Inr (s', evs, p) \<Longrightarrow> rg_gas_ok p"
  "retry_signer_install h c t n s = Inr (s', evs, p) \<Longrightarrow> rg_gas_ok p"
  "list_sub_account h c t n pr k s = Inr (s', evs, p) \<Longrightarrow> rg_gas_ok p"
  "accept_offer h c t n b pr k s = Inr (s', evs, p) \<Longrightarrow> rg_gas_ok p"
  "reclaim_sweep_ft h c t n a x bh s = Inr (s', evs, p) \<Longrightarrow> rg_gas_ok p"
  by (auto simp: claim_refund_def retry_signer_install_def list_sub_account_def accept_offer_def
      reclaim_sweep_ft_def rg_gas_ok_def needs gas_constants Let_def split: if_splits)

lemma buy_gas:
  assumes "length (rg_ft_allowlist s) \<le> 16"
  shows "buy_sub_account h c t n k s = Inr (s', evs, p) \<Longrightarrow> rg_gas_ok p"
    and "buy_sub_account_paid h c t n b k s = Inr (s', evs, p) \<Longrightarrow> rg_gas_ok p"
proof -
  assume a: "buy_sub_account h c t n k s = Inr (s', evs, p)"
  from buy_config(1) [OF a] assms have "length (rg_ft_allowlist s') \<le> 16" by (simp add: same_config_def)
  with buy_sub_account_Inr [OF a] show "rg_gas_ok p"
    by (auto simp: Let_def rg_need_def gas_constants intro!: fanout_ok transfers_gas)
next
  assume a: "buy_sub_account_paid h c t n b k s = Inr (s', evs, p)"
  from buy_config(2) [OF a] assms have "length (rg_ft_allowlist s') \<le> 16" by (simp add: same_config_def)
  with buy_sub_account_paid_Inr [OF a] show "rg_gas_ok p"
    by (auto simp: Let_def rg_need_def gas_constants intro!: fanout_ok transfers_gas)
qed

lemma rent_gas:
  assumes "length (rg_ft_allowlist s) \<le> 16" and "rent_sub_account h c t n k w s = Inr (s', evs, p)"
  shows "rg_gas_ok p"
proof -
  from rent_sub_account_Inr [OF assms(2)] obtain rent isb s1 s2 where
    start: "ensure_mother_default (predecessor_account_id c) s = (s1, evs)"
      "(if isb then business_count_check_and_bump t s1 else Inr s1) = Inr s2" and
    p: "if rg_parked_names s (sub_account_key t n) \<noteq> None then rent \<le> attached_deposit c \<and>
       (let pend = \<lparr>prr_tla_id = t, prr_name = n, prr_payer = predecessor_account_id c,
          prr_owner_key = k, prr_rent = rent, prr_attached = attached_deposit c,
          prr_sub_account = sub_account_key t n\<rparr>
        in p = (case ft_balance_fanout (rg_ft_allowlist s2) (sub_account_key t n) of
            None \<Rightarrow> re_rent_transfer (rg_hos_extension s2) pend
          | Some chain \<Rightarrow> ThenP chain (OnReRentBalancesChecked pend (rg_ft_allowlist s2))
              GAS_FOR_RERENT_BALANCES_CB))
     else sat_add rent (fc_account_creation_deposit (rg_fee_config s)) \<le> attached_deposit c \<and>
       p = ThenP (CallP t (CreateSubAccount n k) (fc_account_creation_deposit (rg_fee_config s2)) GAS_FOR_CREATE)
         (OnSubAccountCreated t n (predecessor_account_id c) k rent (attached_deposit c)) GAS_FOR_CALLBACK"
    by (elim exE conjE)
  have "length (rg_ft_allowlist s2) \<le> 16"
    using rental_start_config [OF start] assms(1) by (simp add: same_config_def)
  with p show ?thesis
    by (auto simp: Let_def rg_need_def gas_constants split: if_splits intro!: fanout_ok transfers_gas)
      (simp add: rg_gas_ok_def needs gas_constants)
qed

lemma rent_paid_gas:
  assumes "rent_sub_account_paid h c t n k w s = Inr (s', evs, p)"
  shows "rg_gas_ok p"
  using rent_sub_account_paid_Inr [OF assms]
  by (elim exE conjE) (simp add: rg_gas_ok_def needs gas_constants)

lemma reclaim_gas:
  assumes "length (rg_ft_allowlist s) \<le> 16" and "reclaim_finalize h c t n s = Inr (s', evs, p)"
  shows "rg_gas_ok p"
proof -
  from assms(2) obtain a d where rr: "resolve_reclaimable h c t (sub_account_key t n) s = Inr (a, d)"
    by (auto simp: reclaim_finalize_def Let_def split: if_splits)
  from assms(2) have "p = (case ft_balance_fanout (rg_ft_allowlist s) a of
      None \<Rightarrow> park_wallet a t n d s'
    | Some chain \<Rightarrow> ThenP chain (OnBalancesChecked t n d (rg_ft_allowlist s)) GAS_FOR_BALANCES_CB_TOTAL)"
    by (cases "ft_balance_fanout (rg_ft_allowlist s) a :: rg_promise option")
      (auto simp: reclaim_finalize_def rr Let_def split: if_splits)
  with assms(1) show ?thesis
    by (auto simp: rg_need_def gas_constants intro!: fanout_ok transfers_gas)
qed

lemma rg_method_gas:
  assumes "rg_method h c call s = Inr (s', evs, PromiseR p)" and "length (rg_ft_allowlist s) \<le> 16"
  shows "rg_gas_ok p"
  by (cases call) (use assms(1) in \<open>auto\<close>,
      (erule simple_calls_gas buy_gas [OF assms(2)] rent_gas [OF assms(2)] rent_paid_gas reclaim_gas [OF assms(2)])+)

lemma rg_deliver_gas:
  assumes "rg_deliver h c cb r s = Inr (s', evs, PromiseR p)"
  shows "rg_gas_ok p" and "static_gas p \<le> rg_need cb"
  using assms
  by (cases cb; auto simp: on_re_rent_balances_checked_def on_buy_balances_checked_def abort_sale_def
      on_buy_paid_balances_checked_def on_balances_checked_def Let_def transfers_gas
      split: rg_result.splits BalanceGate.splits prod.splits if_splits sum.splits;
      simp add: re_rent_transfer_def settle_transfer_def settle_transfer_paid_def park_wallet_def
        rg_need_def gas_constants Let_def)+

lemma tm_deliver_gas:
  assumes "tm_exec h (c, call) s = Inr (s', evs, PromiseR p)"
  shows "case call of
      T_CreateSubAccount n k \<Rightarrow> static_gas p \<le> remote_need (CreateSubAccount n k)
    | T_OnKeyDerived a k f d \<Rightarrow> static_gas p \<le> tm_need (OnKeyDerived a k f)
    | T_OnWalletCreated a k m f r \<Rightarrow> static_gas p \<le> tm_need (OnWalletCreated a k m f)
    | T_RetryInstall a k \<Rightarrow> static_gas p \<le> remote_need (RetryInstall a k)
    | T_OnRetryKeyDerived a k d \<Rightarrow> static_gas p \<le> tm_need (OnRetryKeyDerived a k)
    | _ \<Rightarrow> False"
  using assms
  by (cases call) (auto simp: create_sub_account_def derive_key_def on_key_derived_def refund_and_fail_def
      on_wallet_created_def retry_install_def on_retry_key_derived_def tm_private_def needs gas_constants Let_def
      split: if_splits sum.splits option.splits)

text \<open>C31: Gas budgets nest. A promise of the registry reserves at most 165 Tgas while the allowlist has
  at most sixteen tokens, and each call and each callback in it is given more gas than what the
  callee or the callback reserves in turn. The same holds for the extension down to the signer's
  request to the MPC contract, where the promises that a callback returns and those it detaches are
  counted together, and for the mint and retry chains of the TLA manager.\<close>

theorem gas_budgets_nest:
  "(rg_method h c call s = Inr (s', evs, PromiseR p) \<and> length (rg_ft_allowlist s) \<le> MAX_ALLOWLIST_SIZE
      \<longrightarrow> static_gas p \<le> 165 \<and> fits rg_need p) \<and>
   (rg_deliver h c cb r s = Inr (s', evs, PromiseR p) \<longrightarrow> static_gas p \<le> rg_need cb \<and> fits rg_need p) \<and>
   (hx_exec h (c, X_ForceTransfer w k e) x = Inr (x', xevs, X_Promise q)
      \<longrightarrow> static_gas q \<le> remote_need (ForceTransfer w k e) \<and> fits hx_need q) \<and>
   (hx_exec h (c, X_SweepFt w f d n b) x = Inr (x', xevs, X_Promise q)
      \<longrightarrow> static_gas q \<le> remote_need (SweepFt w f d n b) \<and> fits hx_need q) \<and>
   (hx_exec h (c, xcall) x = Inr (x', xevs, reply) \<longrightarrow> list_all (fits hx_need) (promises_of reply) \<and>
      (delivers xcb xcall \<longrightarrow> (\<Sum>q\<leftarrow>promises_of reply. static_gas q) \<le> hx_need xcb)) \<and>
   (authority_sign_tx h c w f as n b a = Inr (a', aevs, z)
      \<longrightarrow> static_gas z \<le> remote_need (AuthoritySignTx w f as n b)) \<and>
   (tm_exec h (c, tcall) m = Inr (m', tevs, PromiseR y) \<longrightarrow> fits tm_need y \<and>
      (case tcall of
         T_CreateSubAccount n k \<Rightarrow> static_gas y \<le> remote_need (CreateSubAccount n k)
       | T_OnKeyDerived a k f d \<Rightarrow> static_gas y \<le> tm_need (OnKeyDerived a k f)
       | T_OnWalletCreated a k m f r \<Rightarrow> static_gas y \<le> tm_need (OnWalletCreated a k m f)
       | T_RetryInstall a k \<Rightarrow> static_gas y \<le> remote_need (RetryInstall a k)
       | T_OnRetryKeyDerived a k d \<Rightarrow> static_gas y \<le> tm_need (OnRetryKeyDerived a k)
       | _ \<Rightarrow> False))"
proof (intro conjI impI, goal_cases)
  case 1
  then show ?case using rg_method_gas by (auto simp: MAX_ALLOWLIST_SIZE_def rg_gas_ok_def)
next
  case 2
  then show ?case using rg_method_gas by (auto simp: MAX_ALLOWLIST_SIZE_def rg_gas_ok_def)
next
  case 3
  then show ?case by (rule rg_deliver_gas(2))
next
  case 4
  then show ?case using rg_deliver_gas(1) by (auto simp: rg_gas_ok_def)
next
  case 5
  then show ?case by (auto intro: callee_gas)
next
  case 6
  then show ?case by (rule hx_exec_gas) simp
next
  case 7
  then show ?case by (auto intro: callee_gas)
next
  case 8
  then show ?case by (rule hx_exec_gas) simp
next
  case 9
  then show ?case using hx_exec_gas by (auto simp: list_all_iff)
next
  case 10
  then show ?case by (rule hx_deliver_gas)
next
  case 11
  then show ?case by (rule callee_gas)
qed (auto intro: tm_exec_gas tm_deliver_gas)

theorem gas_budgets_nest_witness:
  "static_gas (ThenP (CallP ''ext.near'' (ForceTransfer ''joe.tla'' (demo_key 9) None) 0
       GAS_FOR_HOS_FORCE_TRANSFER) (OnReclaimFinalized ''tla'' ''joe'' ''bob.near'') GAS_FOR_FINALIZE_CB) \<le> 165"
proof -
  have "length (rg_ft_allowlist demo_minting) \<le> MAX_ALLOWLIST_SIZE"
    by (simp add: demo_minting_def demo_open_def demo_new_def MAX_ALLOWLIST_SIZE_def)
  with gas_budgets_nest [THEN conjunct1, rule_format, OF conjI, OF demo_reclaim] show ?thesis by blast
qed

end
