(* ===== verification/Dev_Contracts.thy ===== *)
theory Dev_Contracts
  imports Active_Signer Demo_Host
begin

text \<open>
  The two stand-in contracts of the sandbox: the fungible token \<open>src/dev-contracts/test-ft\<close> and the
  MPC signer \<open>src/dev-contracts/test-mpc\<close>. Fields of the token carry the prefix \<open>tf_\<close>. The secret-key
  operations of \<open>ed25519_dalek\<close> are parameters: the verifying key of a secret and its signature of a
  message.
\<close>

section \<open>The token (test-ft)\<close>

datatype ft_error =
    FT_REQUIRES_ONE_YOCTO | FT_RECEIVER_NOT_REGISTERED | FT_NOT_ENOUGH_BALANCE | FT_STORAGE_REFUSED

record TestFt =
  tf_balances :: "AccountId \<rightharpoonup> u128"
  tf_registered :: "AccountId \<rightharpoonup> bool"
  tf_total_supply :: u128
  tf_refuse_storage_deposit :: bool

definition tf_new :: "AccountId \<Rightarrow> u128 \<Rightarrow> TestFt" where
  "tf_new own total_supply =
     \<lparr>tf_balances = [own \<mapsto> total_supply], tf_registered = [own \<mapsto> True],
      tf_total_supply = total_supply, tf_refuse_storage_deposit = False\<rparr>"

definition ft_balance_of :: "TestFt \<Rightarrow> AccountId \<Rightarrow> u128" where
  "ft_balance_of s account_id = get_or 0 (tf_balances s) account_id"

definition ft_total_supply :: "TestFt \<Rightarrow> u128" where
  "ft_total_supply s = tf_total_supply s"

definition ft_transfer :: "ctx \<Rightarrow> AccountId \<Rightarrow> u128 \<Rightarrow> string option \<Rightarrow> TestFt \<Rightarrow> ft_error + TestFt" where
  "ft_transfer c receiver_id amount memo s =
     (if attached_deposit c \<noteq> 1 then Inl FT_REQUIRES_ONE_YOCTO
      else
        let sender = predecessor_account_id c
        in if tf_registered s receiver_id = None then Inl FT_RECEIVER_NOT_REGISTERED
           else
             let sender_balance = get_or 0 (tf_balances s) sender
             in if sender_balance < amount then Inl FT_NOT_ENOUGH_BALANCE
                else
                  let s = s\<lparr>tf_balances := (tf_balances s)(sender \<mapsto> sat_sub sender_balance amount)\<rparr>;
                      receiver_balance = get_or 0 (tf_balances s) receiver_id
                  in Inr (s\<lparr>tf_balances := (tf_balances s)(receiver_id \<mapsto> sat_add receiver_balance amount)\<rparr>))"

definition storage_deposit :: "ctx \<Rightarrow> AccountId option \<Rightarrow> bool option \<Rightarrow> TestFt \<Rightarrow> ft_error + TestFt" where
  "storage_deposit c account_id registration_only s =
     (if tf_refuse_storage_deposit s then Inl FT_STORAGE_REFUSED
      else
        let target = (case account_id of Some a \<Rightarrow> a | None \<Rightarrow> predecessor_account_id c)
        in Inr (s\<lparr>tf_registered := (tf_registered s)(target \<mapsto> True)\<rparr>))"

definition storage_balance_of :: "TestFt \<Rightarrow> AccountId \<Rightarrow> u128 option" where
  "storage_balance_of s account_id =
     (if tf_registered s account_id \<noteq> None then Some 1250000000000000000000 else None)"

definition is_registered :: "TestFt \<Rightarrow> AccountId \<Rightarrow> bool" where
  "is_registered s account_id \<longleftrightarrow> tf_registered s account_id \<noteq> None"

definition set_refuse_storage_deposit :: "bool \<Rightarrow> TestFt \<Rightarrow> TestFt" where
  "set_refuse_storage_deposit v s = s\<lparr>tf_refuse_storage_deposit := v\<rparr>"

definition tf_mint :: "AccountId \<Rightarrow> u128 \<Rightarrow> TestFt \<Rightarrow> TestFt" where
  "tf_mint account_id amount s =
     (let s = (if tf_registered s account_id = None
            then s\<lparr>tf_registered := (tf_registered s)(account_id \<mapsto> True)\<rparr> else s);
          cur = get_or 0 (tf_balances s) account_id;
          s = s\<lparr>tf_balances := (tf_balances s)(account_id \<mapsto> sat_add cur amount)\<rparr>
      in s\<lparr>tf_total_supply := sat_add (tf_total_supply s) amount\<rparr>)"

section \<open>The signer (test-mpc)\<close>

datatype mpc_error = MPC_MISSING_PAYLOAD | MPC_BAD_HEX | MPC_BAD_KEY

record dalek =
  verifying_key :: "byte list \<Rightarrow> byte list"
  secret_sign :: "byte list \<Rightarrow> byte list \<Rightarrow> byte list"

record TestMpc =
  mpc_secret :: "byte list"

definition mpc_new :: "byte list \<Rightarrow> TestMpc" where
  "mpc_new secret = \<lparr>mpc_secret = secret\<rparr>"

text \<open>\<open>PublicKey::try_from\<close> accepts a tag byte 0 with 32 bytes of key data.\<close>

definition derived_public_key :: "dalek \<Rightarrow> TestMpc \<Rightarrow> string \<Rightarrow> AccountId \<Rightarrow> u64 \<Rightarrow> mpc_error + PublicKey" where
  "derived_public_key d s path predecessor domain_id =
     (let verifying = verifying_key d (mpc_secret s);
          data = [0] @ verifying
      in if length data = 33 then Inr (PublicKey data) else Inl MPC_BAD_KEY)"

text \<open>Indexing a JSON value by a field name: \<open>Null\<close> where the field is missing.\<close>

definition json_field :: "json \<Rightarrow> string \<Rightarrow> json" where
  "json_field j name = (case j of
     JObj members \<Rightarrow> (case map_of members name of Some v \<Rightarrow> v | None \<Rightarrow> JNull) | _ \<Rightarrow> JNull)"

definition json_as_str :: "json \<Rightarrow> string option" where
  "json_as_str j = (case j of JStr x \<Rightarrow> Some x | _ \<Rightarrow> None)"

definition mpc_sign :: "dalek \<Rightarrow> json \<Rightarrow> TestMpc \<Rightarrow> mpc_error + json" where
  "mpc_sign d request s =
     (case json_as_str (json_field (json_field request ''payload_v2'') ''Eddsa'') of
        None \<Rightarrow> Inl MPC_MISSING_PAYLOAD
      | Some payload_hex \<Rightarrow>
          (case from_hex payload_hex of
             None \<Rightarrow> Inl MPC_BAD_HEX
           | Some payload \<Rightarrow>
               let signature = secret_sign d (mpc_secret s) payload
               in Inr (JObj [(''scheme'', JStr ''Ed25519''),
                    (''signature'', JArr (map (\<lambda>b. JNum (unat b)) signature))])))"

section \<open>Conservation of tokens\<close>

definition ft_ok :: "TestFt \<Rightarrow> bool" where
  "ft_ok s \<longleftrightarrow> finite (dom (tf_balances s)) \<and> map_total (tf_balances s) = unat (tf_total_supply s)"

abbreviation holds :: "TestFt \<Rightarrow> AccountId \<Rightarrow> nat" where
  "holds s a \<equiv> unat (ft_balance_of s a)"

lemma ft_transfer_ok:
  assumes "ft_transfer c receiver amount memo s = Inr s'" and "ft_ok s"
  shows "ft_ok s'" and "tf_total_supply s' = tf_total_supply s"
    and "holds s' a = holds s a - (if a = predecessor_account_id c then unat amount else 0)
      + (if a = receiver then unat amount else 0)"
proof -
  let ?p = "predecessor_account_id c"
  let ?m = "(tf_balances s)(?p \<mapsto> sat_sub (get_or 0 (tf_balances s) ?p) amount)"
  let ?m' = "?m(receiver \<mapsto> sat_add (get_or 0 ?m receiver) amount)"
  have le: "unat amount \<le> unat (get_or 0 (tf_balances s) ?p)" and s': "s' = s\<lparr>tf_balances := ?m'\<rparr>"
    using assms(1) by (auto simp: ft_transfer_def Let_def not_less word_le_nat_alt split: if_splits)
  have fin: "finite (dom (tf_balances s))" and tot: "map_total (tf_balances s) = unat (tf_total_supply s)"
    using assms(2) by (auto simp: ft_ok_def)
  have m: "map_total ?m + unat amount = map_total (tf_balances s)"
    using map_total_upd [OF fin, of ?p "Some (sat_sub (get_or 0 (tf_balances s) ?p) amount)"] le
    by (simp add: unat_sat_sub)
  have finm: "finite (dom ?m)" using fin by simp
  have "unat (get_or 0 ?m receiver) + unat amount \<le> unat (tf_total_supply s)"
    using map_total_member [OF finm, of receiver] m tot by linarith
  then have room: "unat (get_or 0 ?m receiver) + unat amount < 2 ^ 128"
    using unat_le_max [of "tf_total_supply s"] by simp
  have "map_total ?m' = map_total ?m + unat amount"
    using map_total_upd [OF finm, of receiver "Some (sat_add (get_or 0 ?m receiver) amount)"] room
    by (simp add: unat_sat_add_exact)
  with m tot fin show "ft_ok s'" by (simp add: ft_ok_def s')
  show "tf_total_supply s' = tf_total_supply s" by (simp add: s')
  show "holds s' a = holds s a - (if a = ?p then unat amount else 0) + (if a = receiver then unat amount else 0)"
    using room by (auto simp: ft_balance_of_def s' unat_sat_add_exact unat_sat_sub)
qed

section \<open>The signer understands the wallet contract\<close>

text \<open>The arguments of a remote call as the callee's method reads them.\<close>

definition call_args :: "'cb promise \<Rightarrow> (AccountId \<times> string \<times> json \<times> u128) option" where
  "call_args p = (case p of
     ThenP (CallP r (JsonCall m args) d g) cb g' \<Rightarrow> Some (r, m, args, d) | _ \<Rightarrow> None)"

text \<open>C38: The request to the MPC signer round-trips. From the JSON that \<open>active-signer\<close> sends, the sandbox
  signer's \<open>sign\<close> reads back exactly the payload bytes and answers with a signature of those; the
  hexadecimal text has two digits for each byte.\<close>

theorem mpc_request_roundtrip:
  "\<exists>args. call_args (sign_payload s wallet payload unsigned_tx) = Some (as_mpc_signer s, ''sign'', args, 1) \<and>
     mpc_sign d (json_field args ''request'') m =
       Inr (JObj [(''scheme'', JStr ''Ed25519''),
         (''signature'', JArr (map (\<lambda>b. JNum (unat b)) (secret_sign d (mpc_secret m) payload)))]) \<and>
     json_field (json_field args ''request'') ''path'' = JStr (mpc_path wallet) \<and>
     length (to_hex payload) = 2 * length payload"
  by (simp add: call_args_def sign_payload_def mpc_sign_def json_field_def json_as_str_def
      from_hex_to_hex length_to_hex Let_def)

end
