(* ===== verification/Mpc_Recovery.thy ===== *)
theory Mpc_Recovery
  imports Near_Calls
begin

text \<open>
  The contract \<open>mpc-recovery\<close> (\<open>src/contracts/mpc-recovery/src\<close>: \<open>lib.rs\<close>, \<open>state.rs\<close>,
  \<open>proof.rs\<close>, \<open>tx.rs\<close>, \<open>events.rs\<close>, \<open>error.rs\<close>): opt-in account recovery with a timelock, a
  watcher quorum and two target modes. Fields carry the prefixes \<open>mr_\<close> (contract), \<open>ac_\<close>
  (account), \<open>po_\<close> (policy), \<open>ws_\<close> (watcher signature); events the prefix \<open>M_\<close>. Arithmetic on
  \<open>u64\<close> that the release profile checks is checked here, with the error \<open>ARITHMETIC_OVERFLOW\<close>.
\<close>

section \<open>Data\<close>

datatype Target = Native PublicKey | Wallet AccountId PublicKey

record Policy =
  po_target :: Target
  po_attestation_key :: PublicKey
  po_timelock_secs :: u32

datatype Phase =
    Idle
  | Requested PublicKey u64 u64 \<comment> \<open>new owner, round, time of the request\<close>
  | Approving PublicKey u64
  | Approved PublicKey u64
  | Resolving PublicKey u64

fun pending :: "Phase \<Rightarrow> (PublicKey \<times> u64) option" where
  "pending (Requested new_owner round requested_at) = Some (new_owner, round)"
| "pending (Approving new_owner round) = Some (new_owner, round)"
| "pending (Approved new_owner round) = Some (new_owner, round)"
| "pending (Resolving new_owner round) = Some (new_owner, round)"
| "pending Idle = None"

definition resolving_owner :: "Phase \<Rightarrow> u64 \<Rightarrow> PublicKey option" where
  "resolving_owner phase round = (case phase of
     Resolving new_owner resolving_round \<Rightarrow>
       if resolving_round = round then Some new_owner else None
   | _ \<Rightarrow> None)"

record Account =
  ac_policy :: Policy
  ac_round :: u64
  ac_phase :: Phase

datatype mr_error =
    ONLY_OWNER | ONLY_TRANSFER_AUTHORITY | BAD_THRESHOLD | NO_POLICY | NOT_IDLE | NOT_REQUESTED
  | NOT_APPROVED | NOT_NATIVE | NOT_ACTIVE | STALE_ROUND | BAD_ATTESTATION | TIMELOCK | NO_QUORUM
  | BAD_SIGNATURE_LEN | TIMELOCK_TOO_SHORT | DUPLICATE_WATCHER | MR_MPC_NOT_ED25519
  | WATCHER_NOT_ED25519 | ATTESTATION_NOT_ED25519 | BOUND_OWNER_NOT_ED25519 | NEW_OWNER_NOT_ED25519
  | MR_NOT_ED25519 | ARITHMETIC_OVERFLOW | MR_PRIVATE | MR_NO_DEPOSIT

datatype mr_event =
    M_PolicyInstalled AccountId
  | M_Requested AccountId u64 PublicKey
  | M_Approved AccountId u64
  | M_Canceled AccountId u64
  | M_NativeSignatureProduced AccountId u64
  | M_Finalized AccountId u64
  | M_Aborted AccountId u64
  | M_Voided AccountId u64
  | M_PolicyReset AccountId

definition MR_SIGN_GAS :: nat where "MR_SIGN_GAS = 60"
definition SWAP_GAS :: nat where "SWAP_GAS = 15"
definition FREEZE_GAS :: nat where "FREEZE_GAS = 15"
definition MR_CALLBACK_GAS :: nat where "MR_CALLBACK_GAS = 20"
definition MR_ED25519_DOMAIN :: nat where "MR_ED25519_DOMAIN = 1"
definition NS_PER_SEC :: u64 where "NS_PER_SEC = 1000000000"
definition MIN_TIMELOCK_SECS :: u32 where "MIN_TIMELOCK_SECS = 60"

record MpcRecovery =
  mr_owner :: AccountId
  mr_signer :: AccountId
  mr_transfer_authority :: AccountId
  mr_watchers :: "PublicKey list"
  mr_threshold :: u32
  mr_accounts :: "AccountId \<rightharpoonup> Account"
  mr_round_floor :: "AccountId \<rightharpoonup> u64"

record WatcherSignature =
  ws_public_key :: PublicKey
  ws_signature :: "byte list"

record RecoveryResult =
  rr_signed_tx_hash :: string
  rr_mpc_signature :: json

datatype mr_callback =
    OnFrozen AccountId u64
  | OnFinalized AccountId u64
  | OnAborted AccountId u64
  | OnMpcSigned AccountId u64 string

type_synonym 'r mr_outcome = "(mr_error, MpcRecovery, mr_event, 'r) outcome"

section \<open>Signed messages (proof.rs) and the recovery transaction (tx.rs)\<close>

definition DOMAIN_REQUEST :: u8 where "DOMAIN_REQUEST = 1"
definition DOMAIN_VERDICT :: u8 where "DOMAIN_VERDICT = 2"

definition push_str :: "byte list \<Rightarrow> string \<Rightarrow> byte list" where
  "push_str m s = (m @ le_bytes 4 (word_of_nat (length s) :: u32)) @ str_bytes s"

definition message_core :: "u8 \<Rightarrow> AccountId \<Rightarrow> AccountId \<Rightarrow> PublicKey \<Rightarrow> u64 \<Rightarrow> byte list" where
  "message_core domain contract account new_owner round =
     (let m = [domain];
          m = push_str m contract;
          m = push_str m account;
          m = m @ as_bytes new_owner
      in m @ le_bytes 8 round)"

definition request_message :: "AccountId \<Rightarrow> AccountId \<Rightarrow> PublicKey \<Rightarrow> u64 \<Rightarrow> byte list" where
  "request_message contract account new_owner round =
     message_core DOMAIN_REQUEST contract account new_owner round"

definition verdict_message :: "AccountId \<Rightarrow> AccountId \<Rightarrow> PublicKey \<Rightarrow> u64 \<Rightarrow> bool \<Rightarrow> byte list" where
  "verdict_message contract account new_owner round silent =
     message_core DOMAIN_VERDICT contract account new_owner round @ [if silent then 1 else 0]"

definition ed25519_key :: "PublicKey \<Rightarrow> byte list option" where
  "ed25519_key key =
     (let bytes = as_bytes key
      in if length bytes \<noteq> 33 \<or> bytes ! 0 \<noteq> 0 then None else Some (drop 1 bytes))"

definition proof_verify :: "host \<Rightarrow> byte list \<Rightarrow> byte list \<Rightarrow> PublicKey \<Rightarrow> bool" where
  "proof_verify h message signature key = (case ed25519_key key of
     Some pubkey \<Rightarrow>
       if (case dalek_is_weak h pubkey of Some weak \<Rightarrow> weak | None \<Rightarrow> True) then False
       else ed25519_verify h signature message pubkey
   | None \<Rightarrow> False)"

text \<open>The loop of \<open>verify_quorum\<close>, with the keys counted so far.\<close>

primrec count_signers :: "host \<Rightarrow> byte list \<Rightarrow> PublicKey list \<Rightarrow> (PublicKey \<times> byte list) list
    \<Rightarrow> PublicKey list \<Rightarrow> PublicKey list" where
  "count_signers h message watchers [] counted = counted"
| "count_signers h message watchers (ks # rest) counted =
     (case ks of (key, signature) \<Rightarrow>
        if key \<notin> set watchers \<or> key \<in> set counted
        then count_signers h message watchers rest counted
        else if proof_verify h message signature key
        then count_signers h message watchers rest (counted @ [key])
        else count_signers h message watchers rest counted)"

definition verify_quorum :: "host \<Rightarrow> byte list \<Rightarrow> (PublicKey \<times> byte list) list \<Rightarrow> PublicKey list
    \<Rightarrow> u32 \<Rightarrow> bool" where
  "verify_quorum h message signatures watchers threshold =
     (word_of_nat (length (count_signers h message watchers signatures [])) \<ge> threshold)"

definition ACTION_ADD_KEY :: u8 where "ACTION_ADD_KEY = 5"
definition PERMISSION_FULL_ACCESS :: u8 where "PERMISSION_FULL_ACCESS = 1"

definition tx_write_str :: "byte list \<Rightarrow> string \<Rightarrow> byte list" where
  "tx_write_str b s = (b @ le_bytes 4 (word_of_nat (length s) :: u32)) @ str_bytes s"

definition add_key_tx :: "AccountId \<Rightarrow> PublicKey \<Rightarrow> u64 \<Rightarrow> byte list \<Rightarrow> PublicKey \<Rightarrow> byte list" where
  "add_key_tx account signing_key nonce block_hash new_key =
     (let b = tx_write_str [] account;
          b = b @ as_bytes signing_key;
          b = b @ le_bytes 8 nonce;
          b = tx_write_str b account;
          b = b @ block_hash;
          b = b @ le_bytes 4 (1 :: u32);
          b = b @ [ACTION_ADD_KEY];
          b = b @ as_bytes new_key;
          b = b @ le_bytes 8 (0 :: u64)
      in b @ [PERMISSION_FULL_ACCESS])"

primrec tx_to_hex :: "byte list \<Rightarrow> string" where
  "tx_to_hex [] = []"
| "tx_to_hex (b # bs) = [HEX ! unat (drop_bit 4 b), HEX ! unat (and b 15)] @ tx_to_hex bs"

section \<open>Remote calls\<close>

definition call_signer :: "AccountId \<Rightarrow> string \<Rightarrow> json \<Rightarrow> nat \<Rightarrow> mr_callback promise" where
  "call_signer active_signer method args gas = CallP active_signer (JsonCall method args) 0 gas"

definition mr_swap_owner :: "host \<Rightarrow> AccountId \<Rightarrow> AccountId \<Rightarrow> PublicKey \<Rightarrow> PublicKey
    \<Rightarrow> mr_error + mr_callback promise" where
  "mr_swap_owner h active_signer account new_owner bound_owner =
     (case ed25519_base58_or_panic h MR_NOT_ED25519 new_owner of
        Inl e \<Rightarrow> Inl e
      | Inr new_key \<Rightarrow>
          (case ed25519_base58_or_panic h MR_NOT_ED25519 bound_owner of
             Inl e \<Rightarrow> Inl e
           | Inr bound_key \<Rightarrow>
               Inr (call_signer active_signer ''swap_owner''
                 (JObj [(''wallet'', JStr account), (''new_public_key'', JStr new_key),
                        (''expected_current'', JStr bound_key)]) SWAP_GAS)))"

definition mr_freeze :: "host \<Rightarrow> AccountId \<Rightarrow> AccountId \<Rightarrow> PublicKey
    \<Rightarrow> mr_error + mr_callback promise" where
  "mr_freeze h active_signer account bound_owner =
     (case ed25519_base58_or_panic h MR_NOT_ED25519 bound_owner of
        Inl e \<Rightarrow> Inl e
      | Inr bound_key \<Rightarrow>
          Inr (call_signer active_signer ''freeze''
            (JObj [(''wallet'', JStr account), (''expected_current'', JStr bound_key)]) FREEZE_GAS))"

definition mr_unfreeze :: "AccountId \<Rightarrow> AccountId \<Rightarrow> mr_callback promise" where
  "mr_unfreeze active_signer account =
     call_signer active_signer ''unfreeze'' (JObj [(''wallet'', JStr account)]) FREEZE_GAS"

definition native_path :: "AccountId \<Rightarrow> string" where
  "native_path account = ''hos-recovery/'' @ account"

definition into_sig :: "byte list \<Rightarrow> mr_error + byte list" where
  "into_sig bytes = (if length bytes = 64 then Inr bytes else Inl BAD_SIGNATURE_LEN)"

definition sign_add_key :: "host \<Rightarrow> MpcRecovery \<Rightarrow> AccountId \<Rightarrow> PublicKey \<Rightarrow> u64 \<Rightarrow> byte list
    \<Rightarrow> PublicKey \<Rightarrow> u64 \<Rightarrow> mr_callback promise" where
  "sign_add_key h s account mpc_public_key nonce block_hash new_owner round =
     (let path = native_path account;
          unsigned = add_key_tx account mpc_public_key nonce block_hash new_owner;
          hash_hex = tx_to_hex (sha256 h unsigned);
          args = JObj [(''request'', JObj [(''path'', JStr path),
            (''payload_v2'', JObj [(''Eddsa'', JStr hash_hex)]),
            (''domain_id'', JNum MR_ED25519_DOMAIN)])]
      in ThenP (CallP (mr_signer s) (JsonCall ''sign'' args) 1 MR_SIGN_GAS)
           (OnMpcSigned account round hash_hex) MR_CALLBACK_GAS)"

section \<open>Calls\<close>

text \<open>The watcher loop of \<open>new\<close>, with the keys seen so far.\<close>

primrec check_watchers :: "host \<Rightarrow> PublicKey list \<Rightarrow> PublicKey set \<Rightarrow> mr_error option" where
  "check_watchers h [] seen = None"
| "check_watchers h (watcher # rest) seen =
     (if \<not> is_ed25519 h watcher then Some WATCHER_NOT_ED25519
      else if watcher \<in> seen then Some DUPLICATE_WATCHER
      else check_watchers h rest (insert watcher seen))"

definition mr_new :: "host \<Rightarrow> AccountId \<Rightarrow> AccountId \<Rightarrow> AccountId \<Rightarrow> PublicKey list \<Rightarrow> u32
    \<Rightarrow> mr_error + MpcRecovery" where
  "mr_new h own signer transfer_authority watchers threshold =
     (if \<not> (threshold > 0 \<and> unat threshold \<le> length watchers) then Inl BAD_THRESHOLD
      else (case check_watchers h watchers {} of
              Some e \<Rightarrow> Inl e
            | None \<Rightarrow> Inr \<lparr>mr_owner = own, mr_signer = signer,
                mr_transfer_authority = transfer_authority, mr_watchers = watchers,
                mr_threshold = threshold, mr_accounts = Map.empty, mr_round_floor = Map.empty\<rparr>))"

definition install_policy :: "host \<Rightarrow> ctx \<Rightarrow> AccountId \<Rightarrow> Target \<Rightarrow> PublicKey \<Rightarrow> u32
    \<Rightarrow> MpcRecovery \<Rightarrow> unit mr_outcome" where
  "install_policy h c account target attestation_key timelock_secs s =
     (let installed = (\<lambda>round. Inr (s\<lparr>mr_accounts := (mr_accounts s)(account \<mapsto>
            \<lparr>ac_policy = \<lparr>po_target = target, po_attestation_key = attestation_key,
               po_timelock_secs = timelock_secs\<rparr>, ac_round = round, ac_phase = Idle\<rparr>)\<rparr>,
            [M_PolicyInstalled account], ()))
      in if predecessor_account_id c \<noteq> mr_owner s then Inl ONLY_OWNER
         else if \<not> timelock_secs \<ge> MIN_TIMELOCK_SECS then Inl TIMELOCK_TOO_SHORT
         else if \<not> is_ed25519 h attestation_key then Inl ATTESTATION_NOT_ED25519
         else (case (case target of
                 Native mpc_public_key \<Rightarrow>
                   if \<not> is_ed25519 h mpc_public_key then Some MR_MPC_NOT_ED25519 else None
               | Wallet _ bound_owner \<Rightarrow>
                   if \<not> is_ed25519 h bound_owner then Some BOUND_OWNER_NOT_ED25519 else None) of
           Some e \<Rightarrow> Inl e
         | None \<Rightarrow>
             (case mr_accounts s account of
                Some existing \<Rightarrow>
                  if ac_phase existing \<noteq> Idle then Inl NOT_IDLE else installed (ac_round existing)
              | None \<Rightarrow> installed (get_or 0 (mr_round_floor s) account))))"

definition request_recovery :: "host \<Rightarrow> ctx \<Rightarrow> AccountId \<Rightarrow> PublicKey \<Rightarrow> u64 \<Rightarrow> byte list
    \<Rightarrow> MpcRecovery \<Rightarrow> unit mr_outcome" where
  "request_recovery h c account new_owner round attestation s =
     (case mr_accounts s account of
        None \<Rightarrow> Inl NO_POLICY
      | Some entry \<Rightarrow>
          if ac_phase entry \<noteq> Idle then Inl NOT_IDLE
          else if round \<noteq> ac_round entry then Inl STALE_ROUND
          else if (case po_target (ac_policy entry) of Wallet _ _ \<Rightarrow> True | Native _ \<Rightarrow> False)
                  \<and> \<not> is_ed25519 h new_owner then Inl NEW_OWNER_NOT_ED25519
          else (case into_sig attestation of
                  Inl e \<Rightarrow> Inl e
                | Inr signature \<Rightarrow>
                    if \<not> proof_verify h (request_message (current_account_id c) account new_owner
                           (ac_round entry)) signature (po_attestation_key (ac_policy entry))
                    then Inl BAD_ATTESTATION
                    else (case checked_add (ac_round entry) 1 of
                            None \<Rightarrow> Inl ARITHMETIC_OVERFLOW
                          | Some next_round \<Rightarrow>
                              Inr (s\<lparr>mr_accounts := (mr_accounts s)(account \<mapsto>
                                     entry\<lparr>ac_phase := Requested new_owner (ac_round entry)
                                         (block_timestamp c),
                                       ac_round := next_round\<rparr>)\<rparr>,
                                   [M_Requested account (ac_round entry) new_owner], ()))))"

definition set_phase :: "AccountId \<Rightarrow> Account \<Rightarrow> Phase \<Rightarrow> MpcRecovery \<Rightarrow> MpcRecovery" where
  "set_phase account entry phase s =
     s\<lparr>mr_accounts := (mr_accounts s)(account \<mapsto> entry\<lparr>ac_phase := phase\<rparr>)\<rparr>"

definition submit_verdict :: "host \<Rightarrow> ctx \<Rightarrow> AccountId \<Rightarrow> bool \<Rightarrow> WatcherSignature list
    \<Rightarrow> MpcRecovery \<Rightarrow> (mr_callback, unit) promise_or_value mr_outcome" where
  "submit_verdict h c account silent signatures s =
     (case mr_accounts s account of
        None \<Rightarrow> Inl NO_POLICY
      | Some entry \<Rightarrow>
          (case ac_phase entry of
             Requested new_owner round requested_at \<Rightarrow>
               (case Option.bind (checked_mul (ucast (po_timelock_secs (ac_policy entry))) NS_PER_SEC)
                       (checked_add requested_at) of
                  None \<Rightarrow> Inl ARITHMETIC_OVERFLOW
                | Some unlock \<Rightarrow>
                    if \<not> block_timestamp c \<ge> unlock then Inl TIMELOCK
                    else
                      let message = verdict_message (current_account_id c) account new_owner round silent;
                          sigs = map (\<lambda>w. (ws_public_key w, ws_signature w))
                            (filter (\<lambda>w. length (ws_signature w) = 64) signatures)
                      in if \<not> verify_quorum h message sigs (mr_watchers s) (mr_threshold s)
                         then Inl NO_QUORUM
                         else if \<not> silent
                         then Inr (set_phase account entry Idle s, [M_Canceled account round], ValueR ())
                         else (case po_target (ac_policy entry) of
                           Wallet active_signer bound_owner \<Rightarrow>
                             (case mr_freeze h active_signer account bound_owner of
                                Inl e \<Rightarrow> Inl e
                              | Inr p \<Rightarrow> Inr (set_phase account entry (Approving new_owner round) s, [],
                                  PromiseR (ThenP p (OnFrozen account round) MR_CALLBACK_GAS)))
                         | Native _ \<Rightarrow>
                             Inr (set_phase account entry (Approved new_owner round) s,
                                  [M_Approved account round], ValueR ())))
           | _ \<Rightarrow> Inl NOT_REQUESTED))"

definition on_frozen :: "AccountId \<Rightarrow> u64 \<Rightarrow> unit promise_result \<Rightarrow> MpcRecovery \<Rightarrow> unit mr_outcome" where
  "on_frozen account round result s =
     (case mr_accounts s account of
        None \<Rightarrow> Inr (s, [], ())
      | Some entry \<Rightarrow>
          (case ac_phase entry of
             Approving new_owner approving_round \<Rightarrow>
               if approving_round \<noteq> round then Inr (s, [], ())
               else if is_ok result
               then Inr (set_phase account entry (Approved new_owner round) s, [M_Approved account round], ())
               else Inr (set_phase account entry Idle s, [M_Canceled account round], ())
           | _ \<Rightarrow> Inr (s, [], ())))"

definition finalize_recovery :: "host \<Rightarrow> ctx \<Rightarrow> AccountId \<Rightarrow> u64 \<Rightarrow> byte list \<Rightarrow> MpcRecovery
    \<Rightarrow> mr_callback promise mr_outcome" where
  "finalize_recovery h c account nonce block_hash s =
     (case mr_accounts s account of
        None \<Rightarrow> Inl NO_POLICY
      | Some entry \<Rightarrow>
          (case ac_phase entry of
             Approved new_owner round \<Rightarrow>
               if (case po_target (ac_policy entry) of Native _ \<Rightarrow> True | Wallet _ _ \<Rightarrow> False)
                  \<and> predecessor_account_id c \<noteq> mr_owner s then Inl ONLY_OWNER
               else
                 let s' = set_phase account entry (Resolving new_owner round) s
                 in (case po_target (ac_policy entry) of
                       Native mpc_public_key \<Rightarrow>
                         Inr (s', [], sign_add_key h s' account mpc_public_key nonce block_hash
                                new_owner round)
                     | Wallet active_signer bound_owner \<Rightarrow>
                         (case mr_swap_owner h active_signer account new_owner bound_owner of
                            Inl e \<Rightarrow> Inl e
                          | Inr p \<Rightarrow> Inr (s', [], ThenP p (OnFinalized account round) MR_CALLBACK_GAS)))
           | _ \<Rightarrow> Inl NOT_APPROVED))"

definition abort_recovery :: "ctx \<Rightarrow> AccountId \<Rightarrow> MpcRecovery
    \<Rightarrow> (mr_callback, unit) promise_or_value mr_outcome" where
  "abort_recovery c account s =
     (if predecessor_account_id c \<noteq> mr_owner s then Inl ONLY_OWNER
      else (case mr_accounts s account of
              None \<Rightarrow> Inl NO_POLICY
            | Some entry \<Rightarrow>
                let release = (\<lambda>round. Inr (set_phase account entry Idle s, [M_Aborted account round],
                      ValueR ()))
                in (case (ac_phase entry, po_target (ac_policy entry)) of
                      (Requested _ round _, _) \<Rightarrow> release round
                    | (Approved _ round, Native _) \<Rightarrow> release round
                    | (Approved new_owner round, Wallet active_signer _) \<Rightarrow>
                        Inr (set_phase account entry (Resolving new_owner round) s, [],
                          PromiseR (ThenP (mr_unfreeze active_signer account)
                            (OnAborted account round) MR_CALLBACK_GAS))
                    | (Idle, _) \<Rightarrow> Inl NOT_ACTIVE
                    | (Approving _ _, _) \<Rightarrow> Inl NOT_ACTIVE
                    | (Resolving _ _, _) \<Rightarrow> Inl NOT_ACTIVE)))"

definition on_finalized :: "AccountId \<Rightarrow> u64 \<Rightarrow> bool promise_result \<Rightarrow> MpcRecovery \<Rightarrow> unit mr_outcome" where
  "on_finalized account round result s =
     (case mr_accounts s account of
        None \<Rightarrow> Inr (s, [], ())
      | Some entry \<Rightarrow>
          (case ac_phase entry of
             Resolving new_owner resolving_round \<Rightarrow>
               if resolving_round \<noteq> round then Inr (s, [], ())
               else (case result of
                 Inr True \<Rightarrow>
                   let policy = ac_policy entry;
                       target = (case po_target policy of
                         Wallet active_signer _ \<Rightarrow> Wallet active_signer new_owner
                       | Native key \<Rightarrow> Native key)
                   in Inr (set_phase account (entry\<lparr>ac_policy := policy\<lparr>po_target := target\<rparr>\<rparr>) Idle s,
                           [M_Finalized account round], ())
               | Inr False \<Rightarrow> Inr (set_phase account entry Idle s, [M_Voided account round], ())
               | Inl _ \<Rightarrow> Inr (set_phase account entry (Approved new_owner round) s, [], ()))
           | _ \<Rightarrow> Inr (s, [], ())))"

definition settle_resolving :: "AccountId \<Rightarrow> u64 \<Rightarrow> bool \<Rightarrow> MpcRecovery \<Rightarrow> MpcRecovery \<times> bool" where
  "settle_resolving account round settled s =
     (case mr_accounts s account of
        None \<Rightarrow> (s, False)
      | Some entry \<Rightarrow>
          (case resolving_owner (ac_phase entry) round of
             None \<Rightarrow> (s, False)
           | Some new_owner \<Rightarrow>
               (set_phase account entry (if settled then Idle else Approved new_owner round) s, True)))"

definition on_aborted :: "AccountId \<Rightarrow> u64 \<Rightarrow> unit promise_result \<Rightarrow> MpcRecovery \<Rightarrow> unit mr_outcome" where
  "on_aborted account round result s =
     (case settle_resolving account round (is_ok result) s of
        (s', settled) \<Rightarrow>
          Inr (s', if settled \<and> is_ok result then [M_Aborted account round] else [], ()))"

definition mr_on_signed :: "AccountId \<Rightarrow> u64 \<Rightarrow> string \<Rightarrow> json promise_result \<Rightarrow> MpcRecovery
    \<Rightarrow> RecoveryResult option mr_outcome" where
  "mr_on_signed account round signed_tx_hash mpc_signature s =
     (case settle_resolving account round False s of
        (s', reverted) \<Rightarrow>
          (case mpc_signature of
             Inr signature \<Rightarrow>
               if reverted
               then Inr (s', [M_NativeSignatureProduced account round],
                      Some \<lparr>rr_signed_tx_hash = signed_tx_hash, rr_mpc_signature = signature\<rparr>)
               else Inr (s', [], None)
           | Inl _ \<Rightarrow> Inr (s', [], None)))"

definition claim_native_finalized :: "ctx \<Rightarrow> AccountId \<Rightarrow> u64 \<Rightarrow> MpcRecovery \<Rightarrow> unit mr_outcome" where
  "claim_native_finalized c account round s =
     (if predecessor_account_id c \<noteq> mr_owner s then Inl ONLY_OWNER
      else (case mr_accounts s account of
              None \<Rightarrow> Inl NO_POLICY
            | Some entry \<Rightarrow>
                if \<not> (case po_target (ac_policy entry) of Native _ \<Rightarrow> True | Wallet _ _ \<Rightarrow> False)
                then Inl NOT_NATIVE
                else (case ac_phase entry of
                   Approved _ approved \<Rightarrow>
                     if approved = round
                     then Inr (set_phase account entry Idle s, [M_Finalized account round], ())
                     else Inl NOT_APPROVED
                 | _ \<Rightarrow> Inl NOT_APPROVED)))"

definition on_wallet_transferred :: "ctx \<Rightarrow> AccountId \<Rightarrow> MpcRecovery \<Rightarrow> unit mr_outcome" where
  "on_wallet_transferred c wallet s =
     (if predecessor_account_id c \<noteq> mr_transfer_authority s then Inl ONLY_TRANSFER_AUTHORITY
      else
        let preserved_round = (case mr_accounts s wallet of
              Some account \<Rightarrow>
                (case ac_phase account of
                   Idle \<Rightarrow> Some (ac_round account)
                 | Requested _ _ _ \<Rightarrow> Some (ac_round account)
                 | _ \<Rightarrow> None)
            | None \<Rightarrow> None)
        in (case preserved_round of
              Some round \<Rightarrow> Inr (s\<lparr>mr_round_floor := (mr_round_floor s)(wallet \<mapsto> round),
                  mr_accounts := (mr_accounts s)(wallet := None)\<rparr>, [M_PolicyReset wallet], ())
            | None \<Rightarrow> Inr (s, [], ())))"

section \<open>Views\<close>

definition round_of :: "MpcRecovery \<Rightarrow> AccountId \<Rightarrow> u64 option" where
  "round_of s account = map_option ac_round (mr_accounts s account)"

definition pending_target :: "host \<Rightarrow> MpcRecovery \<Rightarrow> AccountId \<Rightarrow> string option" where
  "pending_target h s account = Option.bind (mr_accounts s account)
     (\<lambda>a. map_option (\<lambda>(key, _). key_to_string h key) (pending (ac_phase a)))"

definition expected_native_path :: "AccountId \<Rightarrow> string" where
  "expected_native_path account = native_path account"

section \<open>The method table\<close>

datatype mr_call =
    D_InstallPolicy AccountId Target PublicKey u32
  | D_RequestRecovery AccountId PublicKey u64 "byte list"
  | D_SubmitVerdict AccountId bool "WatcherSignature list"
  | D_OnFrozen AccountId u64 "unit promise_result"
  | D_FinalizeRecovery AccountId u64 "byte list"
  | D_AbortRecovery AccountId
  | D_OnFinalized AccountId u64 "bool promise_result"
  | D_OnAborted AccountId u64 "unit promise_result"
  | D_OnSigned AccountId u64 string "json promise_result"
  | D_ClaimNativeFinalized AccountId u64
  | D_OnWalletTransferred AccountId

datatype mr_reply =
    Q_Unit
  | Q_Promise "mr_callback promise"
  | Q_Result "RecoveryResult option"

primrec reply_of :: "(mr_callback, unit) promise_or_value \<Rightarrow> mr_reply" where
  "reply_of (PromiseR p) = Q_Promise p"
| "reply_of (ValueR u) = Q_Unit"

fun mr_exec :: "host \<Rightarrow> ctx \<times> mr_call \<Rightarrow> MpcRecovery \<Rightarrow> mr_reply mr_outcome" where
  "mr_exec h (c, D_InstallPolicy a t k l) s =
     non_payable MR_NO_DEPOSIT c (map_reply (\<lambda>_. Q_Unit) (install_policy h c a t k l s))"
| "mr_exec h (c, D_RequestRecovery a k r att) s =
     non_payable MR_NO_DEPOSIT c (map_reply (\<lambda>_. Q_Unit) (request_recovery h c a k r att s))"
| "mr_exec h (c, D_SubmitVerdict a silent sigs) s =
     non_payable MR_NO_DEPOSIT c (map_reply reply_of (submit_verdict h c a silent sigs s))"
| "mr_exec h (c, D_OnFrozen a r res) s =
     private_only MR_PRIVATE c (non_payable MR_NO_DEPOSIT c (map_reply (\<lambda>_. Q_Unit) (on_frozen a r res s)))"
| "mr_exec h (c, D_FinalizeRecovery a n b) s =
     non_payable MR_NO_DEPOSIT c (map_reply Q_Promise (finalize_recovery h c a n b s))"
| "mr_exec h (c, D_AbortRecovery a) s =
     non_payable MR_NO_DEPOSIT c (map_reply reply_of (abort_recovery c a s))"
| "mr_exec h (c, D_OnFinalized a r res) s =
     private_only MR_PRIVATE c (non_payable MR_NO_DEPOSIT c (map_reply (\<lambda>_. Q_Unit) (on_finalized a r res s)))"
| "mr_exec h (c, D_OnAborted a r res) s =
     private_only MR_PRIVATE c (non_payable MR_NO_DEPOSIT c (map_reply (\<lambda>_. Q_Unit) (on_aborted a r res s)))"
| "mr_exec h (c, D_OnSigned a r hash res) s =
     private_only MR_PRIVATE c (non_payable MR_NO_DEPOSIT c (map_reply Q_Result (mr_on_signed a r hash res s)))"
| "mr_exec h (c, D_ClaimNativeFinalized a r) s =
     non_payable MR_NO_DEPOSIT c (map_reply (\<lambda>_. Q_Unit) (claim_native_finalized c a r s))"
| "mr_exec h (c, D_OnWalletTransferred a) s =
     non_payable MR_NO_DEPOSIT c (map_reply (\<lambda>_. Q_Unit) (on_wallet_transferred c a s))"

end
