(* ===== verification/Recovery_Safety.thy ===== *)
theory Recovery_Safety
  imports Mpc_Recovery Demo_Host
begin

text \<open>
  What \<open>mpc-recovery\<close> promises about an account under a recovery policy, as an abstract machine
  on the account's entry: each step names the act it rests on (an administrative call, an
  attestation, a watcher verdict, the settlement of a remote call, a transfer of the wallet),
  and \<open>can_act\<close> says what such an act requires of the caller and the evidence. Every call of
  the contract is one step of the machine; rounds, evidence and settlement follow from it.
\<close>

section \<open>The recovery machine\<close>

text \<open>What a callback of the contract brings back: whether the freeze went through, what the swap
  answered, whether the unfreeze went through, or the end of a signature request.\<close>

datatype settlement = Froze bool | Swapped "bool promise_result" | Unfroze bool | Signed

datatype recovery_act =
    Enroll Policy
  | Administer
  | Attest PublicKey u64 u64
  | Judge PublicKey u64 bool
  | Finalize
  | Settle u64 settlement
  | HandOver
  | Pass

abbreviation is_native :: "Account \<Rightarrow> bool" where
  "is_native e \<equiv> (case po_target (ac_policy e) of Native _ \<Rightarrow> True | Wallet _ _ \<Rightarrow> False)"

definition rebound :: "PublicKey \<Rightarrow> Account \<Rightarrow> Account" where
  "rebound k e = e\<lparr>ac_policy := (ac_policy e)\<lparr>po_target := (case po_target (ac_policy e) of
     Wallet active_signer _ \<Rightarrow> Wallet active_signer k | Native key \<Rightarrow> Native key)\<rparr>\<rparr>"

inductive recovery_step :: "recovery_act \<Rightarrow> Account option \<Rightarrow> Account option \<Rightarrow> bool" where
  set_up: "recovery_step (Enroll p) None (Some \<lparr>ac_policy = p, ac_round = r, ac_phase = Idle\<rparr>)"
| set_again: "ac_phase e = Idle \<Longrightarrow> recovery_step (Enroll p) (Some e)
    (Some \<lparr>ac_policy = p, ac_round = ac_round e, ac_phase = Idle\<rparr>)"
| attested: "ac_phase e = Idle \<Longrightarrow> ac_round e = r \<Longrightarrow> checked_add r 1 = Some r' \<Longrightarrow>
    recovery_step (Attest k r t) (Some e) (Some (e\<lparr>ac_phase := Requested k r t, ac_round := r'\<rparr>))"
| canceled: "ac_phase e = Requested k r t \<Longrightarrow>
    recovery_step (Judge k r False) (Some e) (Some (e\<lparr>ac_phase := Idle\<rparr>))"
| approved: "ac_phase e = Requested k r t \<Longrightarrow> p = (if is_native e then Approved k r else Approving k r) \<Longrightarrow>
    recovery_step (Judge k r True) (Some e) (Some (e\<lparr>ac_phase := p\<rparr>))"
| froze: "ac_phase e = Approving k r \<Longrightarrow> p = (if ok then Approved k r else Idle) \<Longrightarrow>
    recovery_step (Settle r (Froze ok)) (Some e) (Some (e\<lparr>ac_phase := p\<rparr>))"
| finalizing: "ac_phase e = Approved k r \<Longrightarrow>
    recovery_step Finalize (Some e) (Some (e\<lparr>ac_phase := Resolving k r\<rparr>))"
| recovered: "ac_phase e = Resolving k r \<Longrightarrow>
    recovery_step (Settle r (Swapped (Inr True))) (Some e) (Some ((rebound k e)\<lparr>ac_phase := Idle\<rparr>))"
| voided: "ac_phase e = Resolving k r \<Longrightarrow>
    recovery_step (Settle r (Swapped (Inr False))) (Some e) (Some (e\<lparr>ac_phase := Idle\<rparr>))"
| undone: "ac_phase e = Resolving k r \<Longrightarrow>
    recovery_step (Settle r (Swapped (Inl f))) (Some e) (Some (e\<lparr>ac_phase := Approved k r\<rparr>))"
| released: "ac_phase e = Resolving k r \<Longrightarrow> p = (if ok then Idle else Approved k r) \<Longrightarrow>
    recovery_step (Settle r (Unfroze ok)) (Some e) (Some (e\<lparr>ac_phase := p\<rparr>))"
| signed: "ac_phase e = Resolving k r \<Longrightarrow>
    recovery_step (Settle r Signed) (Some e) (Some (e\<lparr>ac_phase := Approved k r\<rparr>))"
| withdrawn: "(\<exists>k r t. ac_phase e = Requested k r t) \<or> is_native e \<and> (\<exists>k r. ac_phase e = Approved k r) \<Longrightarrow>
    recovery_step Administer (Some e) (Some (e\<lparr>ac_phase := Idle\<rparr>))"
| releasing: "ac_phase e = Approved k r \<Longrightarrow>
    recovery_step Administer (Some e) (Some (e\<lparr>ac_phase := Resolving k r\<rparr>))"
| reset: "ac_phase e = Idle \<or> (\<exists>k r t. ac_phase e = Requested k r t) \<Longrightarrow>
    recovery_step HandOver (Some e) None"
| stays: "recovery_step Pass x x"

inductive_cases recovery_step_to: "recovery_step act x (Some e')"

text \<open>The time at which a verdict on a request becomes possible.\<close>

definition unlock_time :: "Policy \<Rightarrow> u64 \<Rightarrow> u64 option" where
  "unlock_time policy requested_at =
     Option.bind (checked_mul (ucast (po_timelock_secs policy)) NS_PER_SEC) (checked_add requested_at)"

abbreviation full_sigs :: "WatcherSignature list \<Rightarrow> (PublicKey \<times> byte list) list" where
  "full_sigs signatures \<equiv> map (\<lambda>w. (ws_public_key w, ws_signature w))
     (filter (\<lambda>w. length (ws_signature w) = 64) signatures)"

definition attestation_ok :: "host \<Rightarrow> ctx \<Rightarrow> AccountId \<Rightarrow> Policy \<Rightarrow> PublicKey \<Rightarrow> u64 \<Rightarrow> byte list \<Rightarrow> bool" where
  "attestation_ok h c a policy k r att \<longleftrightarrow> length att = 64 \<and>
     proof_verify h (request_message (current_account_id c) a k r) att (po_attestation_key policy)"

definition verdict_ok :: "host \<Rightarrow> ctx \<Rightarrow> MpcRecovery \<Rightarrow> AccountId \<Rightarrow> Policy \<Rightarrow> PublicKey \<Rightarrow> u64 \<Rightarrow> u64
    \<Rightarrow> bool \<Rightarrow> WatcherSignature list \<Rightarrow> bool" where
  "verdict_ok h c s a policy k r requested_at silent sigs \<longleftrightarrow>
     (\<exists>u. unlock_time policy requested_at = Some u \<and> u \<le> block_timestamp c) \<and>
     verify_quorum h (verdict_message (current_account_id c) a k r silent) (full_sigs sigs)
       (mr_watchers s) (mr_threshold s)"

definition policy_ok :: "host \<Rightarrow> Policy \<Rightarrow> bool" where
  "policy_ok h p \<longleftrightarrow> MIN_TIMELOCK_SECS \<le> po_timelock_secs p \<and> is_ed25519 h (po_attestation_key p) \<and>
     (case po_target p of Native k \<Rightarrow> is_ed25519 h k | Wallet _ k \<Rightarrow> is_ed25519 h k)"

definition can_act :: "host \<Rightarrow> ctx \<Rightarrow> mr_call \<Rightarrow> MpcRecovery \<Rightarrow> AccountId \<Rightarrow> recovery_act \<Rightarrow> bool" where
  "can_act h c call s a act = (case act of
     Enroll p \<Rightarrow> predecessor_account_id c = mr_owner s \<and> policy_ok h p \<and>
       call = D_InstallPolicy a (po_target p) (po_attestation_key p) (po_timelock_secs p)
   | Administer \<Rightarrow> predecessor_account_id c = mr_owner s \<and>
       (call = D_AbortRecovery a \<or> (\<exists>r. call = D_ClaimNativeFinalized a r))
   | Attest k r t \<Rightarrow> t = block_timestamp c \<and> (\<exists>e att. mr_accounts s a = Some e \<and> call = D_RequestRecovery a k r att \<and>
       attestation_ok h c a (ac_policy e) k r att \<and> (\<not> is_native e \<longrightarrow> is_ed25519 h k))
   | Judge k r silent \<Rightarrow> (\<exists>e t sigs. mr_accounts s a = Some e \<and> ac_phase e = Requested k r t \<and>
       call = D_SubmitVerdict a silent sigs \<and> verdict_ok h c s a (ac_policy e) k r t silent sigs)
   | Finalize \<Rightarrow> (\<exists>n b. call = D_FinalizeRecovery a n b) \<and>
       (\<exists>e. mr_accounts s a = Some e \<and> (is_native e \<longrightarrow> predecessor_account_id c = mr_owner s))
   | Settle r answer \<Rightarrow> predecessor_account_id c = current_account_id c \<and> (case answer of
         Froze ok \<Rightarrow> (\<exists>res. call = D_OnFrozen a r res \<and> ok = is_ok res)
       | Swapped res \<Rightarrow> call = D_OnFinalized a r res
       | Unfroze ok \<Rightarrow> (\<exists>res. call = D_OnAborted a r res \<and> ok = is_ok res)
       | Signed \<Rightarrow> (\<exists>hash res. call = D_OnSigned a r hash res))
   | HandOver \<Rightarrow> predecessor_account_id c = mr_transfer_authority s \<and> call = D_OnWalletTransferred a
   | Pass \<Rightarrow> True)"

definition recovery_move :: "host \<Rightarrow> ctx \<Rightarrow> mr_call \<Rightarrow> MpcRecovery \<Rightarrow> MpcRecovery \<Rightarrow> AccountId \<Rightarrow> bool" where
  "recovery_move h c call s s' a \<longleftrightarrow>
     (\<exists>act. can_act h c call s a act \<and> recovery_step act (mr_accounts s a) (mr_accounts s' a))"

lemma recovery_moveI:
  "can_act h c call s a act \<Longrightarrow> recovery_step act (mr_accounts s a) (mr_accounts s' a)
    \<Longrightarrow> recovery_move h c call s s' a"
  by (auto simp: recovery_move_def)

lemma recovery_move_refl: "mr_accounts s' a = mr_accounts s a \<Longrightarrow> recovery_move h c call s s' a"
  by (rule recovery_moveI [of _ _ _ _ _ Pass]) (auto simp: can_act_def intro: stays)

lemma recovery_move_write:
  assumes "can_act h c call s x act" and "recovery_step act (mr_accounts s x) y"
    and "mr_accounts s' = (mr_accounts s)(x := y)"
  shows "recovery_move h c call s s' a"
proof (cases "a = x")
  case True
  show ?thesis unfolding True
    by (rule recovery_moveI [OF assms(1)]) (use assms(2,3) in simp)
next
  case False
  with assms(3) show ?thesis by (simp add: recovery_move_refl)
qed

lemma set_phase_sel [simp]:
  "mr_accounts (set_phase a e p s) = (mr_accounts s)(a \<mapsto> e\<lparr>ac_phase := p\<rparr>)"
  "mr_owner (set_phase a e p s) = mr_owner s" "mr_signer (set_phase a e p s) = mr_signer s"
  "mr_transfer_authority (set_phase a e p s) = mr_transfer_authority s"
  "mr_watchers (set_phase a e p s) = mr_watchers s" "mr_threshold (set_phase a e p s) = mr_threshold s"
  "mr_round_floor (set_phase a e p s) = mr_round_floor s"
  by (simp_all add: set_phase_def)

text \<open>The next round of an account: from its entry, or from the floor that a transfer of the
  wallet leaves behind.\<close>

definition current_round :: "MpcRecovery \<Rightarrow> AccountId \<Rightarrow> u64" where
  "current_round s a = (case mr_accounts s a of Some e \<Rightarrow> ac_round e
     | None \<Rightarrow> get_or 0 (mr_round_floor s) a)"

lemma install_policy_Inr:
  assumes "install_policy h c x t k l s = Inr (s', evs, v)"
  shows "predecessor_account_id c = mr_owner s \<and>
    (\<exists>p. p = \<lparr>po_target = t, po_attestation_key = k, po_timelock_secs = l\<rparr> \<and> policy_ok h p \<and>
      s' = s\<lparr>mr_accounts := (mr_accounts s)(x \<mapsto>
        \<lparr>ac_policy = p, ac_round = current_round s x, ac_phase = Idle\<rparr>)\<rparr> \<and>
      (\<forall>e. mr_accounts s x = Some e \<longrightarrow> ac_phase e = Idle))"
  using assms
  by (auto simp: install_policy_def policy_ok_def current_round_def Let_def
      split: if_splits option.splits Target.splits)

lemma move_install_policy:
  assumes "install_policy h c x t k l s = Inr (s', evs, v)"
  shows "recovery_move h c (D_InstallPolicy x t k l) s s' a"
proof -
  let ?p = "\<lparr>po_target = t, po_attestation_key = k, po_timelock_secs = l\<rparr>"
  let ?e = "\<lparr>ac_policy = ?p, ac_round = current_round s x, ac_phase = Idle\<rparr>"
  from install_policy_Inr [OF assms] have "recovery_step (Enroll ?p) (mr_accounts s x) (Some ?e)"
    by (cases "mr_accounts s x")
      (auto simp: current_round_def intro: recovery_step.set_up recovery_step.set_again)
  with install_policy_Inr [OF assms] show ?thesis
    by (intro recovery_move_write [of _ _ _ _ x "Enroll ?p"]) (auto simp: can_act_def)
qed

lemma request_recovery_Inr:
  "request_recovery h c a k r att s = Inr (s', evs, v) \<Longrightarrow>
     \<exists>e r'. mr_accounts s a = Some e \<and> ac_phase e = Idle \<and> ac_round e = r \<and>
       checked_add r 1 = Some r' \<and> attestation_ok h c a (ac_policy e) k r att \<and>
       (\<not> is_native e \<longrightarrow> is_ed25519 h k) \<and>
       s' = s\<lparr>mr_accounts := (mr_accounts s)(a \<mapsto>
              e\<lparr>ac_phase := Requested k r (block_timestamp c), ac_round := r'\<rparr>)\<rparr>"
  by (auto simp: request_recovery_def attestation_ok_def into_sig_def
      split: option.splits if_splits sum.splits Target.splits)

lemma move_request_recovery:
  assumes "request_recovery h c x k r att s = Inr (s', evs, v)"
  shows "recovery_move h c (D_RequestRecovery x k r att) s s' a"
proof -
  from request_recovery_Inr [OF assms] obtain e r' where e: "mr_accounts s x = Some e"
      "ac_phase e = Idle" "ac_round e = r" "checked_add r 1 = Some r'"
      "attestation_ok h c x (ac_policy e) k r att" "\<not> is_native e \<longrightarrow> is_ed25519 h k"
    and s': "s' = s\<lparr>mr_accounts := (mr_accounts s)(x \<mapsto>
              e\<lparr>ac_phase := Requested k r (block_timestamp c), ac_round := r'\<rparr>)\<rparr>" by blast
  show ?thesis
    by (rule recovery_move_write [of _ _ _ _ x "Attest k r (block_timestamp c)"])
      (use e s' in \<open>auto simp: can_act_def intro: recovery_step.attested\<close>)
qed

lemma submit_verdict_Inr:
  assumes "submit_verdict h c a silent sigs s = Inr (s', evs, v)"
  shows "\<exists>e k r t p. mr_accounts s a = Some e \<and> ac_phase e = Requested k r t \<and>
     verdict_ok h c s a (ac_policy e) k r t silent sigs \<and> s' = set_phase a e p s \<and>
     p = (if \<not> silent then Idle else if is_native e then Approved k r else Approving k r)"
proof -
  from assms obtain e where e: "mr_accounts s a = Some e"
    by (auto simp: submit_verdict_def split: option.splits)
  from assms e obtain k r t where p: "ac_phase e = Requested k r t"
    by (cases "ac_phase e") (auto simp: submit_verdict_def)
  from assms e p obtain u where u: "unlock_time (ac_policy e) t = Some u"
    by (auto simp: submit_verdict_def unlock_time_def split: option.splits)
  from assms e p u show ?thesis
    by (auto simp: submit_verdict_def unlock_time_def [symmetric] verdict_ok_def Let_def
        split: if_splits Target.splits sum.splits)
qed

lemma move_submit_verdict:
  assumes "submit_verdict h c x silent sigs s = Inr (s', evs, v)"
  shows "recovery_move h c (D_SubmitVerdict x silent sigs) s s' a"
proof -
  from submit_verdict_Inr [OF assms] obtain e k r t p where e: "mr_accounts s x = Some e"
      "ac_phase e = Requested k r t" "verdict_ok h c s x (ac_policy e) k r t silent sigs"
    and s': "s' = set_phase x e p s"
    and p: "p = (if \<not> silent then Idle else if is_native e then Approved k r else Approving k r)"
    by blast
  have "recovery_step (Judge k r silent) (Some e) (Some (e\<lparr>ac_phase := p\<rparr>))"
    using e(2) p by (cases silent) (auto intro: recovery_step.canceled recovery_step.approved)
  with e s' show ?thesis
    by (intro recovery_move_write [of _ _ _ _ x "Judge k r silent"]) (auto simp: can_act_def)
qed

lemma move_on_frozen:
  assumes "on_frozen x r res s = Inr (s', evs, v)" and "predecessor_account_id c = current_account_id c"
  shows "recovery_move h c (D_OnFrozen x r res) s s' a"
proof -
  from assms(1) consider "s' = s"
    | e k p where "mr_accounts s x = Some e" "ac_phase e = Approving k r"
        "p = (if is_ok res then Approved k r else Idle)" "s' = set_phase x e p s"
    by (auto simp: on_frozen_def split: option.splits Phase.splits if_splits)
  then show ?thesis
  proof cases
    case (2 e k p)
    with assms(2) show ?thesis
      by (intro recovery_move_write [of _ _ _ _ x "Settle r (Froze (is_ok res))"])
        (auto simp: can_act_def intro: recovery_step.froze)
  qed (simp add: recovery_move_refl)
qed

lemma finalize_recovery_Inr:
  assumes "finalize_recovery h c a n b s = Inr (s', evs, p)"
  shows "\<exists>e k r. mr_accounts s a = Some e \<and> ac_phase e = Approved k r \<and>
     (is_native e \<longrightarrow> predecessor_account_id c = mr_owner s) \<and> s' = set_phase a e (Resolving k r) s \<and>
     (case po_target (ac_policy e) of
        Native m \<Rightarrow> p = sign_add_key h s' a m n b k r
      | Wallet x o' \<Rightarrow> \<exists>q. mr_swap_owner h x a k o' = Inr q \<and> p = ThenP q (OnFinalized a r) MR_CALLBACK_GAS)"
  using assms
  by (auto simp: finalize_recovery_def Let_def split: option.splits Phase.splits if_splits
      Target.splits sum.splits)

lemma move_finalize_recovery:
  assumes "finalize_recovery h c x n b s = Inr (s', evs, p)"
  shows "recovery_move h c (D_FinalizeRecovery x n b) s s' a"
proof -
  from finalize_recovery_Inr [OF assms] obtain e k r where e: "mr_accounts s x = Some e"
      "ac_phase e = Approved k r" "is_native e \<longrightarrow> predecessor_account_id c = mr_owner s"
      "s' = set_phase x e (Resolving k r) s"
    by blast
  then show ?thesis
    by (intro recovery_move_write [of _ _ _ _ x Finalize])
      (auto simp: can_act_def intro: recovery_step.finalizing)
qed

lemma move_abort_recovery:
  assumes "abort_recovery c x s = Inr (s', evs, v)"
  shows "recovery_move h c (D_AbortRecovery x) s s' a"
proof -
  from assms have own: "predecessor_account_id c = mr_owner s"
    by (auto simp: abort_recovery_def split: if_splits)
  from assms obtain e p where e: "mr_accounts s x = Some e" "s' = set_phase x e p s"
    and p: "p = Idle \<and> ((\<exists>k r t. ac_phase e = Requested k r t) \<or> is_native e \<and> (\<exists>k r. ac_phase e = Approved k r))
      \<or> (\<exists>k r. ac_phase e = Approved k r \<and> p = Resolving k r)"
    by (auto simp: abort_recovery_def Let_def split: if_splits option.splits Phase.splits Target.splits)
  have "recovery_step Administer (Some e) (Some (e\<lparr>ac_phase := p\<rparr>))"
    using p by (auto intro: recovery_step.withdrawn recovery_step.releasing)
  with e own show ?thesis by (intro recovery_move_write [of _ _ _ _ x Administer]) (auto simp: can_act_def)
qed

lemma move_on_finalized:
  assumes "on_finalized x r res s = Inr (s', evs, v)" and "predecessor_account_id c = current_account_id c"
  shows "recovery_move h c (D_OnFinalized x r res) s s' a"
proof -
  from assms(1) consider "s' = s"
    | e k where "mr_accounts s x = Some e" "ac_phase e = Resolving k r"
        "s' = (case res of Inr True \<Rightarrow> set_phase x (rebound k e) Idle s | Inr False \<Rightarrow> set_phase x e Idle s
           | Inl _ \<Rightarrow> set_phase x e (Approved k r) s)"
    by (auto simp: on_finalized_def Let_def rebound_def
        split: option.splits Phase.splits if_splits sum.splits bool.splits)
  then show ?thesis
  proof cases
    case (2 e k)
    have "recovery_step (Settle r (Swapped res)) (Some e) (mr_accounts s' x)"
      using 2 by (cases res; cases "res = Inr True")
        (auto intro: recovery_step.recovered recovery_step.voided recovery_step.undone)
    with 2 assms(2) show ?thesis
      by (intro recovery_move_write [of _ _ _ _ x "Settle r (Swapped res)" "mr_accounts s' x"])
        (auto simp: can_act_def split: sum.splits bool.splits)
  qed (simp add: recovery_move_refl)
qed

lemma settle_resolving_cases:
  assumes "settle_resolving x r settled s = (s', ok)"
  obtains "s' = s" "\<not> ok"
    | e k where "ok" "mr_accounts s x = Some e" "ac_phase e = Resolving k r"
        "s' = set_phase x e (if settled then Idle else Approved k r) s"
  using assms
  by (auto simp: settle_resolving_def resolving_owner_def split: option.splits Phase.splits if_splits)

lemma move_settle_resolving:
  assumes "settle_resolving x r settled s = (s', ok)" and "can_act h c call s x (Settle r answer)"
    and "answer = Unfroze settled \<or> answer = Signed \<and> \<not> settled"
  shows "recovery_move h c call s s' a"
  using assms(1)
proof (cases rule: settle_resolving_cases)
  case 1
  then show ?thesis by (simp add: recovery_move_refl)
next
  case (2 e k)
  then have "recovery_step (Settle r answer) (Some e) (mr_accounts s' x)"
    using assms(3) by (auto intro: recovery_step.released recovery_step.signed)
  with 2 show ?thesis by (intro recovery_move_write [OF assms(2), of "mr_accounts s' x"]) auto
qed

lemma mr_on_signed_Inr:
  "mr_on_signed x r hash res s = Inr (s', evs, v) \<Longrightarrow> \<exists>ok. settle_resolving x r False s = (s', ok)"
  by (auto simp: mr_on_signed_def split: prod.splits sum.splits if_splits)

lemma on_aborted_Inr:
  "on_aborted x r res s = Inr (s', evs, v) \<Longrightarrow> \<exists>ok. settle_resolving x r (is_ok res) s = (s', ok)"
  by (auto simp: on_aborted_def split: prod.splits)

lemma move_claim_native_finalized:
  assumes "claim_native_finalized c x r s = Inr (s', evs, v)"
  shows "recovery_move h c (D_ClaimNativeFinalized x r) s s' a"
proof -
  from assms obtain e k where e: "predecessor_account_id c = mr_owner s" "mr_accounts s x = Some e"
      "is_native e" "ac_phase e = Approved k r" "s' = set_phase x e Idle s"
    by (auto simp: claim_native_finalized_def split: option.splits Phase.splits if_splits Target.splits)
  then show ?thesis
    by (intro recovery_move_write [of _ _ _ _ x Administer])
      (auto simp: can_act_def intro!: recovery_step.withdrawn)
qed

lemma on_wallet_transferred_Inr:
  "on_wallet_transferred c x s = Inr (s', evs, v) \<Longrightarrow>
     predecessor_account_id c = mr_transfer_authority s \<and>
     (s' = s \<or> (\<exists>e. mr_accounts s x = Some e \<and>
        (ac_phase e = Idle \<or> (\<exists>k r t. ac_phase e = Requested k r t)) \<and>
        s' = s\<lparr>mr_round_floor := (mr_round_floor s)(x \<mapsto> ac_round e),
                mr_accounts := (mr_accounts s)(x := None)\<rparr>))"
  by (auto simp: on_wallet_transferred_def Let_def split: if_splits option.splits Phase.splits)

lemma move_on_wallet_transferred:
  assumes "on_wallet_transferred c x s = Inr (s', evs, v)"
  shows "recovery_move h c (D_OnWalletTransferred x) s s' a"
  using on_wallet_transferred_Inr [OF assms]
  by (auto intro: recovery_move_refl)
    (auto simp: can_act_def intro!: recovery_move_write [of _ _ _ _ x HandOver] recovery_step.reset)

lemmas recovery_moves = move_install_policy move_on_frozen move_finalize_recovery
  move_abort_recovery move_on_finalized move_claim_native_finalized move_on_wallet_transferred

lemma mr_exec_recovery:
  assumes "mr_exec h (c, call) s = Inr (s', evs, v)"
  shows "recovery_move h c call s s' a"
proof (cases call)
  case (D_RequestRecovery x k r att)
  with assms show ?thesis by (auto intro: move_request_recovery)
next
  case (D_SubmitVerdict x silent sigs)
  with assms show ?thesis by (auto intro: move_submit_verdict)
next
  case (D_OnAborted x r res)
  with assms show ?thesis 
    by (auto simp: can_act_def dest!: on_aborted_Inr
        intro!: move_settle_resolving [of x r "is_ok res" s s' _ _ _ _ "Unfroze (is_ok res)"])
next
  case (D_OnSigned x r hash res)
  with assms show ?thesis
    by (auto simp: can_act_def dest!: mr_on_signed_Inr
        intro!: move_settle_resolving [of x r False s s' _ _ _ _ Signed])
qed (use assms in \<open>auto intro: recovery_moves\<close>)

section \<open>Configuration and rounds\<close>

lemma mr_exec_config:
  assumes "mr_exec h (c, call) s = Inr (s', evs, v)"
  shows "mr_owner s' = mr_owner s \<and> mr_transfer_authority s' = mr_transfer_authority s \<and>
    mr_signer s' = mr_signer s \<and> mr_watchers s' = mr_watchers s \<and> mr_threshold s' = mr_threshold s"
proof (cases call)
  case (D_InstallPolicy x t k l)
  with assms show ?thesis by (auto simp: install_policy_def Let_def split: if_splits option.splits)
next
  case (D_OnAborted x r res)
  with assms show ?thesis by (auto dest!: on_aborted_Inr elim!: settle_resolving_cases)
next
  case (D_OnSigned x r hash res)
  with assms show ?thesis by (auto dest!: mr_on_signed_Inr elim!: settle_resolving_cases)
qed (use assms in \<open>auto dest!: request_recovery_Inr submit_verdict_Inr finalize_recovery_Inr
    on_wallet_transferred_Inr simp: on_frozen_def on_finalized_def abort_recovery_def
    claim_native_finalized_def Let_def
    split: if_splits option.splits Phase.splits sum.splits bool.splits Target.splits\<close>)

lemma checked_add_less: "checked_add r 1 = Some r' \<Longrightarrow> r < r'" for r r' :: u64
  by (drule checked_add_Some) (simp add: word_less_nat_alt)

lemma current_round_write [simp]:
  "current_round (s\<lparr>mr_accounts := (mr_accounts s)(x \<mapsto> e)\<rparr>) a =
     (if a = x then ac_round e else current_round s a)"
  by (simp add: current_round_def split: option.splits)

lemma current_round_entry: "mr_accounts s a = Some e \<Longrightarrow> current_round s a = ac_round e"
  by (simp add: current_round_def)

lemma current_round_set_phase [simp]:
  "mr_accounts s x = Some e \<Longrightarrow> current_round (set_phase x e p s) a = current_round s a"
  "mr_accounts s x = Some e \<Longrightarrow> current_round (set_phase x (rebound k e) p s) a = current_round s a"
  by (auto simp: set_phase_def rebound_def current_round_entry)

lemma mr_exec_round:
  assumes "mr_exec h (c, call) s = Inr (s', evs, v)"
  shows "current_round s a \<le> current_round s' a"
proof (cases call)
  case (D_InstallPolicy x t k l)
  with assms show ?thesis
    by (auto dest!: install_policy_Inr)
next
  case (D_RequestRecovery x k r att)
  with assms show ?thesis
    by (auto dest!: request_recovery_Inr checked_add_less less_imp_le simp: current_round_entry
        split: if_splits)
next
  case (D_OnAborted x r res)
  with assms show ?thesis by (auto dest!: on_aborted_Inr elim!: settle_resolving_cases)
next
  case (D_OnSigned x r hash res)
  with assms show ?thesis by (auto dest!: mr_on_signed_Inr elim!: settle_resolving_cases)
next
  case (D_OnWalletTransferred x)
  with assms show ?thesis
    by (auto dest!: on_wallet_transferred_Inr simp: current_round_def split: option.splits if_splits)
next
  case (D_OnFinalized x r res)
  with assms show ?thesis
    by (auto simp: on_finalized_def Let_def rebound_def [symmetric]
        split: option.splits Phase.splits if_splits sum.splits bool.splits)
qed (use assms in \<open>auto dest!: submit_verdict_Inr finalize_recovery_Inr
    simp: on_frozen_def abort_recovery_def claim_native_finalized_def Let_def
    split: if_splits option.splits Phase.splits Target.splits\<close>)

interpretation mr_rounds: monotone_step "mr_exec h" "\<lambda>s. current_round s a" for h a
  by unfold_locales (auto dest: mr_exec_round)

section \<open>Quorums\<close>

text \<open>The watchers that a list of signatures proves.\<close>

definition signers :: "host \<Rightarrow> byte list \<Rightarrow> PublicKey list \<Rightarrow> (PublicKey \<times> byte list) list \<Rightarrow> PublicKey set" where
  "signers h message watchers sigs =
     {key \<in> set watchers. \<exists>signature. (key, signature) \<in> set sigs \<and> proof_verify h message signature key}"

lemma count_signers_set:
  "set (count_signers h m ws sigs counted) = set counted \<union> signers h m ws sigs"
proof (induction sigs arbitrary: counted)
  case Nil
  then show ?case by (simp add: signers_def)
next
  case (Cons x sigs)
  obtain key signature where x: "x = (key, signature)" by (cases x)
  show ?case
    by (auto simp: x Cons.IH signers_def)
qed

lemma count_signers_distinct:
  "distinct counted \<Longrightarrow> distinct (count_signers h m ws sigs counted)"
  by (induction sigs arbitrary: counted) auto

lemma count_signers_length: "length (count_signers h m ws sigs counted) \<le> length counted + length sigs"
proof (induction sigs arbitrary: counted)
  case (Cons x sigs)
  from Cons [of counted] Cons [of "counted @ [fst x]"] show ?case by (auto split: prod.splits)
qed simp

lemma count_signers_card: "length (count_signers h m ws sigs []) = card (signers h m ws sigs)"
  using distinct_card [OF count_signers_distinct, of "[]" h m ws sigs]
  by (simp add: count_signers_set)

lemma verify_quorum_iff:
  assumes "length sigs < 2 ^ 32"
  shows "verify_quorum h m sigs ws threshold \<longleftrightarrow> unat threshold \<le> card (signers h m ws sigs)"
proof -
  have "length (count_signers h m ws sigs []) < 2 ^ 32"
    using count_signers_length [of h m ws sigs "[]"] assms by simp
  then show ?thesis
    by (simp add: verify_quorum_def word_le_nat_alt unat_of_nat_small count_signers_card)
qed

lemma verify_quorum_sound:
  "verify_quorum h m sigs ws threshold \<Longrightarrow> unat threshold \<le> card (signers h m ws sigs)"
proof -
  have "unat (word_of_nat n :: u32) \<le> n" for n by (simp add: unat_of_nat)
  then show "verify_quorum h m sigs ws threshold \<Longrightarrow> ?thesis"
    unfolding verify_quorum_def word_le_nat_alt count_signers_card by (metis order_trans)
qed

section \<open>Signed messages\<close>

lemma message_core_eq:
  "message_core d contract a k r =
     d # enc_block (str_bytes contract) @ enc_block (str_bytes a) @ as_bytes k @ le_bytes 8 r"
  by (simp add: message_core_def push_str_def enc_block_def Let_def)

lemma block_str_inject:
  "length s < 2 ^ 32 \<Longrightarrow> length t < 2 ^ 32 \<Longrightarrow>
     enc_block (str_bytes s) @ x = enc_block (str_bytes t) @ y \<longleftrightarrow> s = t \<and> x = y"
  by (subst block.enc_append_inject) auto

lemma message_core_inject:
  assumes "length contract < 2 ^ 32" "length a < 2 ^ 32" "length contract' < 2 ^ 32" "length a' < 2 ^ 32"
  shows "message_core d contract a k r = message_core d' contract' a' k' r' \<longleftrightarrow>
    d = d' \<and> contract = contract' \<and> a = a' \<and> k = k' \<and> r = r'"
  using assms u64.enc_inject [of r r'] by (auto simp: message_core_eq block_str_inject PublicKey.expand)

section \<open>The invariant\<close>

definition account_ok :: "host \<Rightarrow> Account \<Rightarrow> bool" where
  "account_ok h e \<longleftrightarrow> policy_ok h (ac_policy e) \<and>
     (\<forall>k r. pending (ac_phase e) = Some (k, r) \<longrightarrow>
        checked_add r 1 = Some (ac_round e) \<and> (\<not> is_native e \<longrightarrow> is_ed25519 h k)) \<and>
     (\<forall>k r. ac_phase e = Approving k r \<longrightarrow> \<not> is_native e)"

definition mr_inv :: "host \<Rightarrow> MpcRecovery \<Rightarrow> bool" where
  "mr_inv h s \<longleftrightarrow> 0 < mr_threshold s \<and> unat (mr_threshold s) \<le> length (mr_watchers s) \<and>
     distinct (mr_watchers s) \<and> (\<forall>w \<in> set (mr_watchers s). is_ed25519 h w) \<and>
     (\<forall>a e. mr_accounts s a = Some e \<longrightarrow> account_ok h e)"

lemma check_watchers_None:
  "check_watchers h ws seen = None \<longleftrightarrow>
     distinct ws \<and> set ws \<inter> seen = {} \<and> (\<forall>w \<in> set ws. is_ed25519 h w)"
  by (induction ws arbitrary: seen) auto

lemma mr_new_inv: "mr_new h own sg ta ws th = Inr s \<Longrightarrow> mr_inv h s"
  by (auto simp: mr_new_def mr_inv_def check_watchers_None split: if_splits option.splits)

lemma rebound_sel [simp]:
  "ac_round (rebound k e) = ac_round e" "ac_phase (rebound k e) = ac_phase e"
  "po_attestation_key (ac_policy (rebound k e)) = po_attestation_key (ac_policy e)"
  "po_timelock_secs (ac_policy (rebound k e)) = po_timelock_secs (ac_policy e)"
  "po_target (ac_policy (rebound k e)) = (case po_target (ac_policy e) of
     Wallet active_signer _ \<Rightarrow> Wallet active_signer k | Native key \<Rightarrow> Native key)"
  by (simp_all add: rebound_def)

lemma recovery_step_ok:
  assumes "recovery_step act (mr_accounts s a) (Some e')" and "can_act h c call s a act"
    and "\<forall>e. mr_accounts s a = Some e \<longrightarrow> account_ok h e"
  shows "account_ok h e'"
  using assms(1)
proof cases
  case (recovered e k r)
  with assms(3) show ?thesis
    by (auto simp: account_ok_def policy_ok_def split: Target.splits)
next
  case stays
  with assms(3) show ?thesis by simp
qed (use assms(2,3) in \<open>auto simp: account_ok_def can_act_def split: Target.splits\<close>)

interpretation mr_sound: invariant_step "mr_exec h" "\<lambda>_. True" "mr_inv h" for h
proof unfold_locales
  fix s s' :: MpcRecovery and x evs v
  assume inv: "mr_inv h s" and ex: "mr_exec h x s = Inr (s', evs, v)"
  obtain c call where x: "x = (c, call)" by (cases x)
  have "account_ok h e'" if e': "mr_accounts s' a = Some e'" for a e'
  proof -
    from mr_exec_recovery [OF ex [unfolded x], of a] obtain act
      where "can_act h c call s a act" "recovery_step act (mr_accounts s a) (Some e')"
      by (auto simp: recovery_move_def e')
    with inv show ?thesis by (auto simp: mr_inv_def intro: recovery_step_ok)
  qed
  with inv mr_exec_config [OF ex [unfolded x]] show "mr_inv h s'" by (auto simp: mr_inv_def)
qed

section \<open>Evidence\<close>

text \<open>The calls of a history that a pending recovery rests on: a request with a valid
  attestation, and a verdict of the watchers after the timelock.\<close>

definition requested :: "host \<Rightarrow> (ctx \<times> mr_call) list \<Rightarrow> AccountId \<Rightarrow> Policy \<Rightarrow> PublicKey \<Rightarrow> u64 \<Rightarrow> u64 \<Rightarrow> bool" where
  "requested h cs a p k r t \<longleftrightarrow> (\<exists>c att. (c, D_RequestRecovery a k r att) \<in> set cs \<and>
     block_timestamp c = t \<and> attestation_ok h c a p k r att)"

definition judged :: "host \<Rightarrow> MpcRecovery \<Rightarrow> (ctx \<times> mr_call) list \<Rightarrow> AccountId \<Rightarrow> Policy \<Rightarrow> PublicKey
    \<Rightarrow> u64 \<Rightarrow> u64 \<Rightarrow> bool" where
  "judged h s cs a p k r t \<longleftrightarrow> (\<exists>c sigs. (c, D_SubmitVerdict a True sigs) \<in> set cs \<and>
     verdict_ok h c s a p k r t True sigs)"

definition traced_account :: "host \<Rightarrow> MpcRecovery \<Rightarrow> (ctx \<times> mr_call) list \<Rightarrow> AccountId \<Rightarrow> Account \<Rightarrow> bool" where
  "traced_account h s cs a e \<longleftrightarrow>
     (\<forall>k r t. ac_phase e = Requested k r t \<longrightarrow> requested h cs a (ac_policy e) k r t) \<and>
     (\<forall>k r. ac_phase e \<in> {Approving k r, Approved k r, Resolving k r} \<longrightarrow>
        (\<exists>t. requested h cs a (ac_policy e) k r t \<and> judged h s cs a (ac_policy e) k r t))"

definition traced :: "host \<Rightarrow> (ctx \<times> mr_call) list \<Rightarrow> MpcRecovery \<Rightarrow> bool" where
  "traced h cs s \<longleftrightarrow> (\<forall>a e. mr_accounts s a = Some e \<longrightarrow> traced_account h s cs a e)"

lemma traced_account_mono:
  assumes "traced_account h s cs a e" and "set cs \<subseteq> set ds"
    and "mr_watchers s' = mr_watchers s" "mr_threshold s' = mr_threshold s"
  shows "traced_account h s' ds a e"
proof -
  have "requested h cs a p k r t \<Longrightarrow> requested h ds a p k r t" for p k r t
    using assms(2) unfolding requested_def by blast
  moreover have "judged h s cs a p k r t \<Longrightarrow> judged h s' ds a p k r t" for p k r t
    using assms(2-) unfolding judged_def verdict_ok_def by auto
  ultimately show ?thesis using assms(1) unfolding traced_account_def by blast
qed

lemma traced_mono: "traced h cs s \<Longrightarrow> set cs \<subseteq> set ds \<Longrightarrow> traced h ds s"
  unfolding traced_def using traced_account_mono [of h s cs _ _ ds s] by blast

lemma traced_step:
  assumes "recovery_step act (mr_accounts s a) (Some e')" and "can_act h c call s a act"
    and "\<forall>e. mr_accounts s a = Some e \<longrightarrow> traced_account h s cs a e" and "(c, call) \<in> set cs"
  shows "traced_account h s cs a e'"
  using assms(1)
proof cases
  case (attested e r r' k t)
  with assms(2,4) show ?thesis
    by (auto simp: traced_account_def can_act_def requested_def)
next
  case (approved e k r t p)
  with assms(2,4) have "judged h s cs a (ac_policy e) k r t"
    by (auto simp: can_act_def judged_def)
  with approved assms(3) show ?thesis by (auto simp: traced_account_def split: if_splits)
next
  case stays
  with assms(3) show ?thesis by simp
qed (use assms(3) in \<open>auto simp: traced_account_def\<close>)

lemma traced_exec:
  assumes "traced h cs s" and "mr_exec h (c, call) s = Inr (s', evs, v)"
  shows "traced h (cs @ [(c, call)]) s'"
  unfolding traced_def
proof (intro allI impI)
  fix a e' assume e': "mr_accounts s' a = Some e'"
  let ?cs = "cs @ [(c, call)]"
  note config = mr_exec_config [OF assms(2)]
  from mr_exec_recovery [OF assms(2), of a] obtain act
    where act: "can_act h c call s a act" "recovery_step act (mr_accounts s a) (Some e')"
    by (auto simp: recovery_move_def e')
  have "\<forall>e. mr_accounts s a = Some e \<longrightarrow> traced_account h s ?cs a e"
    using traced_mono [OF assms(1), of ?cs] by (auto simp: traced_def)
  from traced_step [OF act(2,1) this] have "traced_account h s ?cs a e'" by simp
  with config show "traced_account h s' ?cs a e'" by (auto intro: traced_account_mono)
qed

lemma traced_run:
  assumes "mr_new h own sg ta ws th = Inr s0"
  shows "traced h cs (run_calls (mr_exec h) cs s0)"
proof (induction cs rule: rev_induct)
  case Nil
  from assms show ?case by (auto simp: mr_new_def traced_def split: if_splits option.splits)
next
  case (snoc x cs)
  let ?s = "run_calls (mr_exec h) cs s0"
  obtain c call where x: "x = (c, call)" by (cases x)
  show ?case
  proof (cases "mr_exec h (c, call) ?s")
    case (Inl e)
    with traced_mono [OF snoc, of "cs @ [x]"] show ?thesis by (auto simp: x run_calls_append)
  next
    case (Inr r)
    obtain s' evs v where r: "r = (s', evs, v)" by (cases r)
    with Inr traced_exec [OF snoc] show ?thesis by (simp add: x run_calls_append)
  qed
qed

lemma unlock_time_Some:
  assumes "unlock_time p t = Some u"
  shows "unat u = unat t + unat (po_timelock_secs p) * 1000000000"
proof -
  have "unat (po_timelock_secs p) < 2 ^ 64"
    using unat_le_max [of "po_timelock_secs p"] by simp
  then have "unat (ucast (po_timelock_secs p) :: u64) = unat (po_timelock_secs p)"
    by (simp add: unsigned_ucast_eq take_bit_nat_eq_self)
  with assms show ?thesis
    by (auto simp: unlock_time_def bind_eq_Some_conv NS_PER_SEC_def dest!: checked_add_Some checked_mul_Some)
qed

section \<open>Properties\<close>

definition demo_policy :: Policy where
  "demo_policy = \<lparr>po_target = Wallet ''signer.near'' (demo_key 5), po_attestation_key = demo_key 4,
     po_timelock_secs = 60\<rparr>"

definition demo_recovery :: MpcRecovery where
  "demo_recovery = \<lparr>mr_owner = ''council'', mr_signer = ''v1.signer'',
     mr_transfer_authority = ''ext.near'', mr_watchers = [demo_key 1, demo_key 2, demo_key 3],
     mr_threshold = 2, mr_accounts = Map.empty, mr_round_floor = Map.empty\<rparr>"

definition demo_sig :: "byte \<Rightarrow> byte list" where
  "demo_sig b = replicate 64 b"

lemma demo_sig_verify [simp]: "proof_verify demo_host m (demo_sig a) (demo_key b) \<longleftrightarrow> a = b"
proof -
  have "ed25519_key (demo_key b) = Some (replicate 32 b)" by (simp add: ed25519_key_def demo_key_def)
  moreover have "demo_sig a = replicate 32 a @ replicate 32 a"
    using replicate_add [of 32 32 a] by (simp add: demo_sig_def)
  ultimately show ?thesis by (simp add: proof_verify_def demo_host_def)
qed

lemma length_demo_sig [simp]: "length (demo_sig b) = 64"
  by (simp add: demo_sig_def)

text \<open>A whole recovery: enrolment, request, verdict of two watchers a minute later, and the
  confirmation that the wallet is frozen.\<close>

definition demo_history :: "(ctx \<times> mr_call) list" where
  "demo_history =
     [(called_by ''council'', D_InstallPolicy ''a.tla.near'' (Wallet ''signer.near'' (demo_key 5)) (demo_key 4) 60),
      (called_by ''bob.near'', D_RequestRecovery ''a.tla.near'' (demo_key 6) 0 (demo_sig 4)),
      ((called_by ''bob.near'')\<lparr>block_timestamp := 1060000000000\<rparr>,
       D_SubmitVerdict ''a.tla.near'' True [\<lparr>ws_public_key = demo_key 1, ws_signature = demo_sig 1\<rparr>,
         \<lparr>ws_public_key = demo_key 1, ws_signature = demo_sig 1\<rparr>,
         \<lparr>ws_public_key = demo_key 3, ws_signature = demo_sig 3\<rparr>]),
      (called_by ''here.near'', D_OnFrozen ''a.tla.near'' 0 (Inr ()))]"

lemma demo_recovery_new:
  "mr_new demo_host ''council'' ''v1.signer'' ''ext.near'' [demo_key 1, demo_key 2, demo_key 3] 2
     = Inr demo_recovery"
  by (simp add: mr_new_def demo_recovery_def check_watchers_None)


lemma demo_enrol:
  "mr_exec demo_host (called_by ''council'', D_InstallPolicy ''a.tla.near''
       (Wallet ''signer.near'' (demo_key 5)) (demo_key 4) 60) demo_recovery =
     Inr (demo_recovery\<lparr>mr_accounts := [''a.tla.near'' \<mapsto>
         \<lparr>ac_policy = demo_policy, ac_round = 0, ac_phase = Idle\<rparr>]\<rparr>,
       [M_PolicyInstalled ''a.tla.near''], Q_Unit)"
  by (simp add: install_policy_def demo_recovery_def demo_policy_def MIN_TIMELOCK_SECS_def non_payable_def)


text \<open>C4: A recovery is finalized only on evidence. If \<open>finalize_recovery\<close> is accepted in a state
  reached by any history of calls from deployment, then the account is in phase \<open>Approved\<close> for
  some key and round, the history holds a request for exactly that key and round with an
  attestation valid under the account's policy, and a verdict call at least the policy's
  timelock after it, in which the signatures of at least \<open>threshold\<close> distinct watchers verify
  over exactly this contract, account, key and round.\<close>

theorem recovery_needs_evidence:
  assumes "mr_new h own sg ta ws th = Inr s0"
    and "is_ok (finalize_recovery h c a n b (run_calls (mr_exec h) cs s0))"
  shows "\<exists>e k r c1 att c2 sigs.
    mr_accounts (run_calls (mr_exec h) cs s0) a = Some e \<and> ac_phase e = Approved k r \<and>
    (c1, D_RequestRecovery a k r att) \<in> set cs \<and> attestation_ok h c1 a (ac_policy e) k r att \<and>
    (c2, D_SubmitVerdict a True sigs) \<in> set cs \<and>
    unat (block_timestamp c1) + unat (po_timelock_secs (ac_policy e)) * 1000000000
      \<le> unat (block_timestamp c2) \<and>
    unat (mr_threshold (run_calls (mr_exec h) cs s0))
      \<le> card (signers h (verdict_message (current_account_id c2) a k r True)
           (mr_watchers (run_calls (mr_exec h) cs s0)) (full_sigs sigs))"
proof -
  let ?s = "run_calls (mr_exec h) cs s0"
  from assms(2) obtain s' evs p where "finalize_recovery h c a n b ?s = Inr (s', evs, p)"
    by (cases "finalize_recovery h c a n b ?s") auto
  from finalize_recovery_Inr [OF this] obtain e k r
    where e: "mr_accounts ?s a = Some e" "ac_phase e = Approved k r" by blast
  with traced_run [OF assms(1), of cs] obtain t where t: "requested h cs a (ac_policy e) k r t"
      "judged h ?s cs a (ac_policy e) k r t"
    unfolding traced_def traced_account_def by blast
  from t(1) obtain c1 att where c1: "(c1, D_RequestRecovery a k r att) \<in> set cs"
      "block_timestamp c1 = t" "attestation_ok h c1 a (ac_policy e) k r att"
    by (auto simp: requested_def)
  from t(2) obtain c2 sigs u where c2: "(c2, D_SubmitVerdict a True sigs) \<in> set cs"
      "unlock_time (ac_policy e) t = Some u" "u \<le> block_timestamp c2"
      "verify_quorum h (verdict_message (current_account_id c2) a k r True) (full_sigs sigs)
         (mr_watchers ?s) (mr_threshold ?s)"
    by (auto simp: judged_def verdict_ok_def)
  from c2(3) unlock_time_Some [OF c2(2)]
  have "unat t + unat (po_timelock_secs (ac_policy e)) * 1000000000 \<le> unat (block_timestamp c2)"
    by (simp add: word_le_nat_alt)
  with e c1 c2(1) verify_quorum_sound [OF c2(4)] show ?thesis by blast
qed

abbreviation demo_phase :: "u64 \<Rightarrow> Phase \<Rightarrow> MpcRecovery" where
  "demo_phase round phase \<equiv> demo_recovery\<lparr>mr_accounts := [''a.tla.near'' \<mapsto>
     \<lparr>ac_policy = demo_policy, ac_round = round, ac_phase = phase\<rparr>]\<rparr>"

lemma demo_request:
  "request_recovery demo_host (called_by ''bob.near'') ''a.tla.near'' (demo_key 6) 0 (demo_sig 4)
     (demo_phase 0 Idle) = Inr (demo_phase 1 (Requested (demo_key 6) 0 1000000000000),
       [M_Requested ''a.tla.near'' 0 (demo_key 6)], ())"
  by (simp add: request_recovery_def demo_policy_def into_sig_def checked_add_def)

lemma demo_verdict:
  "submit_verdict demo_host ((called_by ''bob.near'')\<lparr>block_timestamp := 1060000000000\<rparr>) ''a.tla.near'' True
     [\<lparr>ws_public_key = demo_key 1, ws_signature = demo_sig 1\<rparr>,
      \<lparr>ws_public_key = demo_key 1, ws_signature = demo_sig 1\<rparr>,
      \<lparr>ws_public_key = demo_key 3, ws_signature = demo_sig 3\<rparr>]
     (demo_phase 1 (Requested (demo_key 6) 0 1000000000000)) =
   Inr (demo_phase 1 (Approving (demo_key 6) 0), [],
     PromiseR (ThenP (call_signer ''signer.near'' ''freeze'' (JObj [(''wallet'', JStr ''a.tla.near''),
         (''expected_current'', JStr (bytes_str (replicate 32 5)))]) 15)
       (OnFrozen ''a.tla.near'' 0) 20))"
  by (simp add: submit_verdict_def demo_policy_def demo_recovery_def verify_quorum_def checked_mul_def
      checked_add_def NS_PER_SEC_def mr_freeze_def ed25519_base58_or_panic_def set_phase_def
      FREEZE_GAS_def MR_CALLBACK_GAS_def demo_base58)

lemma demo_history_run:
  "run_calls (mr_exec demo_host) demo_history demo_recovery = demo_phase 1 (Approved (demo_key 6) 0)"
  using demo_enrol
  by (simp add: demo_history_def demo_request demo_verdict non_payable_def private_only_def
      on_frozen_def set_phase_def)

lemma demo_finalize:
  "is_ok (finalize_recovery demo_host (called_by ''bob.near'') ''a.tla.near'' 1 (replicate 32 0)
     (run_calls (mr_exec demo_host) demo_history demo_recovery))"
  unfolding demo_history_run
  by (simp add: finalize_recovery_def demo_policy_def mr_swap_owner_def ed25519_base58_or_panic_def demo_base58)

theorem recovery_needs_evidence_witness:
  "\<exists>e k r. mr_accounts (run_calls (mr_exec demo_host) demo_history demo_recovery) ''a.tla.near'' = Some e \<and>
     ac_phase e = Approved k r \<and> (\<exists>c1 att. (c1, D_RequestRecovery ''a.tla.near'' k r att) \<in> set demo_history)"
  using recovery_needs_evidence [OF demo_recovery_new demo_finalize] by blast

text \<open>C18: Attestations are single-use. Once a request for a round was accepted, no later sequence of
  calls of any kind (enrolments and transfers of the wallet included) makes the contract accept
  a request for the same account and round again, whatever key and attestation it carries.\<close>

theorem attestation_single_use:
  assumes "request_recovery h c a k r att s = Inr (s', evs, v)"
  shows "isl (request_recovery h d a k' r att' (run_calls (mr_exec h) cs s'))"
proof (rule ccontr)
  let ?s = "run_calls (mr_exec h) cs s'"
  assume "\<not> isl (request_recovery h d a k' r att' ?s)"
  then obtain s2 ev2 v2 where "request_recovery h d a k' r att' ?s = Inr (s2, ev2, v2)"
    by (cases "request_recovery h d a k' r att' ?s") auto
  from request_recovery_Inr [OF this] have "current_round ?s a = r"
    by (auto simp: current_round_entry)
  moreover from request_recovery_Inr [OF assms] have "r < current_round s' a"
    by (auto dest: checked_add_less)
  ultimately show False using mr_rounds.run_mono [of s' a h cs] by simp
qed

theorem attestation_single_use_witness:
  "isl (request_recovery demo_host (called_by ''bob.near'') ''a.tla.near'' (demo_key 6) 0 (demo_sig 4)
     (run_calls (mr_exec demo_host)
       [(called_by ''council'', D_AbortRecovery ''a.tla.near''),
        (called_by ''ext.near'', D_OnWalletTransferred ''a.tla.near''),
        (called_by ''council'', D_InstallPolicy ''a.tla.near'' (Native (demo_key 5)) (demo_key 4) 60)]
       (demo_recovery\<lparr>mr_accounts := [''a.tla.near'' \<mapsto> \<lparr>ac_policy = demo_policy, ac_round = 1,
          ac_phase = Requested (demo_key 6) 0 1000000000000\<rparr>]\<rparr>)))"
  by (rule attestation_single_use [OF demo_request])

text \<open>C17: The quorum counts distinct watchers. For fewer than \<open>2^32\<close> signatures \<open>verify_quorum\<close>
  accepts exactly when at least \<open>threshold\<close> different watcher keys have a verifying signature in
  the list: repeated signatures, keys outside the watcher set and invalid signatures add
  nothing, and a valid signature is counted even after an invalid one of the same key.\<close>

theorem quorum_counts_watchers:
  assumes "length sigs < 2 ^ 32"
  shows "verify_quorum h message sigs watchers threshold \<longleftrightarrow>
    unat threshold \<le> card {key \<in> set watchers. \<exists>signature. (key, signature) \<in> set sigs \<and>
      proof_verify h message signature key}"
  using verify_quorum_iff [OF assms] unfolding signers_def by blast

theorem quorum_counts_watchers_witness:
  "\<not> verify_quorum demo_host [] [(demo_key 1, demo_sig 2), (demo_key 1, demo_sig 1), (demo_key 1, demo_sig 1),
     (demo_key 9, demo_sig 9)] [demo_key 1, demo_key 2, demo_key 3] 2"
proof -
  let ?sigs = "[(demo_key 1, demo_sig 2), (demo_key 1, demo_sig 1), (demo_key 1, demo_sig 1),
     (demo_key 9, demo_sig 9)]"
  have "{key \<in> set [demo_key 1, demo_key 2, demo_key 3]. \<exists>signature. (key, signature) \<in> set ?sigs \<and>
      proof_verify demo_host [] signature key} = {demo_key 1}"
    by (auto simp: exI [of _ "demo_sig 1"])
  then show ?thesis using quorum_counts_watchers [of ?sigs demo_host "[]" "[demo_key 1, demo_key 2, demo_key 3]" 2]
    by simp
qed

text \<open>C33: Attestations and verdicts bind everything they authorise. Two request messages (and two
  verdict messages) are equal only when contract, account, new key, round and verdict are, and
  no request message is a verdict message; so a signature given for one is never valid evidence
  for another contract, account, key, round or decision.\<close>

theorem recovery_messages_bind:
  assumes "length contract < 2 ^ 32" "length account < 2 ^ 32"
    and "length contract' < 2 ^ 32" "length account' < 2 ^ 32"
  shows "(request_message contract account key round = request_message contract' account' key' round'
      \<longleftrightarrow> contract = contract' \<and> account = account' \<and> key = key' \<and> round = round') \<and>
    (verdict_message contract account key round silent = verdict_message contract' account' key' round' silent'
      \<longleftrightarrow> contract = contract' \<and> account = account' \<and> key = key' \<and> round = round' \<and> silent = silent') \<and>
    request_message contract account key round \<noteq> verdict_message contract' account' key' round' silent'"
proof -
  have "request_message contract account key round \<noteq> verdict_message contract' account' key' round' silent'"
    by (simp add: request_message_def verdict_message_def message_core_eq DOMAIN_REQUEST_def DOMAIN_VERDICT_def)
  then show ?thesis
    using message_core_inject [OF assms]
    by (auto simp: request_message_def verdict_message_def split: if_splits)
qed

theorem recovery_messages_bind_witness:
  "verdict_message ''rec.near'' ''a.tla.near'' (demo_key 6) 0 True
     \<noteq> verdict_message ''rec.near'' ''a.tla.near'' (demo_key 6) 1 True"
  using recovery_messages_bind [of "''rec.near''" "''a.tla.near''" "''rec.near''" "''a.tla.near''"] by simp

text \<open>C36: State invariant of \<open>mpc-recovery\<close> from deployment on. After any calls the threshold lies
  between one and the number of watchers, watchers are distinct ed25519 keys, every policy has
  an ed25519 attestation key and target key and a timelock of at least a minute, and a pending
  recovery belongs to the round just before the account's current one and, for a wallet, asks
  for an ed25519 key.\<close>

theorem recovery_invariant:
  assumes "mr_new h own sg ta ws th = Inr s0"
  shows "mr_inv h (run_calls (mr_exec h) cs s0)"
  using mr_sound.run_inv [OF mr_new_inv [OF assms], of cs] by (simp add: list_all_iff)

theorem recovery_invariant_witness:
  "mr_inv demo_host (run_calls (mr_exec demo_host) demo_history demo_recovery)"
  by (rule recovery_invariant [OF demo_recovery_new])

text \<open>C32: An approved recovery can always be carried out and never gets stuck. In every state that
  satisfies the invariant \<open>finalize_recovery\<close> succeeds on an approved account (from the owner of
  the contract when the target is native), without emitting an event; whatever the remote call
  returns, its callback succeeds and leaves the account idle or approved for the same key and
  round, so it can be retried.\<close>

theorem finalize_recovery_live:
  assumes "key_laws h" and "mr_inv h s" and "mr_accounts s a = Some e" and "ac_phase e = Approved k r"
    and "is_native e \<longrightarrow> predecessor_account_id c = mr_owner s"
  shows "\<exists>s' p. finalize_recovery h c a n b s = Inr (s', [], p) \<and>
    mr_accounts s' a = Some (e\<lparr>ac_phase := Resolving k r\<rparr>) \<and>
    (\<forall>res. \<exists>s2 evs e2. on_finalized a r res s' = Inr (s2, evs, ()) \<and> mr_accounts s2 a = Some e2 \<and>
       ac_phase e2 \<in> {Idle, Approved k r}) \<and>
    (\<forall>hash res. \<exists>s2 evs v e2. mr_on_signed a r hash res s' = Inr (s2, evs, v) \<and>
       mr_accounts s2 a = Some e2 \<and> ac_phase e2 = Approved k r)"
proof -
  let ?s = "set_phase a e (Resolving k r) s"
  from assms(2,3) have ok: "account_ok h e" by (auto simp: mr_inv_def)
  have "\<exists>p. finalize_recovery h c a n b s = Inr (?s, [], p)"
  proof (cases "po_target (ac_policy e)")
    case (Native m)
    with assms show ?thesis by (simp add: finalize_recovery_def Let_def)
  next
    case (Wallet x bound)
    with ok assms(4) have "is_ed25519 h k" "is_ed25519 h bound"
      by (auto simp: account_ok_def policy_ok_def)
    with assms(1) obtain kb bb where "ed25519_base58 h k = Some kb" "ed25519_base58 h bound = Some bb"
      using ed25519_base58_total by metis
    with Wallet assms(3,4) show ?thesis
      by (simp add: finalize_recovery_def mr_swap_owner_def ed25519_base58_or_panic_def Let_def)
  qed
  moreover have "\<exists>s2 evs e2. on_finalized a r res ?s = Inr (s2, evs, ()) \<and> mr_accounts s2 a = Some e2 \<and>
       ac_phase e2 \<in> {Idle, Approved k r}" for res
    by (auto simp: on_finalized_def Let_def split: sum.splits bool.splits)
  moreover have "\<exists>s2 evs v e2. mr_on_signed a r hash res ?s = Inr (s2, evs, v) \<and>
       mr_accounts s2 a = Some e2 \<and> ac_phase e2 = Approved k r" for hash res
    by (auto simp: mr_on_signed_def settle_resolving_def resolving_owner_def split: sum.splits)
  ultimately show ?thesis by auto
qed

theorem finalize_recovery_live_witness:
  "\<exists>s' p. finalize_recovery demo_host (called_by ''anyone.near'') ''a.tla.near'' 0 []
     (demo_phase 1 (Approved (demo_key 6) 0)) = Inr (s', [], p)"
proof -
  have "mr_inv demo_host (demo_phase 1 (Approved (demo_key 6) 0))"
    using mr_sound.run_inv [OF mr_new_inv [OF demo_recovery_new], of demo_history]
    by (simp add: list_all_iff demo_history_run)
  from finalize_recovery_live [OF demo_host_key_laws this, of "''a.tla.near''"
      "\<lparr>ac_policy = demo_policy, ac_round = 1, ac_phase = Approved (demo_key 6) 0\<rparr>"
      "demo_key 6" 0 "called_by ''anyone.near''" 0 "[]"]
  show ?thesis by (auto simp: demo_policy_def)
qed

end
