(* ===== verification/Signer_Custody.thy ===== *)
theory Signer_Custody
  imports Active_Signer Demo_Host
begin

text \<open>
  What \<open>active-signer\<close> promises about the custody of a rented account, as an abstract machine
  on the pair of operating key and freeze state, and the proof that every call of the
  contract is one of its steps. The signing discipline of the threat model (the contract asks
  the MPC network to sign only payloads it built itself) and the resistance of signed
  requests to replay are stated on the same calls.
\<close>

section \<open>The custody machine\<close>

type_synonym custody_state = "(byte list \<times> FreezeState) option"

definition custody :: "'n ActiveSigner \<Rightarrow> AccountId \<Rightarrow> custody_state" where
  "custody s wallet = map_option (\<lambda>e. (se_public_key e, se_frozen e)) (as_signers s wallet)"

datatype custody_action =
    Install "byte list" | Sell "byte list" | Recover "byte list" | Halt | Hold | Release | Stay

inductive custody_step :: "custody_action \<Rightarrow> custody_state \<Rightarrow> custody_state \<Rightarrow> bool" where
  install: "custody_step (Install k) None (Some (k, Unfrozen))"
| sell: "custody_step (Sell k') (Some (k, Unfrozen)) (Some (k', Unfrozen))"
| recover: "f \<noteq> Unfrozen \<Longrightarrow> custody_step (Recover k') (Some (k, f)) (Some (k', Unfrozen))"
| halt: "custody_step Halt (Some (k, f)) (Some (k, SelfFrozen))"
| hold: "f \<noteq> SelfFrozen \<Longrightarrow> custody_step Hold (Some (k, f)) (Some (k, RecoveryFrozen))"
| release: "f \<noteq> SelfFrozen \<Longrightarrow> custody_step Release (Some (k, f)) (Some (k, Unfrozen))"
| stay: "custody_step Stay x x"

inductive_cases custody_step_from_self: "custody_step a (Some (k, SelfFrozen)) x"

text \<open>The call and the evidence an action rests on: its method on this very wallet, the role of the
  caller, the signature, and the requested and expected keys. A wallet stays as it is only in a call
  on another wallet or of another method, in a swap whose expected key is not the current one, and in
  a freeze or unfreeze of a self-frozen wallet.\<close>

definition expects :: "host \<Rightarrow> 'n ActiveSigner \<Rightarrow> AccountId \<Rightarrow> string option \<Rightarrow> bool" where
  "expects h s wallet ex \<longleftrightarrow> (\<forall>x. ex = Some x \<longrightarrow>
     ed25519_from_str h x = map_option se_public_key (as_signers s wallet))"

abbreviation self_frozen :: "'n ActiveSigner \<Rightarrow> AccountId \<Rightarrow> bool" where
  "self_frozen s wallet \<equiv> map_option se_frozen (as_signers s wallet) = Some SelfFrozen"

definition acts_as :: "host \<Rightarrow> 'n wallet_lib \<Rightarrow> ctx \<Rightarrow> as_call \<Rightarrow> 'n ActiveSigner \<Rightarrow> AccountId
    \<Rightarrow> custody_action \<Rightarrow> bool" where
  "acts_as h w c call s wallet a = (case a of
     Install k \<Rightarrow> (\<exists>key m. call = C_InstallSigner wallet key m \<and> ed25519_from_str h key = Some k) \<and>
       predecessor_account_id c \<in> set (as_minters s) \<and> is_direct_subaccount wallet (predecessor_account_id c)
   | Sell k \<Rightarrow> (\<exists>key ex. call = C_SwapOwner wallet key ex \<and> ed25519_from_str h key = Some k \<and> expects h s wallet ex) \<and>
       predecessor_account_id c = as_marketplace_authority s
   | Recover k \<Rightarrow> (\<exists>key ex. call = C_SwapOwner wallet key ex \<and> ed25519_from_str h key = Some k \<and> expects h s wallet ex) \<and>
       predecessor_account_id c = as_recovery_authority s
   | Halt \<Rightarrow> (\<exists>e msg p. call = C_SelfFreeze wallet msg p \<and> as_signers s wallet = Some e \<and> fm_signer_id msg = wallet \<and>
       tagged_verify h FREEZE_DOMAIN (borsh_freeze w msg) (se_public_key e) p)
   | Hold \<Rightarrow> (\<exists>ex. call = C_Freeze wallet ex \<and> expects h s wallet ex) \<and>
       predecessor_account_id c = as_recovery_authority s
   | Release \<Rightarrow> call = C_Unfreeze wallet \<and> predecessor_account_id c = as_recovery_authority s
   | Stay \<Rightarrow> (case call of
         C_InstallSigner x key m \<Rightarrow> x \<noteq> wallet
       | C_SwapOwner x key ex \<Rightarrow> x \<noteq> wallet \<or> \<not> expects h s wallet ex
       | C_SelfFreeze x msg p \<Rightarrow> x \<noteq> wallet
       | C_Freeze x ex \<Rightarrow> x \<noteq> wallet \<or> self_frozen s wallet
       | C_Unfreeze x \<Rightarrow> x \<noteq> wallet \<or> self_frozen s wallet
       | _ \<Rightarrow> True))"

definition custody_move :: "host \<Rightarrow> 'n wallet_lib \<Rightarrow> ctx \<Rightarrow> as_call \<Rightarrow> 'n ActiveSigner \<Rightarrow> 'n ActiveSigner
    \<Rightarrow> AccountId \<Rightarrow> bool" where
  "custody_move h w c call s s' wallet \<longleftrightarrow>
     (\<exists>a. acts_as h w c call s wallet a \<and> custody_step a (custody s wallet) (custody s' wallet))"

lemma custody_moveI:
  "acts_as h w c call s wallet a \<Longrightarrow> custody_step a (custody s wallet) (custody s' wallet)
    \<Longrightarrow> custody_move h w c call s s' wallet"
  by (auto simp: custody_move_def)

lemma custody_move_refl:
  "custody s' wallet = custody s wallet \<Longrightarrow> acts_as h w c call s wallet Stay \<Longrightarrow> custody_move h w c call s s' wallet"
  by (rule custody_moveI) (auto intro: stay)

text \<open>A call that writes one entry moves that wallet only.\<close>

lemma custody_upd:
  "custody (s\<lparr>as_signers := (as_signers s)(x \<mapsto> e)\<rparr>) wallet =
     (if wallet = x then Some (se_public_key e, se_frozen e) else custody s wallet)"
  by (simp add: custody_def)

lemma custody_move_write:
  assumes "acts_as h w c call s x a"
    and "custody_step a (custody s x) (Some (se_public_key e, se_frozen e))"
    and "wallet \<noteq> x \<Longrightarrow> acts_as h w c call s wallet Stay"
  shows "custody_move h w c call s (s\<lparr>as_signers := (as_signers s)(x \<mapsto> e)\<rparr>) wallet"
proof (cases "wallet = x")
  case True
  show ?thesis unfolding True
    by (rule custody_moveI [OF assms(1)]) (use assms(2) in \<open>simp add: custody_upd\<close>)
next
  case False
  with assms(3) show ?thesis by (simp add: custody_move_refl custody_upd)
qed

lemma move_authorize:
  assumes "authorize w c x n cr t v s = Inr (s', key)" and "acts_as h w c call s wallet Stay"
  shows "custody_move h w c call s s' wallet"
  by (rule custody_move_refl [OF _ assms(2)]) (use assms(1) in \<open>auto simp: authorize_Inr custody_upd custody_def\<close>)

lemma move_swap_owner:
  assumes "swap_owner h w c x k ex s = Inr (s', evs, ok)"
  shows "custody_move h w c (C_SwapOwner x k ex) s s' wallet"
proof -
  from swap_owner_Inr [OF assms] obtain e new where e: "as_signers s x = Some e"
    and new: "ed25519_from_str h k = Some new"
    and who: "predecessor_account_id c = as_marketplace_authority s \<and> se_frozen e = Unfrozen \<or>
        predecessor_account_id c = as_recovery_authority s \<and> se_frozen e \<noteq> Unfrozen"
    and ex: "\<forall>y. ex = Some y \<longrightarrow> (\<exists>key. ed25519_from_str h y = Some key \<and> (ok \<longleftrightarrow> se_public_key e = key))"
      "ex = None \<longrightarrow> ok"
    and s': "s' = (if ok then s\<lparr>as_signers := (as_signers s)(x \<mapsto>
               e\<lparr>se_frozen := Unfrozen, se_public_key := new,
                 se_nonces := nonces_new w (as_timeout_secs s),
                 se_freeze_nonces := nonces_new w (as_timeout_secs s)\<rparr>)\<rparr> else s)"
    by blast
  have old: "custody s x = Some (se_public_key e, se_frozen e)" by (simp add: custody_def e)
  have cas: "expects h s x ex \<longleftrightarrow> ok" using ex by (cases ex) (auto simp: expects_def e)
  show ?thesis
  proof (cases ok)
    case True
    obtain a where "acts_as h w c (C_SwapOwner x k ex) s x a"
        "custody_step a (Some (se_public_key e, se_frozen e)) (Some (new, Unfrozen))"
      using who
    proof (elim disjE conjE)
      assume "predecessor_account_id c = as_marketplace_authority s" "se_frozen e = Unfrozen"
      with that [of "Sell new"] new cas True show thesis by (auto simp: acts_as_def intro: custody_step.sell)
    next
      assume "predecessor_account_id c = as_recovery_authority s" "se_frozen e \<noteq> Unfrozen"
      with that [of "Recover new"] new cas True show thesis by (auto simp: acts_as_def intro: custody_step.recover)
    qed
    with True show ?thesis unfolding s'
      by (simp, intro custody_move_write [where a = a]) (simp_all add: old acts_as_def)
  next
    case False
    with cas show ?thesis by (intro custody_move_refl) (auto simp: s' acts_as_def)
  qed
qed

lemma move_self_freeze:
  assumes "self_freeze h w c x msg p s = Inr (s', evs, v)"
  shows "custody_move h w c (C_SelfFreeze x msg p) s s' wallet"
proof -
  from self_freeze_Inr [OF assms] obtain e ns where e: "as_signers s x = Some e"
    and own: "fm_signer_id msg = x"
      "tagged_verify h FREEZE_DOMAIN (borsh_freeze w msg) (se_public_key e) p"
    and s': "s' = s\<lparr>as_signers := (as_signers s)(x \<mapsto>
               e\<lparr>se_freeze_nonces := ns, se_frozen := SelfFrozen\<rparr>)\<rparr>"
    by blast
  from e own have "acts_as h w c (C_SelfFreeze x msg p) s x Halt" unfolding acts_as_def by auto
  then show ?thesis
    unfolding s' by (rule custody_move_write) (auto simp: custody_def e acts_as_def intro: custody_step.halt)
qed

lemma move_freeze:
  assumes "freeze h c x ex s = Inr (s', evs, v)"
  shows "custody_move h w c (C_Freeze x ex) s s' wallet"
proof -
  from freeze_Inr [OF assms] obtain e where r: "predecessor_account_id c = as_recovery_authority s"
    and e: "as_signers s x = Some e" "\<forall>y. ex = Some y \<longrightarrow> ed25519_from_str h y = Some (se_public_key e)"
    and s': "s' = s\<lparr>as_signers := (as_signers s)(x \<mapsto>
       (if se_frozen e \<noteq> SelfFrozen then e\<lparr>se_frozen := RecoveryFrozen\<rparr> else e))\<rparr>"
    by blast
  show ?thesis
  proof (cases "se_frozen e = SelfFrozen")
    case True
    with e show ?thesis by (intro custody_move_refl) (auto simp: s' custody_def acts_as_def)
  next
    case False
    with r e have "acts_as h w c (C_Freeze x ex) s x Hold" by (simp add: acts_as_def expects_def)
    with False show ?thesis unfolding s'
      by (intro custody_move_write) (auto simp: custody_def e acts_as_def intro: custody_step.hold)
  qed
qed

lemma move_unfreeze:
  assumes "unfreeze c x s = Inr (s', evs, v)"
  shows "custody_move h w c (C_Unfreeze x) s s' wallet"
proof -
  from unfreeze_Inr [OF assms] obtain e where r: "predecessor_account_id c = as_recovery_authority s"
    and e: "as_signers s x = Some e"
    and s': "s' = (if se_frozen e = SelfFrozen then s
        else s\<lparr>as_signers := (as_signers s)(x \<mapsto> e\<lparr>se_frozen := Unfrozen\<rparr>)\<rparr>)"
    by blast
  show ?thesis
  proof (cases "se_frozen e = SelfFrozen")
    case False
    with r have "acts_as h w c (C_Unfreeze x) s x Release" by (simp add: acts_as_def)
    with False show ?thesis unfolding s'
      by (simp, intro custody_move_write) (auto simp: custody_def e acts_as_def intro: custody_step.release)
  next
    case True
    with e show ?thesis by (intro custody_move_refl) (auto simp: s' acts_as_def)
  qed
qed

lemma move_install_signer:
  assumes "install_signer h w c x k m s = Inr (s', evs, v)"
  shows "custody_move h w c (C_InstallSigner x k m) s s' wallet"
proof -
  let ?e = "\<lambda>key. \<lparr>se_public_key = key, se_mpc_public_key = m, se_nonces = nonces_new w (as_timeout_secs s),
      se_freeze_nonces = nonces_new w (as_timeout_secs s), se_last_signed_at = 0, se_frozen = Unfrozen\<rparr>"
  from install_signer_Inr [OF assms] obtain key where new: "as_signers s x = None"
      "acts_as h w c (C_InstallSigner x k m) s x (Install key)"
    and s': "s' = s\<lparr>as_signers := (as_signers s)(x \<mapsto> ?e key)\<rparr>"
    by (auto simp: acts_as_def)
  show ?thesis unfolding s'
    by (rule custody_move_write [OF new(2)]) (use new(1) in \<open>auto simp: custody_def acts_as_def intro: custody_step.install\<close>)
qed

lemmas custody_moves = move_swap_owner move_self_freeze move_freeze move_unfreeze move_install_signer

lemma swap_owner_dec:
  assumes "swap_owner h w c x k ex s = Inr (s', evs, ok)" and "as_signers s x = Some e"
  shows "(predecessor_account_id c = as_marketplace_authority s \<and> se_frozen e = Unfrozen \<or>
      predecessor_account_id c = as_recovery_authority s \<and> se_frozen e \<noteq> Unfrozen) \<and>
    (if ex = None \<or> (\<exists>y. ex = Some y \<and> ed25519_from_str h y = Some (se_public_key e))
     then ok \<and> (\<exists>new. ed25519_from_str h k = Some new \<and>
       as_signers s' x = Some (e\<lparr>se_frozen := Unfrozen, se_public_key := new,
         se_nonces := nonces_new w (as_timeout_secs s), se_freeze_nonces := nonces_new w (as_timeout_secs s)\<rparr>))
     else \<not> ok \<and> s' = s)"
  using swap_owner_Inr [OF assms(1)] assms(2) by (cases ex) auto

lemma as_exec_custody:
  assumes "as_exec h w (c, call) s = Inr (s', evs, r)"
  shows "custody_move h w c call s s' wallet"
proof (cases call)
  case (C_SubmitSignedTx x msg p n b)
  with assms show ?thesis by (auto dest!: submit_signed_tx_Inr intro: move_authorize simp: acts_as_def)
next
  case (C_SubmitSignedMessage x msg p)
  with assms show ?thesis by (auto dest!: submit_signed_message_Inr intro: move_authorize simp: acts_as_def)
next
  case (C_AuthoritySignTx x r as n b)
  with assms show ?thesis
    by (auto dest!: authority_sign_tx_Inr intro!: custody_move_refl simp: custody_upd custody_def acts_as_def)
qed (use assms in \<open>auto intro: custody_moves custody_move_refl
    simp: as_admin_defs as_on_signed_def custody_def acts_as_def split: if_splits\<close>)

section \<open>Wiring, keys and admins never degrade\<close>

lemma as_exec_wiring:
  assumes "as_exec h w (c, call) s = Inr (s', evs, r)"
  shows "as_marketplace_authority s' = as_marketplace_authority s \<and>
    as_recovery_authority s' = as_recovery_authority s \<and>
    as_mpc_signer s' = as_mpc_signer s \<and> as_timeout_secs s' = as_timeout_secs s"
  using assms
  by (cases call) (auto dest!: as_call_dests simp: authorize_Inr as_admin_defs as_on_signed_def
      split: if_splits)

lemma as_exec_mpc_key:
  assumes "as_exec h w (c, call) s = Inr (s', evs, r)" and "as_signers s x = Some e"
  shows "\<exists>e'. as_signers s' x = Some e' \<and> se_mpc_public_key e' = se_mpc_public_key e"
  using assms
  by (cases call) (auto dest!: as_call_dests simp: authorize_Inr as_admin_defs as_on_signed_def
      split: if_splits)

definition as_inv :: "host \<Rightarrow> 'n ActiveSigner \<Rightarrow> bool" where
  "as_inv h s \<longleftrightarrow> admins_ok (as_admins s) \<and> distinct (as_minters s) \<and>
     MIN_TIMEOUT_SECS \<le> as_timeout_secs s \<and> as_timeout_secs s \<le> MAX_TIMEOUT_SECS \<and>
     (\<forall>x e. as_signers s x = Some e \<longrightarrow> is_ed25519 h (se_mpc_public_key e) \<and>
        (\<exists>parent. is_direct_subaccount x parent))"

lemma as_new_inv: "as_new admin m r mpc t = Inr s \<Longrightarrow> as_inv h s"
  by (auto simp: as_new_def as_inv_def admins_ok_def iset_insert_def split: if_splits)

lemma as_exec_signer_origin:
  assumes "as_exec h w (c, call) s = Inr (s', evs, r)" and "as_signers s' x = Some e'"
  shows "(\<exists>e. as_signers s x = Some e \<and> se_mpc_public_key e' = se_mpc_public_key e) \<or>
    is_ed25519 h (se_mpc_public_key e') \<and> is_direct_subaccount x (predecessor_account_id c)"
proof (cases "as_signers s x")
  case (Some e)
  with assms as_exec_mpc_key [OF assms(1) Some] show ?thesis by auto
next
  case None
  with assms show ?thesis
    by (cases call) (auto dest!: as_call_dests simp: authorize_Inr as_admin_defs as_on_signed_def
        split: if_splits)
qed

lemma as_exec_admins:
  assumes "as_exec h w (c, call) s = Inr (s', evs, r)"
    and "admins_ok (as_admins s)" and "distinct (as_minters s)"
  shows "admins_ok (as_admins s') \<and> distinct (as_minters s')"
proof (cases call)
  case (C_AddAdmin a)
  with assms show ?thesis
    by (auto dest: as_admin.add_keeps) (auto simp: as_admin_defs split: if_splits)
next
  case (C_RemoveAdmin a)
  with assms show ?thesis
    by (auto dest: as_admin.remove_keeps) (auto simp: as_admin_defs split: if_splits)
qed (use assms in \<open>auto dest!: as_call_dests simp: authorize_Inr as_admin_defs as_on_signed_def
    iset_keeps split: if_splits\<close>)

interpretation as_sound: invariant_step "as_exec h w" "\<lambda>_. True" "as_inv h" for h w
proof unfold_locales
  fix s s' :: "'a ActiveSigner" and x evs r
  assume inv: "as_inv h s" and ex: "as_exec h w x s = Inr (s', evs, r)"
  obtain c call where x: "x = (c, call)" by (cases x)
  from as_exec_signer_origin [OF ex [unfolded x]] inv
  have "as_signers s' y = Some e' \<Longrightarrow> is_ed25519 h (se_mpc_public_key e') \<and>
      (\<exists>parent. is_direct_subaccount y parent)" for y e'
    by (fastforce simp: as_inv_def)
  with as_exec_wiring [OF ex [unfolded x]] as_exec_admins [OF ex [unfolded x]] inv
  show "as_inv h s'" by (simp add: as_inv_def)
qed

interpretation as_permanent: invariant_step "as_exec h w" "\<lambda>_. True"
    "\<lambda>s. mpc_key_of s x = Some m" for h w x m
  by unfold_locales (auto simp: mpc_key_of_def dest!: as_exec_mpc_key)

interpretation as_halted: invariant_step "as_exec h w" "\<lambda>(c, _). predecessor_account_id c \<noteq> r"
    "\<lambda>s. as_recovery_authority s = r \<and> custody s x = Some (k, SelfFrozen)" for h w r x k
proof unfold_locales
  fix s s' :: "'a ActiveSigner" and y evs v
  assume inv: "as_recovery_authority s = r \<and> custody s x = Some (k, SelfFrozen)"
    and ok: "case y of (c, _) \<Rightarrow> predecessor_account_id c \<noteq> r"
    and ex: "as_exec h w y s = Inr (s', evs, v)"
  obtain c call where y: "y = (c, call)" by (cases y)
  have "custody_move h w c call s s' x" using ex unfolding y by (rule as_exec_custody)
  with inv ok have "custody s' x = Some (k, SelfFrozen)"
    by (auto simp: custody_move_def acts_as_def y elim: custody_step_from_self)
  with as_exec_wiring [OF ex [unfolded y]] inv
  show "as_recovery_authority s' = r \<and> custody s' x = Some (k, SelfFrozen)" by simp
qed

section \<open>The signing discipline\<close>

text \<open>The payloads a state lets a caller have signed for a wallet: a transaction with exactly
  the receiver and actions of an owner-signed envelope, a NEP-413 message of an owner-signed
  request, or a transaction requested by the marketplace authority.\<close>

inductive authorized :: "host \<Rightarrow> 'n wallet_lib \<Rightarrow> ctx \<Rightarrow> 'n ActiveSigner \<Rightarrow> AccountId \<Rightarrow> byte list \<Rightarrow> bool"
  for h w c s wallet where
  renter_tx: "as_signers s wallet = Some e \<Longrightarrow> se_frozen e = Unfrozen \<Longrightarrow>
     tm_chain_id msg = CHAIN_ID \<Longrightarrow> tm_signer_id msg = wallet \<Longrightarrow> tm_actions msg \<noteq> [] \<Longrightarrow>
     tagged_verify h TX_DOMAIN (borsh_tx w msg) (se_public_key e) p \<Longrightarrow>
     nonces_commit w (se_nonces e) (tm_nonce msg) (tm_created_at_secs msg) (tm_timeout_secs msg)
       (block_timestamp c) \<noteq> None \<Longrightarrow>
     authorized h w c s wallet (build_transaction wallet (se_mpc_public_key e) n
       (tm_receiver_id msg) b (tm_actions msg))"
| renter_message: "as_signers s wallet = Some e \<Longrightarrow> se_frozen e = Unfrozen \<Longrightarrow>
     mr_chain_id msg = CHAIN_ID \<Longrightarrow> mr_signer_id msg = wallet \<Longrightarrow>
     length (mr_message_nonce msg) = 32 \<Longrightarrow>
     tagged_verify h MESSAGE_DOMAIN (borsh_message w msg) (se_public_key e) p \<Longrightarrow>
     nonces_commit w (se_nonces e) (mr_nonce msg) (mr_created_at_secs msg) (mr_timeout_secs msg)
       (block_timestamp c) \<noteq> None \<Longrightarrow>
     authorized h w c s wallet (nep413_payload (mr_message msg) (mr_message_nonce msg)
       (mr_recipient msg) (mr_callback_url msg))"
| marketplace_tx: "as_signers s wallet = Some e \<Longrightarrow> se_frozen e = Unfrozen \<Longrightarrow>
     predecessor_account_id c = as_marketplace_authority s \<Longrightarrow> as \<noteq> [] \<Longrightarrow>
     authorized h w c s wallet (build_transaction wallet (se_mpc_public_key e) n r b as)"

lemma sign_payload_same: "as_mpc_signer s' = as_mpc_signer s \<Longrightarrow> sign_payload s' = sign_payload s"
  by (intro ext) (simp add: sign_payload_def)

lemma authorize_mpc_signer:
  "authorize w c x n cr t v s = Inr (s', key) \<Longrightarrow> sign_payload s' = sign_payload s"
  by (intro sign_payload_same) (auto simp: authorize_Inr)

lemma submit_signed_tx_authorized:
  assumes "submit_signed_tx h w c x msg p n b s = Inr (s', evs, pr)"
  shows "\<exists>u. authorized h w c s x u \<and> pr = sign_payload s x (sha256 h u) (Some (to_hex u))"
proof -
  from submit_signed_tx_Inr [OF assms] obtain key where
    m: "tm_chain_id msg = CHAIN_ID" "tm_signer_id msg = x" "tm_actions msg \<noteq> []"
    and a: "authorize w c x (tm_nonce msg) (tm_created_at_secs msg) (tm_timeout_secs msg)
        (\<lambda>key. tagged_verify h TX_DOMAIN (borsh_tx w msg) key p) s = Inr (s', key)"
    and pr: "pr = (let u = build_transaction x key n (tm_receiver_id msg) b (tm_actions msg)
            in sign_payload s' x (sha256 h u) (Some (to_hex u)))"
    by blast
  from a m have "authorized h w c s x (build_transaction x key n (tm_receiver_id msg) b (tm_actions msg))"
    by (auto simp: authorize_Inr intro: authorized.renter_tx)
  with pr authorize_mpc_signer [OF a] show ?thesis by (auto simp: Let_def)
qed

lemma submit_signed_message_authorized:
  assumes "submit_signed_message h w c x msg p s = Inr (s', evs, pr)"
  shows "\<exists>u. authorized h w c s x u \<and> pr = sign_payload s x (sha256 h u) None"
proof -
  from submit_signed_message_Inr [OF assms] obtain key where
    m: "mr_chain_id msg = CHAIN_ID" "mr_signer_id msg = x" "length (mr_message_nonce msg) = 32"
    and a: "authorize w c x (mr_nonce msg) (mr_created_at_secs msg) (mr_timeout_secs msg)
        (\<lambda>key. tagged_verify h MESSAGE_DOMAIN (borsh_message w msg) key p) s = Inr (s', key)"
    and pr: "pr = sign_payload s' x (sha256 h (nep413_payload (mr_message msg)
             (mr_message_nonce msg) (mr_recipient msg) (mr_callback_url msg))) None"
    by blast
  from a m have "authorized h w c s x (nep413_payload (mr_message msg) (mr_message_nonce msg)
      (mr_recipient msg) (mr_callback_url msg))"
    by (auto simp: authorize_Inr intro: authorized.renter_message)
  with pr authorize_mpc_signer [OF a] show ?thesis by auto
qed

lemma authority_sign_tx_authorized:
  assumes "authority_sign_tx h c x r as n b s = Inr (s', evs, pr)"
  shows "\<exists>u. authorized h w c s x u \<and> pr = sign_payload s x (sha256 h u) (Some (to_hex u))"
  using authority_sign_tx_Inr [OF assms] sign_payload_same [of s' s]
  by (auto simp: Let_def intro: authorized.marketplace_tx)

section \<open>Replay\<close>

text \<open>
  Documented behaviour of the nonce windows of \<open>defuse_wallet\<close>: a committed triple of nonce,
  creation time and timeout is spent, later commits in order of time forget nothing, and a
  spent triple is not committed again. \<open>clock\<close> is the time of the last commit.
\<close>

definition nonce_laws :: "'n wallet_lib \<Rightarrow> ('n \<Rightarrow> u32 \<times> u32 \<times> u32 \<Rightarrow> bool) \<Rightarrow> ('n \<Rightarrow> u64) \<Rightarrow> bool" where
  "nonce_laws w spent clock \<longleftrightarrow>
     (\<forall>ns n cr t now ns'. clock ns \<le> now \<longrightarrow> nonces_commit w ns n cr t now = Some ns' \<longrightarrow>
        \<not> spent ns (n, cr, t) \<and> spent ns' (n, cr, t) \<and> clock ns' \<le> now \<and>
        (\<forall>m. spent ns m \<longrightarrow> spent ns' m))"

lemma nonce_lawsD:
  assumes "nonce_laws w spent clock" "clock ns \<le> now" "nonces_commit w ns n cr t now = Some ns'"
  shows "\<not> spent ns (n, cr, t)" "spent ns' (n, cr, t)" "clock ns' \<le> now" "spent ns m \<Longrightarrow> spent ns' m"
  using assms unfolding nonce_laws_def by blast+

text \<open>A wallet has two windows, one for signed transactions and messages and one for freezes. The
  window, the wallet and the triple that a signed request uses:\<close>

definition window :: "bool \<Rightarrow> 'n SignerEntry \<Rightarrow> 'n" where
  "window freezing e = (if freezing then se_freeze_nonces e else se_nonces e)"

lemma window_simps [simp]: "window True e = se_freeze_nonces e" "window False e = se_nonces e"
  by (simp_all add: window_def)

fun signed_nonce :: "as_call \<Rightarrow> (AccountId \<times> bool \<times> u32 \<times> u32 \<times> u32) option" where
  "signed_nonce (C_SubmitSignedTx x msg p n b) =
     Some (x, False, tm_nonce msg, tm_created_at_secs msg, tm_timeout_secs msg)"
| "signed_nonce (C_SubmitSignedMessage x msg p) =
     Some (x, False, mr_nonce msg, mr_created_at_secs msg, mr_timeout_secs msg)"
| "signed_nonce (C_SelfFreeze x msg p) =
     Some (x, True, fm_nonce msg, fm_created_at_secs msg, fm_timeout_secs msg)"
| "signed_nonce _ = None"

text \<open>Any call other than an owner swap of the wallet leaves a nonce window as it is or
  commits one nonce to it at the current time; a signed request commits its own.\<close>

lemma as_exec_nonces:
  assumes "as_exec h w (c, call) s = Inr (s', evs, r)" and "as_signers s x = Some e"
    and "\<forall>k ex. call \<noteq> C_SwapOwner x k ex"
  shows "\<exists>e'. as_signers s' x = Some e' \<and> (window f e' = window f e \<or>
    (\<exists>n cr t. nonces_commit w (window f e) n cr t (block_timestamp c) = Some (window f e')))"
  using assms
  by (cases f; cases call) (auto dest!: as_call_dests simp: authorize_Inr as_admin_defs as_on_signed_def
      split: if_splits)

lemma signed_nonce_commits:
  assumes "as_exec h w (c, call) s = Inr (s', evs, r)" and "signed_nonce call = Some (x, f, n, cr, t)"
  shows "\<exists>e e'. as_signers s x = Some e \<and> as_signers s' x = Some e' \<and>
    nonces_commit w (window f e) n cr t (block_timestamp c) = Some (window f e')"
  using assms
  by (cases call) (auto dest!: submit_signed_tx_Inr submit_signed_message_Inr self_freeze_Inr simp: authorize_Inr)

definition spent_at :: "('n \<Rightarrow> u32 \<times> u32 \<times> u32 \<Rightarrow> bool) \<Rightarrow> ('n \<Rightarrow> u64) \<Rightarrow> AccountId \<Rightarrow> bool
    \<Rightarrow> u32 \<times> u32 \<times> u32 \<Rightarrow> u64 \<Rightarrow> 'n ActiveSigner \<Rightarrow> bool" where
  "spent_at spent clock x f m now s \<longleftrightarrow>
     (\<exists>e. as_signers s x = Some e \<and> spent (window f e) m \<and> clock (window f e) \<le> now)"

lemma spent_at_mono: "spent_at spent clock x f m t s \<Longrightarrow> t \<le> t' \<Longrightarrow> spent_at spent clock x f m t' s"
  by (auto simp: spent_at_def)

lemma spent_at_commit:
  assumes "nonce_laws w spent clock" and "spent_at spent clock x f m (block_timestamp c) s"
    and "\<forall>k ex. call \<noteq> C_SwapOwner x k ex"
  shows "spent_at spent clock x f m (block_timestamp c) (commit (as_exec h w (c, call) s) s)"
proof (cases "as_exec h w (c, call) s")
  case (Inr y)
  obtain s' evs r where y: "y = (s', evs, r)" by (cases y)
  from assms(2) obtain e where e: "as_signers s x = Some e" "spent (window f e) m"
      "clock (window f e) \<le> block_timestamp c"
    by (auto simp: spent_at_def)
  from as_exec_nonces [OF Inr [unfolded y] e(1) assms(3), of f] nonce_lawsD(3) [OF assms(1) e(3)]
    nonce_lawsD(4) [OF assms(1) e(3), where m = m] e Inr y
  show ?thesis by (auto simp: spent_at_def)
qed (use assms in simp)

lemma spent_at_run:
  assumes "nonce_laws w spent clock" and "spent_at spent clock x f m now s"
    and "sorted (now # map (block_timestamp \<circ> fst) cs)"
    and "\<forall>(c, call) \<in> set cs. \<forall>k ex. call \<noteq> C_SwapOwner x k ex"
    and "\<forall>t \<in> set (map (block_timestamp \<circ> fst) cs). t \<le> later" and "now \<le> later"
  shows "spent_at spent clock x f m later (run_calls (as_exec h w) cs s)"
  using assms(2-)
proof (induction cs arbitrary: s now)
  case Nil
  then show ?case by (auto intro: spent_at_mono)
next
  case (Cons y cs)
  obtain c call where y: "y = (c, call)" by (cases y)
  have "spent_at spent clock x f m (block_timestamp c) s"
    using Cons.prems by (auto simp: y intro: spent_at_mono)
  then have "spent_at spent clock x f m (block_timestamp c) (commit (as_exec h w y s) s)"
    unfolding y by (rule spent_at_commit [OF assms(1)]) (use Cons.prems y in auto)
  with Cons.prems show ?case by (auto simp: y intro!: Cons.IH [of "block_timestamp c"])
qed

lemma spent_rejects:
  assumes "nonce_laws w spent clock" and "spent_at spent clock x f (n, cr, t) (block_timestamp c) s"
    and "signed_nonce call = Some (x, f, n, cr, t)"
  shows "isl (as_exec h w (c, call) s)"
proof (rule ccontr)
  assume "\<not> isl (as_exec h w (c, call) s)"
  then obtain s' evs r where "as_exec h w (c, call) s = Inr (s', evs, r)"
    by (cases "as_exec h w (c, call) s") auto
  from signed_nonce_commits [OF this assms(3)] assms(2) nonce_lawsD(1) [OF assms(1)] show False
    by (auto simp: spent_at_def)
qed

section \<open>Properties\<close>

text \<open>The instance at which the properties below are exercised.\<close>

type_synonym demo_nonces = "u64 \<times> (u32 \<times> u32 \<times> u32) list"

definition demo_lib :: "demo_nonces wallet_lib" where
  "demo_lib = \<lparr>nonces_new = (\<lambda>_. (0, [])),
     nonces_commit = (\<lambda>(t0, ms) n cr t now. if (n, cr, t) \<in> set ms then None
       else Some (now, (n, cr, t) # ms)),
     borsh_tx = (\<lambda>_. []), borsh_message = (\<lambda>_. []), borsh_freeze = (\<lambda>_. [])\<rparr>"

definition demo_entry :: "demo_nonces SignerEntry" where
  "demo_entry = \<lparr>se_public_key = str_bytes ''k1'', se_mpc_public_key = demo_key 7,
     se_nonces = (0, []), se_freeze_nonces = (0, []), se_last_signed_at = 0,
     se_frozen = Unfrozen\<rparr>"

definition demo_signer :: "demo_nonces ActiveSigner" where
  "demo_signer = \<lparr>as_admins = [''council''], as_minters = [''tla.near''],
     as_marketplace_authority = ''ext.near'', as_recovery_authority = ''rec.near'',
     as_mpc_signer = ''v1.signer'', as_timeout_secs = 3600,
     as_signers = [''a.tla.near'' \<mapsto> demo_entry]\<rparr>"

definition demo_freeze :: FreezeMessage where
  "demo_freeze = \<lparr>fm_chain_id = ''mainnet'', fm_signer_id = ''a.tla.near'', fm_nonce = 1,
     fm_created_at_secs = 900, fm_timeout_secs = 3600\<rparr>"

definition demo_tx :: TxMessage where
  "demo_tx = \<lparr>tm_chain_id = ''mainnet'', tm_signer_id = ''a.tla.near'', tm_nonce = 1,
     tm_created_at_secs = 900, tm_timeout_secs = 3600, tm_receiver_id = ''bob.near'',
     tm_actions = [Transfer 5]\<rparr>"

lemmas demo_signer_simps = demo_signer_def demo_entry_def demo_lib_def demo_freeze_def demo_tx_def
  demo_host_def CHAIN_ID_def

lemma demo_self_freeze:
  "as_exec demo_host demo_lib (called_by ''bob.near'', C_SelfFreeze ''a.tla.near'' demo_freeze ''sig'')
     demo_signer = Inr (demo_signer\<lparr>as_signers := [''a.tla.near'' \<mapsto>
       demo_entry\<lparr>se_freeze_nonces := (1000000000000, [(1, 900, 3600)]), se_frozen := SelfFrozen\<rparr>]\<rparr>,
     [E_SelfFrozen ''a.tla.near''], R_Unit)"
  by (simp add: self_freeze_def tagged_verify_def demo_signer_simps non_payable_def)

text \<open>C3: Refinement of the custody machine. Whatever call of \<open>active-signer\<close> succeeds, each
  wallet makes one step of \<open>custody_step\<close> on its operating key and freeze state, and that step is
  the one of the call: an installation by a minter whose direct sub-account the wallet is, a swap to
  the requested key by the marketplace on an unfrozen or by recovery on a frozen wallet, a self-freeze
  with a signature of the wallet's key, a freeze or an unfreeze by recovery. An unfreeze never clears
  a self-freeze, only a swap by recovery does; the wallet stays as it is only where the call is
  void for it.\<close>

theorem custody_refinement:
  assumes "as_exec h w (c, call) s = Inr (s', evs, r)"
  shows "\<exists>a. acts_as h w c call s wallet a \<and> custody_step a (custody s wallet) (custody s' wallet)"
  using as_exec_custody [OF assms] unfolding custody_move_def .

theorem custody_refinement_witness:
  "\<exists>a. acts_as demo_host demo_lib (called_by ''bob.near'') (C_SelfFreeze ''a.tla.near'' demo_freeze ''sig'')
       demo_signer ''a.tla.near'' a \<and>
     custody_step a (Some (str_bytes ''k1'', Unfrozen)) (Some (str_bytes ''k1'', SelfFrozen))"
  using custody_refinement [OF demo_self_freeze, of "''a.tla.near''"]
  by (simp add: custody_def demo_signer_def demo_entry_def)

text \<open>C5: An owner's self-freeze is one-way for everyone but recovery. After a self-freeze, no
  sequence of calls from accounts other than the recovery authority changes the operating key
  of the wallet or clears the freeze.\<close>

theorem self_freeze_one_way:
  assumes "custody s wallet = Some (k, SelfFrozen)"
    and "\<forall>(c, call) \<in> set cs. predecessor_account_id c \<noteq> as_recovery_authority s"
  shows "custody (run_calls (as_exec h w) cs s) wallet = Some (k, SelfFrozen)"
proof -
  have "list_all (\<lambda>(c, _). predecessor_account_id c \<noteq> as_recovery_authority s) cs"
    using assms(2) by (auto simp: list_all_iff)
  from as_halted.run_inv [OF conjI [OF refl assms(1)] this, of h w] show ?thesis by simp
qed

theorem self_freeze_one_way_witness:
  "custody (run_calls (as_exec demo_host demo_lib)
       [(called_by ''ext.near'', C_SwapOwner ''a.tla.near'' ''k2'' None),
        (called_by ''council'', C_Unfreeze ''a.tla.near'')]
       (demo_signer\<lparr>as_signers := [''a.tla.near'' \<mapsto> demo_entry\<lparr>se_frozen := SelfFrozen\<rparr>]\<rparr>))
     ''a.tla.near'' = Some (str_bytes ''k1'', SelfFrozen)"
  by (rule self_freeze_one_way) (simp_all add: custody_def demo_signer_def demo_entry_def)

text \<open>C6: The signing discipline. Every signature the contract requests from the MPC network is
  for the path of one wallet, that wallet is installed and not frozen, and the payload is the
  hash of bytes the contract built itself from an owner-signed transaction envelope, an
  owner-signed message request, or a request of the marketplace authority.\<close>

theorem signing_discipline:
  assumes "as_exec h w (c, call) s = Inr (s', evs, R_Promise p)"
  shows "\<exists>wallet u hex. authorized h w c s wallet u \<and> p = sign_payload s wallet (sha256 h u) hex"
proof (cases call)
  case (C_SubmitSignedTx x msg q n b)
  with assms have "submit_signed_tx h w c x msg q n b s = Inr (s', evs, p)" by simp
  from submit_signed_tx_authorized [OF this] show ?thesis by blast
next
  case (C_SubmitSignedMessage x msg q)
  with assms have "submit_signed_message h w c x msg q s = Inr (s', evs, p)" by simp
  from submit_signed_message_authorized [OF this] show ?thesis by blast
next
  case (C_AuthoritySignTx x r as n b)
  with assms have "authority_sign_tx h c x r as n b s = Inr (s', evs, p)" by simp
  from authority_sign_tx_authorized [OF this] show ?thesis by blast
qed (use assms in auto)

lemma demo_submit:
  "as_exec demo_host demo_lib ((called_by ''bob.near'')\<lparr>attached_deposit := 1\<rparr>,
     C_SubmitSignedTx ''a.tla.near'' demo_tx ''sig'' 9 (replicate 32 0)) demo_signer =
   Inr (demo_signer\<lparr>as_signers := [''a.tla.near'' \<mapsto> demo_entry\<lparr>
       se_nonces := (1000000000000, [(1, 900, 3600)]), se_last_signed_at := 1000000000000\<rparr>]\<rparr>,
     [E_TxSigned ''a.tla.near'' 1], R_Promise
       (let u = build_transaction ''a.tla.near'' (demo_key 7) 9 ''bob.near'' (replicate 32 0) [Transfer 5]
        in sign_payload demo_signer ''a.tla.near'' (take 4 u) (Some (to_hex u))))"
  by (simp add: submit_signed_tx_def authorize_def tagged_verify_def demo_signer_simps Let_def
      sign_payload_def del: to_hex.simps)

theorem signing_discipline_witness:
  "\<exists>wallet u hex. authorized demo_host demo_lib ((called_by ''bob.near'')\<lparr>attached_deposit := 1\<rparr>)
       demo_signer wallet u \<and>
     sign_payload demo_signer wallet (sha256 demo_host u) hex =
       (let u = build_transaction ''a.tla.near'' (demo_key 7) 9 ''bob.near'' (replicate 32 0) [Transfer 5]
        in sign_payload demo_signer ''a.tla.near'' (take 4 u) (Some (to_hex u)))"
  using signing_discipline [OF demo_submit] by metis

text \<open>C15: Compare-and-swap on the owner key. Only a successful \<open>swap_owner\<close> on the wallet changes its
  operating key, and it comes from the marketplace authority on an unfrozen wallet or the recovery
  authority on a frozen one. Given an expected key, the swap happens exactly when that is the current
  key, and otherwise answers \<open>false\<close> and changes nothing. Given none, it compares nothing and always
  happens. A swap installs the requested key, clears the freeze and renews both nonce windows.\<close>

theorem owner_key_compare_and_swap:
  assumes "as_exec h w (c, call) s = Inr (s', evs, r)" and "as_signers s wallet = Some e"
  shows "(\<forall>k ex. call = C_SwapOwner wallet k ex \<longrightarrow>
      (predecessor_account_id c = as_marketplace_authority s \<and> se_frozen e = Unfrozen \<or>
       predecessor_account_id c = as_recovery_authority s \<and> se_frozen e \<noteq> Unfrozen) \<and>
      (if ex = None \<or> (\<exists>y. ex = Some y \<and> ed25519_from_str h y = Some (se_public_key e))
       then r = R_Bool True \<and> (\<exists>new. ed25519_from_str h k = Some new \<and>
         as_signers s' wallet = Some (e\<lparr>se_frozen := Unfrozen, se_public_key := new,
           se_nonces := nonces_new w (as_timeout_secs s), se_freeze_nonces := nonces_new w (as_timeout_secs s)\<rparr>))
       else r = R_Bool False \<and> s' = s)) \<and>
    ((\<forall>k ex. call \<noteq> C_SwapOwner wallet k ex) \<longrightarrow>
      map_option se_public_key (as_signers s' wallet) = Some (se_public_key e))"
proof (intro conjI allI impI, goal_cases)
  case (1 k ex)
  with assms swap_owner_dec show ?case by fastforce
next
  case (2 k ex)
  with assms swap_owner_dec show ?case by fastforce
next
  case 3
  with assms show ?case
    by (cases call) (auto dest!: as_call_dests simp: authorize_Inr as_admin_defs as_on_signed_def
        split: if_splits)
qed

lemma demo_swap:
  "as_exec demo_host demo_lib (called_by ''ext.near'', C_SwapOwner ''a.tla.near'' ''k2'' (Some ''k1''))
     demo_signer = Inr (demo_signer\<lparr>as_signers := [''a.tla.near'' \<mapsto> demo_entry\<lparr>se_public_key := str_bytes ''k2''\<rparr>]\<rparr>,
     [E_OwnerSwapped ''a.tla.near'' ''marketplace''], R_Bool True)"
  by (simp add: swap_owner_def parse_key_def demo_signer_simps non_payable_def BY_MARKETPLACE_def)

theorem owner_key_compare_and_swap_witness:
  "as_exec demo_host demo_lib (called_by ''ext.near'', C_SwapOwner ''a.tla.near'' ''k2'' (Some ''k1'')) demo_signer =
     Inr (demo_signer\<lparr>as_signers := [''a.tla.near'' \<mapsto> demo_entry\<lparr>se_public_key := str_bytes ''k2''\<rparr>]\<rparr>,
       [E_OwnerSwapped ''a.tla.near'' ''marketplace''], R_Bool True) \<and>
   predecessor_account_id (called_by ''ext.near'') = as_marketplace_authority demo_signer"
proof -
  have "as_signers demo_signer ''a.tla.near'' = Some demo_entry" "se_frozen demo_entry = Unfrozen"
    by (simp_all add: demo_signer_def demo_entry_def)
  with owner_key_compare_and_swap [OF demo_swap, of "''a.tla.near''" demo_entry] demo_swap show ?thesis by blast
qed

text \<open>C21: A signed request is accepted at most once, whether it is a transaction, a message or a
  freeze. After the contract took a signed request, no sequence of calls in order of time that does
  not swap the wallet's owner makes it take a request with the same nonce, creation time and timeout
  out of the same window again; transactions and messages share a window.\<close>

theorem signed_request_no_replay:
  assumes laws: "nonce_laws w spent clock"
    and first: "as_exec h w (c, request) s = Inr (s', evs, r)"
    and nonce: "signed_nonce request = Some (wallet, f, m)" "signed_nonce again = Some (wallet, f, m)"
    and fresh: "\<forall>e. as_signers s wallet = Some e \<longrightarrow> clock (window f e) \<le> block_timestamp c"
    and order: "sorted (block_timestamp c # map (block_timestamp \<circ> fst) cs @ [block_timestamp d])"
    and no_swap: "\<forall>(c, call) \<in> set cs. \<forall>k ex. call \<noteq> C_SwapOwner wallet k ex"
  shows "isl (as_exec h w (d, again) (run_calls (as_exec h w) cs s'))"
proof -
  obtain n cr t where m: "m = (n, cr, t)" by (cases m)
  from signed_nonce_commits [OF first nonce(1) [unfolded m]] fresh
  have "spent_at spent clock wallet f m (block_timestamp c) s'"
    using nonce_lawsD(2,3) [OF laws] by (auto simp: spent_at_def m)
  from spent_at_run [OF laws this, of cs "block_timestamp d" h] order no_swap
  have "spent_at spent clock wallet f m (block_timestamp d) (run_calls (as_exec h w) cs s')"
    by (auto simp: sorted_append)
  from spent_rejects [OF laws this [unfolded m] nonce(2) [unfolded m]] show ?thesis .
qed

lemma demo_nonce_laws: "nonce_laws demo_lib (\<lambda>(t0, ms) m. m \<in> set ms) fst"
  by (auto simp: nonce_laws_def demo_lib_def split: if_splits)

theorem signed_request_no_replay_witness:
  "isl (as_exec demo_host demo_lib ((called_by ''eve.near'')\<lparr>attached_deposit := 1\<rparr>,
      C_SubmitSignedTx ''a.tla.near'' demo_tx ''sig'' 10 (replicate 32 0))
     (run_calls (as_exec demo_host demo_lib) [(called_by ''rec.near'', C_Freeze ''a.tla.near'' None),
         (called_by ''rec.near'', C_Unfreeze ''a.tla.near'')]
       (demo_signer\<lparr>as_signers := [''a.tla.near'' \<mapsto> demo_entry\<lparr>
         se_nonces := (1000000000000, [(1, 900, 3600)]), se_last_signed_at := 1000000000000\<rparr>]\<rparr>)))"
  by (rule signed_request_no_replay [OF demo_nonce_laws demo_submit])
    (auto simp: demo_signer_def demo_entry_def demo_tx_def window_def)

text \<open>C34: Install-once. Whatever calls follow, a wallet that has a signer entry keeps it, and the
  MPC key bound to the wallet never changes.\<close>

theorem mpc_key_permanent:
  assumes "mpc_key_of s wallet = Some key"
  shows "mpc_key_of (run_calls (as_exec h w) cs s) wallet = Some key"
  using as_permanent.run_inv [OF assms, of cs h w] by (simp add: list_all_iff)

theorem mpc_key_permanent_witness:
  "mpc_key_of (run_calls (as_exec demo_host demo_lib)
       [(called_by ''tla.near'', C_InstallSigner ''a.tla.near'' ''k9'' (demo_key 9))] demo_signer)
     ''a.tla.near'' = Some (demo_key 7)"
  by (rule mpc_key_permanent) (simp add: mpc_key_of_def demo_signer_def demo_entry_def)

text \<open>C35: State invariant of \<open>active-signer\<close> from deployment on. After any sequence of calls on a
  freshly initialised contract there is an admin, the timeout lies in its bounds, and every
  wallet is a direct sub-account of some account and has an ed25519 MPC key.\<close>

theorem signer_invariant:
  assumes "as_new admin market recovery mpc timeout = Inr s"
  shows "as_inv h (run_calls (as_exec h w) cs s)"
  using as_sound.run_inv [OF as_new_inv [OF assms], of cs h w] by (simp add: list_all_iff)

theorem signer_invariant_witness:
  "as_inv demo_host (run_calls (as_exec demo_host demo_lib)
       [(called_by ''council'', C_AddMinter ''tla.near''),
        (called_by ''tla.near'', C_InstallSigner ''a.tla.near'' ''k1'' (demo_key 7)),
        (called_by ''council'', C_RemoveAdmin ''council'')]
       \<lparr>as_admins = [''council''], as_minters = [], as_marketplace_authority = ''ext.near'',
        as_recovery_authority = ''rec.near'', as_mpc_signer = ''v1.signer'',
        as_timeout_secs = 3600, as_signers = Map.empty\<rparr>)"
  by (rule signer_invariant [of "''council''" "''ext.near''" "''rec.near''" "''v1.signer''" 3600])
    (simp add: as_new_def iset_insert_def MIN_TIMEOUT_SECS_def MAX_TIMEOUT_SECS_def)

text \<open>Domain separation. The bytes checked for a transaction envelope, a message request and
  a freeze message differ for all contents, so a signature for one is never checked as a
  signature for another.\<close>

theorem signing_domains_disjoint:
  "TX_DOMAIN @ x \<noteq> MESSAGE_DOMAIN @ y \<and> TX_DOMAIN @ x \<noteq> FREEZE_DOMAIN @ y \<and>
   MESSAGE_DOMAIN @ x \<noteq> FREEZE_DOMAIN @ y"
  by (simp add: TX_DOMAIN_def MESSAGE_DOMAIN_def FREEZE_DOMAIN_def str_bytes_def)

end
