(* ===== verification/Wallet_System.thy ===== *)
theory Wallet_System
  imports Gas_Budget Dev_Contracts Recovery_Safety Signer_Custody
begin

text \<open>
  The contracts together. Remote calls of one contract are dispatched to the method of the other,
  the result goes back to the callback that waits for it, and the state changes of all contracts on
  the way are those of their own definitions. Three compositions are followed from end to end: a
  wallet that changes hands (registry, extension, signer), a recovery (recovery contract, signer),
  and a token sweep (extension, token).
\<close>

section \<open>Calls on active-signer\<close>

text \<open>The method a remote call names, with the arguments read by name; a missing optional argument is
  \<open>None\<close>, a call that does not decode fails.\<close>

definition opt_str :: "json \<Rightarrow> string option" where
  "opt_str j = json_as_str j"

definition signer_method :: "remote_call \<Rightarrow> as_call option" where
  "signer_method m = (case m of
     SwapOwner w k e \<Rightarrow> Some (C_SwapOwner w k e)
   | InstallSigner w k key \<Rightarrow> Some (C_InstallSigner w k key)
   | AuthoritySignTx w r as n b \<Rightarrow> Some (C_AuthoritySignTx w r as n b)
   | JsonCall name args \<Rightarrow>
       (case json_as_str (json_field args ''wallet'') of
          None \<Rightarrow> None
        | Some w \<Rightarrow>
            if name = ''swap_owner''
            then map_option (\<lambda>k. C_SwapOwner w k (opt_str (json_field args ''expected_current'')))
                   (json_as_str (json_field args ''new_public_key''))
            else if name = ''freeze'' then Some (C_Freeze w (opt_str (json_field args ''expected_current'')))
            else if name = ''unfreeze'' then Some (C_Unfreeze w)
            else None)
   | _ \<Rightarrow> None)"

definition dispatch :: "host \<Rightarrow> 'n wallet_lib \<Rightarrow> ctx \<Rightarrow> AccountId \<Rightarrow> remote_call \<Rightarrow> u128 \<Rightarrow> 'n ActiveSigner
    \<Rightarrow> 'n ActiveSigner \<times> as_reply promise_result" where
  "dispatch h lib c r m d a = (case signer_method m of
     None \<Rightarrow> (a, Inl Failed)
   | Some call \<Rightarrow>
       (case as_exec h lib (c\<lparr>predecessor_account_id := current_account_id c, current_account_id := r,
                attached_deposit := d\<rparr>, call) a of
          Inl _ \<Rightarrow> (a, Inl Failed)
        | Inr (a', _, reply) \<Rightarrow> (a', Inr reply)))"

definition as_bool :: "as_reply promise_result \<Rightarrow> bool promise_result" where
  "as_bool r = (case r of Inr (R_Bool b) \<Rightarrow> Inr b | _ \<Rightarrow> Inl Failed)"

definition as_unit :: "as_reply promise_result \<Rightarrow> unit promise_result" where
  "as_unit r = map_sum id (\<lambda>_. ()) r"

section \<open>Wallet keys\<close>

definition wallet_key :: "'n ActiveSigner \<Rightarrow> AccountId \<Rightarrow> byte list option" where
  "wallet_key a w = map_option se_public_key (as_signers a w)"

definition owner_bytes :: "host \<Rightarrow> PublicKey \<Rightarrow> byte list option" where
  "owner_bytes h k = Option.bind (ed25519_base58 h k) (ed25519_from_str h)"

text \<open>What the clients of a compare-and-swap of wallet keys rely on.\<close>

locale key_swap =
  fixes key_of :: "'s \<Rightarrow> AccountId \<Rightarrow> byte list option"
    and bytes_of :: "PublicKey \<Rightarrow> byte list option"
    and swap :: "AccountId \<Rightarrow> PublicKey \<Rightarrow> PublicKey \<Rightarrow> 's \<Rightarrow> 's \<times> bool promise_result"
  assumes swap_done: "swap w new old a = (a', Inr True) \<Longrightarrow>
      key_of a w = bytes_of old \<and> key_of a' w = bytes_of new"
    and swap_not: "swap w new old a = (a', r) \<Longrightarrow> r \<noteq> Inr True \<Longrightarrow> a' = a"
    and swap_other: "swap w new old a = (a', r) \<Longrightarrow> w' \<noteq> w \<Longrightarrow> key_of a' w' = key_of a w'"
begin

lemma wrong_key: "key_of a w \<noteq> bytes_of old \<Longrightarrow> swap w new old a = (a', r) \<Longrightarrow> r \<noteq> Inr True \<and> a' = a"
  using swap_done swap_not by blast

lemma swap_once:
  assumes "swap w new old a = (a', Inr True)" and "bytes_of new \<noteq> bytes_of old"
    and "swap w new' old a' = (a'', r)"
  shows "r \<noteq> Inr True \<and> a'' = a'"
  using wrong_key [OF _ assms(3)] swap_done [OF assms(1)] assms(2) by simp

end

text \<open>The marketplace path: the extension's \<open>force_transfer\<close>, the signer's \<open>swap_owner\<close> and the
  extension's callback, whose value is the result that the registry's callback gets.\<close>

definition market_swap :: "host \<Rightarrow> 'n wallet_lib \<Rightarrow> ctx \<Rightarrow> HosExtension \<Rightarrow> AccountId \<Rightarrow> PublicKey
    \<Rightarrow> PublicKey option \<Rightarrow> 'n ActiveSigner \<Rightarrow> 'n ActiveSigner \<times> bool promise_result" where
  "market_swap h lib c x wallet new_key expected a = (case force_transfer h c wallet new_key expected x of
     Inr (x', _, ThenP (CallP r m d g) (AfterForceSwap w) g') \<Rightarrow>
       (case dispatch h lib c r m d a of (a', res) \<Rightarrow>
          (a', case after_force_swap w (as_bool res) x' of Inr (_, _, (b, _)) \<Rightarrow> Inr b | Inl _ \<Rightarrow> Inl Failed))
   | _ \<Rightarrow> (a, Inl Failed))"

text \<open>The recovery path: the JSON call that \<open>mpc-recovery\<close> makes.\<close>

definition recovery_swap :: "host \<Rightarrow> 'n wallet_lib \<Rightarrow> ctx \<Rightarrow> AccountId \<Rightarrow> AccountId \<Rightarrow> PublicKey
    \<Rightarrow> PublicKey \<Rightarrow> 'n ActiveSigner \<Rightarrow> 'n ActiveSigner \<times> bool promise_result" where
  "recovery_swap h lib c signer wallet new_key bound a = (case mr_swap_owner h signer wallet new_key bound of
     Inr (CallP r m d g) \<Rightarrow> (case dispatch h lib c r m d a of (a', res) \<Rightarrow> (a', as_bool res))
   | _ \<Rightarrow> (a, Inl Failed))"

lemma dispatch_swap:
  assumes "dispatch h lib c r m d a = (a', res)" and "signer_method m = Some (C_SwapOwner w k e)"
  shows "as_bool res = Inl Failed \<and> a' = a \<or>
    (\<exists>c' evs ok. predecessor_account_id c' = current_account_id c \<and>
       swap_owner h lib c' w k e a = Inr (a', evs, ok) \<and> as_bool res = Inr ok)"
proof -
  let ?c = "c\<lparr>predecessor_account_id := current_account_id c, current_account_id := r, attached_deposit := d\<rparr>"
  show ?thesis
  proof (cases "d = 0 \<and> \<not> isl (swap_owner h lib ?c w k e a)")
    case True
    then obtain a1 evs ok where "swap_owner h lib ?c w k e a = Inr (a1, evs, ok)"
      by (cases "swap_owner h lib ?c w k e a") auto
    with True assms have "swap_owner h lib ?c w k e a = Inr (a', evs, ok)" "as_bool res = Inr ok"
      by (auto simp: dispatch_def as_bool_def non_payable_def)
    then show ?thesis by (intro disjI2 exI [of _ ?c]) simp
  next
    case False
    with assms have "a' = a" "res = Inl Failed"
      by (cases "d = 0"; cases "swap_owner h lib ?c w k e a"; simp add: dispatch_def non_payable_def)+
    then show ?thesis by (simp add: as_bool_def)
  qed
qed

lemma swap_owner_key:
  assumes "swap_owner h lib c w k (Some old) a = Inr (a', evs, ok)"
  shows "(ok \<longrightarrow> wallet_key a w = ed25519_from_str h old \<and> wallet_key a' w = ed25519_from_str h k) \<and>
    (\<not> ok \<longrightarrow> a' = a) \<and> (w' \<noteq> w \<longrightarrow> wallet_key a' w' = wallet_key a w')"
  using swap_owner_Inr [OF assms] by (auto simp: wallet_key_def)

lemma market_swap_Inr:
  assumes "market_swap h lib c x w new_key expected a = (a', r)" and "r \<noteq> Inl Failed"
  shows "\<exists>raw raw_ex res. ed25519_base58 h new_key = Some raw \<and>
    (case expected of None \<Rightarrow> raw_ex = None | Some old \<Rightarrow> \<exists>y. ed25519_base58 h old = Some y \<and> raw_ex = Some y) \<and>
    dispatch h lib c (hx_active_signer x) (SwapOwner w raw raw_ex) 0 a = (a', res) \<and>
    r = Inr (as_bool res = Inr True)"
proof -
  from assms obtain x' evs p where ft: "force_transfer h c w new_key expected x = Inr (x', evs, p)"
    by (cases "force_transfer h c w new_key expected x") (auto simp: market_swap_def)
  from force_transfer_Inr [OF ft] obtain raw raw_ex where k: "ed25519_base58 h new_key = Some raw"
    "case expected of None \<Rightarrow> raw_ex = None | Some old \<Rightarrow> \<exists>y. ed25519_base58 h old = Some y \<and> raw_ex = Some y"
    "p = ThenP (CallP (hx_active_signer x) (SwapOwner w raw raw_ex) 0 GAS_FOR_SWAP_OWNER)
              (AfterForceSwap w) GAS_FOR_SWAP_CB" by blast
  obtain a1 res where "dispatch h lib c (hx_active_signer x) (SwapOwner w raw raw_ex) 0 a = (a1, res)" by fastforce
  with assms(1) ft k(3) have "dispatch h lib c (hx_active_signer x) (SwapOwner w raw raw_ex) 0 a = (a', res)"
    "r = Inr (as_bool res = Inr True)"
    by (auto simp: market_swap_def after_force_swap_def Let_def split: sum.splits bool.splits)
  with k(1,2) show ?thesis by blast
qed

lemma market_swap_law:
  assumes "market_swap h lib c x w new_key (Some old) a = (a', r)"
  shows "(r = Inr True \<longrightarrow> wallet_key a w = owner_bytes h old \<and> wallet_key a' w = owner_bytes h new_key) \<and>
    (r \<noteq> Inr True \<longrightarrow> a' = a) \<and> (w' \<noteq> w \<longrightarrow> wallet_key a' w' = wallet_key a w')"
proof (cases "r = Inl Failed")
  case True
  with assms show ?thesis
    by (auto simp: market_swap_def after_force_swap_def Let_def split: sum.splits prod.splits promise.splits
        hx_callback.splits if_splits)
next
  case False
  from market_swap_Inr [OF assms False] obtain raw y res where
    k: "ed25519_base58 h new_key = Some raw" "ed25519_base58 h old = Some y" and
    d: "dispatch h lib c (hx_active_signer x) (SwapOwner w raw (Some y)) 0 a = (a', res)" and
    r: "r = Inr (as_bool res = Inr True)" by auto
  have "signer_method (SwapOwner w raw (Some y)) = Some (C_SwapOwner w raw (Some y))"
    by (simp add: signer_method_def)
  from dispatch_swap [OF d this] show ?thesis
    by (auto simp: r owner_bytes_def k dest: swap_owner_key)
qed

interpretation market: key_swap wallet_key "owner_bytes h"
    "\<lambda>w new_key old. market_swap h lib c x w new_key (Some old)" for h lib c x
  by unfold_locales (use market_swap_law in blast)+

lemma recovery_call:
  "mr_swap_owner h signer w new_key bound = Inr p \<Longrightarrow> \<exists>raw y m. ed25519_base58 h new_key = Some raw \<and>
     ed25519_base58 h bound = Some y \<and> p = CallP signer m 0 SWAP_GAS \<and>
     signer_method m = Some (C_SwapOwner w raw (Some y))"
  by (auto simp: mr_swap_owner_def ed25519_base58_or_panic_def call_signer_def signer_method_def
      json_field_def json_as_str_def opt_str_def split: option.splits sum.splits)

lemma recovery_swap_law:
  assumes "recovery_swap h lib c signer w new_key bound a = (a', r)"
  shows "(r = Inr True \<longrightarrow> wallet_key a w = owner_bytes h bound \<and> wallet_key a' w = owner_bytes h new_key) \<and>
    (r \<noteq> Inr True \<longrightarrow> a' = a) \<and> (w' \<noteq> w \<longrightarrow> wallet_key a' w' = wallet_key a w')"
proof (cases "mr_swap_owner h signer w new_key bound")
  case (Inr p)
  from recovery_call [OF this] obtain raw y m where
    k: "ed25519_base58 h new_key = Some raw" "ed25519_base58 h bound = Some y" "p = CallP signer m 0 SWAP_GAS"
      "signer_method m = Some (C_SwapOwner w raw (Some y))" by blast
  with assms Inr obtain res where d: "dispatch h lib c signer m 0 a = (a', res)" and r: "r = as_bool res"
    by (auto simp: recovery_swap_def split: prod.splits)
  from dispatch_swap [OF d k(4)] show ?thesis
    by (auto simp: r owner_bytes_def k dest: swap_owner_key)
qed (use assms in \<open>auto simp: recovery_swap_def\<close>)

interpretation recovery: key_swap wallet_key "owner_bytes h" "recovery_swap h lib c signer" for h lib c signer
  by unfold_locales (use recovery_swap_law in blast)+

text \<open>The wallet of the witnesses: its key is the data of \<open>demo_key 5\<close>, the recovery contract is
  \<open>here.near\<close> and the extension \<open>ext.near\<close>.\<close>

definition demo_wallet :: "AccountId \<Rightarrow> FreezeState \<Rightarrow> demo_nonces ActiveSigner" where
  "demo_wallet w f = demo_signer\<lparr>as_recovery_authority := ''here.near'',
     as_signers := [w \<mapsto> demo_entry\<lparr>se_public_key := replicate 32 5, se_frozen := f\<rparr>]\<rparr>"

definition demo_market :: ctx where
  "demo_market = (called_by ''reg.near'')\<lparr>current_account_id := ''ext.near''\<rparr>"

declare demo_base58 [simp]

lemma byte_of_char [simp]: "of_char (char_of (unat k)) = (k :: byte)"
proof -
  have "unat k < 2 ^ 8" using unat_le_max [of k] by simp
  then have "of_nat (of_char (char_of (unat k))) = k" by simp
  then show ?thesis by (simp only: of_nat_of_char)
qed

lemma demo_from_str [simp]: "ed25519_from_str demo_host (bytes_str (replicate 32 k)) = Some (replicate 32 k)"
  by (simp add: demo_host_def bytes_str_def str_bytes_def del: replicate.simps)

lemma demo_owner_bytes [simp]: "owner_bytes demo_host (demo_key k) = Some (replicate 32 k)"
  by (simp add: owner_bytes_def)

lemma demo_parse_key [simp]: "parse_key demo_host (bytes_str (replicate 32 k)) = Inr (replicate 32 k)"
  by (simp add: parse_key_def)

lemma demo_market_swap:
  "market_swap demo_host demo_lib demo_market demo_ext w (demo_key k) (Some (demo_key 5)) (demo_wallet w Unfrozen)
     = ((demo_wallet w Unfrozen)\<lparr>as_signers := [w \<mapsto> demo_entry\<lparr>se_public_key := replicate 32 k\<rparr>]\<rparr>, Inr True)"
  by (simp add: market_swap_def force_transfer_def hx_asserts hx_ed25519_base58_def hx_new_def dispatch_def
      signer_method_def swap_owner_def non_payable_def as_bool_def after_force_swap_def Let_def
      demo_market_def demo_wallet_def demo_signer_def demo_entry_def demo_lib_def)

lemma demo_recovery_swap:
  "recovery_swap demo_host demo_lib (called_by ''bob.near'') ''signer.near'' w (demo_key k) (demo_key 5)
     (demo_wallet w RecoveryFrozen)
   = ((demo_wallet w Unfrozen)\<lparr>as_signers := [w \<mapsto> demo_entry\<lparr>se_public_key := replicate 32 k\<rparr>]\<rparr>, Inr True)"
  by (simp add: recovery_swap_def mr_swap_owner_def ed25519_base58_or_panic_def call_signer_def dispatch_def
      signer_method_def json_field_def json_as_str_def opt_str_def swap_owner_def non_payable_def as_bool_def
      Let_def demo_wallet_def demo_signer_def demo_entry_def demo_lib_def)

section \<open>Sales\<close>

text \<open>C1: A sale is atomic. The transfer that the registry asks for when a purchase settles names the
  wallet, the buyer's key and the key the seller listed. Run through the extension and the signer,
  either the wallet held exactly the listed key, now holds the buyer's key and the registry makes
  the buyer its owner; or no key changed, the ownership record is untouched, the sale lock is
  released and the buyer's whole deposit is recorded as a refund.\<close>

theorem sale_is_atomic:
  assumes "market_swap h lib c x (pb_sub_account st) (pb_new_owner_key st) (Some (pb_owner_key st)) a = (a', r)"
    and "on_sub_account_sold (pb_tla_id st) (pb_name st) (pb_buyer st) (pb_price st) (pb_deposit st) r s
      = Inr (s', evs, v)"
    and "rg_sub_accounts s (sub_account_key (pb_tla_id st) (pb_name st)) = Some sub"
  shows "calls_of (settle_transfer e st) = [(e, ForceTransfer (pb_sub_account st) (pb_new_owner_key st)
      (Some (pb_owner_key st)), 0)] \<and>
    (if r = Inr True
     then wallet_key a (pb_sub_account st) = owner_bytes h (pb_owner_key st) \<and>
       wallet_key a' (pb_sub_account st) = owner_bytes h (pb_new_owner_key st) \<and>
       rg_sub_accounts s' (sub_account_key (pb_tla_id st) (pb_name st)) =
         Some (sub\<lparr>sa_owner := pb_buyer st, sa_main_wallet := pb_buyer st\<rparr>)
     else a' = a \<and> rg_sub_accounts s' = rg_sub_accounts s \<and>
       \<not> settling s' (sub_account_key (pb_tla_id st) (pb_name st)) \<and>
       rg_pending_refunds s' = rg_pending_refunds (add_pending_refund (pb_buyer st) (pb_deposit st) s))"
proof (intro conjI)
  show "calls_of (settle_transfer e st) = [(e, ForceTransfer (pb_sub_account st) (pb_new_owner_key st)
      (Some (pb_owner_key st)), 0)]" by (simp add: settle_transfer_def)
  let ?key = "sub_account_key (pb_tla_id st) (pb_name st)"
  have idle: "\<not> settling (clear_settling ?key z) ?key" for z
    by (auto simp: clear_settling_def assert_sale_idle_def Let_def split: option.splits)
  show "if r = Inr True then wallet_key a (pb_sub_account st) = owner_bytes h (pb_owner_key st) \<and>
       wallet_key a' (pb_sub_account st) = owner_bytes h (pb_new_owner_key st) \<and>
       rg_sub_accounts s' ?key = Some (sub\<lparr>sa_owner := pb_buyer st, sa_main_wallet := pb_buyer st\<rparr>)
     else a' = a \<and> rg_sub_accounts s' = rg_sub_accounts s \<and> \<not> settling s' ?key \<and>
       rg_pending_refunds s' = rg_pending_refunds (add_pending_refund (pb_buyer st) (pb_deposit st) s)"
  proof (cases "r = Inr True")
    case True
    with market.swap_done assms(1) have "wallet_key a (pb_sub_account st) = owner_bytes h (pb_owner_key st)"
      "wallet_key a' (pb_sub_account st) = owner_bytes h (pb_new_owner_key st)" by blast+
    moreover have "rg_sub_accounts s' ?key = Some (sub\<lparr>sa_owner := pb_buyer st, sa_main_wallet := pb_buyer st\<rparr>)"
      using assms(2,3) True by (auto simp: on_sub_account_sold_def Let_def split: prod.splits)
    ultimately show ?thesis using True by simp
  next
    case False
    from assms(2) False have "s' = clear_settling ?key (add_pending_refund (pb_buyer st) (pb_deposit st) s)"
      by (auto simp: on_sub_account_sold_def Let_def)
    with market.swap_not [OF assms(1) False] idle False show ?thesis by simp
  qed
qed

definition demo_buy :: PendingBuy where
  "demo_buy = \<lparr>pb_tla_id = ''tla'', pb_name = ''joe'', pb_buyer = ''carol.near'', pb_new_owner_key = demo_key 7,
     pb_price = 40 * ONE_NEAR, pb_deposit = 45 * ONE_NEAR, pb_owner_key = demo_key 5,
     pb_sub_account = ''joe.tla''\<rparr>"

theorem sale_is_atomic_witness:
  "\<exists>s' evs. on_sub_account_sold ''tla'' ''joe'' ''carol.near'' (40 * ONE_NEAR) (45 * ONE_NEAR) (Inr True)
       demo_selling = Inr (s', evs, ()) \<and>
     rg_sub_accounts s' ''joe.tla'' = Some (demo_sub\<lparr>sa_owner := ''carol.near'', sa_main_wallet := ''carol.near''\<rparr>)"
proof -
  have "\<exists>s' evs. on_sub_account_sold ''tla'' ''joe'' ''carol.near'' (40 * ONE_NEAR) (45 * ONE_NEAR)
      (Inr True) demo_selling = Inr (s', evs, ())"
    by (auto simp: on_sub_account_sold_def Let_def split: option.splits prod.splits)
  then obtain s' evs where sold: "on_sub_account_sold ''tla'' ''joe'' ''carol.near'' (40 * ONE_NEAR)
      (45 * ONE_NEAR) (Inr True) demo_selling = Inr (s', evs, ())" by blast
  have "rg_sub_accounts demo_selling (sub_account_key ''tla'' ''joe'') = Some demo_sub"
    by (simp add: demo_selling_def demo_minting_def sub_account_key_def)
  with sale_is_atomic [of demo_host demo_lib demo_market demo_ext demo_buy, unfolded demo_buy_def, simplified,
      OF demo_market_swap sold] sold
  show ?thesis by (auto simp: sub_account_key_def)
qed

text \<open>C7: Recovery and sale exclude each other. Once a recovery has put a new key on a wallet, a sale
  that was listed under the old key is voided and leaves the wallet alone; once a sale has put the
  buyer's key on it, a recovery bound to the old key is voided in the same way.\<close>

theorem recovery_and_sale_exclusive:
  assumes "owner_bytes h new_key \<noteq> owner_bytes h old"
  shows "(recovery_swap h lib c signer w new_key old a = (a1, Inr True) \<and>
      market_swap h lib c' x w k (Some old) a1 = (a2, r) \<longrightarrow> r \<noteq> Inr True \<and> a2 = a1) \<and>
    (market_swap h lib c' x w new_key (Some old) a = (a1, Inr True) \<and>
      recovery_swap h lib c signer w k old a1 = (a2, r) \<longrightarrow> r \<noteq> Inr True \<and> a2 = a1)"
proof (intro conjI impI; elim conjE)
  assume rec: "recovery_swap h lib c signer w new_key old a = (a1, Inr True)"
    and sale: "market_swap h lib c' x w k (Some old) a1 = (a2, r)"
  show "r \<noteq> Inr True" "a2 = a1"
    using market.wrong_key [OF _ sale] recovery.swap_done [OF rec] assms by auto
next
  assume sale: "market_swap h lib c' x w new_key (Some old) a = (a1, Inr True)"
    and rec: "recovery_swap h lib c signer w k old a1 = (a2, r)"
  show "r \<noteq> Inr True" "a2 = a1"
    using recovery.wrong_key [OF _ rec] market.swap_done [OF sale] assms by auto
qed

theorem recovery_and_sale_exclusive_witness:
  "\<exists>a1. recovery_swap demo_host demo_lib (called_by ''bob.near'') ''signer.near'' ''joe.tla'' (demo_key 6)
       (demo_key 5) (demo_wallet ''joe.tla'' RecoveryFrozen) = (a1, Inr True) \<and>
     snd (market_swap demo_host demo_lib demo_market demo_ext ''joe.tla'' (demo_key 7) (Some (demo_key 5)) a1)
       \<noteq> Inr True"
proof -
  let ?a1 = "(demo_wallet ''joe.tla'' Unfrozen)\<lparr>as_signers := [''joe.tla'' \<mapsto>
      demo_entry\<lparr>se_public_key := replicate 32 6\<rparr>]\<rparr>"
  obtain a2 r where sale: "market_swap demo_host demo_lib demo_market demo_ext ''joe.tla'' (demo_key 7)
      (Some (demo_key 5)) ?a1 = (a2, r)" by fastforce
  have "owner_bytes demo_host (demo_key 6) \<noteq> owner_bytes demo_host (demo_key 5)" by simp
  from conjunct1 [OF recovery_and_sale_exclusive [OF this]] demo_recovery_swap sale
  have "r \<noteq> Inr True" by blast
  with demo_recovery_swap sale show ?thesis by (intro exI [of _ ?a1]) simp
qed

section \<open>Recoveries\<close>

text \<open>The two remote steps of a recovery: the freeze that follows a verdict, with its callback, and the
  swap that finalizes, with its callback.\<close>

definition verdict_run :: "host \<Rightarrow> 'n wallet_lib \<Rightarrow> ctx \<Rightarrow> AccountId \<Rightarrow> WatcherSignature list
    \<Rightarrow> MpcRecovery \<times> 'n ActiveSigner \<Rightarrow> MpcRecovery \<times> 'n ActiveSigner" where
  "verdict_run h lib c account sigs ma = (case submit_verdict h c account True sigs (fst ma) of
     Inr (m1, _, PromiseR (ThenP (CallP r call d g) (OnFrozen acc rd) g')) \<Rightarrow>
       (case dispatch h lib c r call d (snd ma) of (a', res) \<Rightarrow>
          (commit (on_frozen acc rd (as_unit res) m1) m1, a'))
   | _ \<Rightarrow> ma)"

definition finalize_run :: "host \<Rightarrow> 'n wallet_lib \<Rightarrow> ctx \<Rightarrow> AccountId \<Rightarrow> u64 \<Rightarrow> byte list
    \<Rightarrow> MpcRecovery \<times> 'n ActiveSigner \<Rightarrow> MpcRecovery \<times> 'n ActiveSigner" where
  "finalize_run h lib c account nonce hash ma = (case finalize_recovery h c account nonce hash (fst ma) of
     Inr (m1, _, ThenP (CallP r call d g) (OnFinalized acc rd) g') \<Rightarrow>
       (case dispatch h lib c r call d (snd ma) of (a', res) \<Rightarrow>
          (commit (on_finalized acc rd (as_bool res) m1) m1, a'))
   | _ \<Rightarrow> ma)"

lemma freeze_call:
  "mr_freeze h signer w bound = Inr p \<Longrightarrow> \<exists>y m. ed25519_base58 h bound = Some y \<and>
     p = CallP signer m 0 FREEZE_GAS \<and> signer_method m = Some (C_Freeze w (Some y))"
  by (auto simp: mr_freeze_def ed25519_base58_or_panic_def call_signer_def signer_method_def
      json_field_def json_as_str_def opt_str_def split: option.splits sum.splits)

lemma verdict_run_approves:
  assumes "submit_verdict h c account True sigs m = Inr (m1, evs, reply)"
    and "mr_accounts m account = Some e" and "ac_phase e = Requested new_owner rd at"
    and "po_target (ac_policy e) = Wallet signer bound"
    and "as_recovery_authority a = current_account_id c"
    and "as_signers a account = Some se" and "owner_bytes h bound = Some (se_public_key se)"
  shows "\<exists>se'. verdict_run h lib c account sigs (m, a) =
    (set_phase account e (Approved new_owner rd) m, a\<lparr>as_signers := (as_signers a)(account \<mapsto> se')\<rparr>) \<and>
    se_public_key se' = se_public_key se \<and> se_frozen se' \<noteq> Unfrozen"
proof -
  from assms(1-4) obtain p where fr: "mr_freeze h signer account bound = Inr p"
    and m1: "m1 = set_phase account e (Approving new_owner rd) m"
      "reply = PromiseR (ThenP p (OnFrozen account rd) MR_CALLBACK_GAS)"
    by (auto simp: submit_verdict_def Let_def split: option.splits if_splits sum.splits)
  from freeze_call [OF fr] obtain y cl where
    y: "ed25519_base58 h bound = Some y" "p = CallP signer cl 0 FREEZE_GAS"
      "signer_method cl = Some (C_Freeze account (Some y))" by blast
  with assms(7) have key: "ed25519_from_str h y = Some (se_public_key se)" by (simp add: owner_bytes_def)
  let ?se = "if se_frozen se \<noteq> SelfFrozen then se\<lparr>se_frozen := RecoveryFrozen\<rparr> else se"
  have "dispatch h lib c signer cl 0 a = (a\<lparr>as_signers := (as_signers a)(account \<mapsto> ?se)\<rparr>, Inr R_Unit)"
    using assms(5,6) by (simp add: dispatch_def y freeze_def parse_key_def key non_payable_def Let_def)
  then have "verdict_run h lib c account sigs (m, a) =
      (set_phase account e (Approved new_owner rd) m, a\<lparr>as_signers := (as_signers a)(account \<mapsto> ?se)\<rparr>)"
    by (simp add: verdict_run_def assms(1) m1 y as_unit_def on_frozen_def set_phase_def)
  then show ?thesis by (intro exI [of _ ?se]) auto
qed

lemma finalize_run_swaps:
  assumes "mr_accounts m account = Some e" and "ac_phase e = Approved new_owner rd"
    and "po_target (ac_policy e) = Wallet signer bound"
    and "as_recovery_authority a = current_account_id c" and "as_marketplace_authority a \<noteq> current_account_id c"
    and "as_signers a account = Some se" and "se_frozen se \<noteq> Unfrozen"
    and "owner_bytes h bound = Some (se_public_key se)" and "owner_bytes h new_owner = Some key"
  shows "\<exists>m' a'. finalize_run h lib c account nonce hash (m, a) = (m', a') \<and>
    mr_accounts m' account = Some (e\<lparr>ac_phase := Idle,
      ac_policy := (ac_policy e)\<lparr>po_target := Wallet signer new_owner\<rparr>\<rparr>) \<and>
    (\<exists>se'. as_signers a' account = Some se' \<and> se_public_key se' = key \<and> se_frozen se' = Unfrozen)"
proof -
  from assms(8,9) obtain raw y where k: "ed25519_base58 h new_owner = Some raw" "ed25519_from_str h raw = Some key"
    "ed25519_base58 h bound = Some y" "ed25519_from_str h y = Some (se_public_key se)"
    by (auto simp: owner_bytes_def bind_eq_Some_conv)
  then obtain p where p: "mr_swap_owner h signer account new_owner bound = Inr p"
    by (auto simp: mr_swap_owner_def ed25519_base58_or_panic_def)
  from recovery_call [OF p] k obtain cl where
    cl: "p = CallP signer cl 0 SWAP_GAS" "signer_method cl = Some (C_SwapOwner account raw (Some y))" by auto
  let ?se = "se\<lparr>se_frozen := Unfrozen, se_public_key := key, se_nonces := nonces_new lib (as_timeout_secs a),
      se_freeze_nonces := nonces_new lib (as_timeout_secs a)\<rparr>"
  have "dispatch h lib c signer cl 0 a = (a\<lparr>as_signers := (as_signers a)(account \<mapsto> ?se)\<rparr>, Inr (R_Bool True))"
    using assms(4-7) by (simp add: dispatch_def cl swap_owner_def parse_key_def k non_payable_def Let_def)
  then show ?thesis
    by (simp add: finalize_run_def finalize_recovery_def assms(1-3) p cl as_bool_def on_finalized_def
        set_phase_def Let_def)
qed

text \<open>C8: A recovery restores access. Take a recovery request on a wallet whose operating key is the
  bound owner's. If the watchers' verdict of silence is accepted, then after the freeze and its
  callback, and the finalization, the swap and its callback, the wallet obeys the new owner's key and
  is not frozen, and the recovery contract is idle with the new owner bound. Anyone may call the two
  steps, at any time between them.\<close>

theorem recovery_restores_access:
  assumes "submit_verdict h c account True sigs m = Inr (m1, evs, reply)"
    and "mr_accounts m account = Some e" and "ac_phase e = Requested new_owner rd at"
    and "po_target (ac_policy e) = Wallet signer bound"
    and "as_recovery_authority a = current_account_id c" and "as_marketplace_authority a \<noteq> current_account_id c"
    and "wallet_key a account = owner_bytes h bound" and "wallet_key a account \<noteq> None"
    and "owner_bytes h new_owner = Some key" and "current_account_id c' = current_account_id c"
  shows "\<exists>m' a'. finalize_run h lib c' account nonce hash (verdict_run h lib c account sigs (m, a)) = (m', a') \<and>
    mr_accounts m' account = Some (e\<lparr>ac_phase := Idle,
      ac_policy := (ac_policy e)\<lparr>po_target := Wallet signer new_owner\<rparr>\<rparr>) \<and>
    wallet_key a' account = Some key \<and> is_frozen a' account = Some False"
proof -
  from assms(7,8) obtain se where se: "as_signers a account = Some se" "owner_bytes h bound = Some (se_public_key se)"
    by (cases "as_signers a account") (auto simp: wallet_key_def)
  from verdict_run_approves [OF assms(1-5) se] obtain se' where
    v: "verdict_run h lib c account sigs (m, a) =
      (set_phase account e (Approved new_owner rd) m, a\<lparr>as_signers := (as_signers a)(account \<mapsto> se')\<rparr>)"
    and se': "se_public_key se' = se_public_key se" "se_frozen se' \<noteq> Unfrozen" by blast
  from finalize_run_swaps [of "set_phase account e (Approved new_owner rd) m" account
      "e\<lparr>ac_phase := Approved new_owner rd\<rparr>" new_owner rd signer bound
      "a\<lparr>as_signers := (as_signers a)(account \<mapsto> se')\<rparr>" c' se' h key lib nonce hash] assms(4-6,9,10) se(2) se'
  show ?thesis by (auto simp: v set_phase_def wallet_key_def is_frozen_def)
qed

theorem recovery_restores_access_witness:
  "\<exists>m' a'. finalize_run demo_host demo_lib (called_by ''eve.near'') ''a.tla.near'' 1 (replicate 32 0)
      (verdict_run demo_host demo_lib ((called_by ''bob.near'')\<lparr>block_timestamp := 1060000000000\<rparr>) ''a.tla.near''
        [\<lparr>ws_public_key = demo_key 1, ws_signature = demo_sig 1\<rparr>,
         \<lparr>ws_public_key = demo_key 1, ws_signature = demo_sig 1\<rparr>,
         \<lparr>ws_public_key = demo_key 3, ws_signature = demo_sig 3\<rparr>]
        (demo_phase 1 (Requested (demo_key 6) 0 1000000000000), demo_wallet ''a.tla.near'' SelfFrozen)) = (m', a') \<and>
     wallet_key a' ''a.tla.near'' = Some (replicate 32 6) \<and> is_frozen a' ''a.tla.near'' = Some False"
  using recovery_restores_access [OF demo_verdict, of
      "\<lparr>ac_policy = demo_policy, ac_round = 1, ac_phase = Requested (demo_key 6) 0 1000000000000\<rparr>"
      "demo_key 6" 0 1000000000000 "''signer.near''" "demo_key 5" "demo_wallet ''a.tla.near'' SelfFrozen"
      "replicate 32 6" "called_by ''eve.near''" demo_lib 1 "replicate 32 0"]
  by (auto simp: demo_policy_def wallet_key_def demo_wallet_def demo_signer_def)

section \<open>Frozen wallets and parking\<close>

text \<open>C39: A name can be parked although its wallet was not. A forced transfer of a frozen wallet is refused by the signer, and the extension reports this as the
  value \<open>False\<close> of a call that succeeded. The parking and the re-rental look only at the success of the
  call, so the name is parked, and a later tenant charged, although the wallet still obeys the old key.
  The sale callback looks at the value and is not affected.\<close>

theorem frozen_wallet_parked:
  assumes "predecessor_account_id c = hx_registry x" and "\<not> hx_paused x"
    and "as_marketplace_authority a = current_account_id c"
    and "as_signers a w = Some se" and "se_frozen se \<noteq> Unfrozen" and "ed25519_base58 h k = Some raw"
    and "rg_sub_accounts s (sub_account_key tla name) = Some sub"
  shows "\<exists>r. market_swap h lib c x w k None a = (a, r) \<and>
    (\<exists>s' evs. on_reclaim_finalized h c' tla name destination (\<not> isl r) s = Inr (s', evs, ()) \<and>
       rg_parked_names s' (sub_account_key tla name) \<noteq> None) \<and>
    (\<exists>s' evs. on_sub_account_re_rented tla name payer rent attached (\<not> isl r) s = Inr (s', evs, ()) \<and>
       rg_total_revenue s' = sat_add (rg_total_revenue s) rent)"
proof (intro exI [of _ "Inr False"] conjI)
  have "dispatch h lib c (hx_active_signer x) (SwapOwner w raw None) 0 a = (a, Inl Failed)"
    using assms(3-5) by (simp add: dispatch_def signer_method_def swap_owner_def non_payable_def Let_def
        split: sum.splits)
  with assms(1,2,6) show "market_swap h lib c x w k None a = (a, Inr False)"
    by (simp add: market_swap_def force_transfer_def hx_asserts hx_ed25519_base58_def as_bool_def
        after_force_swap_def)
  show "\<exists>s' evs. on_reclaim_finalized h c' tla name destination (\<not> isl (Inr False)) s = Inr (s', evs, ()) \<and>
      rg_parked_names s' (sub_account_key tla name) \<noteq> None"
    using assms(7) by (simp add: on_reclaim_finalized_def Let_def)
  show "\<exists>s' evs. on_sub_account_re_rented tla name payer rent attached (\<not> isl (Inr False)) s = Inr (s', evs, ()) \<and>
      rg_total_revenue s' = sat_add (rg_total_revenue s) rent"
    by (simp add: on_sub_account_re_rented_def refund_excess_def add_pending_refund_def Let_def split: option.splits)
qed

theorem frozen_wallet_parked_witness:
  "\<exists>r. market_swap demo_host demo_lib demo_market demo_ext ''joe.tla'' (demo_key 9) None
         (demo_wallet ''joe.tla'' SelfFrozen) = (demo_wallet ''joe.tla'' SelfFrozen, r) \<and>
     (\<exists>s' evs. on_reclaim_finalized demo_host demo_late ''tla'' ''joe'' ''bob.near'' (\<not> isl r) demo_minting
        = Inr (s', evs, ()) \<and> rg_parked_names s' ''joe.tla'' \<noteq> None)"
proof -
  have "predecessor_account_id demo_market = hx_registry demo_ext" "\<not> hx_paused demo_ext"
    "as_marketplace_authority (demo_wallet ''joe.tla'' SelfFrozen) = current_account_id demo_market"
    "as_signers (demo_wallet ''joe.tla'' SelfFrozen) ''joe.tla'' =
       Some (demo_entry\<lparr>se_public_key := replicate 32 5, se_frozen := SelfFrozen\<rparr>)"
    "rg_sub_accounts demo_minting (sub_account_key ''tla'' ''joe'') = Some demo_sub"
    by (simp_all add: demo_market_def hx_new_def demo_wallet_def demo_signer_def demo_minting_def sub_account_key_def)
  with frozen_wallet_parked [of demo_market demo_ext "demo_wallet ''joe.tla'' SelfFrozen" "''joe.tla''"
      "demo_entry\<lparr>se_public_key := replicate 32 5, se_frozen := SelfFrozen\<rparr>" demo_host "demo_key 9"
      "bytes_str (replicate 32 9)" demo_minting "''tla''" "''joe''" demo_sub demo_lib demo_late "''bob.near''"
      "''carol.near''" ONE_NEAR ONE_NEAR]
  show ?thesis by (simp add: sub_account_key_def) blast
qed

end
