(* ===== verification/Wallet_Sweep.thy ===== *)
theory Wallet_Sweep
  imports Wallet_System
begin

text \<open>
  A token sweep from end to end. The registry's \<open>sweep_ft\<close> call on the extension asks the token for the
  balance, registers the destination with the token and has the signer sign one transaction of the
  wallet. The transaction that the signer hands out as hexadecimal text is broadcast, decoded by the
  chain and executed on the token. Every step is the contract's own definition; the JSON reader of the
  token's arguments is a parameter.
\<close>

section \<open>Decimal text\<close>

text \<open>Rust's \<open>u128::from_str\<close>, with which the token reads an amount.\<close>

fun dec_digits :: "nat \<Rightarrow> string \<Rightarrow> nat option" where
  "dec_digits n [] = Some n"
| "dec_digits n (c # cs) =
     (let d = of_char c :: nat
      in if 48 \<le> d \<and> d \<le> 57 then dec_digits (10 * n + (d - 48)) cs else None)"

definition u128_from_str :: "string \<Rightarrow> u128 option" where
  "u128_from_str s =
     (let s = (case strip_prefix ''+'' s of Some r \<Rightarrow> r | None \<Rightarrow> s)
      in if s = [] then None
         else Option.bind (dec_digits 0 s) (\<lambda>n. if n < 2 ^ 128 then Some (word_of_nat n) else None))"

lemma dec_digits_append: "dec_digits n (s @ s') = Option.bind (dec_digits n s) (\<lambda>m. dec_digits m s')"
  by (induction s arbitrary: n) (simp_all add: Let_def)

lemma digit_char [simp]: "d < 10 \<Longrightarrow> (of_char (char_of (48 + d)) :: nat) = 48 + d"
  by simp

lemma dec_digits_nat: "dec_digits 0 (nat_to_string n) = Some n"
proof (induction n rule: nat_to_string.induct)
  case (1 n)
  have "n mod 10 \<le> 9" by (simp add: less_Suc_eq_le [symmetric])
  with 1 show ?case
    by (subst nat_to_string.simps) (simp add: dec_digits_append Let_def)
qed

lemma nat_to_string_hd: "\<exists>d cs. d < (10::nat) \<and> nat_to_string n = char_of (48 + d) # cs"
proof (induction n rule: nat_to_string.induct)
  case (1 n)
  show ?case
  proof (cases "n < 10")
    case True
    then show ?thesis by (subst nat_to_string.simps) auto
  next
    case False
    with 1 show ?thesis by (subst nat_to_string.simps) fastforce
  qed
qed

lemma u128_from_to: "u128_from_str (nat_to_string (unat x)) = Some x"
proof -
  obtain d cs where n: "d < (10::nat)" "nat_to_string (unat x) = char_of (48 + d) # cs"
    using nat_to_string_hd by blast
  have "char_of (48 + d) \<noteq> CHR ''+''"
  proof
    assume "char_of (48 + d) = CHR ''+''"
    then have "(of_char (char_of (48 + d)) :: nat) = of_char (CHR ''+'')" by simp
    with n(1) show False by simp
  qed
  with n have "strip_prefix ''+'' (nat_to_string (unat x)) = None" "nat_to_string (unat x) \<noteq> []" by auto
  moreover have "unat x < 2 ^ 128" using unat_le_max [of x] by simp
  ultimately show ?thesis by (simp add: u128_from_str_def dec_digits_nat)
qed

section \<open>The broadcast transaction\<close>

text \<open>The token's side of a transaction: \<open>ft_transfer\<close> with its arguments read from JSON, called by the
  account that signed.\<close>

definition ft_transfer_json :: "(string \<Rightarrow> json option) \<Rightarrow> ctx \<Rightarrow> byte list \<Rightarrow> TestFt \<Rightarrow> TestFt option" where
  "ft_transfer_json parse c args t =
     Option.bind (parse (bytes_str args)) (\<lambda>j.
     Option.bind (json_as_str (json_field j ''receiver_id'')) (\<lambda>receiver.
     Option.bind (json_as_str (json_field j ''amount'')) (\<lambda>txt_amount.
     Option.bind (u128_from_str txt_amount) (\<lambda>amount.
     case ft_transfer c receiver amount (json_as_str (json_field j ''memo'')) t of
       Inr t' \<Rightarrow> Some t' | Inl _ \<Rightarrow> None))))"

definition token_action :: "(string \<Rightarrow> json option) \<Rightarrow> ctx \<Rightarrow> AccountId \<Rightarrow> TxAction \<Rightarrow> TestFt \<Rightarrow> TestFt option" where
  "token_action parse c signer action t = (case action of
     FunctionCall m args g d \<Rightarrow>
       if m = ''ft_transfer''
       then ft_transfer_json parse (c\<lparr>predecessor_account_id := signer, attached_deposit := d\<rparr>) args t
       else None
   | Transfer _ \<Rightarrow> Some t)"

text \<open>The actions of a transaction happen together or not at all.\<close>

definition broadcast :: "(string \<Rightarrow> json option) \<Rightarrow> ctx \<Rightarrow> AccountId \<Rightarrow> string \<Rightarrow> TestFt \<Rightarrow> TestFt" where
  "broadcast parse c ft hex t = (case Option.bind (from_hex hex) (dec_transaction 33) of
     Some ((signer, key, nonce, receiver, hash, actions), []) \<Rightarrow>
       (case foldl (\<lambda>r act. Option.bind r (token_action parse c signer act)) (Some t) actions of
          Some t' \<Rightarrow> if receiver = ft then t' else t
        | None \<Rightarrow> t)
   | _ \<Rightarrow> t)"

section \<open>The run\<close>

text \<open>Every call runs on the contract that the promise names: one that names another account than the
  token or the signer the extension was deployed with does nothing here.\<close>

definition sign_and_send :: "host \<Rightarrow> 'n wallet_lib \<Rightarrow> (string \<Rightarrow> json option) \<Rightarrow> ctx \<Rightarrow> AccountId \<Rightarrow> AccountId
    \<Rightarrow> hx_callback promise \<Rightarrow> 'n ActiveSigner \<Rightarrow> TestFt \<Rightarrow> 'n ActiveSigner \<times> TestFt" where
  "sign_and_send h lib parse c signer ft p a t = (case p of
     ThenP (CallP r m d g) cb g' \<Rightarrow>
       if r \<noteq> signer then (a, t)
       else (case dispatch h lib c r m d a of
          (a', Inr (R_Promise (ThenP q (OnSigned hash (Some hex)) gc))) \<Rightarrow> (a', broadcast parse c ft hex t)
        | (a', _) \<Rightarrow> (a', t))
   | _ \<Rightarrow> (a, t))"

definition register_and_sign :: "host \<Rightarrow> 'n wallet_lib \<Rightarrow> (string \<Rightarrow> json option) \<Rightarrow> ctx \<Rightarrow> AccountId
    \<Rightarrow> HosExtension \<Rightarrow> hx_callback promise \<Rightarrow> 'n ActiveSigner \<Rightarrow> TestFt \<Rightarrow> 'n ActiveSigner \<times> TestFt" where
  "register_and_sign h lib parse c ft x p a t = (case p of
     ThenP (CallP r (StorageDeposit acc only) d g) (AfterStorageForSweep w f dest bal n b) g' \<Rightarrow>
       if r \<noteq> ft then (a, t)
       else let res = storage_deposit (c\<lparr>predecessor_account_id := current_account_id c, attached_deposit := d\<rparr>) acc only t;
           t' = (case res of Inr t' \<Rightarrow> t' | Inl _ \<Rightarrow> t)
       in (case after_storage_for_sweep h w f dest bal n b (is_ok res) x of
             Inr (x', evs, (PromiseR q, ps)) \<Rightarrow> sign_and_send h lib parse c (hx_active_signer x) ft q a t'
           | _ \<Rightarrow> (a, t'))
   | _ \<Rightarrow> (a, t))"

definition sweep_run :: "host \<Rightarrow> 'n wallet_lib \<Rightarrow> (string \<Rightarrow> json option) \<Rightarrow> ctx \<Rightarrow> AccountId \<Rightarrow> AccountId
    \<Rightarrow> AccountId \<Rightarrow> u64 \<Rightarrow> byte list \<Rightarrow> HosExtension \<Rightarrow> 'n ActiveSigner \<Rightarrow> TestFt \<Rightarrow> 'n ActiveSigner \<times> TestFt" where
  "sweep_run h lib parse c wallet ft destination nonce hash x a t =
     (case sweep_ft c wallet ft destination nonce hash x of
        Inr (x', evs, ThenP (CallP r (FtBalanceOf w) d g) (AfterBalanceForSweep w' f dest n b) g') \<Rightarrow>
          if r \<noteq> ft then (a, t)
          else (case after_balance_for_sweep w' f dest n b (Inr (ft_balance_of t w)) x' of
             Inr (x'', evs', (PromiseR p, ps)) \<Rightarrow> register_and_sign h lib parse c ft x'' p a t
           | _ \<Rightarrow> (a, t))
      | _ \<Rightarrow> (a, t))"

abbreviation sweep_args :: "AccountId \<Rightarrow> u128 \<Rightarrow> json" where
  "sweep_args destination amount \<equiv> JObj [(''receiver_id'', JStr destination),
     (''amount'', JStr (nat_to_string (unat amount))), (''memo'', JStr ''hos-tla reclaim'')]"

lemma broadcast_sweep:
  assumes "key_laws h" and "is_ed25519 h key" and "length wallet < 2 ^ 32" and "length ft < 2 ^ 32"
    and "length hash = 32" and "length (json_to_string h (sweep_args dest bal)) < 2 ^ 32"
    and "parse (json_to_string h (sweep_args dest bal)) = Some (sweep_args dest bal)"
    and "ft_transfer (c\<lparr>predecessor_account_id := wallet, attached_deposit := 1\<rparr>) dest bal
      (Some ''hos-tla reclaim'') t = Inr t'"
  shows "broadcast parse c ft (to_hex (build_transaction wallet key n ft hash [sweep_action h dest bal])) t = t'"
proof -
  let ?tx = "build_transaction wallet key n ft hash [sweep_action h dest bal]"
  have "dec_transaction 33 (?tx @ []) = Some ((wallet, as_bytes key, n, ft, hash, [sweep_action h dest bal]), [])"
    by (rule dec_build_transaction) (use assms in \<open>simp_all add: key_laws_length action_fits_def sweep_action_def Let_def\<close>)
  then have "Option.bind (from_hex (to_hex ?tx)) (dec_transaction 33) =
      Some ((wallet, as_bytes key, n, ft, hash, [sweep_action h dest bal]), [])"
    by (simp add: from_hex_to_hex)
  moreover have "token_action parse c wallet (sweep_action h dest bal) t = Some t'"
    using assms(7,8) by (simp add: token_action_def sweep_action_def ft_transfer_json_def json_field_def
        json_as_str_def u128_from_to ONE_YOCTO_def Let_def)
  ultimately show ?thesis by (simp add: broadcast_def)
qed

lemma dispatch_sign:
  assumes "as_marketplace_authority a = current_account_id c" and "as_signers a w = Some e"
    and "se_frozen e = Unfrozen" and "acts \<noteq> []"
  shows "\<exists>a' q gc. dispatch h lib c r (AuthoritySignTx w f acts n b) 1 a = (a', Inr (R_Promise (ThenP q
      (OnSigned (to_hex (sha256 h (build_transaction w (se_mpc_public_key e) n f b acts)))
        (Some (to_hex (build_transaction w (se_mpc_public_key e) n f b acts)))) gc))) \<and>
    (\<forall>v. wallet_key a' v = wallet_key a v)"
  using assms by (simp add: dispatch_def signer_method_def authority_sign_tx_def sign_payload_def wallet_key_def Let_def)

lemma ft_transfer_accepted:
  "attached_deposit c = 1 \<Longrightarrow> tf_registered t receiver \<noteq> None \<Longrightarrow>
   amount \<le> ft_balance_of t (predecessor_account_id c) \<Longrightarrow> \<exists>t'. ft_transfer c receiver amount memo t = Inr t'"
  by (simp add: ft_transfer_def ft_balance_of_def Let_def not_less)

lemma sweep_run_signs:
  assumes "sweep_ft c wallet ft destination nonce hash x = Inr (x', evs, p)"
    and "ft_balance_of t wallet \<noteq> 0" and "\<not> tf_refuse_storage_deposit t"
  shows "sweep_run h lib parse c wallet ft destination nonce hash x a t =
    sign_and_send h lib parse c (hx_active_signer x) ft (ThenP (CallP (hx_active_signer x) (AuthoritySignTx wallet ft
        [sweep_action h destination (ft_balance_of t wallet)] nonce hash) 1 GAS_FOR_AUTHORITY_SIGN)
      (AfterSweepSettled wallet ft destination (ft_balance_of t wallet)) GAS_FOR_SETTLE_CB)
      a (t\<lparr>tf_registered := (tf_registered t)(destination \<mapsto> True)\<rparr>)"
  using sweep_ft_Inr [OF assms(1)] assms
  by (simp add: sweep_run_def after_balance_for_sweep_def register_and_sign_def storage_deposit_def
      after_storage_for_sweep_def ONE_YOCTO_def Let_def)

lemma sweep_run_empty:
  assumes "ft_balance_of t wallet = 0"
  shows "sweep_run h lib parse c wallet ft destination nonce hash x a t = (a, t)"
  using assms
  by (auto simp: sweep_run_def sweep_ft_def hx_asserts after_balance_for_sweep_def abort_and_refund_def)

section \<open>The property\<close>

text \<open>C9: A sweep moves everything. If the extension accepts the registry's sweep of an installed, unfrozen
  wallet, the token registers the destination and reads back the JSON that was written, then the
  transaction that the signer hands out, once broadcast, leaves the wallet with no tokens and the
  destination with its own and the wallet's; no other balance, the supply and no wallet key change.\<close>

theorem sweep_moves_everything:
  assumes "sweep_ft c wallet ft destination nonce hash x = Inr (x', evs, p)"
    and "as_marketplace_authority a = current_account_id c" and "as_inv h a" and "key_laws h"
    and "as_signers a wallet = Some e" and "se_frozen e = Unfrozen"
    and "ft_ok t" and "\<not> tf_refuse_storage_deposit t" and "destination \<noteq> wallet"
    and "length wallet < 2 ^ 32" and "length ft < 2 ^ 32" and "length hash = 32"
    and "length (json_to_string h (sweep_args destination (ft_balance_of t wallet))) < 2 ^ 32"
    and "parse (json_to_string h (sweep_args destination (ft_balance_of t wallet))) =
      Some (sweep_args destination (ft_balance_of t wallet))"
  shows "\<exists>a' t'. sweep_run h lib parse c wallet ft destination nonce hash x a t = (a', t') \<and>
    holds t' wallet = 0 \<and> holds t' destination = holds t destination + holds t wallet \<and>
    (\<forall>v. v \<noteq> wallet \<and> v \<noteq> destination \<longrightarrow> holds t' v = holds t v) \<and>
    ft_total_supply t' = ft_total_supply t \<and> ft_ok t' \<and> (\<forall>v. wallet_key a' v = wallet_key a v)"
proof (cases "ft_balance_of t wallet = 0")
  case True
  with assms(7,9) show ?thesis
    by (intro exI [of _ a] exI [of _ t]) (simp add: sweep_run_empty)
next
  case False
  let ?bal = "ft_balance_of t wallet"
  let ?t = "t\<lparr>tf_registered := (tf_registered t)(destination \<mapsto> True)\<rparr>"
  let ?c = "c\<lparr>predecessor_account_id := wallet, attached_deposit := 1\<rparr>"
  have ok: "ft_ok ?t" and same: "ft_balance_of ?t v = ft_balance_of t v" for v
    using assms(7) by (simp_all add: ft_ok_def ft_balance_of_def)
  obtain t' where t': "ft_transfer ?c destination ?bal (Some ''hos-tla reclaim'') ?t = Inr t'"
    using ft_transfer_accepted [of ?c ?t destination ?bal] same by auto
  have "is_ed25519 h (se_mpc_public_key e)" using assms(3,5) by (simp add: as_inv_def)
  note sent = broadcast_sweep [where bal = ?bal and dest = destination and wallet = wallet and c = c and t = ?t
      and parse = parse and n = nonce, OF assms(4) this assms(10-14) t']
  from dispatch_sign [OF assms(2,5,6), of "[sweep_action h destination ?bal]"] obtain a' q gc where
    "dispatch h lib c (hx_active_signer x) (AuthoritySignTx wallet ft [sweep_action h destination ?bal] nonce hash) 1 a
      = (a', Inr (R_Promise (ThenP q
          (OnSigned (to_hex (sha256 h (build_transaction wallet (se_mpc_public_key e) nonce ft hash [sweep_action h destination ?bal])))
          (Some (to_hex (build_transaction wallet (se_mpc_public_key e) nonce ft hash [sweep_action h destination ?bal])))) gc)))"
    and keys: "\<forall>v. wallet_key a' v = wallet_key a v" by blast
  then have "sweep_run h lib parse c wallet ft destination nonce hash x a t = (a', t')"
    by (simp add: sweep_run_signs [OF assms(1) False assms(8)] sign_and_send_def sent)
  with ft_transfer_ok [OF t' ok] assms(9) keys same show ?thesis by (auto simp: ft_total_supply_def)
qed

text \<open>A reader and writer of the one JSON object, for the witness: the three strings, each ended by a
  zero character.\<close>

definition demo_write :: "json \<Rightarrow> string" where
  "demo_write j = concat (map (\<lambda>n. case json_as_str (json_field j n) of Some s \<Rightarrow> s @ [CHR 0x00] | None \<Rightarrow> [CHR 0x00])
     [''receiver_id'', ''amount'', ''memo''])"

definition demo_field :: "string \<Rightarrow> string \<times> string" where
  "demo_field s = (takeWhile (\<lambda>c. c \<noteq> CHR 0x00) s, drop 1 (dropWhile (\<lambda>c. c \<noteq> CHR 0x00) s))"

definition demo_read :: "string \<Rightarrow> json option" where
  "demo_read s = (case demo_field s of (r, s) \<Rightarrow> case demo_field s of (n, s) \<Rightarrow> case demo_field s of (m, s) \<Rightarrow>
     Some (JObj [(''receiver_id'', JStr r), (''amount'', JStr n), (''memo'', JStr m)]))"

definition demo_ft :: TestFt where
  "demo_ft = \<lparr>tf_balances = [''joe.tla'' \<mapsto> 500, ''bob.near'' \<mapsto> 1000],
     tf_registered = [''joe.tla'' \<mapsto> True], tf_total_supply = 1500, tf_refuse_storage_deposit = False\<rparr>"

abbreviation demo_json_host :: host where
  "demo_json_host \<equiv> demo_host\<lparr>json_to_string := demo_write\<rparr>"

lemma demo_ft_ok: "ft_ok demo_ft"
  by (simp add: ft_ok_def demo_ft_def map_total_def)

lemma demo_wallet_inv: "as_inv demo_json_host (demo_wallet ''joe.tla'' Unfrozen)"
proof -
  have "is_ed25519 demo_json_host (demo_key 7)"
    using demo_key_ed25519 [of 7] by (simp add: is_ed25519_def)
  moreover have "is_direct_subaccount ''joe.tla'' ''tla''" by code_simp
  ultimately show ?thesis
    by (auto simp: as_inv_def demo_wallet_def demo_signer_def demo_entry_def admins_ok_def
        MIN_TIMEOUT_SECS_def MAX_TIMEOUT_SECS_def)
qed

lemma demo_json_laws: "key_laws demo_json_host"
  using demo_host_key_laws by (simp add: key_laws_def is_ed25519_def)

lemma demo_500: "nat_to_string 500 = ''500''"
  by code_simp

theorem sweep_moves_everything_witness:
  "\<exists>a' t'. sweep_run demo_json_host demo_lib demo_read (demo_market\<lparr>attached_deposit := MIN_SWEEP_ATTACHED\<rparr>)
      ''joe.tla'' ''ft.near'' ''bob.near'' 9 (replicate 32 0) demo_ext (demo_wallet ''joe.tla'' Unfrozen) demo_ft = (a', t') \<and>
     holds t' ''joe.tla'' = 0 \<and> holds t' ''bob.near'' = 1500"
proof -
  let ?c = "demo_market\<lparr>attached_deposit := MIN_SWEEP_ATTACHED\<rparr>"
  have bal: "ft_balance_of demo_ft ''joe.tla'' = 500" "ft_balance_of demo_ft ''bob.near'' = 1000"
    by (simp_all add: ft_balance_of_def demo_ft_def)
  have sw: "\<exists>x' evs p. sweep_ft ?c ''joe.tla'' ''ft.near'' ''bob.near'' 9 (replicate 32 0) demo_ext = Inr (x', evs, p)"
    by (simp add: sweep_ft_def hx_asserts hx_new_def demo_market_def)
  have w: "demo_write (sweep_args ''bob.near'' 500) = ''bob.near'' @ [CHR 0x00] @ ''500'' @ [CHR 0x00] @ ''hos-tla reclaim'' @ [CHR 0x00]"
    by (simp add: demo_write_def json_field_def json_as_str_def demo_500)
  have rd: "demo_read (demo_write (sweep_args ''bob.near'' 500)) = Some (sweep_args ''bob.near'' 500)"
    unfolding w by (simp add: demo_read_def demo_field_def demo_500)
  have len: "length (demo_write (sweep_args ''bob.near'' 500)) < 2 ^ 32" unfolding w by simp
  have wal: "as_marketplace_authority (demo_wallet ''joe.tla'' Unfrozen) = current_account_id ?c"
    "as_signers (demo_wallet ''joe.tla'' Unfrozen) ''joe.tla'' = Some (demo_entry\<lparr>se_public_key := replicate 32 5\<rparr>)"
    "se_frozen (demo_entry\<lparr>se_public_key := replicate 32 5\<rparr>) = Unfrozen" "\<not> tf_refuse_storage_deposit demo_ft"
    by (simp_all add: demo_wallet_def demo_signer_def demo_market_def demo_entry_def demo_ft_def)
  from sw obtain x' evs p where
    "sweep_ft ?c ''joe.tla'' ''ft.near'' ''bob.near'' 9 (replicate 32 0) demo_ext = Inr (x', evs, p)" by blast
  from sweep_moves_everything [OF this wal(1) demo_wallet_inv demo_json_laws wal(2,3) demo_ft_ok wal(4),
      of demo_read demo_lib] rd len
  show ?thesis by (auto simp: bal)
qed

end
