(* ===== verification/Signed_Payloads.thy ===== *)
theory Signed_Payloads
  imports Recovery_Safety Signer_Custody
begin

text \<open>
  What the MPC network is asked to sign. \<open>active-signer\<close> requests signatures of transactions
  (\<open>build_transaction\<close>) and of messages (\<open>nep413_payload\<close>), \<open>mpc-recovery\<close> of key additions
  (\<open>add_key_tx\<close>). The bytes of the three kinds are told apart here, by the length field or tag they
  start with and by the action tag.
\<close>

lemma le_bytes_u32 [simp]: "le_bytes 4 a = le_bytes 4 b \<longleftrightarrow> a = b" for a b :: u32
  by (simp add: u32.enc_inject)

lemma nep413_tag: "take 4 (nep413_payload m n r cb) = le_bytes 4 NEP413_TAG"
  by (simp add: nep413_payload_def write_str_eq Let_def split: option.splits)

lemma transaction_tag: "take 4 (build_transaction s k n r hash as) = le_bytes 4 (word_of_nat (length s) :: u32)"
  by (simp add: build_transaction_eq enc_block_def)

lemma add_key_eq:
  "add_key_tx account key nonce hash new =
     enc_block (str_bytes account) @ as_bytes key @ le_bytes 8 nonce @ enc_block (str_bytes account) @ hash
     @ le_bytes 4 (1 :: u32) @ ACTION_ADD_KEY # as_bytes new @ le_bytes 8 (0 :: u64) @ [PERMISSION_FULL_ACCESS]"
  by (simp add: add_key_tx_def tx_write_str_def enc_block_def Let_def)

lemma add_key_tag: "take 4 (add_key_tx a k n hash new) = le_bytes 4 (word_of_nat (length a) :: u32)"
  by (simp add: add_key_eq enc_block_def)

lemma short_not_tag: "n < 2 ^ 31 \<Longrightarrow> (word_of_nat n :: u32) \<noteq> NEP413_TAG"
proof
  assume n: "n < 2 ^ 31" and eq: "(word_of_nat n :: u32) = NEP413_TAG"
  have "n = unat (word_of_nat n :: u32)" using n by (simp add: unat_of_nat_small)
  also have "\<dots> = 2147484061" by (simp add: eq) (simp add: NEP413_TAG_def)
  finally show False using n by simp
qed

text \<open>No list of the actions that \<open>build_transaction\<close> writes has the bytes of an \<open>AddKey\<close> action.\<close>

lemma add_key_not_dec:
  assumes "length a < 2 ^ 32" and "length (as_bytes k) = n" and "length hash = 32"
  shows "dec_transaction n (add_key_tx a k nonce hash new) = None"
  using assms by (simp add: add_key_eq dec_transaction_def dec_encs dec_seq_def dec_action_def ACTION_ADD_KEY_def)

text \<open>C22: The three kinds of signed payload never coincide. A NEP-413 message is neither a transaction nor
  a key addition, since no account name is long enough for its length to be the tag; a key addition
  is no transaction of the wallet contract, which has no action with that tag; and the two contracts
  ask for different derived keys, whatever the accounts.\<close>

theorem signed_payloads_disjoint:
  assumes "key_laws h" and "is_ed25519 h key" and "is_ed25519 h key'"
    and "length signer < 2 ^ 31" and "length receiver < 2 ^ 32" and "length hash = 32"
    and "list_all action_fits actions" and "length actions < 2 ^ 32"
    and "length account < 2 ^ 31" and "length hash' = 32"
  shows "nep413_payload m n r url \<noteq> build_transaction signer key nonce receiver hash actions \<and>
    nep413_payload m n r url \<noteq> add_key_tx account key' nonce' hash' new \<and>
    add_key_tx account key' nonce' hash' new \<noteq> build_transaction signer key nonce receiver hash actions \<and>
    mpc_path signer \<noteq> native_path account"
proof (intro conjI)
  show "nep413_payload m n r url \<noteq> build_transaction signer key nonce receiver hash actions"
  proof
    assume "nep413_payload m n r url = build_transaction signer key nonce receiver hash actions"
    then have "NEP413_TAG = word_of_nat (length signer)"
      using nep413_tag [of m n r url] transaction_tag [of signer key nonce receiver hash actions] by simp
    with short_not_tag [OF assms(4)] show False by simp
  qed
  show "nep413_payload m n r url \<noteq> add_key_tx account key' nonce' hash' new"
  proof
    assume "nep413_payload m n r url = add_key_tx account key' nonce' hash' new"
    then have "NEP413_TAG = word_of_nat (length account)"
      using nep413_tag [of m n r url] add_key_tag [of account key' nonce' hash' new] by simp
    with short_not_tag [OF assms(9)] show False by simp
  qed
  have len: "length (as_bytes key) = 33" "length (as_bytes key') = 33"
    using assms(1-3) by (simp_all add: key_laws_length)
  have "dec_transaction 33 (build_transaction signer key nonce receiver hash actions @ []) \<noteq> None"
    by (subst dec_build_transaction) (use assms len in simp_all)
  moreover have "dec_transaction 33 (add_key_tx account key' nonce' hash' new) = None"
    by (rule add_key_not_dec) (use assms len in simp_all)
  ultimately show "add_key_tx account key' nonce' hash' new \<noteq> build_transaction signer key nonce receiver hash actions"
    by auto
  show "mpc_path signer \<noteq> native_path account"
    by (simp add: mpc_path_def native_path_def)
qed

theorem signed_payloads_disjoint_witness:
  "nep413_payload ''hi'' (replicate 32 0) ''app.near'' None \<noteq>
     build_transaction ''a.tla.near'' (demo_key 7) 1 ''bob.near'' (replicate 32 0) [Transfer 5]"
  using signed_payloads_disjoint [OF demo_host_key_laws demo_key_ed25519 demo_key_ed25519,
      of "''a.tla.near''" "''bob.near''" "replicate 32 0" "[Transfer 5]" "''a.tla.near''" "replicate 32 0"]
  by (simp add: action_fits_def)

end
