(* ===== verification/Registry_Findings.thy ===== *)
theory Registry_Findings
  imports Registry_Governance
begin

text \<open>
  Two runs of the registry that its checks let through, evaluated on the concrete registry of
  \<open>Demo_Registry\<close>.
\<close>

lemmas demo_registry_defs = demo_selling_def demo_minting_def demo_open_def demo_new_def demo_tla_def demo_sub_def

definition demo_anchored :: TlaRegistry where
  "demo_anchored = demo_selling\<lparr>rg_mothers := [''bob.near'' \<mapsto> ''joe.tla''],
     rg_mother_use_count := [''joe.tla'' \<mapsto> 1]\<rparr>"

lemma demo_anchor:
  "rg_method demo_host (paying ''bob.near'' 1) (K_SetMother ''joe.tla'') demo_selling
     = Inr (demo_anchored, [G_MotherSet ''bob.near'' ''joe.tla'' ''explicit''], ValueR ())"
  by (simp add: set_mother_def set_mother_internal_def assert_one_yocto_def assert_not_paused_def tla_of_def
      effective_sub_lifecycle_def tla_lifecycle_def sub_lifecycle_def time_lifecycle_def increment_mother_use_def
      sat_add_def demo_anchored_def Let_def demo_registry_defs)

lemma refund_mothers [simp]:
  "rg_mothers (add_pending_refund a n s) = rg_mothers s"
  "rg_mother_use_count (add_pending_refund a n s) = rg_mother_use_count s"
  "rg_mothers (refund_excess a n m s) = rg_mothers s"
  "rg_mother_use_count (refund_excess a n m s) = rg_mother_use_count s"
  by (simp_all add: refund_excess_def add_pending_refund_def Let_def)

lemma sold_frame:
  assumes "on_sub_account_sold t n buyer price deposit (Inr True) s = Inr (s', evs, v)"
    and "rg_sub_accounts s (sub_account_key t n) = Some sub"
  shows "rg_sub_accounts s' (sub_account_key t n) = Some (sub\<lparr>sa_owner := buyer, sa_main_wallet := buyer\<rparr>)"
    and "rg_mothers s' = rg_mothers s" and "rg_mother_use_count s' = rg_mother_use_count s"
    and "rg_paused s' = rg_paused s" and "rg_listings s' (sub_account_key t n) = None"
    and "rg_accepted_offers s' (sub_account_key t n) = None" and "rg_reclaim_pending s' = rg_reclaim_pending s"
  using assms by (auto simp: on_sub_account_sold_def Let_def split: prod.splits)

text \<open>\<open>set_mother\<close> does not look at the sale lock. While the sale of \<open>joe.tla\<close> settles, its seller makes it
  his mother account; the sale goes through and the seller's reference survives. The buyer can then not
  sell the account, and when the rental has run out it can not be reclaimed, because only a reference of
  the current owner is discounted.\<close>

theorem mother_survives_sale:
  "\<exists>s1 e1 s2 e2. rg_method demo_host (paying ''bob.near'' 1) (K_SetMother ''joe.tla'') demo_selling
       = Inr (s1, e1, ValueR ()) \<and>
     on_sub_account_sold ''tla'' ''joe'' ''carol.near'' (40 * ONE_NEAR) (45 * ONE_NEAR) (Inr True) s1
       = Inr (s2, e2, ()) \<and>
     rg_sub_accounts s2 ''joe.tla'' = Some (demo_sub\<lparr>sa_owner := ''carol.near'', sa_main_wallet := ''carol.near''\<rparr>) \<and>
     assert_sellable demo_host (called_by ''carol.near'') ''joe.tla'' ''tla'' s2 = Inl SubAccountIsMother \<and>
     rg_method demo_host demo_late (K_ReclaimFinalize ''tla'' ''joe'') s2 = Inl SubAccountIsMother"
proof -
  obtain s2 e2 where sold: "on_sub_account_sold ''tla'' ''joe'' ''carol.near'' (40 * ONE_NEAR) (45 * ONE_NEAR)
      (Inr True) demo_anchored = Inr (s2, e2, ())"
    by (cases "on_sub_account_sold ''tla'' ''joe'' ''carol.near'' (40 * ONE_NEAR) (45 * ONE_NEAR) (Inr True) demo_anchored")
      (auto simp: on_sub_account_sold_def Let_def split: option.splits prod.splits)
  have key: "rg_sub_accounts demo_anchored (sub_account_key ''tla'' ''joe'') = Some demo_sub"
      "rg_paused demo_anchored = False" "rg_reclaim_pending demo_anchored = Map.empty"
    by (simp_all add: demo_anchored_def demo_selling_def demo_minting_def demo_open_def demo_new_def
        sub_account_key_def)
  note s2 = sold_frame [OF sold key(1), unfolded key(2,3) sub_account_key_def, simplified]
  have "assert_sellable demo_host (called_by ''carol.near'') ''joe.tla'' ''tla'' s2 = Inl SubAccountIsMother"
    by (simp add: assert_sellable_def s2 demo_anchored_def demo_host_def)
  moreover have "rg_method demo_host demo_late (K_ReclaimFinalize ''tla'' ''joe'') s2 = Inl SubAccountIsMother"
    by (simp add: reclaim_finalize_def assert_not_paused_def validate_name_def name_char_def sub_account_key_def
        assert_sale_idle_def resolve_reclaimable_def demo_host_def s2 demo_anchored_def demo_sub_def
        non_payable_def demo_late_def Let_def)
  ultimately show ?thesis using demo_anchor sold s2(1) by blast
qed

text \<open>\<open>renew_sub_account\<close> accepts any pair of TLA and name with the key of the entry, also a name with a dot.
  The renewal of \<open>a\<close> under the legendary TLA \<open>b.tla\<close> is taken, at the price of \<open>a.b\<close> under \<open>tla\<close>, which
  here is free.\<close>

theorem renewal_under_other_tla:
  "\<exists>s e. rg_sub_accounts s ''a.b.tla'' = Some e \<and> sa_tla_id e = ''b.tla'' \<and>
     (\<exists>s' evs. rg_method demo_host (called_by ''bob.near'') (K_RenewSubAccount ''tla'' ''a.b'') s
        = Inr (s', evs, ValueR ())) \<and>
     rg_method demo_host (called_by ''bob.near'') (K_RenewSubAccount ''b.tla'' ''a'') s = Inl InsufficientPayment"
proof -
  let ?e = "demo_sub\<lparr>sa_tla_id := ''b.tla''\<rparr>"
  obtain s where st: "rg_sub_accounts s ''a.b.tla'' = Some ?e" "\<not> rg_paused s"
      "rg_grace_period_ns s = 86400000000000" "rg_fee_config s = default_fee_config"
    and tla: "tla_of s ''tla'' = Some (demo_tla\<lparr>te_premium_category := Community\<rparr>)"
      "tla_of s ''b.tla'' = Some (demo_tla\<lparr>te_premium_category := Legendary\<rparr>)"
    by (rule that [of "demo_open\<lparr>rg_tlas := [(''tla'', demo_tla\<lparr>te_premium_category := Community\<rparr>),
      (''b.tla'', demo_tla\<lparr>te_premium_category := Legendary\<rparr>)], rg_sub_accounts := [''a.b.tla'' \<mapsto> ?e]\<rparr>"])
      (simp_all add: tla_of_def demo_open_def demo_new_def)
  have e: "sa_owner demo_sub = ''bob.near''" "sa_retraction_at demo_sub = None"
    "\<not> sat_add (sa_expires_at demo_sub) 86400000000000 \<le> 1000000000000"
    by (simp_all add: demo_sub_def sat_add_def)
  have lc: "tla_lifecycle (called_by a) (demo_tla\<lparr>te_premium_category := p\<rparr>) 86400000000000 \<noteq> LcReclaimable" for a p
    by (simp add: tla_lifecycle_def time_lifecycle_def demo_tla_def sat_add_def)
  have free: "calculate_rent (demo_tla\<lparr>te_premium_category := Community\<rparr>) ''tla'' ''a.b'' default_fee_config = 0"
    and paid: "calculate_rent (demo_tla\<lparr>te_premium_category := Legendary\<rparr>) ''b.tla'' ''a'' default_fee_config \<noteq> 0"
    by (simp_all add: calculate_rent_def total_name_length_def sub_account_rent_def base_rent_def sat_mul_def
        default_fee_config_def demo_tla_def ONE_NEAR_def Let_def)
  have "\<exists>s' evs. rg_method demo_host (called_by ''bob.near'') (K_RenewSubAccount ''tla'' ''a.b'') s
        = Inr (s', evs, ValueR ())"
    by (simp add: renew_sub_account_def assert_not_paused_def sub_account_key_def st tla lc free e Let_def)
  moreover have "rg_method demo_host (called_by ''bob.near'') (K_RenewSubAccount ''b.tla'' ''a'') s
      = Inl InsufficientPayment"
    using paid by (simp add: renew_sub_account_def assert_not_paused_def sub_account_key_def st tla lc e
        word_neq_0_conv Let_def)
  ultimately show ?thesis using st(1) by (intro exI [of _ s] exI [of _ ?e]) simp
qed

end
