(* ===== verification/Spec2Isabelle.thy ===== *)
theory Spec2Isabelle
  imports Wallet_Sweep Signed_Payloads Registry_Findings
begin

text \<open>
  \<^bold>\<open>The House of Stake TLA contracts.\<close>

  \<^bold>\<open>The program.\<close> Five NEAR contracts rent out sub-accounts of top-level accounts (TLAs). A rented
  account is a plain NEAR account whose only key is derived by the MPC network; nobody holds it.
  \<^item> \<open>active-signer\<close> keeps the operating key, the nonces and the freeze state of every rented account and
    asks the MPC network for signatures of transactions and messages that it builds itself.
  \<^item> \<open>mpc-recovery\<close> gives an owner who lost the key a new one: enrolment, attested request, watcher
    verdict after a timelock, freeze, finalization by an owner swap or an \<open>AddKey\<close> transaction.
  \<^item> \<open>hos-extension\<close> is the marketplace authority of the signer. It forwards the registry's forced owner
    swaps and token sweeps.
  \<^item> \<open>tla-manager\<close> lives on each TLA and creates the sub-accounts.
  \<^item> \<open>tla-registry\<close> keeps TLAs, rentals, listings, offers, refunds and fees, and drives the others.
  The crate \<open>hos-common\<close> holds key checks and the transaction builder; the sandbox has a token and an MPC
  stand-in under \<open>dev-contracts\<close>.

  \<^bold>\<open>How code corresponds to definitions.\<close> A struct is a record whose fields carry a prefix for the contract
  (\<open>as_\<close>, \<open>mr_\<close>, \<open>hx_\<close>, \<open>tm_\<close>, \<open>rg_\<close>), an enum a datatype, an error a constructor of the contract's error
  type. Integers are words of their width, with the saturating and checked operations of Rust in the
  prelude. A method takes the call's context (\<open>ctx\<close>: accounts, deposit, time, balance), its arguments and
  the state, and returns an error or the new state, the events and the reply. Promises are values
  (\<open>Near_Calls\<close>): calls, account actions, joins and callbacks with static gas in Tgas. A callback gets the
  results of its promise as arguments. These are typed, a value or a failure: a successful result that
  does not decode as the type a \<open>#[callback_result]\<close> announces, on which near-sdk panics, is not
  represented (the asset gate, which reads raw bytes, is the exception). A missing \<open>#[payable]\<close> is a
  \<open>non_payable\<close> wrapper in the method tables \<open>as_exec\<close>, \<open>mr_exec\<close>, \<open>hx_exec\<close>, \<open>tm_exec\<close> and \<open>rg_method\<close>, and
  \<open>#[private]\<close> a check of the caller in the first four. The callbacks of the registry are a type of their own
  with a table of its own, \<open>rg_deliver\<close>, without such wrappers: a run delivers only callbacks that the
  registry scheduled and that are still in flight, which is what \<open>#[private]\<close> gives. A call that
  returns an error leaves the state as it was (\<open>commit\<close>,
  \<open>run_calls\<close>).

  \<^bold>\<open>Third-party code\<close> is a parameter: the record \<open>host\<close> (near-sdk keys, hashing, signature checks, JSON
  printing), the record \<open>wallet_lib\<close> (nonce windows and derived borsh serializers), the record \<open>dalek\<close>
  (secret-key operations of the MPC stand-in) and, for the sweep, a JSON reader. What the proofs need of
  them is stated as hypotheses (\<open>key_laws\<close>, \<open>nonce_laws\<close>, the reader inverts the printer on the arguments
  at hand), which the instances \<open>demo_host\<close> and \<open>demo_lib\<close> of the witnesses satisfy.

  \<^bold>\<open>The theories.\<close>
  \<^item> \<open>Hos_Prelude\<close>: words, strings, maps, results, runs of calls and the locales shared by the contracts
    (invariants along runs, administrator sets). \<open>Codec\<close>: self-delimiting encoders and their decoders.
  \<^item> \<open>Hos_Common\<close> (\<open>crates/hos-common/src\<close>): transaction builder, hexadecimal text, decoder; round trip and
    golden vectors. \<open>Near_Calls\<close>: remote calls (\<open>interfaces.rs\<close>) and promises. \<open>Demo_Host\<close>: the instance.
  \<^item> \<open>Active_Signer\<close> and \<open>Signer_Custody\<close>
    (\<open>contracts/active-signer/src\<close>): every method; refinement of an abstract custody machine whose
    actions are tied to the call and its arguments, one-way self-freeze, signing discipline, compare-and-swap,
    replay protection, state invariants, disjoint signing domains.
  \<^item> \<open>Mpc_Recovery\<close> and \<open>Recovery_Safety\<close>
    (\<open>contracts/mpc-recovery/src\<close>): every method; refinement of an abstract recovery machine whose
    actions are tied to the call and the promise results, evidence for each finalization in the call history,
    quorum counting, single use of attestations, liveness of finalization, binding messages.
    \<open>Signed_Payloads\<close>: the three kinds of signed payload of the two contracts never coincide.
  \<^item> \<open>Hos_Extension\<close>, \<open>Tla_Manager\<close> and \<open>Extension_Safety\<close>: every method; what the extension does it does for
    the registry; a mint is all or nothing on every outcome of its remote steps.
  \<^item> \<open>Registry_Types\<close> (\<open>types.rs\<close>, \<open>fees.rs\<close>, \<open>error.rs\<close>, \<open>events.rs\<close>), \<open>Registry_Core\<close> (\<open>lib.rs\<close>, \<open>admin.rs\<close>,
    \<open>mother.rs\<close>, \<open>business.rs\<close>), \<open>Registry_Rental\<close> (\<open>rental.rs\<close>, \<open>callbacks.rs\<close>, \<open>views.rs\<close>),
    \<open>Registry_Market\<close> (\<open>marketplace.rs\<close>, \<open>asset_gate.rs\<close>, \<open>reclaim.rs\<close> and the method table): every method of
    \<open>contracts/tla-registry/src\<close>.
  \<^item> \<open>Registry_Ledger\<close> and \<open>Registry_Solvency\<close>: the registry in a world of in-flight promises, as a step
    relation; the money it records is covered by the money it holds. \<open>Registry_Names\<close>: keys, rents,
    lifecycle, asset gate. \<open>Registry_Safety\<close>: who moves ownership, sale lock, payout.
    \<open>Registry_Governance\<close>: administration, pause, reclaim and renewal. \<open>Registry_Findings\<close>: two runs that
    the checks of the code let through. \<open>Demo_Registry\<close>: the instance of the witnesses.
  \<^item> \<open>Gas_Budget\<close>: the static gas of every promise fits into the gas of the call or callback that makes it,
    across all contracts.
  \<^item> \<open>Dev_Contracts\<close> (\<open>dev-contracts/test-ft\<close>, \<open>dev-contracts/test-mpc\<close>): the sandbox contracts; conservation
    of tokens, and the signer's reading of the wallet contract's request.
  \<^item> \<open>Wallet_System\<close> and \<open>Wallet_Sweep\<close>: the contracts composed by the calls they exchange. Atomic sales,
    exclusion of sale and recovery, a recovery that restores access, a sweep that moves the whole balance.

  \<^bold>\<open>Interfaces as locales.\<close> \<open>self_delimiting\<close> (encoders), \<open>invariant_step\<close> and its relatives (runs of a
  contract), \<open>admin_registry\<close> (administrator sets of three contracts) and \<open>key_swap\<close> (the compare-and-swap of
  wallet keys, provided by the marketplace path and by the recovery path) are each interpreted on the
  definitions of the contracts.

  \<^bold>\<open>Modelling choices.\<close> No definition uses fuel: every loop of the source runs over a list. In
  the world of \<open>Registry_Ledger\<close> a callback may be delivered with any result and any amount of
  returned funds. The solvency theorem is for worlds with two restrictions, which are parameters of the step
  relation: the creation deposit is not changed while a mint is in flight (\<open>calm\<close>), since the code
  charges the amount in force when the mint settles (shown to matter by an example run), and a failed mint or
  transfer returns its funds (\<open>refunded\<close>, \<open>comes_back\<close>), which holds when
  \<open>tla-manager\<close> fails at once or through its refund branches and would not if one of its callbacks
  panicked. Storage costs and gas consumption at run time are not part of a contract's state. In
  \<open>Wallet_Sweep\<close> the MPC network signs and somebody broadcasts.

  \<^bold>\<open>Not modelled.\<close> Unit and integration tests (their golden vectors are a theorem), \<open>panic_json\<close>, which only
  prints, the near-sdk macros beyond the two attributes above, and the interleaving of the signer and
  recovery contracts with foreign calls in the middle of a composed run: each contract's own theorems hold
  for arbitrary sequences of calls, while the compositions follow one request from its first call to its
  last callback.
\<close>

end
